(* ===== verification/Novu_Prelude.thy ===== *)
theory Novu_Prelude
  imports Main "HOL-Library.Multiset" "HOL-Library.AList" "HOL-Library.Char_ord"
    "HOL-Library.List_Lexorder" "HOL-Library.Product_Lexorder"
begin

section \<open>Shared types, automation and generic lemmas\<close>

text \<open>
  What every component of the model shares: time and text as Python has them, JSON values,
  results of fallible code, the meaning of the SQL statements and Redis list and sorted-set
  commands that the program issues, and the generic lemmas the component proofs rest on.

  \<^item> A \<open>time\<close> is the number of microseconds since the epoch (a \<open>datetime\<close> has that resolution).
  \<^item> A Python \<open>str\<close> is a \<open>string\<close>; a \<open>char\<close> stands for the code point below 256 of the same
    number, so \<open>str.strip\<close> and \<open>str.lower\<close> below are exact on Latin-1 text.
  \<^item> A table is the list of its rows in insertion order. \<open>UPDATE .. WHERE\<close> maps over it,
    \<open>SELECT .. WHERE\<close> filters it, \<open>ORDER BY k\<close> is the stable sort by \<open>k\<close> and \<open>LIMIT n\<close> takes a prefix.
  \<^item> A Redis list is a list, a Redis hash or sorted set an association list.
\<close>

named_theorems constant_simps \<open>string and number constants of the program\<close>
named_theorems frame_simps \<open>what an operation leaves unchanged\<close>

type_synonym time = int

definition seconds :: "int \<Rightarrow> time" where
  "seconds n = n * 1000000"

definition minutes :: "int \<Rightarrow> time" where
  "minutes n = seconds (60 * n)"

definition days :: "int \<Rightarrow> time" where
  "days n = minutes (1440 * n)"

lemmas time_simps = seconds_def minutes_def days_def

subsection \<open>Results of fallible code\<close>

text \<open>A raising function returns \<open>Inl\<close> of the exception; \<open>bind_res\<close> is what an uncaught
  exception does to the rest of a body.\<close>

fun bind_res :: "'e + 'a \<Rightarrow> ('a \<Rightarrow> 'e + 'b) \<Rightarrow> 'e + 'b" where
  "bind_res (Inl e) f = Inl e"
| "bind_res (Inr x) f = f x"

lemma bind_res_eq_Inr: "bind_res m f = Inr y \<longleftrightarrow> (\<exists>x. m = Inr x \<and> f x = Inr y)"
  by (cases m) auto

lemma map_sum_eq_Inr: "map_sum f g r = Inr y \<longleftrightarrow> (\<exists>x. r = Inr x \<and> y = g x)"
  by (cases r) auto

lemma bind_res_assoc: "bind_res (bind_res m f) g = bind_res m (\<lambda>x. bind_res (f x) g)"
  by (cases m) auto

fun is_ok :: "'e + 'a \<Rightarrow> bool" where
  "is_ok (Inl e) = False"
| "is_ok (Inr x) = True"

subsection \<open>Python text\<close>

definition py_isspace :: "char \<Rightarrow> bool" where
  "py_isspace c = (let n = (of_char c :: nat)
     in (9 \<le> n \<and> n \<le> 13) \<or> (28 \<le> n \<and> n \<le> 32) \<or> n = 133 \<or> n = 160)"

definition py_lstrip :: "string \<Rightarrow> string" where
  "py_lstrip s = dropWhile py_isspace s"

definition py_strip :: "string \<Rightarrow> string" where
  "py_strip s = rev (py_lstrip (rev (py_lstrip s)))"

definition py_lower_char :: "char \<Rightarrow> char" where
  "py_lower_char c = (let n = (of_char c :: nat)
     in if (65 \<le> n \<and> n \<le> 90) \<or> (192 \<le> n \<and> n \<le> 222 \<and> n \<noteq> 215) then char_of (n + 32) else c)"

definition py_lower :: "string \<Rightarrow> string" where
  "py_lower s = map py_lower_char s"

lemma dropWhile_idem: "dropWhile p (dropWhile p xs) = dropWhile p xs"
  by (induction xs) auto

lemma dropWhile_rev_keeps_head:
  assumes "xs = [] \<or> \<not> p (hd xs)"
  shows "dropWhile p (rev (dropWhile p (rev xs))) = rev (dropWhile p (rev xs))"
proof (cases xs)
  case Nil
  then show ?thesis by simp
next
  case (Cons x ys)
  with assms have "\<not> p x" by simp
  then have "rev (dropWhile p (rev xs)) = x # rev (dropWhile p (rev ys))"
    using Cons by (simp add: dropWhile_append)
  with \<open>\<not> p x\<close> show ?thesis by simp
qed

lemma py_strip_idem [simp]: "py_strip (py_strip s) = py_strip s"
proof -
  let ?l = "dropWhile py_isspace s"
  have "?l = [] \<or> \<not> py_isspace (hd ?l)"
    using hd_dropWhile [of py_isspace s] by blast
  then have "dropWhile py_isspace (rev (dropWhile py_isspace (rev ?l))) =
      rev (dropWhile py_isspace (rev ?l))"
    by (rule dropWhile_rev_keeps_head)
  then show ?thesis
    by (simp add: py_strip_def py_lstrip_def dropWhile_idem)
qed

lemma py_strip_Nil [simp]: "py_strip [] = []"
  by (simp add: py_strip_def py_lstrip_def)

lemma of_char_py_lower: "py_lower_char (py_lower_char c) = py_lower_char c"
  by (auto simp: py_lower_char_def Let_def)

lemma py_lower_idem [simp]: "py_lower (py_lower s) = py_lower s"
  by (simp add: py_lower_def of_char_py_lower)

text \<open>\<open>str(n)\<close> of a non-negative integer, and of an integer.\<close>

definition digit_char :: "nat \<Rightarrow> char" where
  "digit_char d = char_of (48 + d)"

fun str_nat :: "nat \<Rightarrow> string" where
  "str_nat n = (if n < 10 then [digit_char n] else str_nat (n div 10) @ [digit_char (n mod 10)])"

declare str_nat.simps [simp del]

definition str_int :: "int \<Rightarrow> string" where
  "str_int i = (if i < 0 then CHR ''-'' # str_nat (nat (- i)) else str_nat (nat i))"

definition digits_value :: "string \<Rightarrow> nat" where
  "digits_value s = foldl (\<lambda>a c. a * 10 + (of_char c - 48)) 0 s"

lemma of_char_digit [simp]: "d < 10 \<Longrightarrow> (of_char (digit_char d) :: nat) = 48 + d"
  by (simp add: digit_char_def)

lemma digits_value_str_nat [simp]: "digits_value (str_nat n) = n"
proof (induction n rule: str_nat.induct)
  case (1 n)
  show ?case
  proof (cases "n < 10")
    case True
    then show ?thesis by (simp add: str_nat.simps [of n] digits_value_def)
  next
    case False
    with "1.IH" show ?thesis
      by (simp add: str_nat.simps [of n] digits_value_def)
  qed
qed

lemma str_nat_inj [simp]: "str_nat m = str_nat n \<longleftrightarrow> m = n"
  by (metis digits_value_str_nat)

lemma str_nat_not_Nil [simp]: "str_nat n \<noteq> []"
  by (simp add: str_nat.simps [of n])

subsection \<open>Decimals and JSON values\<close>

text \<open>A decimal \<open>Dec m k\<close> is the number \<open>m / 10 ^ k\<close>. A JSON float stands for the decimal that
  Python's \<open>str\<close> prints of it, which is what \<open>Decimal(str(x))\<close> reads back.\<close>

datatype dec = Dec int nat

fun dec_le :: "dec \<Rightarrow> dec \<Rightarrow> bool" where
  "dec_le (Dec m k) (Dec n l) = (m * 10 ^ l \<le> n * 10 ^ k)"

fun dec_pos :: "dec \<Rightarrow> bool" where
  "dec_pos (Dec m k) = (0 < m)"

text \<open>Rounding of \<open>m / d\<close> to an integer: half away from zero (\<open>ROUND_HALF_UP\<close>, and SQL
  \<open>NUMERIC\<close>).\<close>

definition round_half_up :: "int \<Rightarrow> int \<Rightarrow> int" where
  "round_half_up m d = (if 0 \<le> m then (2 * m + d) div (2 * d) else - ((2 * (- m) + d) div (2 * d)))"

fun dec_quantize :: "nat \<Rightarrow> dec \<Rightarrow> dec" where
  "dec_quantize p (Dec m k) =
     (if k \<le> p then Dec (m * 10 ^ (p - k)) p else Dec (round_half_up m (10 ^ (k - p))) p)"

lemma round_half_up_near:
  assumes "0 < d"
  shows "2 * \<bar>round_half_up m d * d - m\<bar> \<le> d"
proof -
  have near: "2 * \<bar>((2 * n + d) div (2 * d)) * d - n\<bar> \<le> d" for n :: int
  proof -
    define q r where "q = (2 * n + d) div (2 * d)" and "r = (2 * n + d) mod (2 * d)"
    have "2 * n + d = 2 * (q * d) + r"
      using div_mult_mod_eq [of "2 * n + d" "2 * d"] by (simp add: q_def r_def algebra_simps)
    moreover have "0 \<le> r" "r < 2 * d"
      using assms by (simp_all add: r_def)
    ultimately have "q * d - n \<le> d - q * d + n" "n - q * d \<le> d - n + q * d"
      by linarith+
    then show ?thesis unfolding q_def [symmetric] by (auto simp: abs_if mult.commute)
  qed
  show ?thesis
  proof (cases "0 \<le> m")
    case True
    with near [of m] show ?thesis by (simp add: round_half_up_def)
  next
    case False
    let ?x = "(2 * (- m) + d) div (2 * d)"
    have "- ?x * d - m = - (?x * d - (- m))" by simp
    then have "\<bar>- ?x * d - m\<bar> = \<bar>?x * d - (- m)\<bar>"
      by (metis abs_minus_cancel)
    with near [of "- m"] False show ?thesis by (simp only: round_half_up_def if_False)
  qed
qed

datatype json =
    JNull
  | JBool bool
  | JInt int
  | JFloat dec
  | JStr string
  | JList "json list"
  | JObj "(string \<times> json) list"

type_synonym json_obj = "(string \<times> json) list"

text \<open>The texts of JSON values are strings; \<open>json.dumps\<close> and \<open>json.loads\<close> (and Pydantic's
  \<open>model_dump_json\<close>/\<open>model_validate_json\<close>) are the two functions of a codec.\<close>

record json_codec =
  dumps :: "json \<Rightarrow> string"
  loads :: "string \<Rightarrow> json option"

text \<open>A codec with a finite table of texts, for evaluating definitions on concrete inputs.\<close>

definition table_codec :: "(json \<times> string) list \<Rightarrow> json_codec" where
  "table_codec texts =
     \<lparr>dumps = (\<lambda>j. case map_of texts j of None \<Rightarrow> ''null'' | Some s \<Rightarrow> s),
      loads = (\<lambda>s. map_option fst (find (\<lambda>(j, t). t = s) texts))\<rparr>"

text \<open>\<open>{**a, **b}\<close>: the keys of \<open>a\<close> in their order with the values \<open>b\<close> gives them, then the
  other keys of \<open>b\<close>.\<close>

definition dict_merge :: "('k \<times> 'v) list \<Rightarrow> ('k \<times> 'v) list \<Rightarrow> ('k \<times> 'v) list" where
  "dict_merge a b = foldl (\<lambda>d (k, v). AList.update k v d) a b"

lemma map_of_dict_merge: "map_of (dict_merge a b) = map_of a ++ map_of (rev b)"
proof -
  have "map_of (foldl (\<lambda>d (k, v). AList.update k v d) a b) k = (map_of a ++ map_of (rev b)) k" for k
    by (induction b arbitrary: a)
       (auto simp: update_conv' map_add_def split: option.splits)
  then show ?thesis unfolding dict_merge_def by blast
qed

lemma map_of_rev_distinct: "distinct (map fst xs) \<Longrightarrow> map_of (rev xs) = map_of xs"
  by (rule map_of_eqI) (auto simp: map_of_eq_Some_iff rev_map [symmetric])

lemma dict_merge_lookup:
  "distinct (map fst b) \<Longrightarrow>
     map_of (dict_merge a b) k = (case map_of b k of None \<Rightarrow> map_of a k | Some v \<Rightarrow> Some v)"
proof -
  assume "distinct (map fst b)"
  then have "map_of (rev b) = map_of b"
    by (rule map_of_rev_distinct)
  then show ?thesis by (simp add: map_of_dict_merge map_add_def)
qed

lemma list_ex_map_filter:
  "list_ex P (List.map_filter f xs) \<longleftrightarrow> (\<exists>x \<in> set xs. \<exists>y. f x = Some y \<and> P y)"
  by (force simp: list_ex_iff List.map_filter_def)

subsection \<open>SQL statements on tables\<close>

definition update_where :: "('r \<Rightarrow> bool) \<Rightarrow> ('r \<Rightarrow> 'r) \<Rightarrow> 'r list \<Rightarrow> 'r list" where
  "update_where p f rows = map (\<lambda>r. if p r then f r else r) rows"

definition select_one :: "('r \<Rightarrow> bool) \<Rightarrow> 'r list \<Rightarrow> 'r option" where
  "select_one p rows = find p rows"

text \<open>\<open>ORDER BY k DESC LIMIT 1\<close>: the last of the rows with the greatest key.\<close>

definition latest_by :: "('r \<Rightarrow> 'k::linorder) \<Rightarrow> 'r list \<Rightarrow> 'r option" where
  "latest_by k rows = (case rev (sort_key k rows) of [] \<Rightarrow> None | r # _ \<Rightarrow> Some r)"

definition select_page :: "('r \<Rightarrow> bool) \<Rightarrow> ('r \<Rightarrow> 'k::linorder) \<Rightarrow> nat \<Rightarrow> 'r list \<Rightarrow> 'r list" where
  "select_page p k n rows = take n (sort_key k (filter p rows))"

lemma update_where_simps [simp]:
  "update_where p f [] = []"
  "update_where p f (r # rows) = (if p r then f r else r) # update_where p f rows"
  by (simp_all add: update_where_def)

lemma length_update_where [simp]: "length (update_where p f rows) = length rows"
  by (simp add: update_where_def)

lemma set_update_where:
  "set (update_where p f rows) = (\<lambda>r. if p r then f r else r) ` set rows"
  by (simp add: update_where_def)

lemma map_update_where:
  "(\<And>r. p r \<Longrightarrow> k (f r) = k r) \<Longrightarrow> map k (update_where p f rows) = map k rows"
  by (simp add: update_where_def)

lemma image_update_where:
  "(\<And>r. p r \<Longrightarrow> k (f r) = k r) \<Longrightarrow> k ` set (update_where p f rows) = k ` set rows"
  by (induction rows) simp_all

lemma list_all_update_where:
  "list_all P rows \<Longrightarrow> list_all P (update_where p f rows) \<longleftrightarrow> (\<forall>r \<in> set rows. p r \<longrightarrow> P (f r))"
  by (induction rows) auto

lemma update_where_none: "(\<And>r. r \<in> set rows \<Longrightarrow> \<not> p r) \<Longrightarrow> update_where p f rows = rows"
  by (induction rows) auto

lemma update_where_cong:
  "rows = rows' \<Longrightarrow> (\<And>r. r \<in> set rows' \<Longrightarrow> p r = p' r) \<Longrightarrow>
     (\<And>r. r \<in> set rows' \<Longrightarrow> p' r \<Longrightarrow> f r = f' r) \<Longrightarrow> update_where p f rows = update_where p' f' rows'"
  by (auto simp: update_where_def)

lemma update_where_append: "update_where p f (xs @ ys) = update_where p f xs @ update_where p f ys"
  by (simp add: update_where_def)

lemma filter_update_where_other:
  "(\<And>r. p r \<Longrightarrow> \<not> q r \<and> \<not> q (f r)) \<Longrightarrow> filter q (update_where p f rows) = filter q rows"
  by (induction rows) auto

lemma select_one_Some: "select_one p rows = Some r \<Longrightarrow> r \<in> set rows \<and> p r"
  by (induction rows) (auto simp: select_one_def split: if_splits)

lemma select_one_None: "select_one p rows = None \<longleftrightarrow> (\<forall>r \<in> set rows. \<not> p r)"
  by (auto simp: select_one_def find_None_iff)

lemma select_one_update_where:
  "(\<And>r. k (f r) = k r) \<Longrightarrow> select_one (\<lambda>r. k r = i) (update_where p f rows) =
     map_option (\<lambda>r. if p r then f r else r) (select_one (\<lambda>r. k r = i) rows)"
  by (induction rows) (simp_all add: select_one_def)

lemma select_one_snoc:
  "select_one p (rows @ [r]) =
     (case select_one p rows of None \<Rightarrow> if p r then Some r else None | Some x \<Rightarrow> Some x)"
  by (induction rows) (simp_all add: select_one_def)

lemma set_select_page: "set (select_page p k n rows) \<subseteq> {r \<in> set rows. p r}"
  using set_take_subset [of n "sort_key k (filter p rows)"] by (auto simp: select_page_def)

lemma length_select_page: "length (select_page p k n rows) \<le> n"
  by (simp add: select_page_def)

lemma distinct_select_page: "distinct rows \<Longrightarrow> distinct (select_page p k n rows)"
  by (simp add: select_page_def)

lemma latest_by_in: "latest_by k rows = Some r \<Longrightarrow> r \<in> set rows"
  by (metis (no_types, lifting) latest_by_def list.case_eq_if list.set_sel(1) option.discI option.inject
      rev_is_Nil_conv set_rev set_sort)

lemma latest_by_None [simp]: "latest_by k rows = None \<longleftrightarrow> rows = []"
  by (auto simp: latest_by_def split: list.splits) (metis set_empty2 set_sort)

text \<open>A keyed table: a list of rows whose keys are distinct. Every \<open>UPDATE\<close> that keeps the key
  column keeps it one, and so does an insert of a fresh key.\<close>

definition keyed :: "('r \<Rightarrow> 'k) \<Rightarrow> 'r list \<Rightarrow> bool" where
  "keyed k rows \<longleftrightarrow> distinct (map k rows)"

lemma keyed_update_where: "(\<And>r. p r \<Longrightarrow> k (f r) = k r) \<Longrightarrow> keyed k (update_where p f rows) = keyed k rows"
  by (simp add: keyed_def map_update_where)

lemma keyed_snoc: "keyed k (rows @ [r]) \<longleftrightarrow> keyed k rows \<and> k r \<notin> k ` set rows"
  by (auto simp: keyed_def)

lemma keyed_unique: "keyed k rows \<Longrightarrow> r \<in> set rows \<Longrightarrow> r' \<in> set rows \<Longrightarrow> k r = k r' \<Longrightarrow> r = r'"
  by (auto simp: keyed_def distinct_map inj_on_def)

lemma keyed_select_one: "keyed k rows \<Longrightarrow> r \<in> set rows \<Longrightarrow> select_one (\<lambda>x. k x = k r) rows = Some r"
  by (induction rows) (auto simp: keyed_def select_one_def)

lemma update_where_key_select:
  assumes "keyed k rows" "select_one (\<lambda>x. k x = i) rows = Some r"
    and "\<And>x. k x = i \<Longrightarrow> k (f x) = i"
  shows "select_one (\<lambda>x. k x = i) (update_where (\<lambda>x. k x = i) f rows) = Some (f r)"
  using assms by (induction rows) (auto simp: keyed_def select_one_def split: if_splits)

lemma update_where_key_other:
  assumes "\<And>x. k x = i \<Longrightarrow> k (f x) = i" "j \<noteq> i"
  shows "select_one (\<lambda>x. k x = j) (update_where (\<lambda>x. k x = i) f rows) = select_one (\<lambda>x. k x = j) rows"
  using assms by (induction rows) (auto simp: select_one_def split: if_splits)

lemma keyed_select_page: "keyed h rows \<Longrightarrow> keyed h (select_page p k n rows)"
  using set_select_page [of p k n rows] distinct_select_page [of rows p k n]
  by (auto simp: keyed_def distinct_map intro: inj_on_subset)

text \<open>A sweep that updates the row of each key of a batch in turn: a row is updated once, by its own step.\<close>

lemma fold_update_other:
  assumes "\<And>b x. k (g b x) = k x" "i \<notin> key ` set batch"
  shows "select_one (\<lambda>x. k x = i) (fold (\<lambda>b. update_where (\<lambda>x. k x = key b \<and> P x) (g b)) batch rows) =
    select_one (\<lambda>x. k x = i) rows"
  using assms(2)
proof (induction batch arbitrary: rows)
  case (Cons b batch)
  have "select_one (\<lambda>x. k x = i) (update_where (\<lambda>x. k x = key b \<and> P x) (g b) rows) = select_one (\<lambda>x. k x = i) rows"
    using Cons.prems assms(1) by (induction rows) (auto simp: select_one_def)
  with Cons show ?case by simp
qed simp

lemma fold_update_own:
  assumes "\<And>b x. k (g b x) = k x" "distinct (map key batch)" "b \<in> set batch"
  shows "select_one (\<lambda>x. k x = key b) (fold (\<lambda>b. update_where (\<lambda>x. k x = key b \<and> P x) (g b)) batch rows) =
    map_option (\<lambda>x. if P x then g b x else x) (select_one (\<lambda>x. k x = key b) rows)"
proof -
  from assms(3) obtain ys zs where batch: "batch = ys @ b # zs" by (auto simp: in_set_conv_decomp)
  let ?step = "\<lambda>b. update_where (\<lambda>x. k x = key b \<and> P x) (g b)"
  have own: "select_one (\<lambda>x. k x = key b) (?step b t) = map_option (\<lambda>x. if P x then g b x else x) (select_one (\<lambda>x. k x = key b) t)" for t
    using assms(1) by (induction t) (auto simp: select_one_def)
  have apart: "key b \<notin> key ` set ys" "key b \<notin> key ` set zs" using assms(2) by (auto simp: batch)
  show ?thesis
    using apart fold_update_other [of k g "key b" key zs P] fold_update_other [of k g "key b" key ys P] assms(1)
    by (simp add: batch own)
qed

end
