(* ===== verification/Lifecycle.thy ===== *)
theory Lifecycle
  imports Novu_Prelude
begin

section \<open>Status machines\<close>

text \<open>
  The status machines of the program (cases, offers and analysis jobs) have the same shape: a table of the
  targets allowed from each status and a set of terminal statuses. The interface is the locale
  \<open>lifecycle\<close>; what is proved inside it holds of each once it is interpreted. A trail is a list
  of \<open>(from, to)\<close> moves, as the audit tables record them.
\<close>

fun valid_trail :: "('s \<Rightarrow> 's list) \<Rightarrow> 's \<Rightarrow> ('s \<times> 's) list \<Rightarrow> 's \<Rightarrow> bool" where
  "valid_trail allowed s [] t = (s = t)"
| "valid_trail allowed s ((a, b) # moves) t =
     (a = s \<and> b \<in> set (allowed a) \<and> valid_trail allowed b moves t)"

locale lifecycle =
  fixes allowed :: "'s \<Rightarrow> 's list"
    and terminal :: "'s \<Rightarrow> bool"
    and known :: "'s \<Rightarrow> bool"
  assumes terminal_stuck: "terminal s \<Longrightarrow> allowed s = []"
    and allowed_known: "t \<in> set (allowed s) \<Longrightarrow> known s \<and> known t"
    and known_live: "known s \<Longrightarrow> \<not> terminal s \<Longrightarrow> allowed s \<noteq> []"
    and no_self_move: "s \<notin> set (allowed s)"
begin

lemma trail_snoc:
  "valid_trail allowed s moves t \<Longrightarrow> u \<in> set (allowed t) \<Longrightarrow> valid_trail allowed s (moves @ [(t, u)]) u"
  by (induction moves arbitrary: s) auto

lemma trail_append:
  "valid_trail allowed s (xs @ ys) u \<longleftrightarrow>
     (\<exists>t. valid_trail allowed s xs t \<and> valid_trail allowed t ys u)"
  by (induction xs arbitrary: s) auto

lemma trail_from_terminal: "valid_trail allowed s moves t \<Longrightarrow> terminal s \<Longrightarrow> moves = [] \<and> t = s"
  by (cases moves) (auto simp: terminal_stuck)

lemma trail_terminal_last:
  assumes "valid_trail allowed s moves t" "(a, b) \<in> set moves" "terminal b"
  shows "b = t \<and> last moves = (a, b)"
proof -
  from assms(2) obtain xs ys where split: "moves = (xs @ [(a, b)]) @ ys"
    by (metis append.assoc append_Cons append_Nil split_list)
  with assms(1) obtain u where "valid_trail allowed s (xs @ [(a, b)]) u" "valid_trail allowed u ys t"
    by (metis trail_append)
  then have "u = b" by (auto simp: trail_append)
  with \<open>valid_trail allowed u ys t\<close> assms(3) have "ys = [] \<and> t = b"
    by (metis trail_from_terminal)
  with split show ?thesis by simp
qed

lemma trail_moves_allowed: "valid_trail allowed s moves t \<Longrightarrow> (a, b) \<in> set moves \<Longrightarrow> b \<in> set (allowed a)"
  by (induction moves arbitrary: s) auto

lemma trail_known: "valid_trail allowed s moves t \<Longrightarrow> known s \<Longrightarrow> known t"
proof (induction moves arbitrary: s)
  case Nil
  then show ?case by simp
next
  case (Cons m moves)
  obtain a b where m: "m = (a, b)" by (cases m)
  with Cons.prems have "b \<in> set (allowed a)" "valid_trail allowed b moves t" by auto
  with allowed_known Cons.IH show ?case by blast
qed

lemma stuck_iff_terminal: "known s \<Longrightarrow> allowed s = [] \<longleftrightarrow> terminal s"
  using terminal_stuck known_live by blast

end

end
