(* ===== verification/Case_Transitions.thy ===== *)
theory Case_Transitions
  imports Lifecycle
begin

section \<open>The case status machine\<close>

text \<open>
  Models \<open>app/case_workflow/transitions.py\<close> and the columns of \<open>Project\<close> and
  \<open>ProjectStatusHistory\<close> (\<open>app/models/domain.py\<close>) that it reads and writes. Statuses, actions and
  roles are the strings of the source, so the unknown status and the unknown role are inputs like
  any other. \<open>datetime.now\<close> and \<open>uuid4\<close> are arguments.
\<close>

definition ALLOWED_TRANSITIONS :: "(string \<times> string list) list" where
  "ALLOWED_TRANSITIONS =
    [(''draft'',          [''intake'', ''cancelled'']),
     (''intake'',         [''analyzing'', ''draft'', ''cancelled'']),
     (''analyzing'',      [''proposal_ready'', ''quote_ready'', ''draft'', ''cancelled'']),
     (''proposal_ready'', [''quote_ready'', ''draft'', ''cancelled'']),
     (''quote_ready'',    [''sent'', ''draft'', ''cancelled'']),
     (''sent'',           [''archived'', ''draft'', ''cancelled'']),
     (''archived'',       []),
     (''cancelled'',      [])]"

definition LOCKED_STATUSES :: "string list" where
  "LOCKED_STATUSES = [''analyzing'', ''proposal_ready'', ''quote_ready'', ''sent'']"

definition TERMINAL_STATUSES :: "string list" where
  "TERMINAL_STATUSES = [''archived'', ''cancelled'']"

definition VALID_STATUSES :: "string list" where
  "VALID_STATUSES = map fst ALLOWED_TRANSITIONS"

text \<open>\<open>ALLOWED_TRANSITIONS.get(status, frozenset())\<close>\<close>

definition allowed_targets :: "string \<Rightarrow> string list" where
  "allowed_targets s = (case map_of ALLOWED_TRANSITIONS s of None \<Rightarrow> [] | Some ts \<Rightarrow> ts)"

lemmas status_sets = LOCKED_STATUSES_def TERMINAL_STATUSES_def VALID_STATUSES_def
  ALLOWED_TRANSITIONS_def allowed_targets_def

subsection \<open>Human-triggered transitions\<close>

record transition_meta =
  tm_action :: string
  tm_label :: string
  tm_to_status :: string
  tm_requires_reason :: bool

definition TransitionMeta :: "string \<Rightarrow> string \<Rightarrow> string \<Rightarrow> bool \<Rightarrow> transition_meta" where
  "TransitionMeta a l t r =
     \<lparr>tm_action = a, tm_label = l, tm_to_status = t, tm_requires_reason = r\<rparr>"

definition HUMAN_REGISTRY :: "((string \<times> string) \<times> transition_meta) list" where
  "HUMAN_REGISTRY =
    [((''draft'',          ''intake''),      TransitionMeta ''submit'' ''Submit for intake'' ''intake'' False),
     ((''draft'',          ''cancelled''),   TransitionMeta ''cancel'' ''Cancel case'' ''cancelled'' True),
     ((''intake'',         ''analyzing''),   TransitionMeta ''start_analysis'' ''Start analysis'' ''analyzing'' False),
     ((''intake'',         ''draft''),       TransitionMeta ''return_to_draft'' ''Return to draft'' ''draft'' True),
     ((''intake'',         ''cancelled''),   TransitionMeta ''cancel'' ''Cancel case'' ''cancelled'' True),
     ((''analyzing'',      ''draft''),       TransitionMeta ''return_to_draft'' ''Return to draft'' ''draft'' True),
     ((''analyzing'',      ''cancelled''),   TransitionMeta ''cancel'' ''Cancel case'' ''cancelled'' True),
     ((''proposal_ready'', ''quote_ready''), TransitionMeta ''approve_proposal'' ''Approve proposal'' ''quote_ready'' False),
     ((''proposal_ready'', ''draft''),       TransitionMeta ''return_to_draft'' ''Return to draft'' ''draft'' True),
     ((''proposal_ready'', ''cancelled''),   TransitionMeta ''cancel'' ''Cancel case'' ''cancelled'' True),
     ((''quote_ready'',    ''sent''),        TransitionMeta ''send_quote'' ''Send quote to client'' ''sent'' False),
     ((''quote_ready'',    ''draft''),       TransitionMeta ''return_to_draft'' ''Return to draft'' ''draft'' True),
     ((''quote_ready'',    ''cancelled''),   TransitionMeta ''cancel'' ''Cancel case'' ''cancelled'' True),
     ((''sent'',           ''archived''),    TransitionMeta ''complete'' ''Mark as completed'' ''archived'' False),
     ((''sent'',           ''draft''),       TransitionMeta ''return_to_draft'' ''Return to draft'' ''draft'' True),
     ((''sent'',           ''cancelled''),   TransitionMeta ''cancel'' ''Cancel case'' ''cancelled'' True)]"

definition ACTION_SORT :: "(string \<times> int) list" where
  "ACTION_SORT =
    [(''submit'', 0), (''start_analysis'', 0), (''approve_proposal'', 0),
     (''send_quote'', 0), (''complete'', 0), (''return_to_draft'', 10), (''cancel'', 20)]"

definition MANAGER_ROLES :: "string list" where
  "MANAGER_ROLES = [''manager'', ''superadmin'']"

definition action_rank :: "transition_meta \<Rightarrow> int \<times> string" where
  "action_rank m = ((case map_of ACTION_SORT (tm_action m) of None \<Rightarrow> 99 | Some n \<Rightarrow> n), tm_action m)"

text \<open>The source iterates a \<open>frozenset\<close>; \<open>targets\<close> is the order it comes in.\<close>

definition transitions_from :: "string \<Rightarrow> string list \<Rightarrow> transition_meta list" where
  "transitions_from current targets =
     sort_key action_rank (List.map_filter (\<lambda>to. map_of HUMAN_REGISTRY (current, to)) targets)"

definition get_available_transitions :: "string \<Rightarrow> string \<Rightarrow> transition_meta list" where
  "get_available_transitions current actor_role =
     (if actor_role \<notin> set MANAGER_ROLES then []
      else transitions_from current (allowed_targets current))"

subsection \<open>Guards and the transition engine\<close>

record history_entry =
  psh_id :: string
  psh_project_id :: string
  psh_from_status :: "string option"
  psh_to_status :: string
  psh_transitioned_by_user_id :: "string option"
  psh_reason :: "string option"
  psh_transitioned_at :: time

record project =
  pr_id :: string
  pr_organization_id :: string
  pr_status :: string
  pr_status_changed_at :: "time option"
  pr_status_changed_by_user_id :: "string option"

datatype transition_error =
    UnknownTarget string "string list"
  | TransitionNotAllowed string string string "string list"
  | LockedCase string string

definition is_locked :: "project \<Rightarrow> bool" where
  "is_locked p \<longleftrightarrow> pr_status p \<in> set LOCKED_STATUSES"

definition assert_unlocked :: "project \<Rightarrow> transition_error + unit" where
  "assert_unlocked p = (if is_locked p then Inl (LockedCase (pr_id p) (pr_status p)) else Inr ())"

definition can_transition :: "string \<Rightarrow> string \<Rightarrow> bool" where
  "can_transition current_status to_status \<longleftrightarrow> to_status \<in> set (allowed_targets current_status)"

definition apply_transition ::
  "time \<Rightarrow> string \<Rightarrow> project \<Rightarrow> string \<Rightarrow> string option \<Rightarrow> string option
    \<Rightarrow> transition_error + (project \<times> history_entry)" where
  "apply_transition now uuid_hex p to_status actor_user_id reason =
    (if to_status \<notin> set VALID_STATUSES then Inl (UnknownTarget to_status (sort VALID_STATUSES))
     else if \<not> can_transition (pr_status p) to_status
     then Inl (TransitionNotAllowed (pr_id p) (pr_status p) to_status (sort (allowed_targets (pr_status p))))
     else let from_status = pr_status p in
       Inr (p\<lparr>pr_status := to_status, pr_status_changed_at := Some now,
              pr_status_changed_by_user_id := actor_user_id\<rparr>,
            \<lparr>psh_id = ''psh_'' @ take 10 uuid_hex, psh_project_id = pr_id p,
             psh_from_status = Some from_status, psh_to_status = to_status,
             psh_transitioned_by_user_id = actor_user_id, psh_reason = reason,
             psh_transitioned_at = now\<rparr>))"

subsection \<open>The machine is a lifecycle\<close>

lemma can_transition_valid:
  "can_transition a b \<Longrightarrow> a \<in> set VALID_STATUSES \<and> b \<in> set VALID_STATUSES"
  by (auto simp: can_transition_def status_sets split: if_splits)

lemma can_transition_cases:
  assumes "can_transition a b"
  shows "b \<in> {''draft'', ''cancelled''} \<or>
    (a, b) \<in> {(''draft'', ''intake''), (''intake'', ''analyzing''), (''analyzing'', ''proposal_ready''),
       (''analyzing'', ''quote_ready''), (''proposal_ready'', ''quote_ready''),
       (''quote_ready'', ''sent''), (''sent'', ''archived'')}"
  using assms by (auto simp: can_transition_def status_sets split: if_splits)

interpretation case_machine: lifecycle allowed_targets
    "\<lambda>s. s \<in> set TERMINAL_STATUSES" "\<lambda>s. s \<in> set VALID_STATUSES"
proof unfold_locales
  fix s t :: string
  show "s \<in> set TERMINAL_STATUSES \<Longrightarrow> allowed_targets s = []"
    by (auto simp: status_sets)
  show "t \<in> set (allowed_targets s) \<Longrightarrow> s \<in> set VALID_STATUSES \<and> t \<in> set VALID_STATUSES"
    using can_transition_valid by (simp add: can_transition_def)
  show "s \<in> set VALID_STATUSES \<Longrightarrow> s \<notin> set TERMINAL_STATUSES \<Longrightarrow> allowed_targets s \<noteq> []"
    by (auto simp: status_sets)
  show "s \<notin> set (allowed_targets s)"
    by (auto simp: status_sets split: if_splits)
qed

lemma apply_transition_Inr:
  assumes "apply_transition now u p to_s actor reason = Inr (p', h)"
  shows "to_s \<in> set (allowed_targets (pr_status p))" "pr_status p' = to_s" "pr_id p' = pr_id p"
    "pr_organization_id p' = pr_organization_id p" "pr_status_changed_at p' = Some now"
    "pr_status_changed_by_user_id p' = actor"
    "psh_project_id h = pr_id p" "psh_from_status h = Some (pr_status p)" "psh_to_status h = to_s"
    "psh_transitioned_by_user_id h = actor" "psh_reason h = reason" "psh_transitioned_at h = now"
  using assms by (auto simp: apply_transition_def can_transition_def Let_def split: if_splits)

lemma apply_transition_ok_iff:
  "is_ok (apply_transition now u p to_s actor reason) \<longleftrightarrow> can_transition (pr_status p) to_s"
  using can_transition_valid [of "pr_status p" to_s]
  by (auto simp: apply_transition_def Let_def)

lemma apply_transition_Inl:
  "\<not> can_transition (pr_status p) to_s \<Longrightarrow>
     \<exists>e. apply_transition now u p to_s actor reason = Inl e \<and>
       (e = UnknownTarget to_s (sort VALID_STATUSES) \<longleftrightarrow> to_s \<notin> set VALID_STATUSES)"
  by (auto simp: apply_transition_def)

subsection \<open>The offered transitions\<close>

lemma HUMAN_REGISTRY_all:
  "list_all (\<lambda>((a, b), m). can_transition a b \<and> tm_to_status m = b \<and>
     (a, b) \<notin> {(''analyzing'', ''proposal_ready''), (''analyzing'', ''quote_ready'')}) HUMAN_REGISTRY"
  by code_simp

lemma HUMAN_REGISTRY_sound:
  assumes "map_of HUMAN_REGISTRY (a, b) = Some m"
  shows "can_transition a b \<and> tm_to_status m = b \<and>
    (a, b) \<notin> {(''analyzing'', ''proposal_ready''), (''analyzing'', ''quote_ready'')}"
  using HUMAN_REGISTRY_all map_of_SomeD [OF assms] by (auto simp: list_all_iff)

lemma HUMAN_REGISTRY_complete:
  "can_transition a b \<Longrightarrow> (a, b) \<noteq> (''analyzing'', ''proposal_ready'') \<Longrightarrow> (a, b) \<noteq> (''analyzing'', ''quote_ready'')
     \<Longrightarrow> map_of HUMAN_REGISTRY (a, b) \<noteq> None"
  by (auto simp: HUMAN_REGISTRY_def can_transition_def status_sets split: if_splits)

lemma transitions_from_set:
  "m \<in> set (transitions_from c ts) \<longleftrightarrow> (\<exists>t \<in> set ts. map_of HUMAN_REGISTRY (c, t) = Some m)"
  by (force simp: transitions_from_def List.map_filter_def)

lemma mset_map_filter:
  "mset xs = mset ys \<Longrightarrow> mset (List.map_filter f xs) = mset (List.map_filter f ys)"
  by (simp add: List.map_filter_def mset_filter)

lemma action_rank_distinct:
  "list_all (\<lambda>c. distinct (map action_rank
     (List.map_filter (\<lambda>to. map_of HUMAN_REGISTRY (c, to)) (allowed_targets c)))) VALID_STATUSES"
  by code_simp

lemma action_rank_inj:
  "inj_on action_rank (set (List.map_filter (\<lambda>to. map_of HUMAN_REGISTRY (c, to)) (allowed_targets c)))"
proof (cases "c \<in> set VALID_STATUSES")
  case True
  with action_rank_distinct show ?thesis
    unfolding list_all_iff distinct_map by blast
next
  case False
  then have "allowed_targets c = []"
    by (metis can_transition_valid can_transition_def last_in_set)
  then show ?thesis by (simp add: List.map_filter_def)
qed

text \<open>The order a \<open>frozenset\<close> is iterated in does not show in the result.\<close>

lemma transitions_from_any_order:
  assumes "mset ts = mset (allowed_targets c)"
  shows "transitions_from c ts = transitions_from c (allowed_targets c)"
proof -
  let ?f = "\<lambda>to. map_of HUMAN_REGISTRY (c, to)"
  have m: "mset (List.map_filter ?f ts) = mset (List.map_filter ?f (allowed_targets c))"
    using assms by (rule mset_map_filter)
  then have s: "set (List.map_filter ?f ts) = set (List.map_filter ?f (allowed_targets c))"
    by (rule mset_eq_setD)
  show ?thesis
    unfolding transitions_from_def
    by (rule sort_key_inj_key_eq) (simp_all add: m s action_rank_inj)
qed

subsection \<open>Properties\<close>

text \<open>A manager is offered exactly the moves the machine allows from the current status, less the two
  that only the worker makes (\<open>analyzing\<close> to \<open>proposal_ready\<close> or \<open>quote_ready\<close>), sorted by
  \<open>ACTION_SORT\<close>; and the answer does not depend on the order the \<open>frozenset\<close> of targets is
  iterated in.\<close>

theorem available_transitions_exact:
  assumes "role \<in> set MANAGER_ROLES" "mset ts = mset (allowed_targets s)"
  shows "transitions_from s ts = get_available_transitions s role \<and>
    sorted (map action_rank (get_available_transitions s role)) \<and>
    tm_to_status ` set (get_available_transitions s role) =
      {t. can_transition s t} - (if s = ''analyzing'' then {''proposal_ready'', ''quote_ready''} else {})"
proof -
  let ?ms = "get_available_transitions s role"
  have ms: "?ms = transitions_from s (allowed_targets s)"
    using assms(1) by (simp add: get_available_transitions_def)
  have "tm_to_status ` set ?ms = {t. can_transition s t \<and> map_of HUMAN_REGISTRY (s, t) \<noteq> None}"
  proof (rule set_eqI)
    fix t
    have to: "tm_to_status m = t'" if "map_of HUMAN_REGISTRY (s, t') = Some m" for m t'
      using HUMAN_REGISTRY_sound [OF that] by simp
    have "t \<in> tm_to_status ` set ?ms \<longleftrightarrow>
        (\<exists>m t'. t' \<in> set (allowed_targets s) \<and> map_of HUMAN_REGISTRY (s, t') = Some m \<and> t = tm_to_status m)"
      unfolding ms image_iff Bex_def transitions_from_set by blast
    also have "\<dots> \<longleftrightarrow> t \<in> {t. can_transition s t \<and> map_of HUMAN_REGISTRY (s, t) \<noteq> None}"
      unfolding can_transition_def mem_Collect_eq using to by (metis not_Some_eq)
    finally show "t \<in> tm_to_status ` set ?ms \<longleftrightarrow> t \<in> {t. can_transition s t \<and> map_of HUMAN_REGISTRY (s, t) \<noteq> None}" .
  qed
  moreover have "map_of HUMAN_REGISTRY (s, t) \<noteq> None \<longleftrightarrow>
      (s, t) \<noteq> (''analyzing'', ''proposal_ready'') \<and> (s, t) \<noteq> (''analyzing'', ''quote_ready'')" if "can_transition s t" for t
    using that HUMAN_REGISTRY_complete [OF that] HUMAN_REGISTRY_sound [of s t] by blast
  ultimately have "tm_to_status ` set ?ms =
      {t. can_transition s t} - (if s = ''analyzing'' then {''proposal_ready'', ''quote_ready''} else {})"
    by (auto split: if_splits)
  moreover have "sorted (map action_rank ?ms)"
    by (simp add: ms transitions_from_def)
  ultimately show ?thesis
    using transitions_from_any_order [OF assms(2)] ms by simp
qed

theorem available_transitions_exact_witness:
  "transitions_from ''analyzing'' [''cancelled'', ''draft'', ''quote_ready'', ''proposal_ready''] =
      get_available_transitions ''analyzing'' ''manager'' \<and>
    sorted (map action_rank (get_available_transitions ''analyzing'' ''manager'')) \<and>
    tm_to_status ` set (get_available_transitions ''analyzing'' ''manager'') =
      {t. can_transition ''analyzing'' t} -
        (if ''analyzing'' = ''analyzing'' then {''proposal_ready'', ''quote_ready''} else {})"
  by (rule available_transitions_exact) (code_simp, simp add: allowed_targets_def ALLOWED_TRANSITIONS_def add_mset_commute)

end
