(* ===== verification/Lane_Queue.thy ===== *)
theory Lane_Queue
  imports Novu_Prelude
begin

section \<open>A leased work lane in Redis\<close>

text \<open>
  The Lua scripts that \<open>app/worker/queue.py\<close> and \<open>app/worker/heavy_queue.py\<close> run. The two files
  hold the same texts over different key names, so a script is one function on the state of the
  lane it works on (and, for the guards, the state of the peer lane); the Python functions that run
  them are in \<open>Analysis_Queue\<close> and \<open>Heavy_Queue\<close>.

  A lane is the Redis keys of one queue: the list of waiting payloads, the processing list, the
  scheduled retries (a sorted set by due time), the lease hashes by token, the lease expiries
  (a sorted set by time), the lease counter, and the dead-letter keys. A script runs atomically.
  Decimal texts of integers (\<open>leased_at_ms\<close> and so on) are the integers; tokens are the decimal
  texts of the counter. A payload is the text that was pushed.
\<close>

record lease_hash =
  lh_token :: string
  lh_raw :: string
  lh_worker_id :: string
  lh_leased_at_ms :: int
  lh_lease_timeout_ms :: int
  lh_expires_at_ms :: int

record lane =
  ln_queue :: "string list"
  ln_processing :: "string list"
  ln_retry :: "(string \<times> int) list"
  ln_leases :: "(string \<times> lease_hash) list"
  ln_expiry :: "(string \<times> int) list"
  ln_sequence :: nat
  ln_dlq_history :: "(string \<times> string list) list"
  ln_dlq_active :: "string list"
  ln_dlq_legacy :: "(string \<times> string) list"

definition empty_lane :: lane where
  "empty_lane = \<lparr>ln_queue = [], ln_processing = [], ln_retry = [], ln_leases = [], ln_expiry = [],
     ln_sequence = 0, ln_dlq_history = [], ln_dlq_active = [], ln_dlq_legacy = []\<rparr>"

subsection \<open>Sorted-set reads\<close>

definition zrange :: "(string \<times> int) list \<Rightarrow> string list" where
  "zrange z = map fst (sort_key (\<lambda>(m, s). (s, m)) z)"

definition zrangebyscore :: "int \<Rightarrow> int \<Rightarrow> nat \<Rightarrow> (string \<times> int) list \<Rightarrow> string list" where
  "zrangebyscore lo hi n z = take n (zrange (filter (\<lambda>(m, s). lo \<le> s \<and> s \<le> hi) z))"

subsection \<open>The scripts\<close>

datatype lease_reply = LeaseBackpressure nat | LeaseNil | LeaseReply lease_hash

definition lease_job_script ::
  "lane \<Rightarrow> lane \<Rightarrow> int \<Rightarrow> string \<Rightarrow> int \<Rightarrow> int \<Rightarrow> lane \<times> lease_reply" where
  "lease_job_script l peer leased_at_ms worker_id lease_timeout_ms max_concurrent =
    (let total_processing = length (ln_processing l) + length (ln_processing peer) in
     if int total_processing \<ge> max_concurrent then (l, LeaseBackpressure total_processing)
     else case ln_queue l of
       [] \<Rightarrow> (l, LeaseNil)
     | raw # rest \<Rightarrow>
         let token = str_nat (ln_sequence l + 1);
             h = \<lparr>lh_token = token, lh_raw = raw, lh_worker_id = worker_id,
                  lh_leased_at_ms = leased_at_ms, lh_lease_timeout_ms = lease_timeout_ms,
                  lh_expires_at_ms = leased_at_ms + lease_timeout_ms\<rparr>
         in (l\<lparr>ln_queue := rest, ln_sequence := ln_sequence l + 1,
               ln_processing := ln_processing l @ [raw],
               ln_leases := AList.update token h (ln_leases l),
               ln_expiry := AList.update token (lh_expires_at_ms h) (ln_expiry l)\<rparr>, LeaseReply h))"

type_synonym capacity_reply = "int \<times> int \<times> int \<times> int"

definition check_queue_capacity :: "lane \<Rightarrow> lane \<Rightarrow> int \<Rightarrow> int \<Rightarrow> int \<Rightarrow> capacity_reply" where
  "check_queue_capacity l peer max_depth max_global_queued delta =
    (let queue_depth = int (length (ln_queue l));
         processing_depth = int (length (ln_processing l));
         global_queued = queue_depth + int (length (ln_queue peer))
     in if queue_depth + processing_depth + delta > max_depth
        then (0, queue_depth, processing_depth, global_queued)
        else if global_queued + delta > max_global_queued
        then (-2, queue_depth, processing_depth, global_queued)
        else (1, queue_depth, processing_depth, global_queued))"

definition push_queue :: "string \<Rightarrow> string \<Rightarrow> lane \<Rightarrow> lane" where
  "push_queue priority raw l =
     (if priority = ''critical'' then l\<lparr>ln_queue := raw # ln_queue l\<rparr>
      else l\<lparr>ln_queue := ln_queue l @ [raw]\<rparr>)"

definition guarded_push ::
  "lane \<Rightarrow> lane \<Rightarrow> string \<Rightarrow> int \<Rightarrow> int \<Rightarrow> int \<Rightarrow> string \<Rightarrow> lane \<times> capacity_reply" where
  "guarded_push l peer raw max_depth max_global_queued delta priority =
    (case check_queue_capacity l peer max_depth max_global_queued delta of
       (status, queued, processing, global_queued) \<Rightarrow>
         if status \<noteq> 1 then (l, status, queued, processing, global_queued)
         else (push_queue priority raw l, 1, queued + 1, processing, global_queued + 1))"

definition enqueue_with_limit_script ::
  "lane \<Rightarrow> lane \<Rightarrow> string \<Rightarrow> int \<Rightarrow> int \<Rightarrow> string \<Rightarrow> lane \<times> capacity_reply" where
  "enqueue_with_limit_script l peer raw max_depth max_global_queued priority =
     guarded_push l peer raw max_depth max_global_queued 1 priority"

text \<open>\<open>LREM processing 1 raw; DEL lease; ZREM expiry token\<close>\<close>

definition release_lease :: "string \<Rightarrow> lease_hash \<Rightarrow> lane \<Rightarrow> lane" where
  "release_lease token h l =
     l\<lparr>ln_processing := remove1 (lh_raw h) (ln_processing l),
       ln_leases := AList.delete token (ln_leases l),
       ln_expiry := AList.delete token (ln_expiry l)\<rparr>"

definition ack_job_script :: "lane \<Rightarrow> string \<Rightarrow> string \<Rightarrow> lane \<times> int" where
  "ack_job_script l token worker_id =
    (case map_of (ln_leases l) token of
       None \<Rightarrow> (l, 0)
     | Some h \<Rightarrow>
         if lh_worker_id h \<noteq> worker_id then (l, -1) else (release_lease token h l, 1))"

definition renew_lease_script :: "lane \<Rightarrow> string \<Rightarrow> string \<Rightarrow> int \<Rightarrow> int \<Rightarrow> lane \<times> int" where
  "renew_lease_script l token worker_id leased_at_ms lease_timeout_ms =
    (case map_of (ln_leases l) token of
       None \<Rightarrow> (l, 0)
     | Some h \<Rightarrow>
         if lh_worker_id h \<noteq> worker_id then (l, -1)
         else let expires_at_ms = leased_at_ms + lease_timeout_ms in
           (l\<lparr>ln_leases := AList.update token
                 (h\<lparr>lh_leased_at_ms := leased_at_ms, lh_lease_timeout_ms := lease_timeout_ms,
                    lh_expires_at_ms := expires_at_ms\<rparr>) (ln_leases l),
              ln_expiry := AList.update token expires_at_ms (ln_expiry l)\<rparr>, 1))"

definition schedule_retry_script :: "lane \<Rightarrow> string \<Rightarrow> string \<Rightarrow> int \<Rightarrow> int \<Rightarrow> lane \<times> int" where
  "schedule_retry_script l token worker_id leased_at_ms retry_at_ms =
    (case map_of (ln_leases l) token of
       None \<Rightarrow> (l, 0)
     | Some h \<Rightarrow>
         if lh_worker_id h \<noteq> worker_id then (l, -1)
         else if lh_leased_at_ms h \<noteq> leased_at_ms then (l, 0)
         else (release_lease token h
                 (l\<lparr>ln_retry := AList.update (lh_raw h) retry_at_ms (ln_retry l)\<rparr>), 1))"

definition finalize_expired_lease_script ::
  "lane \<Rightarrow> lane \<Rightarrow> string \<Rightarrow> int \<Rightarrow> string \<Rightarrow> int \<Rightarrow> int \<Rightarrow> string \<Rightarrow> lane \<times> capacity_reply" where
  "finalize_expired_lease_script l peer token expected_leased_at_ms action max_depth max_global priority =
    (case map_of (ln_leases l) token of
       None \<Rightarrow> (l, -3, 0, 0, 0)
     | Some h \<Rightarrow>
         if lh_leased_at_ms h \<noteq> expected_leased_at_ms then (l, -3, 0, 0, 0)
         else
           let queue_depth = int (length (ln_queue l));
               processing_depth = int (length (ln_processing l));
               global_queued = queue_depth + int (length (ln_queue peer))
           in if action = ''requeue'' \<and> queue_depth + processing_depth > max_depth
              then (l, 0, queue_depth, processing_depth, global_queued)
              else if action = ''requeue'' \<and> global_queued + 1 > max_global
              then (l, -2, queue_depth, processing_depth, global_queued)
              else let l' = release_lease token h
                         (if action = ''requeue'' then push_queue priority (lh_raw h) l else l)
                   in (l', 1, 0, 0, int (length (ln_queue l')) + int (length (ln_queue peer))))"

definition push_history :: "string \<Rightarrow> string \<Rightarrow> (string \<times> string list) list \<Rightarrow> (string \<times> string list) list" where
  "push_history key v hs =
     AList.update key ((case map_of hs key of None \<Rightarrow> [] | Some vs \<Rightarrow> vs) @ [v]) hs"

definition move_to_dlq_script ::
  "lane \<Rightarrow> string \<Rightarrow> string \<Rightarrow> int \<Rightarrow> string \<Rightarrow> string \<Rightarrow> lane \<times> int" where
  "move_to_dlq_script l token worker_id leased_at_ms dlq_payload job_id =
    (case map_of (ln_leases l) token of
       None \<Rightarrow> (l, 0)
     | Some h \<Rightarrow>
         if lh_worker_id h \<noteq> worker_id then (l, -1)
         else if lh_leased_at_ms h \<noteq> leased_at_ms then (l, 0)
         else (release_lease token h
                 (l\<lparr>ln_dlq_history := push_history job_id dlq_payload (ln_dlq_history l),
                    ln_dlq_active := List.insert job_id (ln_dlq_active l)\<rparr>), 1))"

text \<open>The loop over the \<open>n_due\<close> due retries: it stops at the first push the guard refuses.\<close>

fun promote_loop :: "nat \<Rightarrow> string list \<Rightarrow> nat \<Rightarrow> lane \<Rightarrow> lane \<Rightarrow> int \<Rightarrow> int \<Rightarrow> lane \<times> nat \<times> nat" where
  "promote_loop n_due [] moved l peer max_depth max_global = (l, moved, 0)"
| "promote_loop n_due (raw # due) moved l peer max_depth max_global =
    (case guarded_push l peer raw max_depth max_global 1 ''standard'' of
       (l', status, q, p, g) \<Rightarrow>
         if status \<noteq> 1 then (l, moved, n_due - moved)
         else if raw \<in> fst ` set (ln_retry l')
         then promote_loop n_due due (moved + 1) (l'\<lparr>ln_retry := AList.delete raw (ln_retry l')\<rparr>)
                peer max_depth max_global
         else promote_loop n_due due moved (l'\<lparr>ln_queue := remove1 raw (ln_queue l')\<rparr>)
                peer max_depth max_global)"

definition promote_retry_script :: "lane \<Rightarrow> lane \<Rightarrow> int \<Rightarrow> nat \<Rightarrow> int \<Rightarrow> int \<Rightarrow> lane \<times> nat \<times> nat" where
  "promote_retry_script l peer now_ms limit max_depth max_global =
    (let due = zrangebyscore 0 now_ms limit (ln_retry l)
     in promote_loop (length due) due 0 l peer max_depth max_global)"

subsection \<open>The lane invariant\<close>

text \<open>
  Lease tokens are distinct and were all issued by the counter; a lease record knows its token and
  when it expires, the expiry set holds exactly that, and the processing list is exactly the
  payloads of the leases.
\<close>

definition lease_expiry :: "string \<times> lease_hash \<Rightarrow> string \<times> int" where
  "lease_expiry p = (fst p, lh_expires_at_ms (snd p))"

definition lease_raw :: "string \<times> lease_hash \<Rightarrow> string" where
  "lease_raw p = lh_raw (snd p)"

definition lease_ok :: "nat \<Rightarrow> string \<times> lease_hash \<Rightarrow> bool" where
  "lease_ok sequence p \<longleftrightarrow> fst p \<in> str_nat ` {1..sequence} \<and> lh_token (snd p) = fst p \<and>
     lh_expires_at_ms (snd p) = lh_leased_at_ms (snd p) + lh_lease_timeout_ms (snd p)"

definition lane_inv :: "lane \<Rightarrow> bool" where
  "lane_inv l \<longleftrightarrow> distinct (map fst (ln_leases l)) \<and> distinct (map fst (ln_retry l)) \<and>
     (\<forall>p \<in> set (ln_leases l). lease_ok (ln_sequence l) p) \<and>
     mset (ln_expiry l) = image_mset lease_expiry (mset (ln_leases l)) \<and>
     mset (ln_processing l) = image_mset lease_raw (mset (ln_leases l))"

lemma mset_alist_delete:
  "distinct (map fst xs) \<Longrightarrow> map_of xs k = Some v \<Longrightarrow> mset xs = add_mset (k, v) (mset (AList.delete k xs))"
proof (induction xs)
  case Nil
  then show ?case by simp
next
  case (Cons p xs)
  obtain a b where p: "p = (a, b)" by (cases p)
  show ?case
  proof (cases "a = k")
    case True
    with Cons.prems p have "k \<notin> fst ` set xs" by auto
    then have "AList.delete k xs = xs" by (simp add: delete_id)
    with True Cons.prems p show ?thesis by simp
  next
    case False
    with Cons p show ?thesis by (simp add: add_mset_commute)
  qed
qed

lemma alist_update_fresh: "k \<notin> fst ` set xs \<Longrightarrow> AList.update k v xs = xs @ [(k, v)]"
  by (induction xs) auto

lemma mset_alist_update:
  "distinct (map fst xs) \<Longrightarrow> mset (AList.update k v xs) = add_mset (k, v) (mset (AList.delete k xs))"
proof (induction xs)
  case (Cons p xs)
  then show ?case
    by (cases p) (auto simp: delete_id add_mset_commute)
qed simp

lemma mset_alist_delete_image:
  assumes "mset ys = image_mset f (mset xs)" "\<And>p. fst (f p) = fst p"
  shows "mset (AList.delete k ys) = image_mset f (mset (AList.delete k xs))"
  using assms by (simp add: AList.delete_eq filter_mset_image_mset case_prod_beta comp_def)

subsection \<open>Every script keeps the invariant\<close>

lemma lane_inv_leases:
  "lane_inv l \<Longrightarrow> distinct (map fst (ln_leases l))"
  "lane_inv l \<Longrightarrow> distinct (map fst (ln_retry l))"
  "lane_inv l \<Longrightarrow> p \<in> set (ln_leases l) \<Longrightarrow> lease_ok (ln_sequence l) p"
  "lane_inv l \<Longrightarrow> mset (ln_expiry l) = image_mset lease_expiry (mset (ln_leases l))"
  "lane_inv l \<Longrightarrow> mset (ln_processing l) = image_mset lease_raw (mset (ln_leases l))"
  by (simp_all add: lane_inv_def)

lemma lane_inv_other_fields [simp]:
  "lane_inv (l\<lparr>ln_queue := q\<rparr>) = lane_inv l"
  "lane_inv (l\<lparr>ln_dlq_history := d\<rparr>) = lane_inv l"
  "lane_inv (l\<lparr>ln_dlq_active := a\<rparr>) = lane_inv l"
  "lane_inv (l\<lparr>ln_dlq_legacy := g\<rparr>) = lane_inv l"
  by (simp_all add: lane_inv_def)

lemma lane_inv_push [simp]: "lane_inv (push_queue prio raw l) = lane_inv l"
  by (simp add: push_queue_def)

lemma lane_inv_retry:
  "lane_inv l \<Longrightarrow> lane_inv (l\<lparr>ln_retry := AList.update raw t (ln_retry l)\<rparr>)"
  "lane_inv l \<Longrightarrow> lane_inv (l\<lparr>ln_retry := AList.delete raw (ln_retry l)\<rparr>)"
  by (simp_all add: lane_inv_def AList.distinct_update AList.distinct_delete)

lemma lane_inv_expiry_token:
  assumes "lane_inv l"
  shows "fst ` set (ln_expiry l) = fst ` set (ln_leases l)"
proof -
  have "set (ln_expiry l) = lease_expiry ` set (ln_leases l)"
    using lane_inv_leases(4) [OF assms] by (metis set_image_mset set_mset_mset)
  then show ?thesis by (simp add: image_image lease_expiry_def)
qed

lemma lane_inv_expiry_distinct:
  assumes "lane_inv l"
  shows "distinct (map fst (ln_expiry l))"
proof -
  have "mset (map fst (ln_expiry l)) = mset (map fst (ln_leases l))"
    using lane_inv_leases(4) [OF assms] by (simp add: image_mset.compositionality comp_def lease_expiry_def)
  then show ?thesis
    using lane_inv_leases(1) [OF assms] mset_eq_imp_distinct_iff by blast
qed

lemma lane_inv_fresh_token:
  assumes "lane_inv l"
  shows "str_nat (Suc (ln_sequence l)) \<notin> fst ` set (ln_leases l)"
    "str_nat (Suc (ln_sequence l)) \<notin> fst ` set (ln_expiry l)"
proof -
  show "str_nat (Suc (ln_sequence l)) \<notin> fst ` set (ln_leases l)"
    using lane_inv_leases(3) [OF assms] unfolding lease_ok_def by fastforce
  with lane_inv_expiry_token [OF assms] show "str_nat (Suc (ln_sequence l)) \<notin> fst ` set (ln_expiry l)"
    by simp
qed

lemma lane_inv_delete_lease:
  assumes "lane_inv l" "map_of (ln_leases l) token = Some h"
  shows "mset (ln_leases l) = add_mset (token, h) (mset (AList.delete token (ln_leases l)))"
    "mset (ln_expiry l) = add_mset (token, lh_expires_at_ms h) (mset (AList.delete token (ln_expiry l)))"
    "mset (AList.delete token (ln_expiry l)) = image_mset lease_expiry (mset (AList.delete token (ln_leases l)))"
    "add_mset (lh_raw h) (mset (remove1 (lh_raw h) (ln_processing l))) = mset (ln_processing l)"
proof -
  note inv = lane_inv_leases [OF assms(1)]
  show m: "mset (ln_leases l) = add_mset (token, h) (mset (AList.delete token (ln_leases l)))"
    using inv(1) assms(2) by (rule mset_alist_delete)
  show e: "mset (AList.delete token (ln_expiry l)) = image_mset lease_expiry (mset (AList.delete token (ln_leases l)))"
    using inv(4) by (rule mset_alist_delete_image) (simp add: lease_expiry_def)
  show "mset (ln_expiry l) = add_mset (token, lh_expires_at_ms h) (mset (AList.delete token (ln_expiry l)))"
    unfolding e inv(4) m by (simp add: lease_expiry_def)
  have "lh_raw h \<in># mset (ln_processing l)"
    unfolding inv(5) m by (simp add: lease_raw_def)
  then show "add_mset (lh_raw h) (mset (remove1 (lh_raw h) (ln_processing l))) = mset (ln_processing l)"
    by simp
qed

lemma release_lease_inv:
  assumes "lane_inv l" "map_of (ln_leases l) token = Some h"
  shows "lane_inv (release_lease token h l)"
proof -
  note inv = lane_inv_leases [OF assms(1)] and del = lane_inv_delete_lease [OF assms]
  have "add_mset (lh_raw h) (mset (remove1 (lh_raw h) (ln_processing l))) =
      add_mset (lh_raw h) (image_mset lease_raw (mset (AList.delete token (ln_leases l))))"
    unfolding del(4) inv(5) del(1) by (simp add: lease_raw_def)
  then have p: "mset (remove1 (lh_raw h) (ln_processing l)) =
      image_mset lease_raw (mset (AList.delete token (ln_leases l)))"
    by (metis add_mset_add_mset_same_iff)
  moreover have "set (AList.delete token (ln_leases l)) \<subseteq> set (ln_leases l)"
    by (auto simp: AList.delete_eq)
  ultimately show ?thesis
    using inv del(3) by (auto simp: lane_inv_def release_lease_def AList.distinct_delete)
qed

lemma lease_job_script_inv:
  assumes "lane_inv l" "lease_job_script l peer now w timeout cap = (l', r)"
  shows "lane_inv l'"
proof (cases "ln_queue l")
  case Nil
  with assms show ?thesis by (auto simp: lease_job_script_def Let_def split: if_splits)
next
  case (Cons raw rest)
  let ?t = "str_nat (Suc (ln_sequence l))"
  let ?h = "\<lparr>lh_token = ?t, lh_raw = raw, lh_worker_id = w, lh_leased_at_ms = now,
    lh_lease_timeout_ms = timeout, lh_expires_at_ms = now + timeout\<rparr>"
  have ok: "lease_ok (Suc n) p" if "lease_ok n p" for n p
    using that by (auto simp: lease_ok_def)
  have "lease_ok (Suc (ln_sequence l)) (?t, ?h)"
    by (auto simp: lease_ok_def)
  with ok lane_inv_leases [OF assms(1)] lane_inv_fresh_token [OF assms(1)] Cons assms(2) show ?thesis
    by (auto simp: lease_job_script_def Let_def lane_inv_def alist_update_fresh lease_expiry_def lease_raw_def
        split: if_splits)
qed

lemma renew_lease_script_inv:
  assumes "lane_inv l" "renew_lease_script l token w now timeout = (l', r)"
  shows "lane_inv l'"
proof (cases "map_of (ln_leases l) token")
  case None
  with assms show ?thesis by (auto simp: renew_lease_script_def)
next
  case (Some h)
  let ?h = "h\<lparr>lh_leased_at_ms := now, lh_lease_timeout_ms := timeout, lh_expires_at_ms := now + timeout\<rparr>"
  let ?l = "l\<lparr>ln_leases := AList.update token ?h (ln_leases l),
    ln_expiry := AList.update token (now + timeout) (ln_expiry l)\<rparr>"
  note inv = lane_inv_leases [OF assms(1)] and del = lane_inv_delete_lease [OF assms(1) Some]
  have in_l: "(token, h) \<in> set (ln_leases l)"
    using Some by (rule map_of_SomeD)
  from lane_inv_expiry_distinct [OF assms(1)]
  have "mset (ln_expiry ?l) = image_mset lease_expiry (mset (ln_leases ?l))"
    using inv(1) del(3) by (simp add: mset_alist_update lease_expiry_def)
  moreover have "mset (ln_processing ?l) = image_mset lease_raw (mset (ln_leases ?l))"
    using inv(1,5) del(1) by (simp add: mset_alist_update lease_raw_def)
  moreover have "set (ln_leases ?l) \<subseteq> insert (token, ?h) (set (ln_leases l))"
    using inv(1) by (auto simp: mset_alist_update AList.delete_eq simp flip: set_mset_mset)
  ultimately have "lane_inv ?l"
    using inv in_l by (auto simp: lane_inv_def lease_ok_def AList.distinct_update)
  with assms Some show ?thesis
    by (auto simp: renew_lease_script_def Let_def split: if_splits)
qed

lemma ack_job_script_inv: "lane_inv l \<Longrightarrow> ack_job_script l token w = (l', r) \<Longrightarrow> lane_inv l'"
  by (auto simp: ack_job_script_def release_lease_inv split: option.splits if_splits)

lemma schedule_retry_script_inv:
  "lane_inv l \<Longrightarrow> schedule_retry_script l token w at t = (l', r) \<Longrightarrow> lane_inv l'"
  by (auto simp: schedule_retry_script_def intro!: release_lease_inv lane_inv_retry split: option.splits if_splits)

lemma finalize_expired_lease_script_inv:
  "lane_inv l \<Longrightarrow> finalize_expired_lease_script l peer token at action d g prio = (l', r) \<Longrightarrow> lane_inv l'"
  by (auto simp: finalize_expired_lease_script_def Let_def push_queue_def intro!: release_lease_inv
      split: option.splits if_splits)

lemma move_to_dlq_script_inv:
  "lane_inv l \<Longrightarrow> move_to_dlq_script l token w at d j = (l', r) \<Longrightarrow> lane_inv l'"
  by (auto simp: move_to_dlq_script_def intro!: release_lease_inv split: option.splits if_splits)

lemma guarded_push_inv: "lane_inv l \<Longrightarrow> guarded_push l peer raw d g delta prio = (l', r) \<Longrightarrow> lane_inv l'"
  by (auto simp: guarded_push_def split: prod.splits if_splits)

lemma promote_loop_inv:
  "lane_inv l \<Longrightarrow> promote_loop n due moved l peer d g = (l', r) \<Longrightarrow> lane_inv l'"
proof (induction n due moved l peer d g rule: promote_loop.induct)
  case (2 n raw due moved l peer d g)
  obtain l1 st q p gl where g: "guarded_push l peer raw d g 1 ''standard'' = (l1, st, q, p, gl)"
    by (cases "guarded_push l peer raw d g 1 ''standard''") auto
  with "2.prems" have "lane_inv l1" by (blast intro: guarded_push_inv)
  then have "lane_inv (l1\<lparr>ln_retry := AList.delete raw (ln_retry l1)\<rparr>)"
    "lane_inv (l1\<lparr>ln_queue := remove1 raw (ln_queue l1)\<rparr>)"
    by (simp_all add: lane_inv_retry)
  with 2 g show ?case
    by (simp split: if_splits)
qed simp

end
