(* ===== verification/Work_Ledger.thy ===== *)
theory Work_Ledger
  imports Lane_Queue
begin

section \<open>Accounting for work held by a queue\<close>

text \<open>
  The contract between a queue and whoever counts its work: every operation leaves the payloads it
  holds equal to what it held, plus what the operation accepted, minus what it released. The locale
  \<open>work_ledger\<close> states it once; its lemmas say what a whole run of operations does. The lanes of
  \<open>Lane_Queue\<close> and the offer queue of \<open>Offer_Queue\<close> are its interpretations.
\<close>

fun run_ops :: "('op \<Rightarrow> 'q \<Rightarrow> 'q) \<Rightarrow> 'op list \<Rightarrow> 'q \<Rightarrow> 'q" where
  "run_ops step [] q = q"
| "run_ops step (op # ops) q = run_ops step ops (step op q)"

fun run_total :: "('op \<Rightarrow> 'q \<Rightarrow> 'q) \<Rightarrow> ('op \<Rightarrow> 'q \<Rightarrow> 'a multiset) \<Rightarrow> 'op list \<Rightarrow> 'q \<Rightarrow> 'a multiset" where
  "run_total step f [] q = {#}"
| "run_total step f (op # ops) q = f op q + run_total step f ops (step op q)"

locale work_ledger =
  fixes inv :: "'q \<Rightarrow> bool"
    and step :: "'op \<Rightarrow> 'q \<Rightarrow> 'q"
    and held :: "'q \<Rightarrow> 'a multiset"
    and added :: "'op \<Rightarrow> 'q \<Rightarrow> 'a multiset"
    and removed :: "'op \<Rightarrow> 'q \<Rightarrow> 'a multiset"
  assumes step_inv: "inv q \<Longrightarrow> inv (step op q)"
    and step_balance: "inv q \<Longrightarrow> held (step op q) + removed op q = held q + added op q"
begin

lemma run_inv: "inv q \<Longrightarrow> inv (run_ops step ops q)"
  by (induction ops arbitrary: q) (simp_all add: step_inv)

lemma run_balance:
  "inv q \<Longrightarrow> held (run_ops step ops q) + run_total step removed ops q = held q + run_total step added ops q"
proof (induction ops arbitrary: q)
  case (Cons op ops)
  let ?q = "step op q"
  from Cons.prems have "held ?q + removed op q = held q + added op q" "inv ?q"
    by (simp_all add: step_balance step_inv)
  with Cons.IH [of ?q] show ?case
    by (simp add: ac_simps)
qed simp

lemma run_append: "run_ops step (xs @ ys) q = run_ops step ys (run_ops step xs q)"
  by (induction xs arbitrary: q) simp_all

lemma nothing_invented:
  assumes "inv q" "held q = {#}"
  shows "run_total step removed ops q \<subseteq># run_total step added ops q"
    "held (run_ops step ops q) \<subseteq># run_total step added ops q"
  using run_balance [OF assms(1), of ops] assms(2)
  by (metis add_0 mset_subset_eq_add_right, metis add_0 mset_subset_eq_add_left)

end

end
