(* ===== verification/Lane_System.thy ===== *)
theory Lane_System
  imports Work_Ledger
begin

section \<open>The two worker lanes together\<close>

text \<open>
  The Redis state the workers share: the analysis lane and the heavy lane, each the other's peer in
  the capacity guards. A \<open>lane_op\<close> is one run of one Lua script; the sequences of them, on either
  lane and in any order, are the interleavings of API producers, workers and reapers, because
  Redis runs each script atomically. The lemmas account for every payload and bound the depths.
\<close>

record redis =
  rd_analysis :: lane
  rd_heavy :: lane
  rd_published :: "(string \<times> string) list"

definition empty_redis :: redis where
  "empty_redis = \<lparr>rd_analysis = empty_lane, rd_heavy = empty_lane, rd_published = []\<rparr>"

record caps =
  cp_concurrent :: int
  cp_analysis_depth :: int
  cp_heavy_depth :: int
  cp_global :: int

datatype lane_op =
    LEnqueue string string
  | LLease int string int
  | LAck string string
  | LRenew string string int int
  | LRetry string string int int
  | LFinalize string int string string
  | LDlq string string int string string
  | LPromote int nat

fun lane_step :: "int \<Rightarrow> int \<Rightarrow> int \<Rightarrow> lane \<Rightarrow> lane_op \<Rightarrow> lane \<Rightarrow> lane" where
  "lane_step c d g peer (LEnqueue raw prio) l = fst (enqueue_with_limit_script l peer raw d g prio)"
| "lane_step c d g peer (LLease now w timeout) l = fst (lease_job_script l peer now w timeout c)"
| "lane_step c d g peer (LAck token w) l = fst (ack_job_script l token w)"
| "lane_step c d g peer (LRenew token w now timeout) l = fst (renew_lease_script l token w now timeout)"
| "lane_step c d g peer (LRetry token w at t) l = fst (schedule_retry_script l token w at t)"
| "lane_step c d g peer (LFinalize token at action prio) l =
     fst (finalize_expired_lease_script l peer token at action d g prio)"
| "lane_step c d g peer (LDlq token w at payload j) l = fst (move_to_dlq_script l token w at payload j)"
| "lane_step c d g peer (LPromote now limit) l = fst (promote_retry_script l peer now limit d g)"

datatype side = AnalysisSide | HeavySide

fun redis_step :: "caps \<Rightarrow> side \<times> lane_op \<Rightarrow> redis \<Rightarrow> redis" where
  "redis_step c (AnalysisSide, op) r = r\<lparr>rd_analysis :=
     lane_step (cp_concurrent c) (cp_analysis_depth c) (cp_global c) (rd_heavy r) op (rd_analysis r)\<rparr>"
| "redis_step c (HeavySide, op) r = r\<lparr>rd_heavy :=
     lane_step (cp_concurrent c) (cp_heavy_depth c) (cp_global c) (rd_analysis r) op (rd_heavy r)\<rparr>"

definition redis_inv :: "redis \<Rightarrow> bool" where
  "redis_inv r \<longleftrightarrow> lane_inv (rd_analysis r) \<and> lane_inv (rd_heavy r)"

subsection \<open>What each script accepts and releases\<close>

definition lane_held :: "lane \<Rightarrow> string multiset" where
  "lane_held l = mset (ln_queue l) + mset (ln_processing l) + mset (map fst (ln_retry l))"

fun lane_added :: "int \<Rightarrow> int \<Rightarrow> lane \<Rightarrow> lane_op \<Rightarrow> lane \<Rightarrow> string multiset" where
  "lane_added d g peer (LEnqueue raw prio) l =
     (if fst (snd (enqueue_with_limit_script l peer raw d g prio)) = 1 then {#raw#} else {#})"
| "lane_added d g peer _ l = {#}"

definition lease_payload :: "lane \<Rightarrow> string \<Rightarrow> string multiset" where
  "lease_payload l token = (case map_of (ln_leases l) token of None \<Rightarrow> {#} | Some h \<Rightarrow> {#lh_raw h#})"

text \<open>A scheduled retry is keyed by its payload, so a second lease of the same payload merges into
  the first one's retry; that is the only way a retry gives up a payload.\<close>

fun lane_removed :: "int \<Rightarrow> int \<Rightarrow> lane \<Rightarrow> lane_op \<Rightarrow> lane \<Rightarrow> string multiset" where
  "lane_removed d g peer (LAck token w) l =
     (if snd (ack_job_script l token w) = 1 then lease_payload l token else {#})"
| "lane_removed d g peer (LRetry token w at t) l =
     (if snd (schedule_retry_script l token w at t) = 1
      then filter_mset (\<lambda>raw. raw \<in> fst ` set (ln_retry l)) (lease_payload l token) else {#})"
| "lane_removed d g peer (LFinalize token at action prio) l =
     (if action \<noteq> ''requeue'' \<and> fst (snd (finalize_expired_lease_script l peer token at action d g prio)) = 1
      then lease_payload l token else {#})"
| "lane_removed d g peer (LDlq token w at payload j) l =
     (if snd (move_to_dlq_script l token w at payload j) = 1 then lease_payload l token else {#})"
| "lane_removed d g peer _ l = {#}"

lemmas script_invs =
  lease_job_script_inv [OF _ surjective_pairing] ack_job_script_inv [OF _ surjective_pairing]
  renew_lease_script_inv [OF _ surjective_pairing] schedule_retry_script_inv [OF _ surjective_pairing]
  finalize_expired_lease_script_inv [OF _ surjective_pairing] move_to_dlq_script_inv [OF _ surjective_pairing]
  guarded_push_inv [OF _ surjective_pairing] promote_loop_inv [OF _ surjective_pairing]

lemma lane_step_inv: "lane_inv l \<Longrightarrow> lane_inv (lane_step c d g peer op l)"
  by (cases op) (simp_all add: script_invs enqueue_with_limit_script_def promote_retry_script_def Let_def)

subsection \<open>Balance of each script\<close>

lemma lane_held_push: "lane_held (push_queue prio raw l) = add_mset raw (lane_held l)"
  by (simp add: lane_held_def push_queue_def)

lemma lane_held_release:
  assumes "lane_inv l" "map_of (ln_leases l) token = Some h" "ln_processing m = ln_processing l"
  shows "add_mset (lh_raw h) (lane_held (release_lease token h m)) = lane_held m"
proof -
  have "add_mset (lh_raw h) (mset (remove1 (lh_raw h) (ln_processing l)) + x) = mset (ln_processing l) + x" for x
    using lane_inv_delete_lease(4) [OF assms(1,2)] by (metis add_mset_add_single union_mset_add_mset_left)
  then show ?thesis
    by (simp only: lane_held_def release_lease_def assms(3) lane.simps lane.update_convs lane.select_convs
        union_mset_add_mset_left union_mset_add_mset_right add.assoc
        flip: add_mset_add_mset_same_iff) (simp add: ac_simps)
qed

lemma guarded_push_result:
  assumes "guarded_push l peer raw d g delta prio = (l', st, q, p, gl)"
  shows "(st = 1 \<and> l' = push_queue prio raw l) \<or> (st \<noteq> 1 \<and> l' = l)"
  using assms by (auto simp: guarded_push_def split: prod.splits if_splits)

lemma promote_loop_held:
  "lane_inv l \<Longrightarrow> promote_loop n due moved l peer d g = (l', r) \<Longrightarrow> lane_held l' = lane_held l"
proof (induction n due moved l peer d g rule: promote_loop.induct)
  case (2 n raw due moved l peer d g)
  obtain l1 st q p gl where g: "guarded_push l peer raw d g 1 ''standard'' = (l1, st, q, p, gl)"
    by (cases "guarded_push l peer raw d g 1 ''standard''") auto
  show ?case
  proof (cases "st = 1")
    case False
    with 2 g show ?thesis by simp
  next
    case True
    with guarded_push_result [OF g] have l1: "l1 = push_queue ''standard'' raw l" by simp
    let ?a = "l1\<lparr>ln_retry := AList.delete raw (ln_retry l1)\<rparr>"
    let ?b = "l1\<lparr>ln_queue := remove1 raw (ln_queue l1)\<rparr>"
    have inv: "lane_inv ?a" "lane_inv ?b"
      using "2.prems" l1 by (simp_all add: lane_inv_retry)
    show ?thesis
    proof (cases "raw \<in> fst ` set (ln_retry l1)")
      case in_retry: True
      then obtain v where "map_of (ln_retry l1) raw = Some v"
        by (metis map_of_eq_None_iff not_Some_eq)
      with "2.prems"(1) l1 have "mset (ln_retry l1) = add_mset (raw, v) (mset (AList.delete raw (ln_retry l1)))"
        by (intro mset_alist_delete) (auto simp: push_queue_def lane_inv_leases)
      then have "lane_held ?a = lane_held l"
        by (simp add: l1 lane_held_def push_queue_def)
      with 2 g True in_retry inv show ?thesis by simp
    next
      case not_in: False
      have "lane_held ?b = lane_held l"
        by (simp add: l1 lane_held_def push_queue_def)
      with 2 g True not_in inv show ?thesis by simp
    qed
  qed
qed simp

lemma lease_job_script_held: "lease_job_script l peer now w timeout c = (l', r) \<Longrightarrow> lane_held l' = lane_held l"
  by (auto simp: lease_job_script_def Let_def lane_held_def split: list.splits if_splits)

lemma renew_lease_script_held: "renew_lease_script l token w now timeout = (l', r) \<Longrightarrow> lane_held l' = lane_held l"
  by (auto simp: renew_lease_script_def Let_def lane_held_def split: option.splits if_splits)

lemma ack_job_script_held:
  assumes "lane_inv l" "ack_job_script l token w = (l', r)"
  shows "lane_held l' + (if r = 1 then lease_payload l token else {#}) = lane_held l"
  using assms lane_held_release [OF assms(1), of token _ l]
  by (auto simp: ack_job_script_def lease_payload_def split: option.splits if_splits)

lemma move_to_dlq_script_held:
  assumes "lane_inv l" "move_to_dlq_script l token w at d j = (l', r)"
  shows "lane_held l' + (if r = 1 then lease_payload l token else {#}) = lane_held l"
proof (cases "map_of (ln_leases l) token")
  case None
  with assms(2) show ?thesis by (auto simp: move_to_dlq_script_def)
next
  case (Some h)
  let ?m = "l\<lparr>ln_dlq_history := push_history j d (ln_dlq_history l), ln_dlq_active := List.insert j (ln_dlq_active l)\<rparr>"
  have "add_mset (lh_raw h) (lane_held (release_lease token h ?m)) = lane_held ?m"
    by (rule lane_held_release [OF assms(1) Some]) simp
  moreover have "lane_held ?m = lane_held l" by (simp add: lane_held_def)
  ultimately show ?thesis
    using Some assms(2) by (auto simp: move_to_dlq_script_def lease_payload_def split: if_splits)
qed

lemma schedule_retry_script_held:
  assumes "lane_inv l" "schedule_retry_script l token w at t = (l', r)"
  shows "lane_held l' + (if r = 1 then filter_mset (\<lambda>raw. raw \<in> fst ` set (ln_retry l)) (lease_payload l token) else {#}) = lane_held l"
proof (cases "map_of (ln_leases l) token")
  case None
  with assms(2) show ?thesis by (auto simp: schedule_retry_script_def)
next
  case (Some h)
  let ?m = "l\<lparr>ln_retry := AList.update (lh_raw h) t (ln_retry l)\<rparr>"
  have rel: "add_mset (lh_raw h) (lane_held (release_lease token h ?m)) = lane_held ?m"
    by (rule lane_held_release [OF assms(1) Some]) simp
  have "lane_held ?m = lane_held l" if retried: "lh_raw h \<in> fst ` set (ln_retry l)"
  proof -
    from retried obtain v where "map_of (ln_retry l) (lh_raw h) = Some v"
      by (metis map_of_eq_None_iff not_Some_eq)
    from mset_alist_delete [OF lane_inv_leases(2) [OF assms(1)] this] show ?thesis
      using lane_inv_leases(2) [OF assms(1)] by (simp add: lane_held_def mset_alist_update)
  qed
  moreover have "lane_held ?m = add_mset (lh_raw h) (lane_held l)" if "lh_raw h \<notin> fst ` set (ln_retry l)"
    using that by (simp add: lane_held_def alist_update_fresh)
  ultimately show ?thesis
    using Some assms(2) rel by (auto simp: schedule_retry_script_def lease_payload_def split: if_splits)
qed

lemma finalize_expired_lease_script_held:
  assumes "lane_inv l" "finalize_expired_lease_script l peer token at action d g prio = (l', st, r)"
  shows "lane_held l' + (if action \<noteq> ''requeue'' \<and> st = 1 then lease_payload l token else {#}) = lane_held l"
proof (cases "map_of (ln_leases l) token")
  case None
  with assms(2) show ?thesis by (auto simp: finalize_expired_lease_script_def)
next
  case (Some h)
  let ?m = "if action = ''requeue'' then push_queue prio (lh_raw h) l else l"
  have "add_mset (lh_raw h) (lane_held (release_lease token h ?m)) = lane_held ?m"
    by (rule lane_held_release [OF assms(1) Some]) (simp add: push_queue_def)
  then show ?thesis
    using Some assms(2)
    by (auto simp: finalize_expired_lease_script_def Let_def lease_payload_def lane_held_push split: if_splits)
qed

lemma lane_step_balance:
  assumes "lane_inv l"
  shows "lane_held (lane_step c d g peer op l) + lane_removed d g peer op l =
    lane_held l + lane_added d g peer op l"
proof (cases op)
  case (LEnqueue raw prio)
  then show ?thesis
    by (cases "guarded_push l peer raw d g 1 prio")
       (auto dest!: guarded_push_result simp: enqueue_with_limit_script_def lane_held_push)
next
  case (LLease now w timeout)
  then show ?thesis
    by (simp add: lease_job_script_held [OF surjective_pairing])
next
  case (LAck token w)
  then show ?thesis
    using ack_job_script_held [OF assms surjective_pairing, of token w] by (simp split: if_splits)
next
  case (LRenew token w now timeout)
  then show ?thesis
    by (simp add: renew_lease_script_held [OF surjective_pairing])
next
  case (LRetry token w at t)
  then show ?thesis
    using schedule_retry_script_held [OF assms surjective_pairing, of token w at t] by (simp split: if_splits)
next
  case (LFinalize token at action prio)
  obtain l' st r where f: "finalize_expired_lease_script l peer token at action d g prio = (l', st, r)"
    by (cases "finalize_expired_lease_script l peer token at action d g prio") auto
  with LFinalize show ?thesis
    using finalize_expired_lease_script_held [OF assms f] by (simp split: if_splits)
next
  case (LDlq token w at payload j)
  then show ?thesis
    using move_to_dlq_script_held [OF assms surjective_pairing, of token w at payload j] by (simp split: if_splits)
next
  case (LPromote now limit)
  then show ?thesis
    by (simp add: promote_retry_script_def Let_def promote_loop_held [OF assms surjective_pairing])
qed

subsection \<open>The ledger of both lanes\<close>

definition redis_held :: "redis \<Rightarrow> string multiset" where
  "redis_held r = lane_held (rd_analysis r) + lane_held (rd_heavy r)"

fun redis_added :: "caps \<Rightarrow> side \<times> lane_op \<Rightarrow> redis \<Rightarrow> string multiset" where
  "redis_added c (AnalysisSide, op) r = lane_added (cp_analysis_depth c) (cp_global c) (rd_heavy r) op (rd_analysis r)"
| "redis_added c (HeavySide, op) r = lane_added (cp_heavy_depth c) (cp_global c) (rd_analysis r) op (rd_heavy r)"

fun redis_removed :: "caps \<Rightarrow> side \<times> lane_op \<Rightarrow> redis \<Rightarrow> string multiset" where
  "redis_removed c (AnalysisSide, op) r = lane_removed (cp_analysis_depth c) (cp_global c) (rd_heavy r) op (rd_analysis r)"
| "redis_removed c (HeavySide, op) r = lane_removed (cp_heavy_depth c) (cp_global c) (rd_analysis r) op (rd_heavy r)"

interpretation lanes: work_ledger redis_inv "redis_step c" redis_held "redis_added c" "redis_removed c" for c
proof unfold_locales
  fix q :: redis and op :: "side \<times> lane_op"
  assume inv: "redis_inv q"
  obtain s lop where op: "op = (s, lop)" by (cases op)
  show "redis_inv (redis_step c op q)"
    using inv by (cases s) (simp_all add: op redis_inv_def lane_step_inv)
  show "redis_held (redis_step c op q) + redis_removed c op q = redis_held q + redis_added c op q"
  proof (cases s)
    case AnalysisSide
    with inv lane_step_balance [of "rd_analysis q" "cp_concurrent c" "cp_analysis_depth c" "cp_global c" "rd_heavy q" lop]
    show ?thesis by (simp add: op redis_held_def redis_inv_def ac_simps)
  next
    case HeavySide
    with inv lane_step_balance [of "rd_heavy q" "cp_concurrent c" "cp_heavy_depth c" "cp_global c" "rd_analysis q" lop]
    show ?thesis by (simp add: op redis_held_def redis_inv_def ac_simps)
  qed
qed

lemma redis_inv_empty: "redis_inv empty_redis" "redis_held empty_redis = {#}"
  by (simp_all add: redis_inv_def empty_redis_def lane_inv_def empty_lane_def redis_held_def lane_held_def)

subsection \<open>Depths stay within the caps\<close>

definition lane_total :: "lane \<Rightarrow> int" where
  "lane_total l = int (length (ln_queue l)) + int (length (ln_processing l))"

definition within_caps :: "caps \<Rightarrow> redis \<Rightarrow> bool" where
  "within_caps c r \<longleftrightarrow>
     int (length (ln_processing (rd_analysis r)) + length (ln_processing (rd_heavy r))) \<le> cp_concurrent c \<and>
     lane_total (rd_analysis r) \<le> cp_analysis_depth c \<and> lane_total (rd_heavy r) \<le> cp_heavy_depth c \<and>
     int (length (ln_queue (rd_analysis r)) + length (ln_queue (rd_heavy r))) \<le> cp_global c"

text \<open>What one script can do to the two list lengths of its lane.\<close>

definition lane_grows :: "int \<Rightarrow> int \<Rightarrow> int \<Rightarrow> lane \<Rightarrow> lane \<Rightarrow> lane \<Rightarrow> bool" where
  "lane_grows c d g peer l l' \<longleftrightarrow>
     (length (ln_processing l') \<le> length (ln_processing l) \<or>
        int (length (ln_processing l') + length (ln_processing peer)) \<le> c) \<and>
     (lane_total l' \<le> lane_total l \<or> lane_total l' \<le> d) \<and>
     (length (ln_queue l') \<le> length (ln_queue l) \<or> int (length (ln_queue l') + length (ln_queue peer)) \<le> g)"

lemma lane_grows_refl: "lane_grows c d g peer l l"
  by (simp add: lane_grows_def)

lemma lane_grows_trans: "lane_grows c d g peer l m \<Longrightarrow> lane_grows c d g peer m n \<Longrightarrow> lane_grows c d g peer l n"
  unfolding lane_grows_def by (elim conjE disjE) (intro conjI; linarith)+

lemma guarded_push_grows: "lane_grows c d g peer l (fst (guarded_push l peer raw d g 1 prio))"
  by (auto simp: guarded_push_def check_queue_capacity_def Let_def lane_grows_def lane_total_def push_queue_def)

lemma release_lease_lengths:
  assumes "lane_inv l" "map_of (ln_leases l) token = Some h" "ln_processing m = ln_processing l"
  shows "Suc (length (ln_processing (release_lease token h m))) = length (ln_processing m)"
    "ln_queue (release_lease token h m) = ln_queue m"
proof -
  have "Suc (length (remove1 (lh_raw h) (ln_processing l))) = length (ln_processing l)"
    using lane_inv_delete_lease(4) [OF assms(1,2)] by (metis size_add_mset size_mset)
  then show "Suc (length (ln_processing (release_lease token h m))) = length (ln_processing m)"
    by (simp add: release_lease_def assms(3) del: length_remove1)
qed (simp add: release_lease_def)

lemma release_lease_grows:
  assumes "lane_inv l" "map_of (ln_leases l) token = Some h" "ln_processing m = ln_processing l"
    and "ln_queue m = ln_queue l"
  shows "lane_grows c d g peer l (release_lease token h m)"
  using release_lease_lengths [OF assms(1-3)] assms(3,4)
  by (simp add: lane_grows_def lane_total_def)

lemma finalize_grows:
  assumes "lane_inv l" "lane_total l \<le> d"
  shows "lane_grows c d g peer l (fst (finalize_expired_lease_script l peer token at action d g prio))"
proof (cases "map_of (ln_leases l) token")
  case None
  then show ?thesis by (simp add: finalize_expired_lease_script_def lane_grows_refl)
next
  case (Some h)
  have drop: "lane_grows c d g peer l (release_lease token h l)"
    using assms(1) Some by (rule release_lease_grows) simp_all
  have "lane_grows c d g peer l (release_lease token h (push_queue prio (lh_raw h) l))"
    if "int (length (ln_queue l)) + int (length (ln_queue peer)) + 1 \<le> g"
    using that assms(2) release_lease_lengths [OF assms(1) Some, of "push_queue prio (lh_raw h) l"]
    by (auto simp: push_queue_def lane_grows_def lane_total_def)
  with drop Some show ?thesis
    by (auto simp: finalize_expired_lease_script_def Let_def lane_grows_refl)
qed

lemma promote_loop_grows: "lane_grows c d g peer l (fst (promote_loop n due moved l peer d g))"
proof (induction n due moved l peer d g rule: promote_loop.induct)
  case (2 n raw due moved l peer d g)
  obtain l1 st q p gl where gp: "guarded_push l peer raw d g 1 ''standard'' = (l1, st, q, p, gl)"
    by (cases "guarded_push l peer raw d g 1 ''standard''") auto
  with guarded_push_grows [of c d g peer l raw "''standard''"] have l1: "lane_grows c d g peer l l1" by simp
  let ?a = "l1\<lparr>ln_retry := AList.delete raw (ln_retry l1)\<rparr>"
  let ?b = "l1\<lparr>ln_queue := remove1 raw (ln_queue l1)\<rparr>"
  have ab: "lane_grows c d g peer l ?a" "lane_grows c d g peer l ?b"
    using l1 lane_grows_trans [OF l1, of ?a] lane_grows_trans [OF l1, of ?b]
    by (simp_all add: lane_grows_def lane_total_def length_remove1)
  show ?case
  proof (cases "st = 1")
    case True
    with "2.IH" gp lane_grows_trans [OF ab(1)] lane_grows_trans [OF ab(2)] show ?thesis
      by (cases "raw \<in> fst ` set (ln_retry l1)") simp_all
  qed (simp add: gp lane_grows_refl)
qed (simp add: lane_grows_refl)

lemma lease_job_script_grows: "lane_grows c d g peer l (fst (lease_job_script l peer now w timeout c))"
  by (auto simp: lease_job_script_def Let_def lane_grows_def lane_total_def split: list.splits)

lemma lane_step_grows:
  assumes "lane_inv l" "lane_total l \<le> d"
  shows "lane_grows c d g peer l (lane_step c d g peer op l)"
proof (cases op)
  case (LRenew token w now timeout)
  then show ?thesis
    by (auto simp: renew_lease_script_def Let_def lane_grows_def lane_total_def split: option.splits)
qed (auto simp: enqueue_with_limit_script_def guarded_push_grows finalize_grows [OF assms]
       promote_retry_script_def Let_def promote_loop_grows lease_job_script_grows ack_job_script_def
       schedule_retry_script_def move_to_dlq_script_def lane_grows_refl
       intro: release_lease_grows [OF assms(1)] split: option.splits)

lemma redis_step_within_caps:
  assumes "redis_inv r" "within_caps c r"
  shows "within_caps c (redis_step c op r)"
proof -
  obtain s lop where op: "op = (s, lop)" by (cases op)
  show ?thesis
  proof (cases s)
    case AnalysisSide
    have "lane_grows (cp_concurrent c) (cp_analysis_depth c) (cp_global c) (rd_heavy r) (rd_analysis r)
        (lane_step (cp_concurrent c) (cp_analysis_depth c) (cp_global c) (rd_heavy r) lop (rd_analysis r))"
      using assms by (intro lane_step_grows) (auto simp: redis_inv_def within_caps_def)
    with assms(2) show ?thesis
      unfolding lane_grows_def within_caps_def op AnalysisSide by auto
  next
    case HeavySide
    have "lane_grows (cp_concurrent c) (cp_heavy_depth c) (cp_global c) (rd_analysis r) (rd_heavy r)
        (lane_step (cp_concurrent c) (cp_heavy_depth c) (cp_global c) (rd_analysis r) lop (rd_heavy r))"
      using assms by (intro lane_step_grows) (auto simp: redis_inv_def within_caps_def)
    with assms(2) show ?thesis
      unfolding lane_grows_def within_caps_def op HeavySide by auto
  qed
qed

lemma run_within_caps: "redis_inv r \<Longrightarrow> within_caps c r \<Longrightarrow> within_caps c (run_ops (redis_step c) ops r)"
  by (induction ops arbitrary: r) (simp_all add: redis_step_within_caps lanes.step_inv)

subsection \<open>A token that has lost its lease never gets one again\<close>

definition dead_token :: "string \<Rightarrow> lane \<Rightarrow> bool" where
  "dead_token token l \<longleftrightarrow> token \<in> str_nat ` {1..ln_sequence l} \<and> map_of (ln_leases l) token = None"

lemma dead_token_keeps:
  assumes "dead_token token l" "ln_sequence l' = ln_sequence l"
    and "map_of (ln_leases l) token = None \<Longrightarrow> map_of (ln_leases l') token = None"
  shows "dead_token token l'"
  using assms by (simp add: dead_token_def)

lemma dead_token_update_other:
  "map_of xs token = None \<Longrightarrow> map_of xs other = Some h \<Longrightarrow> map_of (AList.update other h' xs) token = None"
  by (auto simp: update_conv')

lemma dead_token_release: "map_of (ln_leases m) token = None \<Longrightarrow> map_of (ln_leases (release_lease other h m)) token = None"
  by (auto simp: release_lease_def delete_conv')

lemma release_lease_dead:
  assumes "lane_inv l" "map_of (ln_leases l) token = Some h" "ln_sequence m = ln_sequence l"
  shows "dead_token token (release_lease token h m)"
  using lane_inv_leases(3) [OF assms(1) map_of_SomeD [OF assms(2)]] assms(3)
  by (simp add: dead_token_def release_lease_def delete_conv' lease_ok_def)

lemma guarded_push_leases:
  "ln_leases (fst (guarded_push l peer raw d g delta prio)) = ln_leases l"
  "ln_sequence (fst (guarded_push l peer raw d g delta prio)) = ln_sequence l"
  by (auto simp: guarded_push_def push_queue_def split: prod.splits)

lemma promote_loop_leases:
  "ln_leases (fst (promote_loop n due moved l peer d g)) = ln_leases l \<and>
   ln_sequence (fst (promote_loop n due moved l peer d g)) = ln_sequence l"
proof (induction n due moved l peer d g rule: promote_loop.induct)
  case (2 n raw due moved l peer d g)
  obtain l1 st q p gl where gp: "guarded_push l peer raw d g 1 ''standard'' = (l1, st, q, p, gl)"
    by (cases "guarded_push l peer raw d g 1 ''standard''") auto
  then have "ln_leases l1 = ln_leases l" "ln_sequence l1 = ln_sequence l"
    using guarded_push_leases [of l peer raw d g 1 "''standard''"] by simp_all
  with "2.IH" gp show ?case
    by (cases "st = 1"; cases "raw \<in> fst ` set (ln_retry l1)") simp_all
qed simp

lemma lane_step_dead_token:
  assumes "dead_token token l"
  shows "dead_token token (lane_step c d g peer op l)"
proof (cases op)
  case (LLease now w timeout)
  have "token \<noteq> str_nat (Suc (ln_sequence l))"
    using assms by (auto simp: dead_token_def)
  moreover have "str_nat ` {Suc 0..ln_sequence l} \<subseteq> str_nat ` {Suc 0..Suc (ln_sequence l)}"
    by (rule image_mono) auto
  ultimately show ?thesis
    using assms LLease
    by (auto simp: lease_job_script_def Let_def dead_token_def update_conv' split: list.splits)
next
  case (LRenew t w now timeout)
  then show ?thesis
    using assms
    by (auto simp: renew_lease_script_def Let_def dead_token_def update_conv' split: option.splits)
next
  case (LEnqueue raw prio)
  then show ?thesis
    using assms by (simp add: enqueue_with_limit_script_def dead_token_def guarded_push_leases)
next
  case (LPromote now limit)
  then show ?thesis
    using assms by (simp add: promote_retry_script_def Let_def dead_token_def promote_loop_leases)
qed (use assms in \<open>auto simp: ack_job_script_def schedule_retry_script_def move_to_dlq_script_def
       finalize_expired_lease_script_def Let_def dead_token_def release_lease_def delete_conv'
       push_queue_def split: option.splits\<close>)

fun side_lane :: "side \<Rightarrow> redis \<Rightarrow> lane" where
  "side_lane AnalysisSide r = rd_analysis r"
| "side_lane HeavySide r = rd_heavy r"

lemma run_dead_token:
  "dead_token token (side_lane s r) \<Longrightarrow> dead_token token (side_lane s (run_ops (redis_step c) ops r))"
proof (induction ops arbitrary: r)
  case (Cons op ops)
  obtain s' lop where op: "op = (s', lop)" by (cases op)
  have "dead_token token (side_lane s (redis_step c op r))"
    using Cons.prems by (cases s; cases s') (simp_all add: op lane_step_dead_token)
  with Cons.IH show ?case by simp
qed simp

text \<open>Every script that needs a lease refuses a dead token and changes nothing.\<close>

lemma dead_token_refused:
  assumes "dead_token token l"
  shows "ack_job_script l token w = (l, 0)" "renew_lease_script l token w now timeout = (l, 0)"
    "schedule_retry_script l token w at t = (l, 0)" "move_to_dlq_script l token w at d j = (l, 0)"
    "finalize_expired_lease_script l peer token at action md g prio = (l, -3, 0, 0, 0)"
  using assms
  by (simp_all add: dead_token_def ack_job_script_def renew_lease_script_def schedule_retry_script_def
      move_to_dlq_script_def finalize_expired_lease_script_def)

subsection \<open>Properties\<close>

text \<open>C1: No payload is lost and none is invented. After any interleaving of script runs on the two
  lanes, the payloads they hold (queued, in processing or scheduled for retry, counted with their
  multiplicity) together with those released (acknowledged, dropped, dead-lettered, or merged into
  a retry of the same text) are exactly those accepted; and in both lanes the processing list is
  exactly the payloads of the live leases, each with one expiry entry.\<close>

theorem lanes_conserve_work:
  "redis_held (run_ops (redis_step c) ops empty_redis) + run_total (redis_step c) (redis_removed c) ops empty_redis =
     run_total (redis_step c) (redis_added c) ops empty_redis \<and>
   redis_inv (run_ops (redis_step c) ops empty_redis)"
  using lanes.run_balance [OF redis_inv_empty(1), of c ops] lanes.run_inv [OF redis_inv_empty(1), of c ops]
  by (simp add: redis_inv_empty(2))

text \<open>C27: The caps hold in every reachable state: started within them, the two lanes never run more jobs
  at once than the concurrency cap, no lane grows beyond its depth and the two queues together
  never hold more than the global cap, because every script that grows a list checks first.\<close>

theorem lanes_stay_within_caps:
  assumes "redis_inv r" "within_caps c r"
  shows "within_caps c (run_ops (redis_step c) ops r)"
  using assms by (rule run_within_caps)

theorem lanes_stay_within_caps_witness:
  "within_caps \<lparr>cp_concurrent = 1, cp_analysis_depth = 2, cp_heavy_depth = 1, cp_global = 2\<rparr>
     (run_ops (redis_step \<lparr>cp_concurrent = 1, cp_analysis_depth = 2, cp_heavy_depth = 1, cp_global = 2\<rparr>)
        [(AnalysisSide, LEnqueue ''a'' ''standard''), (HeavySide, LEnqueue ''b'' ''critical''),
         (AnalysisSide, LLease 0 ''w'' 10), (HeavySide, LLease 0 ''v'' 10)] empty_redis)"
  by (rule lanes_stay_within_caps [OF redis_inv_empty(1)]) code_simp

end
