(* ===== verification/Job_Payload.thy ===== *)
theory Job_Payload
  imports Lane_System
begin

section \<open>Job payloads and what the queue functions raise\<close>

text \<open>
  What \<open>app/worker/queue.py\<close> and \<open>app/worker/heavy_queue.py\<close> share in the treatment of payloads:
  the strict Pydantic fields, the exceptions and the leased-job record. A payload model has
  \<open>strict=True\<close> and \<open>extra="forbid"\<close>: a field has exactly its JSON type, a missing field takes its
  default and an unknown key is an issue. An invalid payload is reported as the list of the
  locations of its issues (the texts of the messages are left out): the fields in their order, then
  the unknown keys; a failed model validator is the one issue \<open>payload\<close>.
\<close>

datatype queue_error =
    InvalidPayload "string list"
  | LostLease string string
  | CapacityExceeded int int int string int int

text \<open>The fields of a capacity error: queued, processing, \<open>max_depth\<close>, scope, \<open>global_queued\<close>,
  \<open>max_global_queued\<close>.\<close>

record 'p leased_job =
  lj_token :: string
  lj_payload :: 'p
  lj_raw_payload :: string
  lj_worker_id :: string
  lj_leased_at_ms :: int
  lj_lease_timeout_ms :: int
  lj_expires_at_ms :: int

definition identifier_value :: "string \<Rightarrow> string option" where
  "identifier_value v = (let normalized = py_strip v in if normalized = [] then None else Some normalized)"

definition required_identifier :: "json_obj \<Rightarrow> string \<Rightarrow> string option" where
  "required_identifier d k = (case map_of d k of Some (JStr v) \<Rightarrow> identifier_value v | _ \<Rightarrow> None)"

definition optional_identifier :: "json_obj \<Rightarrow> string \<Rightarrow> string option option" where
  "optional_identifier d k =
    (case map_of d k of
       None \<Rightarrow> Some None
     | Some JNull \<Rightarrow> Some None
     | Some (JStr v) \<Rightarrow> map_option Some (identifier_value v)
     | Some _ \<Rightarrow> None)"

definition strict_bool :: "json_obj \<Rightarrow> string \<Rightarrow> bool \<Rightarrow> bool option" where
  "strict_bool d k dflt = (case map_of d k of None \<Rightarrow> Some dflt | Some (JBool b) \<Rightarrow> Some b | _ \<Rightarrow> None)"

definition priority_field :: "json_obj \<Rightarrow> string option" where
  "priority_field d =
    (case map_of d ''priority'' of
       None \<Rightarrow> Some ''standard''
     | Some (JStr v) \<Rightarrow>
         (let normalized = py_lower (py_strip v)
          in if normalized \<in> {''standard'', ''critical''} then Some normalized else None)
     | _ \<Rightarrow> None)"

definition issue :: "string \<Rightarrow> 'a option \<Rightarrow> string list" where
  "issue k v = (if v = None then [k] else [])"

definition extra_keys :: "string list \<Rightarrow> json_obj \<Rightarrow> string list" where
  "extra_keys names d = filter (\<lambda>k. k \<notin> set names) (map fst d)"

definition opt_json :: "string option \<Rightarrow> json" where
  "opt_json v = (case v of None \<Rightarrow> JNull | Some s \<Rightarrow> JStr s)"

text \<open>A strict field read back from its own dump.\<close>

definition trimmed :: "string \<Rightarrow> bool" where
  "trimmed s \<longleftrightarrow> s \<noteq> [] \<and> py_strip s = s"

definition trimmed_opt :: "string option \<Rightarrow> bool" where
  "trimmed_opt v = (case v of None \<Rightarrow> True | Some s \<Rightarrow> trimmed s)"

lemma identifier_value_Some: "identifier_value v = Some s \<Longrightarrow> trimmed s"
  by (auto simp: identifier_value_def trimmed_def Let_def split: if_splits)

lemma required_identifier_Some: "required_identifier d k = Some s \<Longrightarrow> trimmed s"
  by (auto simp: required_identifier_def dest: identifier_value_Some split: option.splits json.splits)

lemma optional_identifier_Some: "optional_identifier d k = Some v \<Longrightarrow> trimmed_opt v"
  by (auto simp: optional_identifier_def trimmed_opt_def dest: identifier_value_Some split: option.splits json.splits)

lemma priority_field_Some: "priority_field d = Some p \<Longrightarrow> p \<in> {''standard'', ''critical''}"
  by (auto simp: priority_field_def Let_def split: option.splits json.splits if_splits)

lemma identifier_value_trimmed: "trimmed s \<Longrightarrow> identifier_value s = Some s"
  by (simp add: identifier_value_def trimmed_def Let_def)

lemma required_identifier_trimmed:
  "map_of d k = Some (JStr s) \<Longrightarrow> trimmed s \<Longrightarrow> required_identifier d k = Some s"
  by (simp add: required_identifier_def identifier_value_trimmed)

lemma optional_identifier_trimmed:
  "map_of d k = Some (opt_json v) \<Longrightarrow> trimmed_opt v \<Longrightarrow> optional_identifier d k = Some v"
  by (cases v) (simp_all add: optional_identifier_def opt_json_def trimmed_opt_def identifier_value_trimmed)

lemma priorities_normal:
  "py_lower (py_strip ''standard'') = ''standard''" "py_lower (py_strip ''critical'') = ''critical''"
  by code_simp+

lemma priority_field_normal:
  "map_of d ''priority'' = Some (JStr p) \<Longrightarrow> p \<in> {''standard'', ''critical''} \<Longrightarrow> priority_field d = Some p"
  using priorities_normal by (auto simp: priority_field_def Let_def)

text \<open>\<open>max(1, int(max_global_queued or 1_000_000))\<close>, also used for \<open>max_concurrent_jobs\<close>.\<close>

definition cap_or_million :: "int option \<Rightarrow> int" where
  "cap_or_million v = (case v of None \<Rightarrow> 1000000 | Some n \<Rightarrow> if n = 0 then 1000000 else max 1 n)"

text \<open>What a queue function makes of the reply of a capacity script: nothing, or the error.\<close>

definition capacity_error :: "int \<Rightarrow> int option \<Rightarrow> capacity_reply \<Rightarrow> queue_error" where
  "capacity_error max_depth max_global reply =
    (case reply of (status, queued, processing, global_queued) \<Rightarrow>
       CapacityExceeded queued processing (max 1 max_depth)
         (if status = -2 then ''global'' else ''lane'') global_queued (cap_or_million max_global))"

text \<open>A payload reader of the right kind turns a text into a payload or says it is invalid.\<close>

definition leased_job_of :: "(string \<Rightarrow> queue_error + 'p) \<Rightarrow> lease_hash \<Rightarrow> queue_error + 'p leased_job" where
  "leased_job_of parse h =
     bind_res (parse (lh_raw h)) (\<lambda>payload.
       Inr \<lparr>lj_token = lh_token h, lj_payload = payload, lj_raw_payload = lh_raw h,
            lj_worker_id = lh_worker_id h, lj_leased_at_ms = lh_leased_at_ms h,
            lj_lease_timeout_ms = lh_lease_timeout_ms h, lj_expires_at_ms = lh_expires_at_ms h\<rparr>)"

text \<open>The part of a snapshot both transports build alike: the processing entries, each with the
  first lease (in expiry order) that has its text, or with blanks when there is none.\<close>

definition ordered_leases :: "lane \<Rightarrow> lease_hash list" where
  "ordered_leases l = List.map_filter (map_of (ln_leases l)) (zrange (ln_expiry l))"

definition processing_entry :: "(string \<Rightarrow> queue_error + 'p) \<Rightarrow> lane \<Rightarrow> string \<Rightarrow> 'p leased_job option" where
  "processing_entry parse l raw =
    (case parse raw of
       Inl e \<Rightarrow> None
     | Inr payload \<Rightarrow>
         (case select_one (\<lambda>h. lh_raw h = raw) (ordered_leases l) of
            None \<Rightarrow> Some \<lparr>lj_token = [], lj_payload = payload, lj_raw_payload = raw, lj_worker_id = [],
                          lj_leased_at_ms = 0, lj_lease_timeout_ms = 0, lj_expires_at_ms = 0\<rparr>
          | Some h \<Rightarrow> Some \<lparr>lj_token = lh_token h, lj_payload = payload, lj_raw_payload = raw,
                            lj_worker_id = lh_worker_id h, lj_leased_at_ms = lh_leased_at_ms h,
                            lj_lease_timeout_ms = lh_lease_timeout_ms h,
                            lj_expires_at_ms = lh_expires_at_ms h\<rparr>))"

end
