(* ===== verification/Analysis_Queue.thy ===== *)
theory Analysis_Queue
  imports Job_Payload
begin

section \<open>The analysis job queue\<close>

text \<open>
  Models \<open>app/worker/queue.py\<close>: the payload model, the reading and writing of queue and dead-letter
  texts, and every queue function, as functions on the \<open>redis\<close> state. A function that raises
  returns the state as it was at the raise beside the exception. Times are the integer
  milliseconds of \<open>_utc_now_ms\<close>; the JSON texts go through the codec argument \<open>c\<close>.
\<close>

record analysis_payload =
  ap_job_id :: string
  ap_project_id :: string
  ap_organization_id :: "string option"
  ap_is_superadmin_context :: bool
  ap_priority :: string

definition analysis_fields :: "string list" where
  "analysis_fields = [''job_id'', ''project_id'', ''organization_id'', ''is_superadmin_context'', ''priority'']"

definition validate_analysis_job_payload :: "json \<Rightarrow> queue_error + analysis_payload" where
  "validate_analysis_job_payload j =
    (case j of
       JObj d \<Rightarrow>
         (let job_id = required_identifier d ''job_id'';
              project_id = required_identifier d ''project_id'';
              organization_id = optional_identifier d ''organization_id'';
              superadmin = strict_bool d ''is_superadmin_context'' False;
              priority = priority_field d;
              issues = issue ''job_id'' job_id @ issue ''project_id'' project_id @
                issue ''organization_id'' organization_id @ issue ''is_superadmin_context'' superadmin @
                issue ''priority'' priority @ extra_keys analysis_fields d
          in if issues \<noteq> [] then Inl (InvalidPayload issues)
             else if the organization_id = None \<and> \<not> the superadmin
             then Inl (InvalidPayload [''payload''])
             else Inr \<lparr>ap_job_id = the job_id, ap_project_id = the project_id,
                       ap_organization_id = the organization_id,
                       ap_is_superadmin_context = the superadmin, ap_priority = the priority\<rparr>)
     | _ \<Rightarrow> Inl (InvalidPayload [''payload'']))"

text \<open>\<open>payload.model_dump()\<close>\<close>

definition analysis_payload_json :: "analysis_payload \<Rightarrow> json" where
  "analysis_payload_json p = JObj
    [(''job_id'', JStr (ap_job_id p)), (''project_id'', JStr (ap_project_id p)),
     (''organization_id'', opt_json (ap_organization_id p)),
     (''is_superadmin_context'', JBool (ap_is_superadmin_context p)),
     (''priority'', JStr (ap_priority p))]"

definition parse_raw_payload :: "json_codec \<Rightarrow> string \<Rightarrow> queue_error + analysis_payload" where
  "parse_raw_payload c raw =
    (case loads c raw of
       None \<Rightarrow> Inl (InvalidPayload [''malformed JSON''])
     | Some (JObj d) \<Rightarrow> validate_analysis_job_payload (JObj d)
     | Some _ \<Rightarrow> Inl (InvalidPayload [''expected a JSON object'']))"

type_synonym leased_analysis_job = "analysis_payload leased_job"

definition lease_timeout_seconds :: "leased_analysis_job \<Rightarrow> int" where
  "lease_timeout_seconds j = max 1 (lj_lease_timeout_ms j div 1000)"

definition serialize_dlq_payload ::
  "json_codec \<Rightarrow> leased_analysis_job \<Rightarrow> int \<Rightarrow> string option \<Rightarrow> int \<Rightarrow> string" where
  "serialize_dlq_payload c lease attempt_count reason now_ms = dumps c (JObj
    [(''job_id'', JStr (ap_job_id (lj_payload lease))),
     (''project_id'', JStr (ap_project_id (lj_payload lease))),
     (''organization_id'', opt_json (ap_organization_id (lj_payload lease))),
     (''is_superadmin_context'', JBool (ap_is_superadmin_context (lj_payload lease))),
     (''raw_payload'', JStr (lj_raw_payload lease)),
     (''attempt_count'', JInt (max 0 attempt_count)),
     (''reason'', opt_json reason),
     (''moved_at_ms'', JInt now_ms)])"

text \<open>The dead-letter object itself is returned, with its \<open>raw_payload\<close> text beside it.\<close>

definition parse_dlq_payload :: "json_codec \<Rightarrow> string \<Rightarrow> queue_error + (json_obj \<times> string)" where
  "parse_dlq_payload c raw =
    (case loads c raw of
       None \<Rightarrow> Inl (InvalidPayload [''malformed JSON''])
     | Some (JObj d) \<Rightarrow>
         (case map_of d ''raw_payload'' of
            Some (JStr raw_payload) \<Rightarrow>
              if py_strip raw_payload = [] then Inl (InvalidPayload [''missing raw_payload''])
              else bind_res (parse_raw_payload c raw_payload) (\<lambda>_. Inr (d, raw_payload))
          | _ \<Rightarrow> Inl (InvalidPayload [''missing raw_payload'']))
     | Some _ \<Rightarrow> Inl (InvalidPayload [''expected a JSON object'']))"

subsection \<open>Producing\<close>

definition enqueue_raw_payload ::
  "redis \<Rightarrow> string \<Rightarrow> int option \<Rightarrow> int option \<Rightarrow> string \<Rightarrow> redis \<times> (queue_error + unit)" where
  "enqueue_raw_payload r raw_payload max_depth max_global_queued priority =
    (let normalized_priority = (if priority = ''critical'' then ''critical'' else ''standard'') in
     case max_depth of
       None \<Rightarrow> (r\<lparr>rd_analysis := push_queue normalized_priority raw_payload (rd_analysis r)\<rparr>, Inr ())
     | Some d \<Rightarrow>
         (case enqueue_with_limit_script (rd_analysis r) (rd_heavy r) raw_payload (max 1 d)
                 (cap_or_million max_global_queued) normalized_priority of
            (l, reply) \<Rightarrow> (r\<lparr>rd_analysis := l\<rparr>,
              if fst reply \<noteq> 1 then Inl (capacity_error d max_global_queued reply) else Inr ())))"

definition enqueue_analysis_job ::
  "json_codec \<Rightarrow> redis \<Rightarrow> string \<Rightarrow> string \<Rightarrow> string option \<Rightarrow> bool \<Rightarrow> int option \<Rightarrow> int option \<Rightarrow> string
    \<Rightarrow> redis \<times> (queue_error + unit)" where
  "enqueue_analysis_job c r job_id project_id organization_id is_superadmin max_depth max_global priority =
    (case validate_analysis_job_payload (JObj
        [(''job_id'', JStr job_id), (''project_id'', JStr project_id),
         (''organization_id'', opt_json organization_id),
         (''is_superadmin_context'', JBool is_superadmin), (''priority'', JStr priority)]) of
       Inl e \<Rightarrow> (r, Inl e)
     | Inr payload \<Rightarrow>
         enqueue_raw_payload r (dumps c (analysis_payload_json payload)) max_depth max_global
           (ap_priority payload))"

definition get_analysis_job_queue_counts :: "redis option \<Rightarrow> nat \<times> nat" where
  "get_analysis_job_queue_counts redis =
    (case redis of
       None \<Rightarrow> (0, 0)
     | Some r \<Rightarrow> (length (ln_queue (rd_analysis r)), length (ln_processing (rd_analysis r))))"

subsection \<open>Consuming\<close>

definition dequeue_analysis_job ::
  "json_codec \<Rightarrow> redis \<Rightarrow> string \<Rightarrow> int \<Rightarrow> int option \<Rightarrow> int \<Rightarrow> redis \<times> (queue_error + leased_analysis_job option)" where
  "dequeue_analysis_job c r worker_id timeout_seconds max_concurrent_jobs now_ms =
    (case lease_job_script (rd_analysis r) (rd_heavy r) now_ms worker_id (max 1 timeout_seconds * 1000)
            (cap_or_million max_concurrent_jobs) of
       (l, reply) \<Rightarrow> (r\<lparr>rd_analysis := l\<rparr>,
         case reply of
           LeaseReply h \<Rightarrow> bind_res (leased_job_of (parse_raw_payload c) h) (\<lambda>j. Inr (Some j))
         | _ \<Rightarrow> Inr None))"

text \<open>The replies \<open>-1\<close> (another owner) and \<open>1\<close> of a lease script.\<close>

definition owner_reply :: "leased_analysis_job \<Rightarrow> int \<Rightarrow> queue_error + bool" where
  "owner_reply lease n =
     (if n = -1 then Inl (LostLease (lj_token lease) (lj_worker_id lease)) else Inr (n = 1))"

definition ack_analysis_job :: "redis \<Rightarrow> leased_analysis_job \<Rightarrow> redis \<times> (queue_error + bool)" where
  "ack_analysis_job r lease =
    (case ack_job_script (rd_analysis r) (lj_token lease) (lj_worker_id lease) of
       (l, n) \<Rightarrow> (r\<lparr>rd_analysis := l\<rparr>, owner_reply lease n))"

definition renew_analysis_job_lease ::
  "redis \<Rightarrow> leased_analysis_job \<Rightarrow> int \<Rightarrow> int \<Rightarrow> redis \<times> (queue_error + leased_analysis_job)" where
  "renew_analysis_job_lease r lease timeout_seconds leased_at_ms =
    (let lease_timeout_ms = max 1 timeout_seconds * 1000 in
     case renew_lease_script (rd_analysis r) (lj_token lease) (lj_worker_id lease) leased_at_ms
            lease_timeout_ms of
       (l, n) \<Rightarrow> (r\<lparr>rd_analysis := l\<rparr>,
         if n \<noteq> 1 then Inl (LostLease (lj_token lease) (lj_worker_id lease))
         else Inr (lease\<lparr>lj_leased_at_ms := leased_at_ms, lj_lease_timeout_ms := lease_timeout_ms,
                         lj_expires_at_ms := leased_at_ms + lease_timeout_ms\<rparr>)))"

definition schedule_analysis_job_retry ::
  "redis \<Rightarrow> leased_analysis_job \<Rightarrow> int \<Rightarrow> redis \<times> (queue_error + bool)" where
  "schedule_analysis_job_retry r lease retry_at_ms =
    (case schedule_retry_script (rd_analysis r) (lj_token lease) (lj_worker_id lease)
            (lj_leased_at_ms lease) retry_at_ms of
       (l, n) \<Rightarrow> (r\<lparr>rd_analysis := l\<rparr>, owner_reply lease n))"

definition promote_scheduled_analysis_jobs ::
  "redis \<Rightarrow> int \<Rightarrow> nat \<Rightarrow> int \<Rightarrow> int option \<Rightarrow> redis \<times> nat" where
  "promote_scheduled_analysis_jobs r now_ms limit max_depth max_global_queued =
    (case promote_retry_script (rd_analysis r) (rd_heavy r) now_ms (max 1 limit) (max 1 max_depth)
            (cap_or_million max_global_queued) of
       (l, moved, blocked) \<Rightarrow> (r\<lparr>rd_analysis := l\<rparr>, moved))"

subsection \<open>Reaping and the dead-letter queue\<close>

text \<open>The \<open>all(...)\<close> guard drops a record with an empty text in it; of the five only the payload and
  the worker id can be empty. A payload that does not parse raises out of the whole read.\<close>

fun load_expired :: "json_codec \<Rightarrow> lane \<Rightarrow> string list \<Rightarrow> queue_error + leased_analysis_job list" where
  "load_expired c l [] = Inr []"
| "load_expired c l (token # tokens) =
    (case map_of (ln_leases l) token of
       None \<Rightarrow> load_expired c l tokens
     | Some h \<Rightarrow>
         if lh_raw h = [] \<or> lh_worker_id h = [] then load_expired c l tokens
         else bind_res (parse_raw_payload c (lh_raw h)) (\<lambda>payload.
           bind_res (load_expired c l tokens) (\<lambda>rest.
             Inr (\<lparr>lj_token = token, lj_payload = payload, lj_raw_payload = lh_raw h,
                   lj_worker_id = lh_worker_id h, lj_leased_at_ms = lh_leased_at_ms h,
                   lj_lease_timeout_ms = lh_lease_timeout_ms h,
                   lj_expires_at_ms = lh_expires_at_ms h\<rparr> # rest))))"

definition get_expired_analysis_job_leases ::
  "json_codec \<Rightarrow> redis \<Rightarrow> int \<Rightarrow> nat \<Rightarrow> queue_error + leased_analysis_job list" where
  "get_expired_analysis_job_leases c r now_ms limit =
     load_expired c (rd_analysis r) (zrangebyscore 0 now_ms (max 1 limit) (ln_expiry (rd_analysis r)))"

definition requeue_expired_analysis_job ::
  "redis \<Rightarrow> leased_analysis_job \<Rightarrow> int \<Rightarrow> int option \<Rightarrow> redis \<times> (queue_error + bool)" where
  "requeue_expired_analysis_job r lease max_depth max_global_queued =
    (case finalize_expired_lease_script (rd_analysis r) (rd_heavy r) (lj_token lease) (lj_leased_at_ms lease)
            ''requeue'' (max 1 max_depth) (cap_or_million max_global_queued) (ap_priority (lj_payload lease)) of
       (l, reply) \<Rightarrow> (r\<lparr>rd_analysis := l\<rparr>,
         if fst reply \<in> {0, -2} then Inl (capacity_error max_depth max_global_queued reply)
         else Inr (fst reply = 1)))"

definition drop_expired_analysis_job :: "redis \<Rightarrow> leased_analysis_job \<Rightarrow> redis \<times> bool" where
  "drop_expired_analysis_job r lease =
    (case finalize_expired_lease_script (rd_analysis r) (rd_heavy r) (lj_token lease) (lj_leased_at_ms lease)
            ''drop'' 0 1 (ap_priority (lj_payload lease)) of
       (l, reply) \<Rightarrow> (r\<lparr>rd_analysis := l\<rparr>, fst reply = 1))"

definition move_analysis_job_to_dlq ::
  "json_codec \<Rightarrow> redis \<Rightarrow> leased_analysis_job \<Rightarrow> int \<Rightarrow> string option \<Rightarrow> int \<Rightarrow> redis \<times> (queue_error + bool)" where
  "move_analysis_job_to_dlq c r lease attempt_count reason now_ms =
    (case move_to_dlq_script (rd_analysis r) (lj_token lease) (lj_worker_id lease) (lj_leased_at_ms lease)
            (serialize_dlq_payload c lease attempt_count reason now_ms) (ap_job_id (lj_payload lease)) of
       (l, n) \<Rightarrow> (r\<lparr>rd_analysis := l\<rparr>, owner_reply lease n))"

text \<open>The stored text of a dead-letter job: the last of its history while it is active, else the
  legacy single value.\<close>

definition dlq_text :: "lane \<Rightarrow> string \<Rightarrow> string option" where
  "dlq_text l job_id =
    (if job_id \<in> set (ln_dlq_active l)
     then (case map_of (ln_dlq_history l) job_id of
             Some (v # vs) \<Rightarrow> Some (last (v # vs)) | _ \<Rightarrow> None)
     else map_of (ln_dlq_legacy l) job_id)"

definition get_dlq_job :: "json_codec \<Rightarrow> redis \<Rightarrow> string \<Rightarrow> queue_error + json_obj option" where
  "get_dlq_job c r job_id =
    (case dlq_text (rd_analysis r) job_id of
       None \<Rightarrow> Inr None
     | Some raw \<Rightarrow> bind_res (parse_dlq_payload c raw) (\<lambda>p. Inr (Some (fst p))))"

definition requeue_dlq_job ::
  "json_codec \<Rightarrow> redis \<Rightarrow> string \<Rightarrow> int option \<Rightarrow> int option \<Rightarrow> redis \<times> (queue_error + json_obj option)" where
  "requeue_dlq_job c r job_id max_depth max_global_queued =
    (case dlq_text (rd_analysis r) job_id of
       None \<Rightarrow> (r, Inr None)
     | Some raw \<Rightarrow>
         (case parse_dlq_payload c raw of
            Inl e \<Rightarrow> (r, Inl e)
          | Inr (d, raw_payload) \<Rightarrow>
              (case enqueue_raw_payload r raw_payload max_depth max_global_queued ''standard'' of
                 (r', Inl e) \<Rightarrow> (r', Inl e)
               | (r', Inr u) \<Rightarrow>
                   let l = rd_analysis r' in
                   (if job_id \<in> set (ln_dlq_active l)
                    then r'\<lparr>rd_analysis := l\<lparr>ln_dlq_active := removeAll job_id (ln_dlq_active l)\<rparr>\<rparr>
                    else r'\<lparr>rd_analysis := l\<lparr>ln_dlq_legacy := AList.delete job_id (ln_dlq_legacy l)\<rparr>\<rparr>,
                    Inr (Some d)))))"

subsection \<open>Inspecting and purging\<close>

record analysis_snapshot =
  ts_queued :: "(string \<times> string) list"
  ts_processing :: "leased_analysis_job list"
  ts_scheduled_retry :: "(string \<times> string) list"
  ts_dlq_job_ids :: "string list"

definition readable_entries :: "json_codec \<Rightarrow> string list \<Rightarrow> (string \<times> string) list" where
  "readable_entries c raws = List.map_filter (\<lambda>raw.
     case parse_raw_payload c raw of Inl e \<Rightarrow> None | Inr p \<Rightarrow> Some (ap_job_id p, raw)) raws"

definition inspect_analysis_job_transport :: "json_codec \<Rightarrow> redis option \<Rightarrow> analysis_snapshot" where
  "inspect_analysis_job_transport c redis =
    (case redis of
       None \<Rightarrow> \<lparr>ts_queued = [], ts_processing = [], ts_scheduled_retry = [], ts_dlq_job_ids = []\<rparr>
     | Some r \<Rightarrow>
         let l = rd_analysis r in
         \<lparr>ts_queued = readable_entries c (ln_queue l),
          ts_processing = List.map_filter (processing_entry (parse_raw_payload c) l) (ln_processing l),
          ts_scheduled_retry = readable_entries c (zrange (ln_retry l)),
          ts_dlq_job_ids = ln_dlq_active l\<rparr>)"

definition has_any_entry :: "analysis_snapshot \<Rightarrow> string \<Rightarrow> bool" where
  "has_any_entry s job_id \<longleftrightarrow> job_id \<in> fst ` set (ts_queued s) \<or>
     job_id \<in> (\<lambda>j. ap_job_id (lj_payload j)) ` set (ts_processing s) \<or>
     job_id \<in> fst ` set (ts_scheduled_retry s) \<or> job_id \<in> set (ts_dlq_job_ids s)"

definition get_processing_lease :: "analysis_snapshot \<Rightarrow> string \<Rightarrow> leased_analysis_job option" where
  "get_processing_lease s job_id = select_one (\<lambda>j. ap_job_id (lj_payload j) = job_id) (ts_processing s)"

definition purge_processing :: "leased_analysis_job \<Rightarrow> lane \<Rightarrow> lane" where
  "purge_processing j l =
    (let l1 = (if lj_raw_payload j = [] then l
               else l\<lparr>ln_processing := removeAll (lj_raw_payload j) (ln_processing l)\<rparr>)
     in if lj_token j = [] then l1
        else l1\<lparr>ln_leases := AList.delete (lj_token j) (ln_leases l1),
                ln_expiry := AList.delete (lj_token j) (ln_expiry l1)\<rparr>)"

definition purge_analysis_job_transport ::
  "json_codec \<Rightarrow> redis \<Rightarrow> string \<Rightarrow> analysis_snapshot option \<Rightarrow> redis" where
  "purge_analysis_job_transport c r job_id snapshot =
    (let transport = (case snapshot of Some s \<Rightarrow> s | None \<Rightarrow> inspect_analysis_job_transport c (Some r));
         queued = filter (\<lambda>(j, raw). j = job_id) (ts_queued transport);
         leases = filter (\<lambda>j. ap_job_id (lj_payload j) = job_id) (ts_processing transport);
         retries = filter (\<lambda>(j, raw). j = job_id) (ts_scheduled_retry transport);
         l0 = rd_analysis r;
         l1 = l0\<lparr>ln_queue := fold (\<lambda>(j, raw). removeAll raw) queued (ln_queue l0)\<rparr>;
         l2 = fold purge_processing leases l1;
         l3 = l2\<lparr>ln_retry := fold (\<lambda>(j, raw). AList.delete raw) retries (ln_retry l2)\<rparr>;
         l4 = (if job_id \<in> set (ts_dlq_job_ids transport)
               then l3\<lparr>ln_dlq_active := removeAll job_id (ln_dlq_active l3)\<rparr> else l3)
     in r\<lparr>rd_analysis := l4\<rparr>)"

subsection \<open>Payloads\<close>

lemma issue_Nil [simp]: "issue k v = [] \<longleftrightarrow> v \<noteq> None"
  by (simp add: issue_def)

lemma validate_analysis_Inr:
  assumes "validate_analysis_job_payload j = Inr p"
  shows "trimmed (ap_job_id p)" "trimmed (ap_project_id p)" "trimmed_opt (ap_organization_id p)"
    "ap_priority p \<in> {''standard'', ''critical''}" "ap_organization_id p = None \<Longrightarrow> ap_is_superadmin_context p"
proof -
  obtain d where d: "j = JObj d"
    using assms by (cases j) (simp_all add: validate_analysis_job_payload_def)
  from assms show "trimmed (ap_job_id p)" "trimmed (ap_project_id p)" "trimmed_opt (ap_organization_id p)"
    "ap_priority p \<in> {''standard'', ''critical''}" "ap_organization_id p = None \<Longrightarrow> ap_is_superadmin_context p"
    unfolding d validate_analysis_job_payload_def Let_def
    by (auto split: if_splits dest: required_identifier_Some optional_identifier_Some priority_field_Some
        simp del: insert_iff)
qed

lemma validate_analysis_fields:
  assumes "required_identifier d ''job_id'' = Some j" "required_identifier d ''project_id'' = Some pr"
    "optional_identifier d ''organization_id'' = Some org" "strict_bool d ''is_superadmin_context'' False = Some admin"
    "priority_field d = Some prio" "extra_keys analysis_fields d = []" "org = None \<Longrightarrow> admin"
  shows "validate_analysis_job_payload (JObj d) = Inr \<lparr>ap_job_id = j, ap_project_id = pr,
    ap_organization_id = org, ap_is_superadmin_context = admin, ap_priority = prio\<rparr>"
  using assms by (cases org) (simp_all add: validate_analysis_job_payload_def)

lemma validate_analysis_json:
  assumes "trimmed (ap_job_id p)" "trimmed (ap_project_id p)" "trimmed_opt (ap_organization_id p)"
    "ap_priority p \<in> {''standard'', ''critical''}" "ap_organization_id p = None \<Longrightarrow> ap_is_superadmin_context p"
  shows "validate_analysis_job_payload (analysis_payload_json p) = Inr p"
proof -
  have "validate_analysis_job_payload (analysis_payload_json p) = Inr \<lparr>ap_job_id = ap_job_id p,
      ap_project_id = ap_project_id p, ap_organization_id = ap_organization_id p,
      ap_is_superadmin_context = ap_is_superadmin_context p, ap_priority = ap_priority p\<rparr>"
    unfolding analysis_payload_json_def
    using assms by (intro validate_analysis_fields)
      (auto intro: required_identifier_trimmed optional_identifier_trimmed priority_field_normal
         simp: strict_bool_def extra_keys_def analysis_fields_def)
  then show ?thesis by simp
qed

lemma parse_dumped_payload:
  assumes "validate_analysis_job_payload j = Inr p"
    and "loads c (dumps c (analysis_payload_json p)) = Some (analysis_payload_json p)"
  shows "parse_raw_payload c (dumps c (analysis_payload_json p)) = Inr p"
proof -
  have "validate_analysis_job_payload (analysis_payload_json p) = Inr p"
    using validate_analysis_Inr [OF assms(1)] by (intro validate_analysis_json)
  with assms(2) show ?thesis
    by (simp add: parse_raw_payload_def analysis_payload_json_def)
qed

subsection \<open>Queue functions in terms of the scripts\<close>

lemma enqueue_analysis_job_Inr:
  assumes "enqueue_analysis_job c r j pr org admin (Some d) g prio = (r', Inr ())"
  obtains p where
    "validate_analysis_job_payload (JObj [(''job_id'', JStr j), (''project_id'', JStr pr),
       (''organization_id'', opt_json org), (''is_superadmin_context'', JBool admin), (''priority'', JStr prio)]) = Inr p"
    "r' = r\<lparr>rd_analysis := push_queue (ap_priority p) (dumps c (analysis_payload_json p)) (rd_analysis r)\<rparr>"
    "lane_total (rd_analysis r) < max 1 d"
    "int (length (ln_queue (rd_analysis r)) + length (ln_queue (rd_heavy r))) < cap_or_million g"
proof -
  let ?v = "validate_analysis_job_payload (JObj [(''job_id'', JStr j), (''project_id'', JStr pr),
       (''organization_id'', opt_json org), (''is_superadmin_context'', JBool admin), (''priority'', JStr prio)])"
  from assms obtain p where p: "?v = Inr p"
    by (cases ?v) (simp_all add: enqueue_analysis_job_def)
  from validate_analysis_Inr(4) [OF this] have prio: "(if ap_priority p = ''critical'' then ''critical'' else ''standard'') = ap_priority p"
    by auto
  from assms p have "enqueue_raw_payload r (dumps c (analysis_payload_json p)) (Some d) g (ap_priority p) = (r', Inr ())"
    by (simp add: enqueue_analysis_job_def)
  then show ?thesis
    using that [OF p]
    by (auto simp: enqueue_raw_payload_def prio enqueue_with_limit_script_def guarded_push_def
        check_queue_capacity_def Let_def lane_total_def split: if_splits)
qed

lemma lease_head:
  assumes "ln_queue l = raw # rest" "int (length (ln_processing l) + length (ln_processing peer)) < cap"
  shows "\<exists>h l'. lease_job_script l peer now w timeout cap = (l', LeaseReply h) \<and> lh_raw h = raw \<and>
    lh_worker_id h = w \<and> lh_leased_at_ms h = now \<and> lh_expires_at_ms h = now + timeout \<and>
    ln_queue l' = rest \<and> ln_processing l' = ln_processing l @ [raw] \<and>
    map_of (ln_leases l') (lh_token h) = Some h"
  using assms by (simp add: lease_job_script_def Let_def update_conv')

lemma finalize_success:
  assumes "finalize_expired_lease_script l peer token at action d g prio = (l', 1, q, p, gl)"
  obtains h where "map_of (ln_leases l) token = Some h" "lh_leased_at_ms h = at"
    "l' = release_lease token h (if action = ''requeue'' then push_queue prio (lh_raw h) l else l)"
  using assms by (auto simp: finalize_expired_lease_script_def Let_def split: option.splits if_splits)

lemma finalize_stale:
  assumes "map_of (ln_leases l) token = Some h" "lh_leased_at_ms h \<noteq> at"
  shows "finalize_expired_lease_script l peer token at action d g prio = (l, -3, 0, 0, 0)"
  using assms by (simp add: finalize_expired_lease_script_def)

lemma requeue_expired_success:
  assumes "redis_inv r" "requeue_expired_analysis_job r lease d g = (r', Inr True)"
  shows "dead_token (lj_token lease) (rd_analysis r')" "redis_inv r'"
proof -
  obtain l' st q p gl where f: "finalize_expired_lease_script (rd_analysis r) (rd_heavy r) (lj_token lease)
      (lj_leased_at_ms lease) ''requeue'' (max 1 d) (cap_or_million g) (ap_priority (lj_payload lease)) = (l', st, q, p, gl)"
    by (metis prod_cases5)
  with assms(2) have r': "r' = r\<lparr>rd_analysis := l'\<rparr>" and "st = 1"
    by (auto simp: requeue_expired_analysis_job_def split: if_splits)
  with f obtain h where h: "map_of (ln_leases (rd_analysis r)) (lj_token lease) = Some h"
    and l': "l' = release_lease (lj_token lease) h (push_queue (ap_priority (lj_payload lease)) (lh_raw h) (rd_analysis r))"
    by (auto elim!: finalize_success)
  have "lane_inv (rd_analysis r)" using assms(1) by (simp add: redis_inv_def)
  from release_lease_dead [OF this h, of "push_queue (ap_priority (lj_payload lease)) (lh_raw h) (rd_analysis r)"] r' l'
  show "dead_token (lj_token lease) (rd_analysis r')"
    by (simp add: push_queue_def)
  show "redis_inv r'"
    using assms(1) finalize_expired_lease_script_inv [OF \<open>lane_inv (rd_analysis r)\<close> f] r'
    by (simp add: redis_inv_def)
qed

lemma load_expired_poison:
  assumes "token \<in> set tokens" "map_of (ln_leases l) token = Some h" "lh_raw h \<noteq> []" "lh_worker_id h \<noteq> []"
    and "parse_raw_payload c (lh_raw h) = Inl e"
  shows "\<exists>e'. load_expired c l tokens = Inl e'"
  using assms(1)
proof (induction tokens)
  case (Cons t tokens)
  show ?case
  proof (cases "t = token")
    case True
    with assms show ?thesis by simp
  next
    case False
    with Cons obtain e' where e': "load_expired c l tokens = Inl e'" by auto
    show ?thesis
    proof (cases "map_of (ln_leases l) t")
      case (Some h')
      with e' show ?thesis
        by (cases "parse_raw_payload c (lh_raw h')") auto
    qed (simp add: e')
  qed
qed simp

subsection \<open>Properties\<close>

text \<open>A job accepted by \<open>enqueue_analysis_job\<close> at the head of the lane (a critical one, or one that
  found the lane empty) is what the next \<open>dequeue_analysis_job\<close> with capacity leases: the payload
  comes back normalised (identifiers trimmed, priority in lower case) through the JSON text, the
  lease belongs to that worker and expires after the timeout, and the job moves from the queue to
  the processing list.\<close>

theorem enqueued_job_is_leased_next:
  assumes "enqueue_analysis_job c r j pr org admin (Some d) g prio = (r', Inr ())"
    and "py_lower (py_strip prio) = ''critical'' \<or> ln_queue (rd_analysis r) = []"
    and "loads c (dumps c (analysis_payload_json p)) = Some (analysis_payload_json p)"
    and "p = \<lparr>ap_job_id = py_strip j, ap_project_id = py_strip pr, ap_organization_id = map_option py_strip org,
              ap_is_superadmin_context = admin, ap_priority = py_lower (py_strip prio)\<rparr>"
    and "int (length (ln_processing (rd_analysis r)) + length (ln_processing (rd_heavy r))) < cap_or_million m"
  shows "case dequeue_analysis_job c r' w timeout m now of
      (r'', Inr (Some lease)) \<Rightarrow>
        lj_payload lease = p \<and> lj_worker_id lease = w \<and>
        lj_expires_at_ms lease = now + max 1 timeout * 1000 \<and>
        ln_queue (rd_analysis r'') = ln_queue (rd_analysis r) \<and>
        ln_processing (rd_analysis r'') = ln_processing (rd_analysis r) @ [lj_raw_payload lease] \<and>
        rd_heavy r'' = rd_heavy r
    | _ \<Rightarrow> False"
proof -
  from assms(1) obtain q where v: "validate_analysis_job_payload (JObj [(''job_id'', JStr j), (''project_id'', JStr pr),
       (''organization_id'', opt_json org), (''is_superadmin_context'', JBool admin), (''priority'', JStr prio)]) = Inr q"
    and r': "r' = r\<lparr>rd_analysis := push_queue (ap_priority q) (dumps c (analysis_payload_json q)) (rd_analysis r)\<rparr>"
    by (rule enqueue_analysis_job_Inr)
  have q: "q = p"
    using v unfolding assms(4)
    by (auto simp: validate_analysis_job_payload_def Let_def required_identifier_def optional_identifier_def
        identifier_value_def strict_bool_def priority_field_def opt_json_def split: if_splits option.splits)
  let ?raw = "dumps c (analysis_payload_json p)"
  have "ln_queue (rd_analysis r') = ?raw # ln_queue (rd_analysis r)"
    using assms(2,4) by (auto simp: r' q push_queue_def)
  moreover have "ln_processing (rd_analysis r') = ln_processing (rd_analysis r)" "rd_heavy r' = rd_heavy r"
    by (simp_all add: r' push_queue_def)
  ultimately obtain h l' where "lease_job_script (rd_analysis r') (rd_heavy r') now w (max 1 timeout * 1000) (cap_or_million m) = (l', LeaseReply h)"
    "lh_raw h = ?raw" "lh_worker_id h = w" "lh_expires_at_ms h = now + max 1 timeout * 1000"
    "ln_queue l' = ln_queue (rd_analysis r)" "ln_processing l' = ln_processing (rd_analysis r) @ [?raw]"
    using assms(5) lease_head [of "rd_analysis r'" ?raw "ln_queue (rd_analysis r)" "rd_heavy r'" "cap_or_million m" now w "max 1 timeout * 1000"]
    by auto
  with parse_dumped_payload [OF v [unfolded q] assms(3)] \<open>rd_heavy r' = rd_heavy r\<close> show ?thesis
    by (simp add: dequeue_analysis_job_def leased_job_of_def)
qed

definition sample_payload :: analysis_payload where
  "sample_payload = \<lparr>ap_job_id = ''job_1'', ap_project_id = ''p1'', ap_organization_id = Some ''o1'',
     ap_is_superadmin_context = False, ap_priority = ''critical''\<rparr>"

definition sample_codec :: json_codec where
  "sample_codec = table_codec [(analysis_payload_json sample_payload, ''{job_1}'')]"

theorem enqueued_job_is_leased_next_witness:
  "case dequeue_analysis_job sample_codec
      (fst (enqueue_analysis_job sample_codec empty_redis '' job_1 '' ''p1'' (Some ''o1 '') False (Some 5) None ''Critical''))
      ''w'' 30 None 1000 of
      (r'', Inr (Some lease)) \<Rightarrow>
        lj_payload lease = sample_payload \<and> lj_worker_id lease = ''w'' \<and>
        lj_expires_at_ms lease = 1000 + max 1 30 * 1000 \<and>
        ln_queue (rd_analysis r'') = ln_queue (rd_analysis empty_redis) \<and>
        ln_processing (rd_analysis r'') = ln_processing (rd_analysis empty_redis) @ [lj_raw_payload lease] \<and>
        rd_heavy r'' = rd_heavy empty_redis
    | _ \<Rightarrow> False"
  by (rule enqueued_job_is_leased_next [where j = "'' job_1 ''" and pr = "''p1''" and org = "Some ''o1 ''"
        and admin = False and d = 5 and g = None and prio = "''Critical''"]) code_simp+

text \<open>C2: A lease that the reaper has requeued is dead for good: whatever the two lanes do afterwards,
  the worker that held it cannot acknowledge, renew, retry or dead-letter it, and its attempts
  change nothing, so a slow worker cannot remove the job another worker now holds.\<close>

theorem reaped_lease_is_dead:
  assumes "redis_inv r" "requeue_expired_analysis_job r lease d g = (r', Inr True)"
    and "r'' = run_ops (redis_step caps) ops r'"
  shows "ack_analysis_job r'' lease = (r'', Inr False) \<and>
    renew_analysis_job_lease r'' lease timeout now = (r'', Inl (LostLease (lj_token lease) (lj_worker_id lease))) \<and>
    schedule_analysis_job_retry r'' lease retry_at = (r'', Inr False) \<and>
    move_analysis_job_to_dlq c r'' lease attempts reason now = (r'', Inr False) \<and>
    requeue_expired_analysis_job r'' lease d' g' = (r'', Inr False)"
proof -
  have "dead_token (lj_token lease) (side_lane AnalysisSide r')"
    using requeue_expired_success(1) [OF assms(1,2)] by simp
  then have "dead_token (lj_token lease) (side_lane AnalysisSide r'')"
    unfolding assms(3) by (rule run_dead_token)
  then have "dead_token (lj_token lease) (rd_analysis r'')" by simp
  note refused = dead_token_refused [OF this]
  show ?thesis
    by (simp add: ack_analysis_job_def renew_analysis_job_lease_def schedule_analysis_job_retry_def
        move_analysis_job_to_dlq_def requeue_expired_analysis_job_def owner_reply_def refused)
qed

definition leased_sample :: "redis \<times> leased_analysis_job" where
  "leased_sample =
    (case dequeue_analysis_job sample_codec
       (fst (enqueue_analysis_job sample_codec empty_redis ''job_1'' ''p1'' (Some ''o1'') False (Some 5) None ''critical''))
       ''w'' 30 None 1000 of (r, Inr (Some lease)) \<Rightarrow> (r, lease))"

lemma leased_sample_inv: "redis_inv (fst leased_sample)"
  unfolding redis_inv_def lane_inv_def by code_simp

theorem reaped_lease_is_dead_witness:
  "let lease = snd leased_sample;
       r' = fst (requeue_expired_analysis_job (fst leased_sample) lease 5 None);
       r'' = run_ops (redis_step \<lparr>cp_concurrent = 4, cp_analysis_depth = 5, cp_heavy_depth = 5, cp_global = 9\<rparr>)
               [(AnalysisSide, LLease 40000 ''v'' 1000), (HeavySide, LEnqueue ''x'' ''standard'')] r'
   in ack_analysis_job r'' lease = (r'', Inr False) \<and>
      renew_analysis_job_lease r'' lease 30 50000 = (r'', Inl (LostLease (lj_token lease) (lj_worker_id lease))) \<and>
      schedule_analysis_job_retry r'' lease 60000 = (r'', Inr False) \<and>
      move_analysis_job_to_dlq sample_codec r'' lease 3 None 50000 = (r'', Inr False) \<and>
      requeue_expired_analysis_job r'' lease 5 None = (r'', Inr False)"
  unfolding Let_def
  by (rule reaped_lease_is_dead [where d = 5 and g = None, OF leased_sample_inv _ refl]) code_simp

text \<open>C28: A renewed lease is safe from a reaper that read it before the renewal: neither the requeue
  nor the drop of the stale record does anything, and the stale record can no longer schedule a
  retry or dead-letter the job either.\<close>

theorem renewal_fences_stale_lease:
  assumes "renew_analysis_job_lease r lease timeout now = (r', Inr lease')"
    and "now \<noteq> lj_leased_at_ms stale" "lj_token stale = lj_token lease" "lj_worker_id stale = lj_worker_id lease"
  shows "requeue_expired_analysis_job r' stale d g = (r', Inr False) \<and>
    drop_expired_analysis_job r' stale = (r', False) \<and>
    schedule_analysis_job_retry r' stale retry_at = (r', Inr False) \<and>
    move_analysis_job_to_dlq c r' stale attempts reason t = (r', Inr False)"
proof -
  obtain l n where rn: "renew_lease_script (rd_analysis r) (lj_token lease) (lj_worker_id lease) now (max 1 timeout * 1000) = (l, n)"
    by (cases "renew_lease_script (rd_analysis r) (lj_token lease) (lj_worker_id lease) now (max 1 timeout * 1000)")
  with assms(1) have r': "r' = r\<lparr>rd_analysis := l\<rparr>" and "n = 1"
    by (auto simp: renew_analysis_job_lease_def Let_def split: if_splits)
  with rn obtain h where "map_of (ln_leases l) (lj_token lease) = Some h" "lh_leased_at_ms h = now"
    "lh_worker_id h = lj_worker_id lease"
    by (auto simp: renew_lease_script_def Let_def update_conv' split: option.splits if_splits)
  with assms(2-4) show ?thesis
    by (simp add: r' requeue_expired_analysis_job_def drop_expired_analysis_job_def finalize_stale
        schedule_analysis_job_retry_def schedule_retry_script_def move_analysis_job_to_dlq_def
        move_to_dlq_script_def owner_reply_def)
qed

theorem renewal_fences_stale_lease_witness:
  "let stale = snd leased_sample;
       r' = fst (renew_analysis_job_lease (fst leased_sample) stale 30 2000)
   in requeue_expired_analysis_job r' stale 5 None = (r', Inr False) \<and>
      drop_expired_analysis_job r' stale = (r', False) \<and>
      schedule_analysis_job_retry r' stale 3000 = (r', Inr False) \<and>
      move_analysis_job_to_dlq sample_codec r' stale 1 None 3000 = (r', Inr False)"
  unfolding Let_def
  by (rule renewal_fences_stale_lease [where r = "fst leased_sample" and lease = "snd leased_sample"
        and timeout = 30 and now = 2000 and
        lease' = "(snd leased_sample)\<lparr>lj_leased_at_ms := 2000, lj_lease_timeout_ms := 30000, lj_expires_at_ms := 32000\<rparr>"])
     code_simp+

text \<open>Payload validation normalises and is idempotent: whatever object it accepts, the result has
  trimmed non-empty identifiers, a priority of the two, and a tenant unless it is a superadmin's;
  and validating the dumped result gives it back unchanged.\<close>

theorem validation_normal_form:
  assumes "validate_analysis_job_payload j = Inr p"
  shows "validate_analysis_job_payload (analysis_payload_json p) = Inr p \<and>
    trimmed (ap_job_id p) \<and> trimmed (ap_project_id p) \<and> trimmed_opt (ap_organization_id p) \<and>
    ap_priority p \<in> {''standard'', ''critical''} \<and>
    \<not> (ap_organization_id p = None \<and> \<not> ap_is_superadmin_context p)"
  using validate_analysis_Inr [OF assms] by (auto intro!: validate_analysis_json)

theorem validation_normal_form_witness:
  "validate_analysis_job_payload (analysis_payload_json sample_payload) = Inr sample_payload \<and>
    trimmed (ap_job_id sample_payload) \<and> trimmed (ap_project_id sample_payload) \<and>
    trimmed_opt (ap_organization_id sample_payload) \<and>
    ap_priority sample_payload \<in> {''standard'', ''critical''} \<and>
    \<not> (ap_organization_id sample_payload = None \<and> \<not> ap_is_superadmin_context sample_payload)"
  by (rule validation_normal_form [where j = "JObj [(''job_id'', JStr '' job_1''), (''project_id'', JStr ''p1''),
        (''organization_id'', JStr ''o1''), (''priority'', JStr ''CRITICAL'')]"]) code_simp

text \<open>One unreadable payload among the expired leases hides all the others: the read of the expired
  leases raises, whatever else is due, so the reaper requeues nothing while that lease is within
  its batch. (The heavy queue's read skips such a record.)\<close>

theorem poison_payload_blocks_reaper:
  assumes "token \<in> set (zrangebyscore 0 now (max 1 limit) (ln_expiry (rd_analysis r)))"
    and "map_of (ln_leases (rd_analysis r)) token = Some h" "lh_raw h \<noteq> []" "lh_worker_id h \<noteq> []"
    and "parse_raw_payload c (lh_raw h) = Inl e"
  shows "\<not> is_ok (get_expired_analysis_job_leases c r now limit)"
  using load_expired_poison [OF assms(1-5)]
  by (auto simp: get_expired_analysis_job_leases_def)

definition poisoned_sample :: redis where
  "poisoned_sample = run_ops (redis_step \<lparr>cp_concurrent = 4, cp_analysis_depth = 5, cp_heavy_depth = 5, cp_global = 9\<rparr>)
     [(AnalysisSide, LEnqueue ''{job_1}'' ''standard''), (AnalysisSide, LEnqueue ''junk'' ''standard''),
      (AnalysisSide, LLease 1000 ''w'' 30000), (AnalysisSide, LLease 1001 ''w'' 30000)] empty_redis"

theorem poison_payload_blocks_reaper_witness:
  "\<not> is_ok (get_expired_analysis_job_leases sample_codec poisoned_sample 90000 100)"
  by (rule poison_payload_blocks_reaper [where token = "''2''" and e = "InvalidPayload [''malformed JSON'']" and
        h = "\<lparr>lh_token = ''2'', lh_raw = ''junk'', lh_worker_id = ''w'', lh_leased_at_ms = 1001,
              lh_lease_timeout_ms = 30000, lh_expires_at_ms = 31001\<rparr>"]) code_simp+

subsection \<open>Purging\<close>

definition job_of :: "json_codec \<Rightarrow> string \<Rightarrow> string option" where
  "job_of c raw = (case parse_raw_payload c raw of Inl e \<Rightarrow> None | Inr p \<Rightarrow> Some (ap_job_id p))"

lemma readable_entries_set: "(j, raw) \<in> set (readable_entries c raws) \<longleftrightarrow> raw \<in> set raws \<and> job_of c raw = Some j"
  by (auto simp: readable_entries_def List.map_filter_def job_of_def split: sum.splits) (force split: sum.splits)+

lemma fold_removeAll: "fold (\<lambda>(j, raw). removeAll raw) xs q = filter (\<lambda>raw. raw \<notin> snd ` set xs) q"
  by (induction xs arbitrary: q) (auto simp: removeAll_filter_not_eq intro: filter_cong)

lemma fold_delete: "fold (\<lambda>(j, raw). AList.delete raw) xs q = filter (\<lambda>(raw, t). raw \<notin> snd ` set xs) q"
  by (induction xs arbitrary: q) (auto simp: AList.delete_eq case_prod_beta image_iff intro!: filter_cong)

lemma fold_purge_processing:
  "ln_processing (fold purge_processing js l) =
     filter (\<lambda>raw. raw = [] \<or> raw \<notin> lj_raw_payload ` set js) (ln_processing l)"
  "ln_queue (fold purge_processing js l) = ln_queue l"
  "ln_retry (fold purge_processing js l) = ln_retry l"
  "ln_dlq_active (fold purge_processing js l) = ln_dlq_active l"
  by (induction js arbitrary: l)
     (auto simp: purge_processing_def Let_def removeAll_filter_not_eq intro!: filter_cong)

lemma processing_entry_Some:
  assumes "processing_entry (parse_raw_payload c) l raw = Some j"
  shows "lj_raw_payload j = raw" "job_of c raw = Some (ap_job_id (lj_payload j))"
    "job_of c (lj_raw_payload j) = Some (ap_job_id (lj_payload j))"
  using assms by (auto simp: processing_entry_def job_of_def split: sum.splits option.splits)

lemma processing_entry_ex:
  assumes "job_of c raw = Some i"
  shows "\<exists>j. processing_entry (parse_raw_payload c) l raw = Some j"
  using assms by (auto simp: processing_entry_def job_of_def split: sum.splits option.splits)

lemma inspected_processing_raws:
  "lj_raw_payload ` {j \<in> set (ts_processing (inspect_analysis_job_transport c (Some r))). ap_job_id (lj_payload j) = i} =
     {raw \<in> set (ln_processing (rd_analysis r)). job_of c raw = Some i}" (is "?L = ?R")
proof
  show "?L \<subseteq> ?R"
    by (auto simp: inspect_analysis_job_transport_def Let_def List.map_filter_def dest: processing_entry_Some)
  show "?R \<subseteq> ?L"
  proof
    fix raw assume raw: "raw \<in> ?R"
    then obtain j where j: "processing_entry (parse_raw_payload c) (rd_analysis r) raw = Some j"
      using processing_entry_ex by blast
    with raw have "j \<in> set (ts_processing (inspect_analysis_job_transport c (Some r)))"
      by (force simp: inspect_analysis_job_transport_def Let_def List.map_filter_def)
    with processing_entry_Some [OF j] raw show "raw \<in> ?L" by force
  qed
qed

lemma purge_lists:
  assumes "loads c [] = None"
    and "l = rd_analysis r" "l' = rd_analysis (purge_analysis_job_transport c r i None)"
  shows "ln_queue l' = filter (\<lambda>raw. job_of c raw \<noteq> Some i) (ln_queue l)"
    "ln_processing l' = filter (\<lambda>raw. job_of c raw \<noteq> Some i) (ln_processing l)"
    "ln_retry l' = filter (\<lambda>(raw, t). job_of c raw \<noteq> Some i) (ln_retry l)"
    "ln_dlq_active l' = removeAll i (ln_dlq_active l)"
proof -
  have nil: "job_of c [] = None"
    using assms(1) by (simp add: job_of_def parse_raw_payload_def)
  let ?s = "inspect_analysis_job_transport c (Some r)"
  have q: "snd ` {x \<in> set (readable_entries c raws). fst x = i} = {raw \<in> set raws. job_of c raw = Some i}" for raws
  proof (rule set_eqI)
    fix raw
    have "raw \<in> snd ` {x \<in> set (readable_entries c raws). fst x = i} \<longleftrightarrow> (i, raw) \<in> set (readable_entries c raws)"
      by force
    then show "raw \<in> snd ` {x \<in> set (readable_entries c raws). fst x = i} \<longleftrightarrow> raw \<in> {raw \<in> set raws. job_of c raw = Some i}"
      by (simp add: readable_entries_set)
  qed
  have s: "ts_queued ?s = readable_entries c (ln_queue l)" "ts_scheduled_retry ?s = readable_entries c (zrange (ln_retry l))"
    "ts_dlq_job_ids ?s = ln_dlq_active l"
    by (simp_all add: assms(2) inspect_analysis_job_transport_def Let_def)
  note defs = assms(3) purge_analysis_job_transport_def Let_def option.case fold_purge_processing fold_removeAll
    fold_delete s case_prod_beta set_filter q inspected_processing_raws
  show "ln_queue l' = filter (\<lambda>raw. job_of c raw \<noteq> Some i) (ln_queue l)"
    by (auto simp: defs assms(2) intro!: filter_cong)
  show "ln_processing l' = filter (\<lambda>raw. job_of c raw \<noteq> Some i) (ln_processing l)"
    using nil by (auto simp: defs assms(2) intro!: filter_cong)
  show "ln_retry l' = filter (\<lambda>(raw, t). job_of c raw \<noteq> Some i) (ln_retry l)"
    by (auto simp: defs assms(2) zrange_def intro!: filter_cong) (metis fst_conv image_eqI)
  show "ln_dlq_active l' = removeAll i (ln_dlq_active l)"
    by (auto simp: defs assms(2))
qed

text \<open>Purging a job removes it and nothing else: afterwards no inspection finds the job queued, in
  processing, scheduled for retry or dead-lettered, and the entries of every other job, and the
  heavy lane, are what they were, in their order.\<close>

theorem purge_removes_exactly_the_job:
  assumes "loads c [] = None"
    and "r' = purge_analysis_job_transport c r i None"
  shows "\<not> has_any_entry (inspect_analysis_job_transport c (Some r')) i \<and>
    ln_queue (rd_analysis r') = filter (\<lambda>raw. job_of c raw \<noteq> Some i) (ln_queue (rd_analysis r)) \<and>
    ln_processing (rd_analysis r') = filter (\<lambda>raw. job_of c raw \<noteq> Some i) (ln_processing (rd_analysis r)) \<and>
    ln_retry (rd_analysis r') = filter (\<lambda>(raw, t). job_of c raw \<noteq> Some i) (ln_retry (rd_analysis r)) \<and>
    ln_dlq_active (rd_analysis r') = removeAll i (ln_dlq_active (rd_analysis r)) \<and>
    rd_heavy r' = rd_heavy r"
proof -
  note lists = purge_lists [OF assms(1) refl refl, of r i, folded assms(2)]
  let ?s = "inspect_analysis_job_transport c (Some r')"
  have "i \<notin> fst ` set (ts_queued ?s)" "i \<notin> fst ` set (ts_scheduled_retry ?s)" "i \<notin> set (ts_dlq_job_ids ?s)"
    by (auto simp: inspect_analysis_job_transport_def Let_def readable_entries_set lists zrange_def)
  moreover have "{j \<in> set (ts_processing ?s). ap_job_id (lj_payload j) = i} = {}"
    using inspected_processing_raws [of c r' i] by (auto simp: lists)
  ultimately have "\<not> has_any_entry ?s i"
    by (auto simp: has_any_entry_def)
  then show ?thesis
    by (simp add: lists) (simp add: assms(2) purge_analysis_job_transport_def Let_def)
qed

theorem purge_removes_exactly_the_job_witness:
  "let r' = purge_analysis_job_transport sample_codec poisoned_sample ''job_1'' None in
    \<not> has_any_entry (inspect_analysis_job_transport sample_codec (Some r')) ''job_1'' \<and>
    ln_queue (rd_analysis r') = filter (\<lambda>raw. job_of sample_codec raw \<noteq> Some ''job_1'') (ln_queue (rd_analysis poisoned_sample)) \<and>
    ln_processing (rd_analysis r') = filter (\<lambda>raw. job_of sample_codec raw \<noteq> Some ''job_1'') (ln_processing (rd_analysis poisoned_sample)) \<and>
    ln_retry (rd_analysis r') = filter (\<lambda>(raw, t). job_of sample_codec raw \<noteq> Some ''job_1'') (ln_retry (rd_analysis poisoned_sample)) \<and>
    ln_dlq_active (rd_analysis r') = removeAll ''job_1'' (ln_dlq_active (rd_analysis poisoned_sample)) \<and>
    rd_heavy r' = rd_heavy poisoned_sample"
  unfolding Let_def by (rule purge_removes_exactly_the_job [OF _ refl]) code_simp

subsection \<open>Dead letters\<close>

definition dlq_object :: "leased_analysis_job \<Rightarrow> int \<Rightarrow> string option \<Rightarrow> int \<Rightarrow> json_obj" where
  "dlq_object lease attempt_count reason now_ms =
    [(''job_id'', JStr (ap_job_id (lj_payload lease))),
     (''project_id'', JStr (ap_project_id (lj_payload lease))),
     (''organization_id'', opt_json (ap_organization_id (lj_payload lease))),
     (''is_superadmin_context'', JBool (ap_is_superadmin_context (lj_payload lease))),
     (''raw_payload'', JStr (lj_raw_payload lease)),
     (''attempt_count'', JInt (max 0 attempt_count)),
     (''reason'', opt_json reason),
     (''moved_at_ms'', JInt now_ms)]"

lemma serialize_dlq_object: "serialize_dlq_payload c lease n reason t = dumps c (JObj (dlq_object lease n reason t))"
  by (simp add: serialize_dlq_payload_def dlq_object_def)

lemma parse_serialized_dlq:
  assumes "loads c (dumps c (JObj (dlq_object lease n reason t))) = Some (JObj (dlq_object lease n reason t))"
    and "py_strip (lj_raw_payload lease) \<noteq> []" "parse_raw_payload c (lj_raw_payload lease) = Inr p"
  shows "parse_dlq_payload c (serialize_dlq_payload c lease n reason t) =
    Inr (dlq_object lease n reason t, lj_raw_payload lease)"
  using assms by (simp add: parse_dlq_payload_def serialize_dlq_object) (simp add: dlq_object_def)

lemma push_history_last: "\<exists>v vs. map_of (push_history k x hs) k = Some (v # vs) \<and> last (v # vs) = x"
proof -
  obtain old where "map_of (push_history k x hs) k = Some (old @ [x])"
    by (simp add: push_history_def update_conv')
  moreover have "\<exists>v vs. old @ [x] = v # vs"
    by (metis append_is_Nil_conv list.exhaust not_Cons_self2)
  ultimately show ?thesis
    by (metis last_snoc)
qed

lemma enqueue_raw_payload_accepts:
  "is_ok (snd (enqueue_raw_payload r raw (Some d) g prio)) \<longleftrightarrow>
     lane_total (rd_analysis r) < max 1 d \<and>
     int (length (ln_queue (rd_analysis r)) + length (ln_queue (rd_heavy r))) < cap_or_million g"
  by (auto simp: enqueue_raw_payload_def enqueue_with_limit_script_def guarded_push_def check_queue_capacity_def
      Let_def lane_total_def)

text \<open>A job that is refused changes nothing.\<close>

lemma enqueue_raw_payload_refuses:
  "\<not> is_ok (snd (enqueue_raw_payload r raw (Some d) g prio)) \<Longrightarrow> fst (enqueue_raw_payload r raw (Some d) g prio) = r"
  by (auto simp: enqueue_raw_payload_def enqueue_with_limit_script_def guarded_push_def check_queue_capacity_def Let_def
      split: if_splits)

lemma enqueue_raw_payload_pushes:
  "is_ok (snd (enqueue_raw_payload r raw (Some d) g prio)) \<Longrightarrow>
     enqueue_raw_payload r raw (Some d) g prio =
       (r\<lparr>rd_analysis := push_queue (if prio = ''critical'' then ''critical'' else ''standard'') raw (rd_analysis r)\<rparr>, Inr ())"
  by (auto simp: enqueue_raw_payload_def enqueue_with_limit_script_def guarded_push_def check_queue_capacity_def Let_def
      split: if_splits)

text \<open>C29: Dead-lettering a leased job and requeueing it from the dead-letter queue gives back its very
  payload text. If the queue has room under the caps the requeue is called with, the lease is dead, the job is no longer
  dead-lettered, the stored record is returned, and the text is last in the queue, whatever the priority in the payload
  says (a critical job loses its place); if it has none, the call raises and Redis is as the dead-lettering left it, so
  the job is still dead-lettered.\<close>

theorem dead_letter_roundtrip:
  assumes "redis_inv r" "move_analysis_job_to_dlq c r lease n reason t = (r1, Inr True)"
    and "map_of (ln_leases (rd_analysis r)) (lj_token lease) = Some h" "lh_raw h = lj_raw_payload lease"
    and "loads c (dumps c (JObj (dlq_object lease n reason t))) = Some (JObj (dlq_object lease n reason t))"
    and "py_strip (lj_raw_payload lease) \<noteq> []" "parse_raw_payload c (lj_raw_payload lease) = Inr p"
  shows "case requeue_dlq_job c r1 (ap_job_id (lj_payload lease)) (Some d) g of (r2, res) \<Rightarrow>
    if lane_total (rd_analysis r1) < max 1 d \<and>
       int (length (ln_queue (rd_analysis r1)) + length (ln_queue (rd_heavy r1))) < cap_or_million g
    then res = Inr (Some (dlq_object lease n reason t)) \<and>
      ln_queue (rd_analysis r2) = ln_queue (rd_analysis r) @ [lj_raw_payload lease] \<and>
      dead_token (lj_token lease) (rd_analysis r2) \<and>
      ap_job_id (lj_payload lease) \<notin> set (ln_dlq_active (rd_analysis r2))
    else \<not> is_ok res \<and> r2 = r1 \<and> ap_job_id (lj_payload lease) \<in> set (ln_dlq_active (rd_analysis r2))"
proof -
  let ?j = "ap_job_id (lj_payload lease)" and ?x = "serialize_dlq_payload c lease n reason t"
  let ?m = "(rd_analysis r)\<lparr>ln_dlq_history := push_history ?j ?x (ln_dlq_history (rd_analysis r)),
    ln_dlq_active := List.insert ?j (ln_dlq_active (rd_analysis r))\<rparr>"
  let ?l = "release_lease (lj_token lease) h ?m"
  have r1: "r1 = r\<lparr>rd_analysis := ?l\<rparr>"
    using assms(2,3)
    by (auto simp: move_analysis_job_to_dlq_def move_to_dlq_script_def owner_reply_def split: if_splits prod.splits)
  have dead: "dead_token (lj_token lease) ?l"
    using assms(1,3) by (intro release_lease_dead) (auto simp: redis_inv_def)
  obtain v vs where "map_of (push_history ?j ?x (ln_dlq_history (rd_analysis r))) ?j = Some (v # vs)" "last (v # vs) = ?x"
    using push_history_last by blast
  then have stored: "dlq_text (rd_analysis r1) ?j = Some ?x"
    by (simp add: r1 dlq_text_def release_lease_def)
  have listed: "?j \<in> set (ln_dlq_active (rd_analysis r1))" by (simp add: r1 release_lease_def)
  let ?push = "enqueue_raw_payload r1 (lj_raw_payload lease) (Some d) g ''standard''"
  note room = enqueue_raw_payload_accepts [symmetric, where r = r1 and raw = "lj_raw_payload lease" and d = d and g = g and prio = "''standard''"]
  show ?thesis
  proof (cases "is_ok (snd ?push)")
    case True
    have "?push = (r1\<lparr>rd_analysis := push_queue ''standard'' (lj_raw_payload lease) (rd_analysis r1)\<rparr>, Inr ())"
      using enqueue_raw_payload_pushes [OF True] by simp
    with stored listed have "requeue_dlq_job c r1 ?j (Some d) g =
        (r1\<lparr>rd_analysis := (push_queue ''standard'' (lj_raw_payload lease) (rd_analysis r1))\<lparr>ln_dlq_active :=
           removeAll ?j (ln_dlq_active (rd_analysis r1))\<rparr>\<rparr>, Inr (Some (dlq_object lease n reason t)))"
      by (simp add: requeue_dlq_job_def parse_serialized_dlq [OF assms(5-7)] Let_def push_queue_def)
    with True dead show ?thesis
      unfolding room by (simp add: r1 push_queue_def release_lease_def dead_token_def)
  next
    case False
    obtain r' e where push: "?push = (r', Inl e)" using False by (cases ?push; cases "snd ?push") auto
    have "r' = r1" using enqueue_raw_payload_refuses [OF False] push by simp
    with stored push have "requeue_dlq_job c r1 ?j (Some d) g = (r1, Inl e)"
      by (simp add: requeue_dlq_job_def parse_serialized_dlq [OF assms(5-7)])
    with False listed show ?thesis unfolding room by simp
  qed
qed

definition dlq_sample_codec :: json_codec where
  "dlq_sample_codec = table_codec [(analysis_payload_json sample_payload, ''{job_1}''),
     (JObj (dlq_object (snd leased_sample) 3 (Some ''boom'') 2000), ''{dlq}'')]"

theorem dead_letter_roundtrip_witness:
  "let r1 = fst (move_analysis_job_to_dlq dlq_sample_codec (fst leased_sample) (snd leased_sample) 3 (Some ''boom'') 2000);
       j = ap_job_id (lj_payload (snd leased_sample))
   in (case requeue_dlq_job dlq_sample_codec r1 j (Some 5) (Some 10) of (r2, res) \<Rightarrow>
        res = Inr (Some (dlq_object (snd leased_sample) 3 (Some ''boom'') 2000)) \<and>
        ln_queue (rd_analysis r2) = ln_queue (rd_analysis (fst leased_sample)) @ [lj_raw_payload (snd leased_sample)] \<and>
        dead_token (lj_token (snd leased_sample)) (rd_analysis r2) \<and> j \<notin> set (ln_dlq_active (rd_analysis r2)))"
proof -
  let ?r1 = "fst (move_analysis_job_to_dlq dlq_sample_codec (fst leased_sample) (snd leased_sample) 3 (Some ''boom'') 2000)"
  let ?h = "\<lparr>lh_token = ''1'', lh_raw = ''{job_1}'', lh_worker_id = ''w'', lh_leased_at_ms = 1000,
              lh_lease_timeout_ms = 30000, lh_expires_at_ms = 31000\<rparr>"
  have facts: "move_analysis_job_to_dlq dlq_sample_codec (fst leased_sample) (snd leased_sample) 3 (Some ''boom'') 2000 = (?r1, Inr True)"
    "map_of (ln_leases (rd_analysis (fst leased_sample))) (lj_token (snd leased_sample)) = Some ?h"
    "lh_raw ?h = lj_raw_payload (snd leased_sample)"
    "loads dlq_sample_codec (dumps dlq_sample_codec (JObj (dlq_object (snd leased_sample) 3 (Some ''boom'') 2000))) =
      Some (JObj (dlq_object (snd leased_sample) 3 (Some ''boom'') 2000))"
    "py_strip (lj_raw_payload (snd leased_sample)) \<noteq> []"
    "parse_raw_payload dlq_sample_codec (lj_raw_payload (snd leased_sample)) = Inr sample_payload"
    by code_simp+
  have room: "lane_total (rd_analysis ?r1) < max 1 5"
    "int (length (ln_queue (rd_analysis ?r1)) + length (ln_queue (rd_heavy ?r1))) < cap_or_million (Some 10)"
    by code_simp+
  from dead_letter_roundtrip [OF leased_sample_inv facts, of 5 "Some 10"] room show ?thesis
    by (simp only: Let_def simp_thms if_True)
qed

end
