(* ===== verification/Heavy_Queue.thy ===== *)
theory Heavy_Queue
  imports Job_Payload
begin

section \<open>The heavy job queue\<close>

text \<open>
  Models \<open>app/worker/heavy_queue.py\<close>: exports and photo variants, on the heavy lane of \<open>redis\<close> with
  the analysis lane as its peer. It has no retries and no dead-letter queue; its read of the
  expired leases skips the payloads it cannot read.
\<close>

record heavy_payload =
  hp_job_type :: string
  hp_project_id :: string
  hp_organization_id :: "string option"
  hp_export_id :: "string option"
  hp_photo_id :: "string option"
  hp_priority :: string

definition heavy_fields :: "string list" where
  "heavy_fields = [''job_type'', ''project_id'', ''organization_id'', ''export_id'', ''photo_id'', ''priority'']"

definition job_type_field :: "json_obj \<Rightarrow> string option" where
  "job_type_field d =
    (case map_of d ''job_type'' of
       Some (JStr v) \<Rightarrow>
         (let normalized = py_lower (py_strip v)
          in if normalized \<in> {''export_generate'', ''photo_variant_processing''} then Some normalized else None)
     | _ \<Rightarrow> None)"

text \<open>\<open>_validate_subject\<close>\<close>

definition subject_ok :: "string \<Rightarrow> string option \<Rightarrow> string option \<Rightarrow> bool" where
  "subject_ok job_type export_id photo_id =
    (if job_type = ''export_generate'' then export_id \<noteq> None \<and> photo_id = None
     else if job_type = ''photo_variant_processing'' then photo_id \<noteq> None \<and> export_id = None
     else True)"

definition validate_heavy_job_payload :: "json \<Rightarrow> queue_error + heavy_payload" where
  "validate_heavy_job_payload j =
    (case j of
       JObj d \<Rightarrow>
         (let job_type = job_type_field d;
              project_id = required_identifier d ''project_id'';
              organization_id = optional_identifier d ''organization_id'';
              export_id = optional_identifier d ''export_id'';
              photo_id = optional_identifier d ''photo_id'';
              priority = priority_field d;
              issues = issue ''job_type'' job_type @ issue ''project_id'' project_id @
                issue ''organization_id'' organization_id @ issue ''export_id'' export_id @
                issue ''photo_id'' photo_id @ issue ''priority'' priority @ extra_keys heavy_fields d
          in if issues \<noteq> [] then Inl (InvalidPayload issues)
             else if \<not> subject_ok (the job_type) (the export_id) (the photo_id)
             then Inl (InvalidPayload [''payload''])
             else Inr \<lparr>hp_job_type = the job_type, hp_project_id = the project_id,
                       hp_organization_id = the organization_id, hp_export_id = the export_id,
                       hp_photo_id = the photo_id, hp_priority = the priority\<rparr>)
     | _ \<Rightarrow> Inl (InvalidPayload [''payload'']))"

definition heavy_payload_json :: "heavy_payload \<Rightarrow> json" where
  "heavy_payload_json p = JObj
    [(''job_type'', JStr (hp_job_type p)), (''project_id'', JStr (hp_project_id p)),
     (''organization_id'', opt_json (hp_organization_id p)), (''export_id'', opt_json (hp_export_id p)),
     (''photo_id'', opt_json (hp_photo_id p)), (''priority'', JStr (hp_priority p))]"

definition parse_heavy_payload :: "json_codec \<Rightarrow> string \<Rightarrow> queue_error + heavy_payload" where
  "parse_heavy_payload c raw =
    (case loads c raw of
       None \<Rightarrow> Inl (InvalidPayload [''malformed JSON''])
     | Some (JObj d) \<Rightarrow> validate_heavy_job_payload (JObj d)
     | Some _ \<Rightarrow> Inl (InvalidPayload [''expected a JSON object'']))"

type_synonym leased_heavy_job = "heavy_payload leased_job"

definition enqueue_raw_heavy_payload ::
  "redis \<Rightarrow> string \<Rightarrow> int option \<Rightarrow> int option \<Rightarrow> string \<Rightarrow> redis \<times> (queue_error + unit)" where
  "enqueue_raw_heavy_payload r raw_payload max_depth max_global_queued priority =
    (let normalized_priority = (if priority = ''critical'' then ''critical'' else ''standard'') in
     case max_depth of
       None \<Rightarrow> (r\<lparr>rd_heavy := push_queue normalized_priority raw_payload (rd_heavy r)\<rparr>, Inr ())
     | Some d \<Rightarrow>
         (case enqueue_with_limit_script (rd_heavy r) (rd_analysis r) raw_payload (max 1 d)
                 (cap_or_million max_global_queued) normalized_priority of
            (l, reply) \<Rightarrow> (r\<lparr>rd_heavy := l\<rparr>,
              if fst reply \<noteq> 1 then Inl (capacity_error d max_global_queued reply) else Inr ())))"

definition enqueue_heavy_job ::
  "json_codec \<Rightarrow> redis \<Rightarrow> string \<Rightarrow> string \<Rightarrow> string option \<Rightarrow> string option \<Rightarrow> string option
    \<Rightarrow> int option \<Rightarrow> int option \<Rightarrow> string \<Rightarrow> redis \<times> (queue_error + unit)" where
  "enqueue_heavy_job c r job_type project_id organization_id export_id photo_id max_depth max_global priority =
    (case validate_heavy_job_payload (JObj
        [(''job_type'', JStr job_type), (''project_id'', JStr project_id),
         (''organization_id'', opt_json organization_id), (''export_id'', opt_json export_id),
         (''photo_id'', opt_json photo_id), (''priority'', JStr priority)]) of
       Inl e \<Rightarrow> (r, Inl e)
     | Inr payload \<Rightarrow>
         enqueue_raw_heavy_payload r (dumps c (heavy_payload_json payload)) max_depth max_global
           (hp_priority payload))"

definition get_heavy_job_queue_counts :: "redis option \<Rightarrow> nat \<times> nat" where
  "get_heavy_job_queue_counts redis =
    (case redis of
       None \<Rightarrow> (0, 0)
     | Some r \<Rightarrow> (length (ln_queue (rd_heavy r)), length (ln_processing (rd_heavy r))))"

definition dequeue_heavy_job ::
  "json_codec \<Rightarrow> redis \<Rightarrow> string \<Rightarrow> int \<Rightarrow> int option \<Rightarrow> int \<Rightarrow> redis \<times> (queue_error + leased_heavy_job option)" where
  "dequeue_heavy_job c r worker_id timeout_seconds max_concurrent_jobs now_ms =
    (case lease_job_script (rd_heavy r) (rd_analysis r) now_ms worker_id (max 1 timeout_seconds * 1000)
            (cap_or_million max_concurrent_jobs) of
       (l, reply) \<Rightarrow> (r\<lparr>rd_heavy := l\<rparr>,
         case reply of
           LeaseReply h \<Rightarrow> bind_res (leased_job_of (parse_heavy_payload c) h) (\<lambda>j. Inr (Some j))
         | _ \<Rightarrow> Inr None))"

definition ack_heavy_job :: "redis \<Rightarrow> leased_heavy_job \<Rightarrow> redis \<times> (queue_error + bool)" where
  "ack_heavy_job r lease =
    (case ack_job_script (rd_heavy r) (lj_token lease) (lj_worker_id lease) of
       (l, n) \<Rightarrow> (r\<lparr>rd_heavy := l\<rparr>,
         if n = -1 then Inl (LostLease (lj_token lease) (lj_worker_id lease)) else Inr (n = 1)))"

definition renew_heavy_job_lease ::
  "redis \<Rightarrow> leased_heavy_job \<Rightarrow> int \<Rightarrow> int \<Rightarrow> redis \<times> (queue_error + leased_heavy_job)" where
  "renew_heavy_job_lease r lease timeout_seconds leased_at_ms =
    (let lease_timeout_ms = max 1 timeout_seconds * 1000 in
     case renew_lease_script (rd_heavy r) (lj_token lease) (lj_worker_id lease) leased_at_ms lease_timeout_ms of
       (l, n) \<Rightarrow> (r\<lparr>rd_heavy := l\<rparr>,
         if n = -1 \<or> n = 0 then Inl (LostLease (lj_token lease) (lj_worker_id lease))
         else Inr (lease\<lparr>lj_leased_at_ms := leased_at_ms, lj_lease_timeout_ms := lease_timeout_ms,
                         lj_expires_at_ms := leased_at_ms + lease_timeout_ms\<rparr>)))"

definition load_expired_heavy :: "json_codec \<Rightarrow> lane \<Rightarrow> string \<Rightarrow> leased_heavy_job option" where
  "load_expired_heavy c l token =
    (case map_of (ln_leases l) token of
       None \<Rightarrow> None
     | Some h \<Rightarrow>
         (case leased_job_of (parse_heavy_payload c) h of Inl e \<Rightarrow> None | Inr j \<Rightarrow> Some j))"

definition get_expired_heavy_job_leases :: "json_codec \<Rightarrow> redis \<Rightarrow> int \<Rightarrow> nat \<Rightarrow> leased_heavy_job list" where
  "get_expired_heavy_job_leases c r now_ms limit =
     List.map_filter (load_expired_heavy c (rd_heavy r))
       (zrangebyscore 0 now_ms (max 1 limit) (ln_expiry (rd_heavy r)))"

text \<open>The heavy script replies a bare status; the error reads the depths again afterwards.\<close>

definition requeue_expired_heavy_job ::
  "redis \<Rightarrow> leased_heavy_job \<Rightarrow> int \<Rightarrow> int option \<Rightarrow> redis \<times> (queue_error + bool)" where
  "requeue_expired_heavy_job r lease max_depth max_global_queued =
    (case finalize_expired_lease_script (rd_heavy r) (rd_analysis r) (lj_token lease) (lj_leased_at_ms lease)
            ''requeue'' (max 1 max_depth) (cap_or_million max_global_queued) (hp_priority (lj_payload lease)) of
       (l, numeric, _) \<Rightarrow>
         let queued = int (length (ln_queue l)) in
         (r\<lparr>rd_heavy := l\<rparr>,
          if numeric \<in> {0, -2}
          then Inl (capacity_error max_depth max_global_queued
                 (numeric, queued, int (length (ln_processing l)), queued + int (length (ln_queue (rd_analysis r)))))
          else Inr (numeric = 1)))"

definition drop_expired_heavy_job :: "redis \<Rightarrow> leased_heavy_job \<Rightarrow> redis \<times> bool" where
  "drop_expired_heavy_job r lease =
    (case finalize_expired_lease_script (rd_heavy r) (rd_analysis r) (lj_token lease) (lj_leased_at_ms lease)
            ''drop'' 1 1 (hp_priority (lj_payload lease)) of
       (l, numeric, _) \<Rightarrow> (r\<lparr>rd_heavy := l\<rparr>, numeric = 1))"

record heavy_snapshot =
  hs_queued :: "(heavy_payload \<times> string) list"
  hs_processing :: "leased_heavy_job list"

definition inspect_heavy_job_transport :: "json_codec \<Rightarrow> redis option \<Rightarrow> heavy_snapshot" where
  "inspect_heavy_job_transport c redis =
    (case redis of
       None \<Rightarrow> \<lparr>hs_queued = [], hs_processing = []\<rparr>
     | Some r \<Rightarrow>
         \<lparr>hs_queued = List.map_filter (\<lambda>raw. case parse_heavy_payload c raw of
              Inl e \<Rightarrow> None | Inr p \<Rightarrow> Some (p, raw)) (ln_queue (rd_heavy r)),
          hs_processing = List.map_filter (processing_entry (parse_heavy_payload c) (rd_heavy r))
            (ln_processing (rd_heavy r))\<rparr>)"

definition has_export :: "heavy_snapshot \<Rightarrow> string \<Rightarrow> bool" where
  "has_export s export_id \<longleftrightarrow>
     list_ex (\<lambda>(p, raw). hp_export_id p = Some export_id) (hs_queued s) \<or>
     list_ex (\<lambda>j. hp_export_id (lj_payload j) = Some export_id) (hs_processing s)"

definition has_photo :: "heavy_snapshot \<Rightarrow> string \<Rightarrow> bool" where
  "has_photo s photo_id \<longleftrightarrow>
     list_ex (\<lambda>(p, raw). hp_photo_id p = Some photo_id) (hs_queued s) \<or>
     list_ex (\<lambda>j. hp_photo_id (lj_payload j) = Some photo_id) (hs_processing s)"

subsection \<open>Payloads\<close>

lemma job_type_field_Some:
  "job_type_field d = Some t \<Longrightarrow> t \<in> {''export_generate'', ''photo_variant_processing''}"
  by (auto simp: job_type_field_def Let_def split: option.splits json.splits if_splits)

lemma job_types_normal:
  "py_lower (py_strip ''export_generate'') = ''export_generate''"
  "py_lower (py_strip ''photo_variant_processing'') = ''photo_variant_processing''"
  by code_simp+

lemma job_type_field_normal:
  "map_of d ''job_type'' = Some (JStr t) \<Longrightarrow> t \<in> {''export_generate'', ''photo_variant_processing''} \<Longrightarrow>
     job_type_field d = Some t"
  using job_types_normal by (auto simp: job_type_field_def Let_def)

lemma validate_heavy_fields:
  assumes "job_type_field d = Some t" "required_identifier d ''project_id'' = Some pr"
    "optional_identifier d ''organization_id'' = Some org" "optional_identifier d ''export_id'' = Some ex"
    "optional_identifier d ''photo_id'' = Some ph" "priority_field d = Some prio"
    "extra_keys heavy_fields d = []" "subject_ok t ex ph"
  shows "validate_heavy_job_payload (JObj d) = Inr \<lparr>hp_job_type = t, hp_project_id = pr,
    hp_organization_id = org, hp_export_id = ex, hp_photo_id = ph, hp_priority = prio\<rparr>"
  using assms by (simp add: validate_heavy_job_payload_def issue_def)

lemma validate_heavy_Inr_export:
  "validate_heavy_job_payload (JObj d) = Inr p \<Longrightarrow> optional_identifier d ''export_id'' = Some (hp_export_id p)"
  by (auto simp: validate_heavy_job_payload_def Let_def issue_def split: if_splits)

lemma validate_heavy_Inr:
  assumes "validate_heavy_job_payload j = Inr p"
  shows "hp_job_type p \<in> {''export_generate'', ''photo_variant_processing''}" "trimmed (hp_project_id p)"
    "trimmed_opt (hp_organization_id p)" "trimmed_opt (hp_export_id p)" "trimmed_opt (hp_photo_id p)"
    "hp_priority p \<in> {''standard'', ''critical''}" "subject_ok (hp_job_type p) (hp_export_id p) (hp_photo_id p)"
proof -
  obtain d where d: "j = JObj d"
    using assms by (cases j) (simp_all add: validate_heavy_job_payload_def)
  from assms show "hp_job_type p \<in> {''export_generate'', ''photo_variant_processing''}" "trimmed (hp_project_id p)"
    "trimmed_opt (hp_organization_id p)" "trimmed_opt (hp_export_id p)" "trimmed_opt (hp_photo_id p)"
    "hp_priority p \<in> {''standard'', ''critical''}" "subject_ok (hp_job_type p) (hp_export_id p) (hp_photo_id p)"
    unfolding d validate_heavy_job_payload_def Let_def
    by (auto simp: issue_def split: if_splits dest: job_type_field_Some required_identifier_Some
        optional_identifier_Some priority_field_Some simp del: insert_iff)
qed

lemma validate_heavy_json:
  assumes "hp_job_type p \<in> {''export_generate'', ''photo_variant_processing''}" "trimmed (hp_project_id p)"
    "trimmed_opt (hp_organization_id p)" "trimmed_opt (hp_export_id p)" "trimmed_opt (hp_photo_id p)"
    "hp_priority p \<in> {''standard'', ''critical''}" "subject_ok (hp_job_type p) (hp_export_id p) (hp_photo_id p)"
  shows "validate_heavy_job_payload (heavy_payload_json p) = Inr p"
proof -
  have "validate_heavy_job_payload (heavy_payload_json p) = Inr \<lparr>hp_job_type = hp_job_type p,
      hp_project_id = hp_project_id p, hp_organization_id = hp_organization_id p,
      hp_export_id = hp_export_id p, hp_photo_id = hp_photo_id p, hp_priority = hp_priority p\<rparr>"
    unfolding heavy_payload_json_def
    using assms by (intro validate_heavy_fields)
      (auto intro: required_identifier_trimmed optional_identifier_trimmed priority_field_normal
         job_type_field_normal simp: extra_keys_def heavy_fields_def)
  then show ?thesis by simp
qed

subsection \<open>What the snapshot sees\<close>

definition heavy_export_of :: "json_codec \<Rightarrow> string \<Rightarrow> string option" where
  "heavy_export_of c raw = (case parse_heavy_payload c raw of Inl e \<Rightarrow> None | Inr p \<Rightarrow> hp_export_id p)"

lemma has_export_iff:
  "has_export (inspect_heavy_job_transport c (Some r)) e \<longleftrightarrow>
     (\<exists>raw \<in> set (ln_queue (rd_heavy r)) \<union> set (ln_processing (rd_heavy r)). heavy_export_of c raw = Some e)"
proof -
  have p: "(\<exists>j. processing_entry (parse_heavy_payload c) l raw = Some j \<and> hp_export_id (lj_payload j) = Some e) \<longleftrightarrow>
      heavy_export_of c raw = Some e" for l raw
    by (auto simp: processing_entry_def heavy_export_of_def split: sum.splits option.splits)
  have q: "(\<exists>y. (case parse_heavy_payload c raw of Inl x \<Rightarrow> None | Inr p \<Rightarrow> Some (p, raw)) = Some y \<and>
      (case y of (p, raw) \<Rightarrow> hp_export_id p = Some e)) \<longleftrightarrow> heavy_export_of c raw = Some e" for raw
    by (auto simp: heavy_export_of_def split: sum.splits)
  show ?thesis
    unfolding has_export_def inspect_heavy_job_transport_def option.case heavy_snapshot.simps
      list_ex_map_filter p q by blast
qed

lemma lease_job_script_raws:
  "lease_job_script l peer now w timeout cap = (l', reply) \<Longrightarrow>
     set (ln_queue l') \<union> set (ln_processing l') = set (ln_queue l) \<union> set (ln_processing l)"
  by (auto simp: lease_job_script_def Let_def split: list.splits if_splits)

subsection \<open>Properties\<close>

text \<open>A heavy payload has exactly the subject its type needs: whatever object validation accepts, an
  export job names an export and no photo, a photo job names a photo and no export; and validating
  the dumped result gives it back unchanged.\<close>

theorem heavy_validation_subject:
  assumes "validate_heavy_job_payload j = Inr p"
  shows "validate_heavy_job_payload (heavy_payload_json p) = Inr p \<and>
    (hp_job_type p = ''export_generate'' \<and> hp_export_id p \<noteq> None \<and> hp_photo_id p = None \<or>
     hp_job_type p = ''photo_variant_processing'' \<and> hp_photo_id p \<noteq> None \<and> hp_export_id p = None)"
  using validate_heavy_Inr [OF assms] by (auto simp: subject_ok_def intro!: validate_heavy_json)

definition sample_heavy :: heavy_payload where
  "sample_heavy = \<lparr>hp_job_type = ''export_generate'', hp_project_id = ''p1'', hp_organization_id = None,
     hp_export_id = Some ''e1'', hp_photo_id = None, hp_priority = ''critical''\<rparr>"

definition heavy_sample_codec :: json_codec where
  "heavy_sample_codec = table_codec [(heavy_payload_json sample_heavy, ''{e1}'')]"

theorem heavy_validation_subject_witness:
  "validate_heavy_job_payload (heavy_payload_json sample_heavy) = Inr sample_heavy \<and>
    (hp_job_type sample_heavy = ''export_generate'' \<and> hp_export_id sample_heavy \<noteq> None \<and> hp_photo_id sample_heavy = None \<or>
     hp_job_type sample_heavy = ''photo_variant_processing'' \<and> hp_photo_id sample_heavy \<noteq> None \<and> hp_export_id sample_heavy = None)"
  by (rule heavy_validation_subject [where j = "JObj [(''job_type'', JStr ''Export_Generate''), (''project_id'', JStr ''p1''),
        (''export_id'', JStr '' e1 ''), (''priority'', JStr ''critical'')]"]) code_simp

text \<open>An export stays visible to the startup reconciliation from its enqueue to its acknowledgement:
  an accepted export is in the snapshot, and leasing jobs, readable or not, never hides one, so
  the reconciliation does not enqueue it twice.\<close>

theorem export_visible_until_ack:
  assumes "enqueue_heavy_job c r ''export_generate'' pr org (Some e) None d g prio = (r1, Inr ())"
    and "validate_heavy_job_payload (JObj
        [(''job_type'', JStr ''export_generate''), (''project_id'', JStr pr),
         (''organization_id'', opt_json org), (''export_id'', opt_json (Some e)),
         (''photo_id'', opt_json None), (''priority'', JStr prio)]) = Inr p"
    and "loads c (dumps c (heavy_payload_json p)) = Some (heavy_payload_json p)"
    and "r2 = fst (dequeue_heavy_job c r1 w timeout m now)"
  shows "has_export (inspect_heavy_job_transport c (Some r1)) (py_strip e) \<and>
    has_export (inspect_heavy_job_transport c (Some r2)) (py_strip e)"
proof -
  have i: "hp_export_id p = Some (py_strip e)"
    using validate_heavy_Inr_export [OF assms(2)]
    by (simp add: optional_identifier_def identifier_value_def opt_json_def Let_def split: if_splits)
  have "validate_heavy_job_payload (heavy_payload_json p) = Inr p"
    using validate_heavy_Inr [OF assms(2)] by (intro validate_heavy_json)
  with assms(3) i have raw: "heavy_export_of c (dumps c (heavy_payload_json p)) = Some (py_strip e)"
    by (simp add: heavy_export_of_def parse_heavy_payload_def heavy_payload_json_def)
  have "dumps c (heavy_payload_json p) \<in> set (ln_queue (rd_heavy r1))"
    using assms(1,2)
    by (auto simp: enqueue_heavy_job_def enqueue_raw_heavy_payload_def Let_def enqueue_with_limit_script_def
        push_queue_def guarded_push_def split: option.splits prod.splits if_splits)
  with raw have visible: "\<exists>x \<in> set (ln_queue (rd_heavy r1)) \<union> set (ln_processing (rd_heavy r1)).
      heavy_export_of c x = Some (py_strip e)"
    by blast
  moreover have "set (ln_queue (rd_heavy r2)) \<union> set (ln_processing (rd_heavy r2)) =
      set (ln_queue (rd_heavy r1)) \<union> set (ln_processing (rd_heavy r1))"
    unfolding assms(4) dequeue_heavy_job_def
    by (auto split: prod.splits dest: lease_job_script_raws)
  ultimately show ?thesis
    by (simp add: has_export_iff)
qed

theorem export_visible_until_ack_witness:
  "let r1 = fst (enqueue_heavy_job heavy_sample_codec empty_redis ''export_generate'' ''p1'' None (Some ''e1'') None (Some 5) None ''critical'');
       r2 = fst (dequeue_heavy_job heavy_sample_codec r1 ''w'' 30 None 1000)
   in has_export (inspect_heavy_job_transport heavy_sample_codec (Some r1)) (py_strip ''e1'') \<and>
      has_export (inspect_heavy_job_transport heavy_sample_codec (Some r2)) (py_strip ''e1'')"
  unfolding Let_def
  by (rule export_visible_until_ack [where pr = "''p1''" and org = None and d = "Some 5" and g = None and
        prio = "''critical''" and r = empty_redis and p = sample_heavy, OF _ _ _ refl]) code_simp+

text \<open>The heavy reaper reads exactly the readable expired leases, in the order they expired: a
  payload it cannot read is passed over and hides no other.\<close>

theorem heavy_reaper_skips_unreadable:
  "map lj_token (get_expired_heavy_job_leases c r now limit) =
     map lh_token (filter (\<lambda>h. is_ok (parse_heavy_payload c (lh_raw h)))
       (List.map_filter (map_of (ln_leases (rd_heavy r)))
         (zrangebyscore 0 now (max 1 limit) (ln_expiry (rd_heavy r)))))"
proof -
  have "map lj_token (List.map_filter (load_expired_heavy c l) ts) =
      map lh_token (filter (\<lambda>h. is_ok (parse_heavy_payload c (lh_raw h))) (List.map_filter (map_of (ln_leases l)) ts))" for l ts
  proof (induction ts)
    case (Cons t ts)
    show ?case
    proof (cases "map_of (ln_leases l) t")
      case (Some h)
      with Cons show ?thesis
        by (cases "parse_heavy_payload c (lh_raw h)")
           (simp_all add: List.map_filter_simps load_expired_heavy_def leased_job_of_def)
    qed (use Cons in \<open>simp add: List.map_filter_simps load_expired_heavy_def\<close>)
  qed (simp add: List.map_filter_simps)
  then show ?thesis
    by (simp add: get_expired_heavy_job_leases_def)
qed

end
