(* ===== verification/Backpressure.thy ===== *)
theory Backpressure
  imports Analysis_Queue Heavy_Queue
begin

section \<open>Backpressure guards\<close>

text \<open>
  Models \<open>app/core/backpressure.py\<close>: the caps read from the settings, the job priorities, the
  snapshot of both lanes, and the guards the API calls before it takes on work. A settings object
  is the association list of its attributes; \<open>SBad\<close> is an attribute \<open>int()\<close> rejects. A guard raises
  an HTTP status with its detail and the reason it records.
\<close>

datatype setting = SInt int | SBad

type_synonym settings = "(string \<times> setting) list"

datatype guard_error = HTTPException nat string | SettingError string

definition int_setting :: "settings \<Rightarrow> string \<Rightarrow> int \<Rightarrow> int" where
  "int_setting s attr dflt = (case map_of s attr of Some (SInt n) \<Rightarrow> n | _ \<Rightarrow> dflt)"

text \<open>\<open>_counter_value\<close> of a value \<open>int()\<close> reads (\<open>Some\<close>) or rejects.\<close>

definition counter_value :: "int option \<Rightarrow> int" where
  "counter_value v = (case v of None \<Rightarrow> 0 | Some n \<Rightarrow> max 0 n)"

definition effective_max_concurrent_jobs :: "settings \<Rightarrow> int" where
  "effective_max_concurrent_jobs s =
    (if map_of s ''effective_backpressure_max_concurrent_jobs'' \<noteq> None
     then max 1 (int_setting s ''effective_backpressure_max_concurrent_jobs'' 1)
     else let worker_slots = int_setting s ''worker_concurrency'' 0 + int_setting s ''worker_heavy_concurrency'' 0
       in max 1 (int_setting s ''backpressure_max_concurrent_jobs'' (if worker_slots = 0 then 1 else worker_slots)))"

definition effective_max_queued_jobs :: "settings \<Rightarrow> int" where
  "effective_max_queued_jobs s =
    (if map_of s ''effective_backpressure_max_queued_jobs'' \<noteq> None
     then max 1 (int_setting s ''effective_backpressure_max_queued_jobs'' 1)
     else let lane_depth = int_setting s ''analysis_queue_max_depth'' 0 + int_setting s ''heavy_queue_max_depth'' 0
       in max 1 (int_setting s ''backpressure_max_queued_jobs'' (if lane_depth = 0 then 1000 else lane_depth)))"

definition effective_max_retry_inflight :: "settings \<Rightarrow> int" where
  "effective_max_retry_inflight s =
    (if map_of s ''effective_backpressure_max_retry_inflight'' \<noteq> None
     then max 1 (int_setting s ''effective_backpressure_max_retry_inflight'' 1)
     else max 1 (int_setting s ''backpressure_max_retry_inflight''
            (max 1 (min (effective_max_queued_jobs s) 1000))))"

definition normalize_job_priority :: "string option \<Rightarrow> string" where
  "normalize_job_priority v =
    (let normalized = py_lower (py_strip (case v of None \<Rightarrow> ''standard'' | Some s \<Rightarrow> if s = [] then ''standard'' else s))
     in if normalized = ''critical'' then ''critical'' else ''standard'')"

definition analysis_job_priority_for_type :: "string option \<Rightarrow> string" where
  "analysis_job_priority_for_type job_type =
    (if py_lower (py_strip (case job_type of None \<Rightarrow> [] | Some s \<Rightarrow> s)) = ''quote_recalculation''
     then ''critical'' else ''standard'')"

definition heavy_job_priority_for_type :: "string option \<Rightarrow> string" where
  "heavy_job_priority_for_type job_type =
    (if py_lower (py_strip (case job_type of None \<Rightarrow> [] | Some s \<Rightarrow> s)) = ''export_generate''
     then ''critical'' else ''standard'')"

text \<open>What \<open>queue_runtime_state\<close> can find: no client, no \<open>runtime_status\<close> attribute or one that is not
  callable, a coroutine function, a call that raises or returns an awaitable, or a status whose
  \<open>state\<close> is a string or not.\<close>

datatype runtime_probe =
    NoClient | NoRuntimeStatus | NotCallable | CoroutineFunction | StatusRaises | StatusAwaitable
  | StatusState "string option"

definition queue_runtime_state :: "runtime_probe \<Rightarrow> string" where
  "queue_runtime_state p =
    (case p of
       NoClient \<Rightarrow> ''unavailable'' | NoRuntimeStatus \<Rightarrow> ''ready'' | NotCallable \<Rightarrow> ''ready''
     | CoroutineFunction \<Rightarrow> ''unavailable'' | StatusRaises \<Rightarrow> ''unavailable'' | StatusAwaitable \<Rightarrow> ''unavailable''
     | StatusState None \<Rightarrow> ''ready''
     | StatusState (Some s) \<Rightarrow> if s = [] then ''ready'' else s)"

record bp_snapshot =
  bs_runtime_state :: string
  bs_analysis_queued :: nat
  bs_analysis_processing :: nat
  bs_heavy_queued :: nat
  bs_heavy_processing :: nat
  bs_retry_inflight :: int
  bs_max_concurrent_jobs :: int
  bs_max_queued_jobs :: int
  bs_max_retry_inflight :: int

definition total_concurrent_jobs :: "bp_snapshot \<Rightarrow> nat" where
  "total_concurrent_jobs s = bs_analysis_processing s + bs_heavy_processing s"

definition total_queued_jobs :: "bp_snapshot \<Rightarrow> nat" where
  "total_queued_jobs s = bs_analysis_queued s + bs_heavy_queued s"

definition analysis_total_jobs :: "bp_snapshot \<Rightarrow> nat" where
  "analysis_total_jobs s = bs_analysis_queued s + bs_analysis_processing s"

definition heavy_total_jobs :: "bp_snapshot \<Rightarrow> nat" where
  "heavy_total_jobs s = bs_heavy_queued s + bs_heavy_processing s"

definition runtime_servable :: "bp_snapshot \<Rightarrow> bool" where
  "runtime_servable s \<longleftrightarrow> bs_runtime_state s \<in> {''ready'', ''degraded''}"

definition global_queue_full :: "bp_snapshot \<Rightarrow> bool" where
  "global_queue_full s \<longleftrightarrow> int (total_queued_jobs s) \<ge> bs_max_queued_jobs s"

text \<open>\<open>redis\<close> is \<open>None\<close> when there is no client or it declares no \<open>llen\<close>.\<close>

definition collect_backpressure_snapshot ::
  "settings \<Rightarrow> runtime_probe \<Rightarrow> redis option \<Rightarrow> int option \<Rightarrow> bp_snapshot" where
  "collect_backpressure_snapshot s probe redis retry_inflight =
    (case (get_analysis_job_queue_counts redis, get_heavy_job_queue_counts redis) of
       ((aq, ap), (hq, hp)) \<Rightarrow>
         \<lparr>bs_runtime_state = queue_runtime_state probe, bs_analysis_queued = aq, bs_analysis_processing = ap,
          bs_heavy_queued = hq, bs_heavy_processing = hp, bs_retry_inflight = counter_value retry_inflight,
          bs_max_concurrent_jobs = effective_max_concurrent_jobs s,
          bs_max_queued_jobs = effective_max_queued_jobs s,
          bs_max_retry_inflight = effective_max_retry_inflight s\<rparr>)"

text \<open>\<open>int(settings.attr)\<close>, which raises for a missing or unreadable attribute.\<close>

definition required_int :: "settings \<Rightarrow> string \<Rightarrow> guard_error + int" where
  "required_int s attr = (case map_of s attr of Some (SInt n) \<Rightarrow> Inr n | _ \<Rightarrow> Inl (SettingError attr))"

definition ensure_analysis_intake_capacity :: "bp_snapshot \<Rightarrow> settings \<Rightarrow> guard_error + unit" where
  "ensure_analysis_intake_capacity snapshot s =
    (if \<not> runtime_servable snapshot then Inl (HTTPException 503 ''runtime_unavailable'')
     else bind_res (required_int s ''analysis_queue_max_depth'') (\<lambda>depth.
       if int (analysis_total_jobs snapshot) \<ge> depth then Inl (HTTPException 429 ''analysis_lane_full'')
       else if global_queue_full snapshot then Inl (HTTPException 429 ''global_queue_full'')
       else Inr ()))"

definition ensure_heavy_intake_capacity :: "bp_snapshot \<Rightarrow> settings \<Rightarrow> guard_error + unit" where
  "ensure_heavy_intake_capacity snapshot s =
    (if \<not> runtime_servable snapshot then Inl (HTTPException 503 ''runtime_unavailable'')
     else bind_res (required_int s ''heavy_queue_max_depth'') (\<lambda>depth.
       if int (heavy_total_jobs snapshot) \<ge> depth then Inl (HTTPException 429 ''heavy_lane_full'')
       else if global_queue_full snapshot then Inl (HTTPException 429 ''global_queue_full'')
       else Inr ()))"

definition require_worker_capacity :: "settings \<Rightarrow> guard_error + unit" where
  "require_worker_capacity s =
    (if int_setting s ''worker_heavy_concurrency'' 0 = 0
     then Inl (HTTPException 503 ''heavy_lane_disabled'') else Inr ())"

definition ensure_retry_budget :: "int option \<Rightarrow> settings \<Rightarrow> guard_error + unit" where
  "ensure_retry_budget retry_inflight s =
    (if counter_value retry_inflight \<ge> effective_max_retry_inflight s
     then Inl (HTTPException 429 ''retry_budget_exhausted'') else Inr ())"

subsection \<open>Properties\<close>

lemma effective_max_queued_jobs_pos: "1 \<le> effective_max_queued_jobs s"
  by (simp add: effective_max_queued_jobs_def Let_def)

text \<open>C31: The API's guard and the queue's own Lua guard agree: with a servable client and a positive
  depth, the intake guard passes on a snapshot exactly when the enqueue of a job into that same
  state, under the caps the settings give, is accepted. So the guard neither admits work the queue
  refuses nor turns away work it would take, and the Lua guard only has to catch races.\<close>

theorem intake_guard_agrees_with_queue:
  assumes "runtime_servable (collect_backpressure_snapshot s probe (Some r) retry)"
    and "map_of s ''analysis_queue_max_depth'' = Some (SInt depth)" "1 \<le> depth"
  shows "is_ok (ensure_analysis_intake_capacity (collect_backpressure_snapshot s probe (Some r) retry) s) =
    is_ok (snd (enqueue_raw_payload r raw (Some depth) (Some (effective_max_queued_jobs s)) prio))"
  unfolding enqueue_raw_payload_accepts
  using assms effective_max_queued_jobs_pos [of s]
  by (auto simp: ensure_analysis_intake_capacity_def required_int_def global_queue_full_def total_queued_jobs_def
      analysis_total_jobs_def collect_backpressure_snapshot_def get_analysis_job_queue_counts_def
      get_heavy_job_queue_counts_def lane_total_def cap_or_million_def max_def)

theorem intake_guard_agrees_with_queue_witness:
  "is_ok (ensure_analysis_intake_capacity
      (collect_backpressure_snapshot [(''analysis_queue_max_depth'', SInt 1)] NoRuntimeStatus (Some poisoned_sample) None)
      [(''analysis_queue_max_depth'', SInt 1)]) =
    is_ok (snd (enqueue_raw_payload poisoned_sample ''x'' (Some 1)
      (Some (effective_max_queued_jobs [(''analysis_queue_max_depth'', SInt 1)])) ''standard''))"
  by (rule intake_guard_agrees_with_queue) code_simp+

end
