(* ===== verification/Outbox.thy ===== *)
theory Outbox
  imports Novu_Prelude
begin

section \<open>Events and the transactional outbox\<close>

text \<open>
  Models \<open>app/core/events.py\<close> (the canonical messages) and \<open>app/offer_processing/outbox.py\<close> (the
  builders of outbox rows and one batch of the publisher). An outbox table is the list of its rows;
  \<open>seq\<close> is the identity column. The publisher's calls of \<open>redis.publish\<close> can each fail: the
  argument \<open>publish_ok\<close> says which, by position in the batch.
\<close>

definition EVENT_ANALYSIS_STARTED :: string where
  [simp, constant_simps]: "EVENT_ANALYSIS_STARTED = ''analysis.started''"

definition EVENT_PROPOSAL_READY :: string where
  [simp, constant_simps]: "EVENT_PROPOSAL_READY = ''proposal.ready''"

definition EVENT_OFFER_STATUS_CHANGED :: string where
  [simp, constant_simps]: "EVENT_OFFER_STATUS_CHANGED = ''offer.status_changed''"

definition AGGREGATE_CASE :: string where
  [simp, constant_simps]: "AGGREGATE_CASE = ''case''"

definition AGGREGATE_OFFER :: string where
  [simp, constant_simps]: "AGGREGATE_OFFER = ''offer_request''"

text \<open>The 32 hexadecimal digits of a \<open>uuid4\<close> and its canonical text.\<close>

definition uuid_str :: "string \<Rightarrow> string" where
  "uuid_str hex = take 8 hex @ ''-'' @ take 4 (drop 8 hex) @ ''-'' @ take 4 (drop 12 hex) @ ''-'' @
     take 4 (drop 16 hex) @ ''-'' @ drop 20 hex"

record outbox_event =
  ob_id :: string
  ob_seq :: nat
  ob_event_type :: string
  ob_aggregate_type :: string
  ob_aggregate_id :: string
  ob_organization_id :: string
  ob_payload :: json
  ob_published :: bool
  ob_published_at :: "time option"
  ob_created_at :: "time option"

subsection \<open>Messages\<close>

text \<open>\<open>strftime("%Y-%m-%dT%H:%M:%SZ")\<close> in UTC: the civil date of a day number, and two-digit fields.\<close>

definition pad2 :: "int \<Rightarrow> string" where
  "pad2 n = (if n < 10 then ''0'' @ str_int n else str_int n)"

definition civil_of_day :: "int \<Rightarrow> int \<times> int \<times> int" where
  "civil_of_day day =
    (let z = day + 719468;
         era = z div 146097;
         doe = z mod 146097;
         yoe = (doe - doe div 1460 + doe div 36524 - doe div 146096) div 365;
         doy = doe - (365 * yoe + yoe div 4 - yoe div 100);
         mp = (5 * doy + 2) div 153;
         d = doy - (153 * mp + 2) div 5 + 1;
         m = (if mp < 10 then mp + 3 else mp - 9);
         y = yoe + era * 400
     in (if m \<le> 2 then y + 1 else y, m, d))"

definition format_occurred_at :: "time option \<Rightarrow> json" where
  "format_occurred_at dt =
    (case dt of
       None \<Rightarrow> JNull
     | Some t \<Rightarrow>
         (let s = t div 1000000; sec = s mod 86400 in
          case civil_of_day (s div 86400) of (y, m, d) \<Rightarrow>
            JStr (str_int y @ ''-'' @ pad2 m @ ''-'' @ pad2 d @ ''T'' @ pad2 (sec div 3600) @ '':'' @
                  pad2 (sec mod 3600 div 60) @ '':'' @ pad2 (sec mod 60) @ ''Z'')))"

definition outbox_json :: "outbox_event \<Rightarrow> json" where
  "outbox_json row = JObj
    [(''seq'', JInt (int (ob_seq row))), (''event_id'', JStr (ob_id row)),
     (''event_type'', JStr (ob_event_type row)), (''aggregate_type'', JStr (ob_aggregate_type row)),
     (''aggregate_id'', JStr (ob_aggregate_id row)), (''occurred_at'', format_occurred_at (ob_created_at row)),
     (''payload'', ob_payload row)]"

definition build_outbox_message :: "json_codec \<Rightarrow> outbox_event \<Rightarrow> string" where
  "build_outbox_message c row = dumps c (outbox_json row)"

definition live_json :: "string \<Rightarrow> string \<Rightarrow> string \<Rightarrow> string \<Rightarrow> json \<Rightarrow> json" where
  "live_json event_id event_type aggregate_type aggregate_id payload = JObj
    [(''event_id'', JStr event_id), (''event_type'', JStr event_type),
     (''aggregate_type'', JStr aggregate_type), (''aggregate_id'', JStr aggregate_id),
     (''payload'', payload)]"

definition build_live_message :: "json_codec \<Rightarrow> string \<Rightarrow> string \<Rightarrow> string \<Rightarrow> string \<Rightarrow> json \<Rightarrow> string" where
  "build_live_message c event_id event_type aggregate_type aggregate_id payload =
     dumps c (live_json event_id event_type aggregate_type aggregate_id payload)"

text \<open>\<open>str\<close> of a JSON value; the text of a float, list or object is the argument \<open>repr\<close>.\<close>

definition py_str :: "(json \<Rightarrow> string) \<Rightarrow> json \<Rightarrow> string" where
  "py_str repr j =
    (case j of
       JInt i \<Rightarrow> str_int i | JStr s \<Rightarrow> s
     | JBool b \<Rightarrow> if b then ''True'' else ''False''
     | JNull \<Rightarrow> ''None'' | _ \<Rightarrow> repr j)"

text \<open>A message that is JSON but not an object has no \<open>get\<close>: \<open>AttributeError\<close>, which the handler does
  not catch.\<close>

datatype sse_error = NotADict

definition sse_id_from_message :: "(json \<Rightarrow> string) \<Rightarrow> json_codec \<Rightarrow> string \<Rightarrow> sse_error + string" where
  "sse_id_from_message repr c raw =
    (case loads c raw of
       None \<Rightarrow> Inr []
     | Some (JObj d) \<Rightarrow>
         (case map_of d ''seq'' of
            None \<Rightarrow> Inr []
          | Some JNull \<Rightarrow> Inr []
          | Some seq \<Rightarrow> Inr (py_str repr seq))
     | Some _ \<Rightarrow> Inl NotADict)"

subsection \<open>Writing\<close>

definition channel_for_event :: "string \<Rightarrow> string \<Rightarrow> string" where
  "channel_for_event aggregate_type aggregate_id =
    (if aggregate_type = AGGREGATE_OFFER then ''offer:events:''
     else if aggregate_type = AGGREGATE_CASE then ''case:events:''
     else ''events:'' @ aggregate_type @ '':'') @ aggregate_id"

text \<open>The row as the database stores it: the next \<open>seq\<close>, the defaults, the insertion time.\<close>

definition build_outbox_event ::
  "string \<Rightarrow> nat \<Rightarrow> time \<Rightarrow> string \<Rightarrow> string \<Rightarrow> string \<Rightarrow> string \<Rightarrow> json \<Rightarrow> outbox_event" where
  "build_outbox_event uuid seq now event_type aggregate_type aggregate_id organization_id payload =
     \<lparr>ob_id = uuid_str uuid, ob_seq = seq, ob_event_type = event_type, ob_aggregate_type = aggregate_type,
      ob_aggregate_id = aggregate_id, ob_organization_id = organization_id, ob_payload = payload,
      ob_published = False, ob_published_at = None, ob_created_at = Some now\<rparr>"

definition build_case_activity_event ::
  "string \<Rightarrow> nat \<Rightarrow> time \<Rightarrow> string \<Rightarrow> string \<Rightarrow> string \<Rightarrow> json_obj option \<Rightarrow> outbox_event" where
  "build_case_activity_event uuid seq now event_type project_id organization_id payload =
     build_outbox_event uuid seq now event_type AGGREGATE_CASE project_id organization_id
       (JObj (case payload of None \<Rightarrow> [] | Some d \<Rightarrow> d))"

definition build_offer_status_changed_event ::
  "string \<Rightarrow> nat \<Rightarrow> time \<Rightarrow> string \<Rightarrow> string \<Rightarrow> string option \<Rightarrow> string \<Rightarrow> json_obj option \<Rightarrow> outbox_event" where
  "build_offer_status_changed_event uuid seq now offer_request_id organization_id job_id status extra =
     build_outbox_event uuid seq now EVENT_OFFER_STATUS_CHANGED AGGREGATE_OFFER offer_request_id organization_id
       (JObj (dict_merge [(''status'', JStr status),
                          (''job_id'', case job_id of None \<Rightarrow> JNull | Some j \<Rightarrow> JStr j)]
                (case extra of None \<Rightarrow> [] | Some d \<Rightarrow> d)))"

subsection \<open>Publishing\<close>

definition BATCH_SIZE :: nat where
  [simp, constant_simps]: "BATCH_SIZE = 50"

definition unpublished_batch :: "outbox_event list \<Rightarrow> outbox_event list" where
  "unpublished_batch outbox = select_page (\<lambda>e. \<not> ob_published e) ob_seq BATCH_SIZE outbox"

text \<open>The rows of the batch whose publish call returned, in order.\<close>

fun accepted_rows :: "(nat \<Rightarrow> bool) \<Rightarrow> nat \<Rightarrow> outbox_event list \<Rightarrow> outbox_event list" where
  "accepted_rows publish_ok i [] = []"
| "accepted_rows publish_ok i (row # rows) =
     (if publish_ok i then row # accepted_rows publish_ok (i + 1) rows
      else accepted_rows publish_ok (i + 1) rows)"

definition message_of :: "json_codec \<Rightarrow> outbox_event \<Rightarrow> string \<times> string" where
  "message_of c row = (channel_for_event (ob_aggregate_type row) (ob_aggregate_id row), build_outbox_message c row)"

definition mark_published :: "time \<Rightarrow> string list \<Rightarrow> outbox_event list \<Rightarrow> outbox_event list" where
  "mark_published now ids =
     update_where (\<lambda>e. ob_id e \<in> set ids) (\<lambda>e. e\<lparr>ob_published := True, ob_published_at := Some now\<rparr>)"

text \<open>One batch: the new table, the messages Redis accepted (in order) and the count, or \<open>None\<close> when
  the commit failed and the exception goes to the polling loop.\<close>

definition publish_batch ::
  "json_codec \<Rightarrow> time \<Rightarrow> (nat \<Rightarrow> bool) \<Rightarrow> bool \<Rightarrow> outbox_event list
    \<Rightarrow> outbox_event list \<times> (string \<times> string) list \<times> nat option" where
  "publish_batch c now publish_ok commit_ok outbox =
    (let events = unpublished_batch outbox in
     if events = [] then (outbox, [], Some 0)
     else
       let accepted = accepted_rows publish_ok 0 events in
       if accepted = [] then (outbox, [], Some 0)
       else if commit_ok
       then (mark_published now (map ob_id accepted) outbox, map (message_of c) accepted, Some (length accepted))
       else (outbox, map (message_of c) accepted, None))"

subsection \<open>What a batch does\<close>

lemma accepted_rows_all: "(\<And>i. publish_ok i) \<Longrightarrow> accepted_rows publish_ok i rows = rows"
  by (induction rows arbitrary: i) auto

lemma set_accepted_rows: "set (accepted_rows publish_ok i rows) \<subseteq> set rows"
  by (induction rows arbitrary: i) auto

lemma accepted_rows_sorted: "sorted (map ob_seq rows) \<Longrightarrow> sorted (map ob_seq (accepted_rows publish_ok i rows))"
proof (induction rows arbitrary: i)
  case (Cons row rows)
  from Cons.prems have later: "\<And>x. x \<in> set rows \<Longrightarrow> ob_seq row \<le> ob_seq x" and "sorted (map ob_seq rows)"
    by simp_all
  from Cons.IH [OF this(2)] have "sorted (map ob_seq (accepted_rows publish_ok (i + 1) rows))" .
  moreover have "\<forall>x \<in> set (accepted_rows publish_ok (i + 1) rows). ob_seq row \<le> ob_seq x"
    using set_accepted_rows [of publish_ok "i + 1" rows] later by blast
  ultimately show ?case
    by (simp del: One_nat_def add_Suc_right)
qed simp

lemma filter_mark_published:
  "filter (\<lambda>e. \<not> ob_published e) (mark_published now ids outbox) =
     filter (\<lambda>e. ob_id e \<notin> set ids) (filter (\<lambda>e. \<not> ob_published e) outbox)"
  unfolding mark_published_def by (induction outbox) auto

lemma filter_not_take:
  "distinct (map k xs) \<Longrightarrow> filter (\<lambda>x. k x \<notin> k ` set (take n xs)) xs = drop n xs"
proof (induction xs arbitrary: n)
  case (Cons x xs)
  show ?case
  proof (cases n)
    case (Suc m)
    have "filter (\<lambda>y. k y \<notin> k ` set (take n (x # xs))) xs = filter (\<lambda>y. k y \<notin> k ` set (take m xs)) xs"
    proof (rule filter_cong [OF refl])
      fix y assume "y \<in> set xs"
      then have "k y \<in> k ` set xs" by simp
      with Cons.prems have "k y \<noteq> k x" by auto
      then show "k y \<notin> k ` set (take n (x # xs)) \<longleftrightarrow> k y \<notin> k ` set (take m xs)"
        by (simp add: Suc)
    qed
    with Cons Suc show ?thesis by simp
  qed simp
qed simp

definition pending_events :: "outbox_event list \<Rightarrow> outbox_event list" where
  "pending_events outbox = sort_key ob_seq (filter (\<lambda>e. \<not> ob_published e) outbox)"

lemma unpublished_batch_eq: "unpublished_batch outbox = take 50 (pending_events outbox)"
  by (simp add: unpublished_batch_def select_page_def pending_events_def)

lemma pending_events_distinct: "keyed ob_id outbox \<Longrightarrow> distinct (map ob_id (pending_events outbox))"
  by (simp add: keyed_def pending_events_def distinct_map inj_on_def)

lemma pending_after_mark:
  assumes "keyed ob_id outbox"
  shows "pending_events (mark_published now (map ob_id (take n (pending_events outbox))) outbox) =
    drop n (pending_events outbox)"
proof -
  let ?p = "pending_events outbox"
  have "pending_events (mark_published now (map ob_id (take n ?p)) outbox) =
      filter (\<lambda>e. ob_id e \<notin> ob_id ` set (take n ?p)) ?p"
    by (simp add: pending_events_def filter_mark_published filter_sort)
  also have "\<dots> = drop n ?p"
    using pending_events_distinct [OF assms] by (rule filter_not_take)
  finally show ?thesis .
qed

lemma keyed_mark_published: "keyed ob_id (mark_published now ids outbox) = keyed ob_id outbox"
  by (simp add: mark_published_def keyed_update_where)

lemma publish_batch_up:
  "publish_batch c now (\<lambda>_. True) True outbox =
     (mark_published now (map ob_id (take 50 (pending_events outbox))) outbox,
      map (message_of c) (take 50 (pending_events outbox)), Some (length (take 50 (pending_events outbox))))"
proof (cases "pending_events outbox = []")
  case True
  then show ?thesis
    by (simp add: publish_batch_def unpublished_batch_eq mark_published_def update_where_none)
next
  case False
  then show ?thesis
    by (simp add: publish_batch_def unpublished_batch_eq accepted_rows_all Let_def)
qed

text \<open>Rounds of the polling loop.\<close>

fun publish_rounds ::
  "json_codec \<Rightarrow> (time \<times> (nat \<Rightarrow> bool) \<times> bool) list \<Rightarrow> outbox_event list
    \<Rightarrow> outbox_event list \<times> (string \<times> string) list" where
  "publish_rounds c [] outbox = (outbox, [])"
| "publish_rounds c ((now, publish_ok, commit_ok) # rounds) outbox =
    (case publish_batch c now publish_ok commit_ok outbox of
       (outbox', messages, n) \<Rightarrow>
         (case publish_rounds c rounds outbox' of (outbox'', messages') \<Rightarrow> (outbox'', messages @ messages')))"

lemma publish_rounds_up:
  assumes "keyed ob_id outbox" "\<forall>r \<in> set rounds. snd r = (\<lambda>_. True, True)"
  shows "snd (publish_rounds c rounds outbox) =
      map (message_of c) (take (50 * length rounds) (pending_events outbox)) \<and>
    pending_events (fst (publish_rounds c rounds outbox)) = drop (50 * length rounds) (pending_events outbox)"
  using assms
proof (induction rounds arbitrary: outbox)
  case (Cons r rounds)
  obtain now where r: "r = (now, \<lambda>_. True, True)"
    using Cons.prems(2) by (cases r) simp
  let ?p = "pending_events outbox"
  let ?o = "mark_published now (map ob_id (take 50 ?p)) outbox"
  have p: "pending_events ?o = drop 50 ?p"
    using Cons.prems(1) by (rule pending_after_mark)
  have "keyed ob_id ?o" "\<forall>r \<in> set rounds. snd r = (\<lambda>_. True, True)"
    using Cons.prems by (simp_all add: keyed_mark_published)
  note ih = Cons.IH [OF this, unfolded p]
  have "take (50 + 50 * length rounds) ?p = take 50 ?p @ take (50 * length rounds) (drop 50 ?p)"
    by (rule take_add)
  with ih show ?case
    by (simp add: r publish_batch_up case_prod_beta add.commute [of "50 * length rounds"] del: map_append flip: map_append)
qed simp

text \<open>A published row was accepted by Redis in this or an earlier round: whatever calls and commits
  fail, a row that becomes published has its message among those accepted.\<close>

lemma publish_batch_marks:
  assumes "publish_batch c now publish_ok commit_ok outbox = (outbox', messages, n)"
    and "e' \<in> set outbox'" "ob_published e'"
  obtains e where "e \<in> set outbox" "ob_id e = ob_id e'" "ob_published e"
  | e where "e \<in> set outbox" "ob_id e = ob_id e'" "message_of c e \<in> set messages"
proof -
  let ?acc = "accepted_rows publish_ok 0 (unpublished_batch outbox)"
  have sub: "set ?acc \<subseteq> set outbox"
    using set_accepted_rows [of publish_ok 0 "unpublished_batch outbox"]
      set_select_page [of "\<lambda>e. \<not> ob_published e" ob_seq BATCH_SIZE outbox]
    unfolding unpublished_batch_def by blast
  consider "outbox' = outbox" | "outbox' = mark_published now (map ob_id ?acc) outbox" "messages = map (message_of c) ?acc"
    using assms(1) by (auto simp: publish_batch_def Let_def split: if_splits)
  then show ?thesis
  proof cases
    case 1
    with assms that(1) show ?thesis by blast
  next
    case 2
    from assms(2) obtain e where e: "e \<in> set outbox" "e' = (if ob_id e \<in> ob_id ` set ?acc
        then e\<lparr>ob_published := True, ob_published_at := Some now\<rparr> else e)"
      unfolding 2 mark_published_def set_update_where by auto
    show ?thesis
    proof (cases "ob_id e \<in> ob_id ` set ?acc")
      case True
      then obtain x where "x \<in> set ?acc" "ob_id x = ob_id e" by auto
      with e True sub 2(2) that(2) [of x] show ?thesis by auto
    next
      case False
      with e assms(3) that(1) show ?thesis by auto
    qed
  qed
qed

lemma publish_batch_row:
  assumes "keyed ob_id outbox" "publish_batch c now publish_ok commit_ok outbox = (outbox', messages, n)"
    and "e \<in> set outbox" "e' \<in> set outbox'" "ob_id e' = ob_id e"
  shows "e' = e \<or> message_of c e \<in> set messages"
proof -
  let ?acc = "accepted_rows publish_ok 0 (unpublished_batch outbox)"
  have sub: "set ?acc \<subseteq> set outbox"
    using set_accepted_rows [of publish_ok 0 "unpublished_batch outbox"]
      set_select_page [of "\<lambda>e. \<not> ob_published e" ob_seq BATCH_SIZE outbox]
    unfolding unpublished_batch_def by blast
  consider "outbox' = outbox" | "outbox' = mark_published now (map ob_id ?acc) outbox" "messages = map (message_of c) ?acc"
    using assms(2) by (auto simp: publish_batch_def Let_def split: if_splits)
  then show ?thesis
  proof cases
    case 1
    with assms show ?thesis by (metis keyed_unique)
  next
    case 2
    from assms(4) obtain x where x: "x \<in> set outbox" "e' = (if ob_id x \<in> ob_id ` set ?acc
        then x\<lparr>ob_published := True, ob_published_at := Some now\<rparr> else x)"
      unfolding 2 mark_published_def set_update_where by auto
    with assms(5) have "ob_id x = ob_id e" by (auto split: if_splits)
    with keyed_unique [OF assms(1) x(1) assms(3)] have xe: "x = e" by simp
    show ?thesis
    proof (cases "ob_id e \<in> ob_id ` set ?acc")
      case True
      then obtain y where "y \<in> set ?acc" "ob_id y = ob_id e" by auto
      with keyed_unique [OF assms(1) _ assms(3), of y] sub 2(2) show ?thesis by auto
    next
      case False
      with x xe show ?thesis by simp
    qed
  qed
qed

lemma publish_batch_keyed: "keyed ob_id outbox \<Longrightarrow> publish_batch c now p k outbox = (outbox', r) \<Longrightarrow> keyed ob_id outbox'"
  by (auto simp: publish_batch_def Let_def keyed_mark_published split: if_splits)

lemma publish_batch_ids: "publish_batch c now p k outbox = (outbox', r) \<Longrightarrow> map ob_id outbox' = map ob_id outbox"
  by (auto simp: publish_batch_def Let_def mark_published_def map_update_where split: if_splits)

lemma publish_rounds_row:
  assumes "keyed ob_id outbox" "publish_rounds c rounds outbox = (outbox', messages)"
    and "e \<in> set outbox" "e' \<in> set outbox'" "ob_id e' = ob_id e"
  shows "e' = e \<or> message_of c e \<in> set messages"
  using assms
proof (induction rounds arbitrary: outbox messages e)
  case Nil
  then show ?case using keyed_unique [OF Nil.prems(1)] by auto
next
  case (Cons r rounds)
  obtain now p k where r: "r = (now, p, k)" by (cases r)
  obtain o1 m1 n where b: "publish_batch c now p k outbox = (o1, m1, n)"
    by (cases "publish_batch c now p k outbox") auto
  obtain m2 where rest: "publish_rounds c rounds o1 = (outbox', m2)" "messages = m1 @ m2"
    using Cons.prems(2) by (auto simp: r b split: prod.splits)
  have "ob_id e \<in> ob_id ` set o1"
    using publish_batch_ids [OF b] Cons.prems(3) by (metis image_eqI list.set_map)
  then obtain e1 where e1: "e1 \<in> set o1" "ob_id e1 = ob_id e" by auto
  have "e' = e1 \<or> message_of c e1 \<in> set m2"
    using Cons.IH [OF publish_batch_keyed [OF Cons.prems(1) b] rest(1) e1(1) Cons.prems(4)] Cons.prems(5) e1(2) by simp
  moreover have "e1 = e \<or> message_of c e \<in> set m1"
    using publish_batch_row [OF Cons.prems(1) b Cons.prems(3) e1] .
  ultimately show ?case
    using rest(2) by auto
qed

subsection \<open>Properties\<close>

text \<open>C15: The publisher delivers at least once. Whatever publish calls and commits fail in whatever
  rounds, an event that was unpublished and is published afterwards had its message accepted by
  Redis on its channel; no failure marks an event that was not delivered.\<close>

theorem outbox_at_least_once:
  assumes "keyed ob_id outbox" "publish_rounds c rounds outbox = (outbox', messages)"
    and "e \<in> set outbox" "\<not> ob_published e"
    and "e' \<in> set outbox'" "ob_id e' = ob_id e" "ob_published e'"
  shows "message_of c e \<in> set messages"
  using publish_rounds_row [OF assms(1,2,3,5,6)] assms(4,7) by auto

definition sample_outbox :: "outbox_event list" where
  "sample_outbox =
     [build_case_activity_event (replicate 32 CHR ''a'') 7 (seconds 60) ''quote.ready'' ''p1'' ''o1'' None,
      build_case_activity_event (replicate 32 CHR ''b'') 4 (seconds 30) ''analysis.started'' ''p2'' ''o1'' None]"

theorem outbox_at_least_once_witness:
  "message_of (table_codec []) (sample_outbox ! 0) \<in>
     set (snd (publish_rounds (table_codec [])
       [(0, \<lambda>i. i = 0, True), (1, \<lambda>_. True, False), (2, \<lambda>_. True, True)] sample_outbox))"
  by (rule outbox_at_least_once [where outbox = sample_outbox and
        outbox' = "fst (publish_rounds (table_codec []) [(0, \<lambda>i. i = 0, True), (1, \<lambda>_. True, False), (2, \<lambda>_. True, True)] sample_outbox)" and
        e' = "(sample_outbox ! 0)\<lparr>ob_published := True, ob_published_at := Some 2\<rparr>", OF _ prod.collapse [symmetric]])
     code_simp+

text \<open>C30: With Redis and the database up, enough rounds deliver every pending event exactly once and in
  the order of its sequence number, fifty at a time, and leave none pending.\<close>

theorem publisher_drains_in_order:
  assumes "keyed ob_id outbox" "\<forall>r \<in> set rounds. snd r = (\<lambda>_. True, True)"
    and "length (pending_events outbox) \<le> 50 * length rounds"
  shows "snd (publish_rounds c rounds outbox) = map (message_of c) (pending_events outbox) \<and>
    sorted (map ob_seq (pending_events outbox)) \<and>
    pending_events (fst (publish_rounds c rounds outbox)) = []"
  using publish_rounds_up [OF assms(1,2), of c] assms(3) by (simp add: pending_events_def)

theorem publisher_drains_in_order_witness:
  "snd (publish_rounds (table_codec []) [(9, \<lambda>_. True, True)] sample_outbox) =
      map (message_of (table_codec [])) (pending_events sample_outbox) \<and>
    sorted (map ob_seq (pending_events sample_outbox)) \<and>
    pending_events (fst (publish_rounds (table_codec []) [(9, \<lambda>_. True, True)] sample_outbox)) = []"
proof (rule publisher_drains_in_order)
  show "keyed ob_id sample_outbox" by code_simp
  show "\<forall>r \<in> set [(9, \<lambda>_. True, True)]. snd r = (\<lambda>_. True, True)" by simp
  show "length (pending_events sample_outbox) \<le> 50 * length [(9 :: time, \<lambda>_ :: nat. True, True)]" by code_simp
qed

text \<open>The frame id of a message is the sequence number of its outbox row, and a live message, which
  has none, gives no id, so it never moves a client's \<open>Last-Event-ID\<close>.\<close>

theorem sse_id_roundtrip:
  assumes "loads c (dumps c (outbox_json row)) = Some (outbox_json row)"
    and "loads c (dumps c (live_json i t a k p)) = Some (live_json i t a k p)"
  shows "sse_id_from_message repr c (build_outbox_message c row) = Inr (str_nat (ob_seq row)) \<and>
    sse_id_from_message repr c (build_live_message c i t a k p) = Inr []"
  using assms
  by (simp add: sse_id_from_message_def build_outbox_message_def build_live_message_def py_str_def str_int_def)
     (simp add: outbox_json_def live_json_def py_str_def str_int_def)

definition sample_event_codec :: json_codec where
  "sample_event_codec = table_codec
     [(outbox_json (sample_outbox ! 0), ''{7}''), (live_json ''x'' ''quote.ready'' ''case'' ''p1'' JNull, ''{}'')]"

theorem sse_id_roundtrip_witness:
  "sse_id_from_message (\<lambda>_. []) sample_event_codec (build_outbox_message sample_event_codec (sample_outbox ! 0)) =
      Inr (str_nat (ob_seq (sample_outbox ! 0))) \<and>
    sse_id_from_message (\<lambda>_. []) sample_event_codec
      (build_live_message sample_event_codec ''x'' ''quote.ready'' ''case'' ''p1'' JNull) = Inr []"
  by (rule sse_id_roundtrip) code_simp+

end
