(* ===== verification/Case_Effects.thy ===== *)
theory Case_Effects
  imports Case_Transitions Backpressure Outbox
begin

section \<open>Transition effects and case actions\<close>

text \<open>
  Models \<open>app/case_workflow/effects.py\<close> (the registry of effects per transition),
  \<open>action_effects.py\<close> (the effects) and \<open>case_actions.py\<close> (the use cases: load, apply the
  transition, before-commit effects, commit, after-commit effects, reload).

  \<open>case_db\<close> is the committed state of the tables an action touches. A request works on its own
  copy, which the commit makes the committed state and an exception before it throws away. The
  environment says what the outside does: the clock, the UUIDs in the order they are drawn, and
  which of the UPDATE, the commit, the Redis publish, the Redis script and the reload fail (a script
  whose reply is lost has run).
\<close>

record analysis_job =
  aj_id :: string
  aj_project_id :: string
  aj_status :: string
  aj_job_type :: string
  aj_requested_by_user_id :: "string option"

record project_export =
  ex_id :: string
  ex_project_id :: string
  ex_export_type :: string
  ex_status :: string
  ex_file_name :: string
  ex_expires_at :: time

record final_proposal =
  fp_id :: string
  fp_project_id :: string
  fp_status :: string

record case_db =
  cd_projects :: "project list"
  cd_history :: "history_entry list"
  cd_jobs :: "analysis_job list"
  cd_exports :: "project_export list"
  cd_proposals :: "final_proposal list"
  cd_outbox :: "outbox_event list"
  cd_next_seq :: nat

datatype fault = NoFault | FailsBefore | ReplyLost

record env =
  en_now :: time
  en_uuid :: "nat \<Rightarrow> string"
  en_execute_ok :: bool
  en_commit_ok :: bool
  en_reload_ok :: bool
  en_publish_ok :: bool
  en_script_fault :: fault
  en_work_queue :: bool
  en_codec :: json_codec
  en_analysis_queue_max_depth :: int
  en_heavy_queue_max_depth :: int
  en_max_queued_jobs :: int

datatype case_error =
    CaseActionError "transition_error option"
  | DatabaseError
  | RedisError
  | QueueRaised queue_error
  | DetailError

subsection \<open>The registry\<close>

type_synonym transition_key = "string \<times> string"

definition normalize_transition_key :: "string \<Rightarrow> string \<Rightarrow> transition_key + transition_key" where
  "normalize_transition_key from_status to_status =
    (let k = (py_strip from_status, py_strip to_status)
     in if can_transition (fst k) (snd k) then Inr k else Inl k)"

text \<open>The decorator: the effect goes last in the list of its transition.\<close>

definition register_effect ::
  "string \<Rightarrow> string \<Rightarrow> 'f \<Rightarrow> (transition_key \<times> 'f list) list \<Rightarrow> transition_key + (transition_key \<times> 'f list) list" where
  "register_effect from_status to_status fn registry =
     bind_res (normalize_transition_key from_status to_status) (\<lambda>k.
       Inr (AList.update k ((case map_of registry k of None \<Rightarrow> [] | Some fs \<Rightarrow> fs) @ [fn]) registry))"

fun register_all ::
  "(string \<times> string \<times> 'f) list \<Rightarrow> (transition_key \<times> 'f list) list \<Rightarrow> transition_key + (transition_key \<times> 'f list) list" where
  "register_all [] registry = Inr registry"
| "register_all ((a, b, f) # rest) registry = bind_res (register_effect a b f registry) (register_all rest)"

datatype before_effect =
    Create_analysis_job | Write_analysis_started_outbox | Write_proposal_ready_outbox
  | Lock_proposal_pricing | Create_quote_export | Create_completion_export

datatype after_effect =
    Publish_analysis_started_to_redis | Enqueue_analysis_job | Publish_proposal_ready_to_redis
  | Enqueue_quote_export | Enqueue_completion_export

text \<open>The decorated functions of \<open>action_effects.py\<close>, in the order of the file.\<close>

definition before_registrations :: "(string \<times> string \<times> before_effect) list" where
  "before_registrations =
    [(''intake'', ''analyzing'', Create_analysis_job),
     (''intake'', ''analyzing'', Write_analysis_started_outbox),
     (''analyzing'', ''proposal_ready'', Write_proposal_ready_outbox),
     (''proposal_ready'', ''quote_ready'', Lock_proposal_pricing),
     (''quote_ready'', ''sent'', Create_quote_export),
     (''sent'', ''archived'', Create_completion_export)]"

definition after_registrations :: "(string \<times> string \<times> after_effect) list" where
  "after_registrations =
    [(''intake'', ''analyzing'', Publish_analysis_started_to_redis),
     (''intake'', ''analyzing'', Enqueue_analysis_job),
     (''analyzing'', ''proposal_ready'', Publish_proposal_ready_to_redis),
     (''quote_ready'', ''sent'', Enqueue_quote_export),
     (''sent'', ''archived'', Enqueue_completion_export)]"

definition registry_of :: "(string \<times> string \<times> 'f) list \<Rightarrow> (transition_key \<times> 'f list) list" where
  "registry_of regs = (case register_all regs [] of Inl k \<Rightarrow> [] | Inr r \<Rightarrow> r)"

definition effects_for :: "(string \<times> string \<times> 'f) list \<Rightarrow> string \<Rightarrow> string \<Rightarrow> 'f list" where
  "effects_for regs a b = (case map_of (registry_of regs) (a, b) of None \<Rightarrow> [] | Some fs \<Rightarrow> fs)"

subsection \<open>The effects\<close>

record effect_context =
  ec_project :: project
  ec_from_status :: string
  ec_to_status :: string
  ec_actor_user_id :: "string option"
  ec_organization_id :: "string option"
  ec_is_superadmin :: bool

record effect_state =
  es_db :: case_db
  es_redis :: redis
  es_state :: "(string \<times> string) list"
  es_uuids :: nat

definition EXPORT_TTL_DAYS :: int where
  [simp, constant_simps]: "EXPORT_TTL_DAYS = 30"

definition create_analysis_job :: "env \<Rightarrow> effect_context \<Rightarrow> effect_state \<Rightarrow> effect_state" where
  "create_analysis_job e ctx s =
    (let job = \<lparr>aj_id = ''job_'' @ take 8 (en_uuid e (es_uuids s)), aj_project_id = pr_id (ec_project ctx),
                aj_status = ''queued'', aj_job_type = ''manual_trigger'',
                aj_requested_by_user_id = ec_actor_user_id ctx\<rparr>
     in s\<lparr>es_db := (es_db s)\<lparr>cd_jobs := cd_jobs (es_db s) @ [job]\<rparr>,
          es_state := AList.update ''analysis_job_id'' (aj_id job) (es_state s),
          es_uuids := es_uuids s + 1\<rparr>)"

text \<open>Both outbox effects: a case event with the new status, its id kept under \<open>key\<close>.\<close>

definition write_case_outbox :: "string \<Rightarrow> string \<Rightarrow> string \<Rightarrow> env \<Rightarrow> effect_context \<Rightarrow> effect_state \<Rightarrow> effect_state" where
  "write_case_outbox event_type status key e ctx s =
    (let db = es_db s;
         event = build_case_activity_event (en_uuid e (es_uuids s)) (cd_next_seq db) (en_now e) event_type
           (pr_id (ec_project ctx)) (pr_organization_id (ec_project ctx)) (Some [(''status'', JStr status)])
     in s\<lparr>es_db := db\<lparr>cd_outbox := cd_outbox db @ [event], cd_next_seq := cd_next_seq db + 1\<rparr>,
          es_state := AList.update key (ob_id event) (es_state s),
          es_uuids := es_uuids s + 1\<rparr>)"

definition write_analysis_started_outbox :: "env \<Rightarrow> effect_context \<Rightarrow> effect_state \<Rightarrow> effect_state" where
  [simp]: "write_analysis_started_outbox =
     write_case_outbox EVENT_ANALYSIS_STARTED ''analyzing'' ''analysis_started_outbox_id''"

definition write_proposal_ready_outbox :: "env \<Rightarrow> effect_context \<Rightarrow> effect_state \<Rightarrow> effect_state" where
  [simp]: "write_proposal_ready_outbox =
     write_case_outbox EVENT_PROPOSAL_READY ''proposal_ready'' ''proposal_ready_outbox_id''"

definition lock_proposal_pricing :: "env \<Rightarrow> effect_context \<Rightarrow> effect_state \<Rightarrow> case_error + effect_state" where
  "lock_proposal_pricing e ctx s =
    (if \<not> en_execute_ok e then Inl DatabaseError
     else Inr (s\<lparr>es_db := (es_db s)\<lparr>cd_proposals :=
            update_where (\<lambda>f. fp_project_id f = pr_id (ec_project ctx)) (\<lambda>f. f\<lparr>fp_status := ''approved''\<rparr>)
              (cd_proposals (es_db s))\<rparr>\<rparr>))"

definition create_export :: "string \<Rightarrow> string \<Rightarrow> string \<Rightarrow> string \<Rightarrow> env \<Rightarrow> effect_context \<Rightarrow> effect_state \<Rightarrow> effect_state" where
  "create_export export_type prefix extension key e ctx s =
    (let export = \<lparr>ex_id = ''exp_'' @ take 8 (en_uuid e (es_uuids s)), ex_project_id = pr_id (ec_project ctx),
                   ex_export_type = export_type, ex_status = ''pending'',
                   ex_file_name = prefix @ pr_id (ec_project ctx) @ extension,
                   ex_expires_at = en_now e + days EXPORT_TTL_DAYS\<rparr>
     in s\<lparr>es_db := (es_db s)\<lparr>cd_exports := cd_exports (es_db s) @ [export]\<rparr>,
          es_state := AList.update key (ex_id export) (es_state s),
          es_uuids := es_uuids s + 1\<rparr>)"

definition create_quote_export :: "env \<Rightarrow> effect_context \<Rightarrow> effect_state \<Rightarrow> effect_state" where
  "create_quote_export = create_export ''quote-pdf'' ''quote-'' ''.pdf'' ''quote_export_id''"

definition create_completion_export :: "env \<Rightarrow> effect_context \<Rightarrow> effect_state \<Rightarrow> effect_state" where
  "create_completion_export = create_export ''case-zip'' ''case-'' ''.zip'' ''completion_export_id''"

fun run_before_effect :: "before_effect \<Rightarrow> env \<Rightarrow> effect_context \<Rightarrow> effect_state \<Rightarrow> case_error + effect_state" where
  "run_before_effect Create_analysis_job e ctx s = Inr (create_analysis_job e ctx s)"
| "run_before_effect Write_analysis_started_outbox e ctx s =
     Inr (write_analysis_started_outbox e ctx s)"
| "run_before_effect Write_proposal_ready_outbox e ctx s =
     Inr (write_proposal_ready_outbox e ctx s)"
| "run_before_effect Lock_proposal_pricing e ctx s = lock_proposal_pricing e ctx s"
| "run_before_effect Create_quote_export e ctx s = Inr (create_quote_export e ctx s)"
| "run_before_effect Create_completion_export e ctx s = Inr (create_completion_export e ctx s)"

text \<open>The live publish of both case events.\<close>

definition publish_case_event :: "string \<Rightarrow> string \<Rightarrow> string \<Rightarrow> env \<Rightarrow> effect_context \<Rightarrow> effect_state \<Rightarrow> effect_state \<times> (case_error + unit)" where
  "publish_case_event event_type status key e ctx s =
    (if \<not> en_work_queue e then (s, Inr ())
     else
       let (event_id, s') = (case map_of (es_state s) key of
               Some i \<Rightarrow> (i, s)
             | None \<Rightarrow> (uuid_str (en_uuid e (es_uuids s)), s\<lparr>es_uuids := es_uuids s + 1\<rparr>));
           project_id = pr_id (ec_project ctx);
           message = build_live_message (en_codec e) event_id event_type AGGREGATE_CASE project_id
             (JObj [(''status'', JStr status)])
       in if \<not> en_publish_ok e then (s', Inl RedisError)
          else (s'\<lparr>es_redis := (es_redis s')\<lparr>rd_published := rd_published (es_redis s') @
                 [(''case:events:'' @ project_id, message)]\<rparr>\<rparr>, Inr ()))"

text \<open>A queue call under the environment's fault.\<close>

definition with_fault :: "fault \<Rightarrow> redis \<Rightarrow> redis \<times> (queue_error + unit) \<Rightarrow> redis \<times> (case_error + unit)" where
  "with_fault f r result =
    (case f of
       FailsBefore \<Rightarrow> (r, Inl RedisError)
     | ReplyLost \<Rightarrow> (fst result, Inl RedisError)
     | NoFault \<Rightarrow> (fst result, case snd result of Inl q \<Rightarrow> Inl (QueueRaised q) | Inr u \<Rightarrow> Inr u))"

definition enqueue_analysis_effect :: "env \<Rightarrow> effect_context \<Rightarrow> effect_state \<Rightarrow> effect_state \<times> (case_error + unit)" where
  "enqueue_analysis_effect e ctx s =
    (case map_of (es_state s) ''analysis_job_id'' of
       None \<Rightarrow> (s, Inr ())
     | Some job_id \<Rightarrow>
         if job_id = [] \<or> \<not> en_work_queue e then (s, Inr ())
         else case with_fault (en_script_fault e) (es_redis s)
             (enqueue_analysis_job (en_codec e) (es_redis s) job_id (pr_id (ec_project ctx))
               (ec_organization_id ctx) (ec_is_superadmin ctx) (Some (en_analysis_queue_max_depth e))
               (Some (en_max_queued_jobs e)) (analysis_job_priority_for_type (Some ''manual_trigger''))) of
           (r, res) \<Rightarrow> (s\<lparr>es_redis := r\<rparr>, res))"

definition enqueue_export_effect :: "string \<Rightarrow> env \<Rightarrow> effect_context \<Rightarrow> effect_state \<Rightarrow> effect_state \<times> (case_error + unit)" where
  "enqueue_export_effect key e ctx s =
    (case map_of (es_state s) key of
       None \<Rightarrow> (s, Inr ())
     | Some export_id \<Rightarrow>
         if export_id = [] \<or> \<not> en_work_queue e then (s, Inr ())
         else case with_fault (en_script_fault e) (es_redis s)
             (enqueue_heavy_job (en_codec e) (es_redis s) ''export_generate'' (pr_id (ec_project ctx))
               (ec_organization_id ctx) (Some export_id) None (Some (en_heavy_queue_max_depth e))
               (Some (en_max_queued_jobs e)) (heavy_job_priority_for_type (Some ''export_generate''))) of
           (r, res) \<Rightarrow> (s\<lparr>es_redis := r\<rparr>, res))"

definition publish_analysis_started_to_redis where
  [simp]: "publish_analysis_started_to_redis =
     publish_case_event EVENT_ANALYSIS_STARTED ''analyzing'' ''analysis_started_outbox_id''"

definition publish_proposal_ready_to_redis where
  [simp]: "publish_proposal_ready_to_redis =
     publish_case_event EVENT_PROPOSAL_READY ''proposal_ready'' ''proposal_ready_outbox_id''"

definition enqueue_quote_export where
  [simp]: "enqueue_quote_export = enqueue_export_effect ''quote_export_id''"

definition enqueue_completion_export where
  [simp]: "enqueue_completion_export = enqueue_export_effect ''completion_export_id''"

fun run_after_effect :: "after_effect \<Rightarrow> env \<Rightarrow> effect_context \<Rightarrow> effect_state \<Rightarrow> effect_state \<times> (case_error + unit)" where
  "run_after_effect Publish_analysis_started_to_redis e ctx s =
     publish_analysis_started_to_redis e ctx s"
| "run_after_effect Enqueue_analysis_job e ctx s = enqueue_analysis_effect e ctx s"
| "run_after_effect Publish_proposal_ready_to_redis e ctx s =
     publish_proposal_ready_to_redis e ctx s"
| "run_after_effect Enqueue_quote_export e ctx s = enqueue_quote_export e ctx s"
| "run_after_effect Enqueue_completion_export e ctx s = enqueue_completion_export e ctx s"

text \<open>A before-commit effect that raises ends the action; an after-commit one is logged and passed over.\<close>

fun run_before_effects :: "before_effect list \<Rightarrow> env \<Rightarrow> effect_context \<Rightarrow> effect_state \<Rightarrow> case_error + effect_state" where
  "run_before_effects [] e ctx s = Inr s"
| "run_before_effects (f # fs) e ctx s = bind_res (run_before_effect f e ctx s) (run_before_effects fs e ctx)"

fun run_after_effects :: "after_effect list \<Rightarrow> env \<Rightarrow> effect_context \<Rightarrow> effect_state \<Rightarrow> effect_state" where
  "run_after_effects [] e ctx s = s"
| "run_after_effects (f # fs) e ctx s = run_after_effects fs e ctx (fst (run_after_effect f e ctx s))"

definition run_before_commit :: "env \<Rightarrow> effect_context \<Rightarrow> effect_state \<Rightarrow> case_error + effect_state" where
  "run_before_commit e ctx s =
     run_before_effects (effects_for before_registrations (ec_from_status ctx) (ec_to_status ctx)) e ctx s"

definition run_after_commit :: "env \<Rightarrow> effect_context \<Rightarrow> effect_state \<Rightarrow> effect_state" where
  "run_after_commit e ctx s =
     run_after_effects (effects_for after_registrations (ec_from_status ctx) (ec_to_status ctx)) e ctx s"

end
