(* ===== verification/Case_Actions.thy ===== *)
theory Case_Actions
  imports Case_Effects
begin

section \<open>Case actions\<close>

text \<open>
  Models \<open>app/case_workflow/case_actions.py\<close> and the two reads of \<open>project_repository.py\<close> it uses.
  An action is split where another request can come between: the load of the project row, which
  takes no lock, and the rest of \<open>_transition_and_return\<close> on the row that was loaded. Run one after
  the other they are the action; \<open>finish_transition\<close> on a row loaded earlier is a request that was
  overtaken.
\<close>

definition get_project_lean :: "case_db \<Rightarrow> string \<Rightarrow> string option \<Rightarrow> project option" where
  "get_project_lean db project_id organization_id =
     select_one (\<lambda>p. pr_id p = project_id \<and>
       (case organization_id of None \<Rightarrow> True | Some org \<Rightarrow> pr_organization_id p = org)) (cd_projects db)"

text \<open>The flush of the changed columns of the loaded row, and the new history row.\<close>

definition write_transition :: "project \<Rightarrow> history_entry \<Rightarrow> case_db \<Rightarrow> case_db" where
  "write_transition p h db =
     db\<lparr>cd_projects := update_where (\<lambda>q. pr_id q = pr_id p)
          (\<lambda>q. q\<lparr>pr_status := pr_status p, pr_status_changed_at := pr_status_changed_at p,
                 pr_status_changed_by_user_id := pr_status_changed_by_user_id p\<rparr>) (cd_projects db),
        cd_history := cd_history db @ [h]\<rparr>"

definition case_keys_ok :: "case_db \<Rightarrow> bool" where
  "case_keys_ok db \<longleftrightarrow> keyed psh_id (cd_history db) \<and> keyed aj_id (cd_jobs db) \<and>
     keyed ex_id (cd_exports db) \<and> keyed ob_id (cd_outbox db)"

definition commit_case :: "env \<Rightarrow> project \<Rightarrow> case_db \<Rightarrow> case_error + case_db" where
  "commit_case e p tx =
    (if en_commit_ok e \<and> case_keys_ok tx \<and> pr_id p \<in> pr_id ` set (cd_projects tx) then Inr tx
     else Inl DatabaseError)"

type_synonym case_world = "case_db \<times> redis"

definition finish_transition ::
  "env \<Rightarrow> case_world \<Rightarrow> project \<Rightarrow> string option \<Rightarrow> string \<Rightarrow> string option \<Rightarrow> string \<Rightarrow> string option
    \<Rightarrow> case_world \<times> (case_error + project option)" where
  "finish_transition e w p organization_id to_status actor_user_id actor_role reason =
    (case apply_transition (en_now e) (en_uuid e 0) p to_status actor_user_id reason of
       Inl err \<Rightarrow> (w, Inl (CaseActionError (Some err)))
     | Inr (p', h) \<Rightarrow>
         let ctx = \<lparr>ec_project = p', ec_from_status = pr_status p, ec_to_status = to_status,
                    ec_actor_user_id = actor_user_id, ec_organization_id = organization_id,
                    ec_is_superadmin = (actor_role = ''superadmin'')\<rparr>;
             s = \<lparr>es_db = write_transition p' h (fst w), es_redis = snd w, es_state = [], es_uuids = 1\<rparr>
         in case run_before_commit e ctx s of
              Inl err \<Rightarrow> (w, Inl err)
            | Inr s1 \<Rightarrow>
                (case commit_case e p' (es_db s1) of
                   Inl err \<Rightarrow> (w, Inl err)
                 | Inr db \<Rightarrow>
                     let s2 = run_after_commit e ctx (s1\<lparr>es_db := db\<rparr>) in
                     ((es_db s2, es_redis s2),
                      case get_project_lean (es_db s2) (pr_id p) organization_id of
                        None \<Rightarrow> Inl DetailError
                      | Some full \<Rightarrow> if en_reload_ok e then Inr (Some full) else Inl DetailError)))"

definition transition_and_return ::
  "env \<Rightarrow> case_world \<Rightarrow> string \<Rightarrow> string option \<Rightarrow> string \<Rightarrow> string option \<Rightarrow> string \<Rightarrow> string option
    \<Rightarrow> project option \<Rightarrow> case_world \<times> (case_error + project option)" where
  "transition_and_return e w project_id organization_id to_status actor_user_id actor_role reason preloaded =
    (case (case preloaded of Some p \<Rightarrow> Some p | None \<Rightarrow> get_project_lean (fst w) project_id organization_id) of
       None \<Rightarrow> (w, Inr None)
     | Some p \<Rightarrow> finish_transition e w p organization_id to_status actor_user_id actor_role reason)"

record action_args =
  aa_project_id :: string
  aa_organization_id :: "string option"
  aa_actor_user_id :: string
  aa_actor_role :: string
  aa_reason :: "string option"

text \<open>What every human action passes on; only the target status differs.\<close>

definition human_action :: "string \<Rightarrow> env \<Rightarrow> case_world \<Rightarrow> action_args \<Rightarrow> case_world \<times> (case_error + project option)" where
  "human_action to_status e w a =
     transition_and_return e w (aa_project_id a) (aa_organization_id a) to_status (Some (aa_actor_user_id a))
       (aa_actor_role a) (aa_reason a) None"

definition submit where "submit = human_action ''intake''"
definition start_analysis where "start_analysis = human_action ''analyzing''"
definition approve_proposal where "approve_proposal = human_action ''quote_ready''"
definition complete where "complete = human_action ''archived''"
definition return_to_draft where "return_to_draft = human_action ''draft''"
definition cancel where "cancel = human_action ''cancelled''"

definition send_quote :: "env \<Rightarrow> case_world \<Rightarrow> action_args \<Rightarrow> case_world \<times> (case_error + project option)" where
  "send_quote e w a =
    (case get_project_lean (fst w) (aa_project_id a) (aa_organization_id a) of
       None \<Rightarrow> (w, Inr None)
     | Some p \<Rightarrow>
         if filter (\<lambda>f. fp_project_id f = pr_id p) (cd_proposals (fst w)) = []
         then (w, Inl (CaseActionError None))
         else transition_and_return e w (aa_project_id a) (aa_organization_id a) ''sent''
                (Some (aa_actor_user_id a)) (aa_actor_role a) (aa_reason a) (Some p))"

definition worker_action ::
  "string \<Rightarrow> env \<Rightarrow> case_world \<Rightarrow> string \<Rightarrow> string option \<Rightarrow> case_world \<times> (case_error + project option)" where
  "worker_action to_status e w project_id reason =
     transition_and_return e w project_id None to_status None ''manager'' reason None"

definition worker_proposal_ready where "worker_proposal_ready = worker_action ''proposal_ready''"
definition worker_quote_ready where "worker_quote_ready = worker_action ''quote_ready''"

datatype case_call =
    Submit action_args | StartAnalysis action_args | ApproveProposal action_args | SendQuote action_args
  | Complete action_args | ReturnToDraft action_args | Cancel action_args
  | WorkerProposalReady string "string option" | WorkerQuoteReady string "string option"

fun run_call :: "env \<Rightarrow> case_call \<Rightarrow> case_world \<Rightarrow> case_world \<times> (case_error + project option)" where
  "run_call e (Submit a) w = submit e w a"
| "run_call e (StartAnalysis a) w = start_analysis e w a"
| "run_call e (ApproveProposal a) w = approve_proposal e w a"
| "run_call e (SendQuote a) w = send_quote e w a"
| "run_call e (Complete a) w = complete e w a"
| "run_call e (ReturnToDraft a) w = return_to_draft e w a"
| "run_call e (Cancel a) w = cancel e w a"
| "run_call e (WorkerProposalReady p r) w = worker_proposal_ready e w p r"
| "run_call e (WorkerQuoteReady p r) w = worker_quote_ready e w p r"

lemmas action_defs = submit_def start_analysis_def approve_proposal_def complete_def return_to_draft_def
  cancel_def send_quote_def worker_proposal_ready_def worker_quote_ready_def human_action_def worker_action_def

text \<open>Requests one after the other, each in its own environment.\<close>

fun run_calls :: "(env \<times> case_call) list \<Rightarrow> case_world \<Rightarrow> case_world" where
  "run_calls [] w = w"
| "run_calls ((e, c) # cs) w = run_calls cs (fst (run_call e c w))"

subsection \<open>What the effects leave alone\<close>

lemma registry_ok:
  "is_ok (register_all before_registrations [])" "is_ok (register_all after_registrations [])"
  by code_simp+

lemma before_effects_for:
  "effects_for before_registrations ''intake'' ''analyzing'' = [Create_analysis_job, Write_analysis_started_outbox]"
  "effects_for before_registrations ''quote_ready'' ''sent'' = [Create_quote_export]"
  "effects_for after_registrations ''intake'' ''analyzing'' = [Publish_analysis_started_to_redis, Enqueue_analysis_job]"
  by code_simp+

lemma run_before_effect_frame:
  assumes "run_before_effect f e ctx s = Inr s'"
  shows "cd_projects (es_db s') = cd_projects (es_db s)" "cd_history (es_db s') = cd_history (es_db s)"
    "es_redis s' = es_redis s"
  using assms
  by (cases f; auto simp: create_analysis_job_def write_case_outbox_def lock_proposal_pricing_def
      create_quote_export_def create_completion_export_def create_export_def Let_def split: if_splits)+

lemma run_before_effects_frame:
  assumes "run_before_effects fs e ctx s = Inr s'"
  shows "cd_projects (es_db s') = cd_projects (es_db s) \<and> cd_history (es_db s') = cd_history (es_db s) \<and>
    es_redis s' = es_redis s"
  using assms
proof (induction fs arbitrary: s)
  case (Cons f fs)
  then obtain s1 where s1: "run_before_effect f e ctx s = Inr s1" "run_before_effects fs e ctx s1 = Inr s'"
    by (auto simp: bind_res_eq_Inr)
  with Cons.IH [OF s1(2)] run_before_effect_frame [OF s1(1)] show ?case by simp
qed simp

lemma run_after_effect_db: "es_db (fst (run_after_effect f e ctx s)) = es_db s"
  by (cases f) (auto simp: publish_case_event_def enqueue_analysis_effect_def enqueue_export_effect_def Let_def
      split: option.splits prod.splits)

lemma run_after_effects_db: "es_db (run_after_effects fs e ctx s) = es_db s"
  by (induction fs arbitrary: s) (simp_all add: run_after_effect_db)

lemma commit_case_Inr:
  assumes "commit_case e p tx = Inr db"
  shows "db = tx" "case_keys_ok tx" "pr_id p \<in> pr_id ` set (cd_projects tx)"
  using assms by (auto simp: commit_case_def split: if_splits)

lemma write_transition_ids: "map pr_id (cd_projects (write_transition p h db)) = map pr_id (cd_projects db)"
  by (simp add: write_transition_def map_update_where)

lemma finish_transition_cases:
  assumes "finish_transition e w p org to actor role reason = (w', res)"
  obtains (failed) err where "res = Inl err" "w' = w"
  | (committed) p' h where "apply_transition (en_now e) (en_uuid e 0) p to actor reason = Inr (p', h)"
      "cd_projects (fst w') = cd_projects (write_transition p' h (fst w))"
      "cd_history (fst w') = cd_history (fst w) @ [h]"
      "case_keys_ok (fst w')" "pr_id p \<in> pr_id ` set (cd_projects (fst w))"
proof (cases "apply_transition (en_now e) (en_uuid e 0) p to actor reason")
  case (Inl err)
  with assms show ?thesis
    by (intro that(1) [of "CaseActionError (Some err)"]) (auto simp: finish_transition_def)
next
  case (Inr ph)
  obtain p' h where ph: "ph = (p', h)" by (cases ph)
  let ?ctx = "\<lparr>ec_project = p', ec_from_status = pr_status p, ec_to_status = to, ec_actor_user_id = actor,
    ec_organization_id = org, ec_is_superadmin = (role = ''superadmin'')\<rparr>"
  let ?s = "\<lparr>es_db = write_transition p' h (fst w), es_redis = snd w, es_state = [], es_uuids = 1\<rparr>"
  show ?thesis
  proof (cases "run_before_commit e ?ctx ?s")
    case (Inl err)
    with assms Inr ph show ?thesis
      by (intro that(1) [of err]) (auto simp: finish_transition_def Let_def)
  next
    case (Inr s1)
    note before = this
    show ?thesis
    proof (cases "commit_case e p' (es_db s1)")
      case (Inl err)
      with assms before \<open>apply_transition _ _ _ _ _ _ = Inr ph\<close> ph show ?thesis
        by (intro that(1) [of err]) (auto simp: finish_transition_def Let_def)
    next
      case (Inr db)
      then have db: "db = es_db s1" "case_keys_ok (es_db s1)" "pr_id p' \<in> pr_id ` set (cd_projects (es_db s1))"
        by (auto simp: commit_case_def split: if_splits)
      with assms before Inr \<open>apply_transition _ _ _ _ _ _ = Inr ph\<close> ph have w': "fst w' = es_db s1"
        by (auto simp: finish_transition_def Let_def run_after_commit_def run_after_effects_db)
      have frame: "cd_projects (es_db s1) = cd_projects (write_transition p' h (fst w))"
        "cd_history (es_db s1) = cd_history (fst w) @ [h]"
        using run_before_effects_frame [OF before [unfolded run_before_commit_def]]
        by (simp_all add: write_transition_def)
      moreover have "pr_id p \<in> pr_id ` set (cd_projects (fst w))"
        using db(3) frame(1) apply_transition_Inr(3) \<open>apply_transition _ _ _ _ _ _ = Inr ph\<close> ph
        by (metis write_transition_ids list.set_map)
      ultimately show ?thesis
        using that(2) db(2) w' \<open>apply_transition _ _ _ _ _ _ = Inr ph\<close> ph by simp
    qed
  qed
qed

subsection \<open>One request\<close>

lemma get_project_lean_Some:
  "get_project_lean db i org = Some p \<Longrightarrow>
     p \<in> set (cd_projects db) \<and> pr_id p = i \<and> (org = None \<or> org = Some (pr_organization_id p))"
  unfolding get_project_lean_def by (drule select_one_Some) (auto split: option.splits)

text \<open>A request either leaves the world as it was or commits one move of a project it loaded.\<close>

definition call_org :: "case_call \<Rightarrow> string option" where
  "call_org c = (case c of
      Submit a \<Rightarrow> aa_organization_id a | StartAnalysis a \<Rightarrow> aa_organization_id a
    | ApproveProposal a \<Rightarrow> aa_organization_id a | SendQuote a \<Rightarrow> aa_organization_id a
    | Complete a \<Rightarrow> aa_organization_id a | ReturnToDraft a \<Rightarrow> aa_organization_id a
    | Cancel a \<Rightarrow> aa_organization_id a | WorkerProposalReady p r \<Rightarrow> None | WorkerQuoteReady p r \<Rightarrow> None)"

definition call_target :: "case_call \<Rightarrow> string" where
  "call_target c = (case c of
      Submit a \<Rightarrow> ''intake'' | StartAnalysis a \<Rightarrow> ''analyzing'' | ApproveProposal a \<Rightarrow> ''quote_ready''
    | SendQuote a \<Rightarrow> ''sent'' | Complete a \<Rightarrow> ''archived'' | ReturnToDraft a \<Rightarrow> ''draft''
    | Cancel a \<Rightarrow> ''cancelled'' | WorkerProposalReady p r \<Rightarrow> ''proposal_ready'' | WorkerQuoteReady p r \<Rightarrow> ''quote_ready'')"

lemma transition_and_return_finish:
  assumes "transition_and_return e w i org to actor role reason pre = (w', res)"
    and "\<And>p. pre = Some p \<Longrightarrow> get_project_lean (fst w) i org = Some p"
  obtains (missing) "w' = w" "res = Inr None"
  | (loaded) p where "get_project_lean (fst w) i org = Some p"
      "finish_transition e w p org to actor role reason = (w', res)"
      "\<And>e. transition_and_return e w i org to actor role reason pre = finish_transition e w p org to actor role reason"
  using assms by (auto simp: transition_and_return_def split: option.splits)

lemma run_call_finish_reload:
  assumes "run_call e c w = (w', res)"
  obtains (unchanged) "w' = w" "res = Inr None \<or> res = Inl (CaseActionError None)"
  | (loaded) p i actor role reason where "get_project_lean (fst w) i (call_org c) = Some p"
      "finish_transition e w p (call_org c) (call_target c) actor role reason = (w', res)"
      "run_call (e\<lparr>en_reload_ok := True\<rparr>) c w =
        finish_transition (e\<lparr>en_reload_ok := True\<rparr>) w p (call_org c) (call_target c) actor role reason"
proof (cases c)
  case (SendQuote a)
  show ?thesis
  proof (cases "get_project_lean (fst w) (aa_project_id a) (aa_organization_id a)")
    case None
    with SendQuote assms that(1) show ?thesis by (simp add: send_quote_def)
  next
    case (Some p)
    with SendQuote assms that show ?thesis
      by (auto simp: send_quote_def call_org_def call_target_def transition_and_return_def split: if_splits)
  qed
qed (use assms that in \<open>auto simp: action_defs call_org_def call_target_def elim!: transition_and_return_finish\<close>)

lemma run_call_finish:
  assumes "run_call e c w = (w', res)"
  obtains (unchanged) "w' = w" "res = Inr None \<or> res = Inl (CaseActionError None)"
  | (loaded) p i actor role reason where "get_project_lean (fst w) i (call_org c) = Some p"
      "finish_transition e w p (call_org c) (call_target c) actor role reason = (w', res)"
  using run_call_finish_reload [OF assms] that by metis

text \<open>Whether the answer can be built afterwards changes nothing else.\<close>

abbreviation reloading :: "env \<Rightarrow> env" where
  "reloading e \<equiv> e\<lparr>en_reload_ok := True\<rparr>"

lemma run_before_effects_reload: "run_before_effects fs (reloading e) ctx s = run_before_effects fs e ctx s"
proof (induction fs arbitrary: s)
  case (Cons f fs)
  have "run_before_effect f (reloading e) ctx s = run_before_effect f e ctx s"
    by (cases f) (simp_all add: create_analysis_job_def write_case_outbox_def lock_proposal_pricing_def
        create_quote_export_def create_completion_export_def create_export_def Let_def)
  with Cons show ?case by (cases "run_before_effect f e ctx s") simp_all
qed simp

lemma run_after_effects_reload: "run_after_effects fs (reloading e) ctx s = run_after_effects fs e ctx s"
proof (induction fs arbitrary: s)
  case (Cons f fs)
  have "run_after_effect f (reloading e) ctx s = run_after_effect f e ctx s"
    by (cases f) (simp_all add: publish_case_event_def enqueue_analysis_effect_def enqueue_export_effect_def Let_def split: option.split)
  with Cons show ?case by simp
qed simp

lemma finish_transition_reloads:
  assumes "finish_transition e w p org to actor role reason = (w', Inl err)"
    and "get_project_lean (fst w) i org = Some p" "w' \<noteq> w"
  shows "err = DetailError \<and> \<not> en_reload_ok e \<and>
    (\<exists>q. finish_transition (reloading e) w p org to actor role reason = (w', Inr (Some q)))"
  using assms(1)
proof (cases rule: finish_transition_cases)
  case (committed p' h)
  have p: "p \<in> set (cd_projects (fst w))" "pr_id p = i" "org = None \<or> org = Some (pr_organization_id p)"
    using get_project_lean_Some [OF assms(2)] by auto
  have "pr_id p' = pr_id p"
    using apply_transition_Inr(3) [OF committed(1)] .
  let ?q = "p\<lparr>pr_status := pr_status p', pr_status_changed_at := pr_status_changed_at p',
    pr_status_changed_by_user_id := pr_status_changed_by_user_id p'\<rparr>"
  have "?q \<in> set (cd_projects (fst w'))"
    unfolding committed(2) write_transition_def
    using \<open>pr_id p' = pr_id p\<close> by (simp add: set_update_where) (rule image_eqI [where x = p], simp_all add: p(1))
  then have "\<exists>q \<in> set (cd_projects (fst w')). pr_id q = pr_id p \<and> pr_organization_id q = pr_organization_id p"
    by (rule bexI [rotated]) simp
  with p(3) have "get_project_lean (fst w') (pr_id p) org \<noteq> None"
    by (auto simp: get_project_lean_def select_one_None split: option.splits)
  with assms(1,3) committed(1) show ?thesis
    by (auto simp: finish_transition_def Let_def run_before_commit_def run_after_commit_def run_before_effects_reload
        run_after_effects_reload commit_case_def split: sum.splits option.splits if_splits)
qed (use assms(3) in simp)

text \<open>C4: A case action is atomic up to its answer. When it raises, whichever guard, statement or commit failed, the
  database and Redis are exactly what they were before it, with one exception: if the case cannot be read back, or its
  detail not be built, after the commit, the action has been carried out completely, with the very database and Redis a
  run leaves that answers, and only the answer is lost.\<close>

theorem failed_action_changes_nothing:
  assumes "run_call e c w = (w', Inl err)"
  shows "w' = w \<or> (err = DetailError \<and> \<not> en_reload_ok e \<and> (\<exists>q. run_call (e\<lparr>en_reload_ok := True\<rparr>) c w = (w', Inr (Some q))))"
proof (cases "w' = w")
  case False
  from assms show ?thesis
  proof (cases rule: run_call_finish_reload)
    case (loaded p i actor role reason)
    with finish_transition_reloads [OF loaded(2,1) False] show ?thesis by simp
  qed (use False in simp)
qed simp

subsection \<open>Histories\<close>

definition moves :: "history_entry list \<Rightarrow> string \<Rightarrow> (string \<times> string) list" where
  "moves history i = map (\<lambda>h. (the (psh_from_status h), psh_to_status h))
     (filter (\<lambda>h. psh_project_id h = i) history)"

definition trail_ok :: "nat \<Rightarrow> (string \<Rightarrow> string) \<Rightarrow> case_db \<Rightarrow> bool" where
  "trail_ok n start db \<longleftrightarrow> keyed pr_id (cd_projects db) \<and> n \<le> length (cd_history db) \<and>
     (\<forall>p \<in> set (cd_projects db).
        valid_trail allowed_targets (start (pr_id p)) (moves (drop n (cd_history db)) (pr_id p)) (pr_status p))"

lemma moves_snoc:
  "moves (xs @ [h]) i = moves xs i @
     (if psh_project_id h = i then [(the (psh_from_status h), psh_to_status h)] else [])"
  by (simp add: moves_def)

lemma write_transition_trail:
  assumes "trail_ok n start db" "p \<in> set (cd_projects db)"
    and "apply_transition now u p to actor reason = Inr (p', h)"
    and "cd_projects db' = cd_projects (write_transition p' h db)" "cd_history db' = cd_history db @ [h]"
  shows "trail_ok n start db'"
proof -
  note ap = apply_transition_Inr [OF assms(3)]
  have keyed: "keyed pr_id (cd_projects db)" and n: "n \<le> length (cd_history db)"
    and old: "\<And>q. q \<in> set (cd_projects db) \<Longrightarrow>
      valid_trail allowed_targets (start (pr_id q)) (moves (drop n (cd_history db)) (pr_id q)) (pr_status q)"
    using assms(1) by (auto simp: trail_ok_def)
  have new: "valid_trail allowed_targets (start (pr_id q')) (moves (drop n (cd_history db')) (pr_id q')) (pr_status q')"
    if q': "q' \<in> set (cd_projects db')" for q'
  proof -
    from q' obtain q where q: "q \<in> set (cd_projects db)"
      "q' = (if pr_id q = pr_id p' then q\<lparr>pr_status := pr_status p', pr_status_changed_at := pr_status_changed_at p',
          pr_status_changed_by_user_id := pr_status_changed_by_user_id p'\<rparr> else q)"
      unfolding assms(4) write_transition_def by (auto simp: set_update_where)
    have h: "moves (drop n (cd_history db')) i = moves (drop n (cd_history db)) i @
        (if pr_id p = i then [(pr_status p, to)] else [])" for i
      using n by (simp add: assms(5) moves_snoc ap)
    show ?thesis
    proof (cases "pr_id q = pr_id p")
      case True
      with keyed_unique [OF keyed q(1) assms(2)] have "q = p" by simp
      with q ap have q': "pr_id q' = pr_id p" "pr_status q' = to" by simp_all
      have "valid_trail allowed_targets (start (pr_id p)) (moves (drop n (cd_history db)) (pr_id p) @ [(pr_status p, to)]) to"
        using old [OF assms(2)] ap(1) by (rule case_machine.trail_snoc)
      then show ?thesis by (simp add: q' h)
    next
      case False
      with old [OF q(1)] q ap(3) show ?thesis by (simp add: h)
    qed
  qed
  moreover have "keyed pr_id (cd_projects db')"
    using keyed by (simp add: assms(4) keyed_def write_transition_ids)
  ultimately show ?thesis
    using n by (simp add: trail_ok_def assms(5))
qed

lemma run_call_trail:
  assumes "trail_ok n start (fst w)" "run_call e c w = (w', res)"
  shows "trail_ok n start (fst w')"
  using assms(2)
proof (cases rule: run_call_finish)
  case unchanged
  with assms(1) show ?thesis by simp
next
  case (loaded p i actor role reason)
  have p: "p \<in> set (cd_projects (fst w))"
    using get_project_lean_Some [OF loaded(1)] by simp
  from loaded(2) show ?thesis
  proof (cases rule: finish_transition_cases)
    case (failed err)
    with assms(1) show ?thesis by simp
  next
    case (committed p' h)
    show ?thesis
      by (rule write_transition_trail [OF assms(1) p committed(1-3)])
  qed
qed

lemma run_calls_trail: "trail_ok n start (fst w) \<Longrightarrow> trail_ok n start (fst (run_calls calls w))"
proof (induction calls arbitrary: w)
  case (Cons x calls)
  obtain e c where x: "x = (e, c)" by (cases x)
  have "trail_ok n start (fst (fst (run_call e c w)))"
    using run_call_trail [OF Cons.prems, of e c] by (cases "run_call e c w") auto
  with Cons.IH show ?case by (simp add: x)
qed simp

lemma run_call_ids: "run_call e c w = (w', res) \<Longrightarrow> map pr_id (cd_projects (fst w')) = map pr_id (cd_projects (fst w))"
  by (erule run_call_finish) (auto elim!: finish_transition_cases simp: write_transition_ids)

lemma run_calls_ids: "map pr_id (cd_projects (fst (run_calls calls w))) = map pr_id (cd_projects (fst w))"
proof (induction calls arbitrary: w)
  case (Cons x calls)
  obtain e c where x: "x = (e, c)" by (cases x)
  with Cons run_call_ids [of e c w] show ?case
    by (cases "run_call e c w") auto
qed simp

text \<open>C3: Under any sequence of requests, served one after the other, in which any may fail in any way, the
  audit history of every case is a path of the status machine from the status it had to the
  status it has: each entry starts where the one before ended, every move is an allowed one, and
  nothing follows a terminal status.\<close>

theorem case_history_is_valid_trail:
  assumes "keyed pr_id (cd_projects db)" "p \<in> set (cd_projects db)"
    and "w = run_calls calls (db, r)" "q \<in> set (cd_projects (fst w))" "pr_id q = pr_id p"
  shows "valid_trail allowed_targets (pr_status p) (moves (drop (length (cd_history db)) (cd_history (fst w))) (pr_id p))
      (pr_status q) \<and>
    (if pr_status p \<in> set TERMINAL_STATUSES
     then pr_status q = pr_status p \<and> moves (drop (length (cd_history db)) (cd_history (fst w))) (pr_id p) = [] else True)"
proof -
  define start where "start i = (case select_one (\<lambda>x. pr_id x = i) (cd_projects db) of None \<Rightarrow> [] | Some x \<Rightarrow> pr_status x)" for i
  have start: "start (pr_id x) = pr_status x" if "x \<in> set (cd_projects db)" for x
    using keyed_select_one [OF assms(1) that] by (simp add: start_def)
  have "trail_ok (length (cd_history db)) start (fst (db, r))"
    using assms(1) by (simp add: trail_ok_def moves_def start)
  then have "trail_ok (length (cd_history db)) start (fst w)"
    unfolding assms(3) by (rule run_calls_trail)
  with assms(4,5) start [OF assms(2)]
  have trail: "valid_trail allowed_targets (pr_status p)
      (moves (drop (length (cd_history db)) (cd_history (fst w))) (pr_id p)) (pr_status q)"
    by (auto simp: trail_ok_def)
  with case_machine.trail_from_terminal [OF trail] show ?thesis by auto
qed

definition sample_env :: "nat \<Rightarrow> env" where
  "sample_env k = \<lparr>en_now = seconds (int k), en_uuid = (\<lambda>i. take 8 (str_nat (10 * k + i) @ replicate 8 (CHR ''f'')) @ replicate 24 (CHR ''0'')),
     en_execute_ok = True, en_commit_ok = True, en_reload_ok = True, en_publish_ok = True, en_script_fault = NoFault,
     en_work_queue = True, en_codec = table_codec [], en_analysis_queue_max_depth = 5,
     en_heavy_queue_max_depth = 5, en_max_queued_jobs = 10\<rparr>"

definition sample_project :: project where
  "sample_project = \<lparr>pr_id = ''p1'', pr_organization_id = ''o1'', pr_status = ''intake'',
     pr_status_changed_at = None, pr_status_changed_by_user_id = None\<rparr>"

definition sample_case_db :: case_db where
  "sample_case_db = \<lparr>cd_projects = [sample_project], cd_history = [], cd_jobs = [], cd_exports = [],
     cd_proposals = [], cd_outbox = [], cd_next_seq = 1\<rparr>"

definition sample_args :: action_args where
  "sample_args = \<lparr>aa_project_id = ''p1'', aa_organization_id = Some ''o1'', aa_actor_user_id = ''u1'',
     aa_actor_role = ''manager'', aa_reason = None\<rparr>"

definition sample_calls :: "(env \<times> case_call) list" where
  "sample_calls = [(sample_env 1, StartAnalysis sample_args), (sample_env 2, WorkerProposalReady ''p1'' None),
     (sample_env 3, Complete sample_args), (sample_env 4, Cancel sample_args)]"

definition sample_world :: case_world where
  "sample_world = run_calls sample_calls (sample_case_db, empty_redis)"

theorem case_history_is_valid_trail_witness:
  "valid_trail allowed_targets (pr_status sample_project)
      (moves (drop (length (cd_history sample_case_db)) (cd_history (fst sample_world))) (pr_id sample_project))
      (pr_status (hd (cd_projects (fst sample_world)))) \<and>
    (if pr_status sample_project \<in> set TERMINAL_STATUSES
     then pr_status (hd (cd_projects (fst sample_world))) = pr_status sample_project \<and>
       moves (drop (length (cd_history sample_case_db)) (cd_history (fst sample_world))) (pr_id sample_project) = []
     else True)"
  by (rule case_history_is_valid_trail [OF _ _ sample_world_def]) code_simp+

lemma sample_world_status: "map pr_status (cd_projects (fst sample_world)) = [''cancelled'']"
  by code_simp

text \<open>A completion that is refused, and a start whose answer cannot be built.\<close>

theorem failed_action_changes_nothing_witness:
  "fst (run_call (sample_env 1) (Complete sample_args) (sample_case_db, empty_redis)) = (sample_case_db, empty_redis) \<and>
   (let e = sample_env 1\<lparr>en_reload_ok := False\<rparr>; w' = fst (run_call e (StartAnalysis sample_args) (sample_case_db, empty_redis))
    in map pr_status (cd_projects (fst w')) = [''analyzing''] \<and>
       (\<exists>q. run_call (e\<lparr>en_reload_ok := True\<rparr>) (StartAnalysis sample_args) (sample_case_db, empty_redis) = (w', Inr (Some q))))"
proof -
  let ?e = "sample_env 1\<lparr>en_reload_ok := False\<rparr>" and ?w = "(sample_case_db, empty_redis)"
  have refused: "run_call (sample_env 1) (Complete sample_args) ?w = (fst (run_call (sample_env 1) (Complete sample_args) ?w),
      Inl (CaseActionError (Some (TransitionNotAllowed ''p1'' ''intake'' ''archived'' [''analyzing'', ''cancelled'', ''draft'']))))"
    and lost: "run_call ?e (StartAnalysis sample_args) ?w = (fst (run_call ?e (StartAnalysis sample_args) ?w), Inl DetailError)"
    by (rule prod_eqI, simp, code_simp)+
  have "map pr_status (cd_projects (fst (fst (run_call ?e (StartAnalysis sample_args) ?w)))) = [''analyzing'']"
    "map pr_status (cd_projects (fst ?w)) = [''intake'']"
    by code_simp+
  with failed_action_changes_nothing [OF refused] failed_action_changes_nothing [OF lost] show ?thesis
    by (auto simp: Let_def)
qed

subsection \<open>Redis does not matter to the database\<close>

definition with_redis :: "redis \<Rightarrow> case_error + effect_state \<Rightarrow> case_error + effect_state" where
  "with_redis r m = (case m of Inl err \<Rightarrow> Inl err | Inr s \<Rightarrow> Inr (s\<lparr>es_redis := r\<rparr>))"

abbreviation other_redis :: "env \<Rightarrow> bool \<Rightarrow> fault \<Rightarrow> bool \<Rightarrow> env" where
  "other_redis e a b q \<equiv> e\<lparr>en_publish_ok := a, en_script_fault := b, en_work_queue := q\<rparr>"

lemma run_before_effect_redis:
  "run_before_effect f (other_redis e a b q) ctx (s\<lparr>es_redis := r\<rparr>) = with_redis r (run_before_effect f e ctx s)"
  by (cases f) (simp_all add: create_analysis_job_def write_case_outbox_def lock_proposal_pricing_def
      create_quote_export_def create_completion_export_def create_export_def Let_def with_redis_def)

lemma run_before_effects_redis:
  "run_before_effects fs (other_redis e a b q) ctx (s\<lparr>es_redis := r\<rparr>) = with_redis r (run_before_effects fs e ctx s)"
proof (induction fs arbitrary: s)
  case (Cons f fs)
  show ?case
  proof (cases "run_before_effect f e ctx s")
    case (Inr s2)
    with Cons.IH [of s2] show ?thesis by (simp add: run_before_effect_redis with_redis_def)
  qed (simp add: run_before_effect_redis with_redis_def)
qed (simp add: with_redis_def)

text \<open>What a request does to the database and what it returns.\<close>

definition db_outcome :: "case_world \<times> 'x \<Rightarrow> case_db \<times> 'x" where
  "db_outcome x = (fst (fst x), snd x)"

lemma db_outcome_pair [simp]: "db_outcome ((db, r), x) = (db, x)"
  by (simp add: db_outcome_def)

lemma finish_transition_redis:
  "db_outcome (finish_transition (other_redis e a b q) (db, r) p org to actor role reason) =
     db_outcome (finish_transition e (db, r') p org to actor role reason)"
proof (cases "apply_transition (en_now e) (en_uuid e 0) p to actor reason")
  case (Inl err)
  then show ?thesis by (simp add: finish_transition_def db_outcome_def)
next
  case (Inr ph)
  obtain p' h where ph: "ph = (p', h)" by (cases ph)
  let ?ctx = "\<lparr>ec_project = p', ec_from_status = pr_status p, ec_to_status = to, ec_actor_user_id = actor,
    ec_organization_id = org, ec_is_superadmin = (role = ''superadmin'')\<rparr>"
  let ?s = "\<lambda>r. \<lparr>es_db = write_transition p' h db, es_redis = r, es_state = [], es_uuids = 1\<rparr>"
  have before: "run_before_commit (other_redis e a b q) ?ctx (?s r) = with_redis r (run_before_commit e ?ctx (?s r'))"
    using run_before_effects_redis [where fs = "effects_for before_registrations (pr_status p) to" and e = e and a = a
        and b = b and q = q and ctx = ?ctx and s = "?s r'" and r = r]
    by (simp add: run_before_commit_def)
  have commit: "commit_case (other_redis e a b q) p' tx = commit_case e p' tx" for tx
    by (simp add: commit_case_def)
  show ?thesis
  proof (cases "run_before_commit e ?ctx (?s r')")
    case (Inl err)
    with Inr ph before show ?thesis
      by (simp add: finish_transition_def db_outcome_def with_redis_def)
  next
    case (Inr s1)
    with \<open>apply_transition _ _ _ _ _ _ = Inr ph\<close> ph before show ?thesis
      by (cases "commit_case e p' (es_db s1)")
         (simp_all add: finish_transition_def db_outcome_def with_redis_def Let_def commit run_after_commit_def
            run_after_effects_db split: option.split)
  qed
qed

lemma transition_and_return_redis:
  "db_outcome (transition_and_return (other_redis e a b q) (db, r) i org to actor role reason pre) =
     db_outcome (transition_and_return e (db, r') i org to actor role reason pre)"
  by (cases pre; cases "get_project_lean db i org")
     (simp_all add: transition_and_return_def finish_transition_redis [where r' = r'])

text \<open>After-commit work cannot spoil a transition: the database a request leaves and the answer it
  gives are the same whatever Redis holds, whether there is a queue client at all, and whether its
  publish or its enqueue fails, is refused or loses its reply.\<close>

theorem redis_faults_do_not_change_outcome:
  "db_outcome (run_call (e\<lparr>en_publish_ok := a, en_script_fault := b, en_work_queue := q\<rparr>) c (db, r)) =
     db_outcome (run_call e c (db, r'))"
proof (cases c)
  case (SendQuote x)
  show ?thesis
  proof (cases "get_project_lean db (aa_project_id x) (aa_organization_id x)")
    case None
    with SendQuote show ?thesis by (simp add: send_quote_def db_outcome_def)
  next
    case (Some p)
    show ?thesis
    proof (cases "filter (\<lambda>f. fp_project_id f = pr_id p) (cd_proposals db) = []")
      case True
      with Some SendQuote show ?thesis by (simp add: send_quote_def db_outcome_def)
    next
      case False
      with Some SendQuote show ?thesis
        by (simp add: send_quote_def transition_and_return_redis [where r' = r'])
    qed
  qed
qed (simp_all add: action_defs transition_and_return_redis [where r' = r'])

subsection \<open>Starting an analysis\<close>

lemma finish_to_analyzing:
  assumes "finish_transition e w p org ''analyzing'' actor role reason = (w', Inr x)"
  obtains h job event where "pr_status p = ''intake''"
    "cd_history (fst w') = cd_history (fst w) @ [h]" "psh_project_id h = pr_id p"
    "psh_from_status h = Some ''intake''" "psh_to_status h = ''analyzing''"
    "cd_jobs (fst w') = cd_jobs (fst w) @ [job]" "aj_project_id job = pr_id p" "aj_status job = ''queued''"
    "aj_requested_by_user_id job = actor" "aj_job_type job = ''manual_trigger''"
    "cd_outbox (fst w') = cd_outbox (fst w) @ [event]" "ob_event_type event = EVENT_ANALYSIS_STARTED"
    "ob_aggregate_id event = pr_id p" "ob_seq event = cd_next_seq (fst w)" "\<not> ob_published event"
    "cd_exports (fst w') = cd_exports (fst w)" "cd_proposals (fst w') = cd_proposals (fst w)"
    "\<exists>q \<in> set (cd_projects (fst w')). pr_id q = pr_id p \<and> pr_status q = ''analyzing''"
proof -
  obtain p' h where ap: "apply_transition (en_now e) (en_uuid e 0) p ''analyzing'' actor reason = Inr (p', h)"
    using assms by (auto simp: finish_transition_def split: sum.splits)
  note facts = apply_transition_Inr [OF ap]
  have from_intake: "pr_status p = ''intake''"
    using can_transition_cases [of "pr_status p" "''analyzing''"] facts(1) by (auto simp: can_transition_def)
  let ?ctx = "\<lparr>ec_project = p', ec_from_status = ''intake'', ec_to_status = ''analyzing'', ec_actor_user_id = actor,
    ec_organization_id = org, ec_is_superadmin = (role = ''superadmin'')\<rparr>"
  let ?s = "\<lparr>es_db = write_transition p' h (fst w), es_redis = snd w, es_state = [], es_uuids = 1\<rparr>"
  let ?s1 = "write_case_outbox EVENT_ANALYSIS_STARTED ''analyzing'' ''analysis_started_outbox_id'' e ?ctx (create_analysis_job e ?ctx ?s)"
  have before: "run_before_commit e ?ctx ?s = Inr ?s1"
    by (simp add: run_before_commit_def before_effects_for)
  from assms ap before from_intake have w': "fst w' = es_db ?s1" and commit: "commit_case e p' (es_db ?s1) = Inr (es_db ?s1)"
    by (auto simp: finish_transition_def Let_def run_after_commit_def run_after_effects_db commit_case_def
        split: sum.splits if_splits)
  have db: "cd_history (es_db ?s1) = cd_history (fst w) @ [h]"
    "cd_projects (es_db ?s1) = cd_projects (write_transition p' h (fst w))"
    "cd_exports (es_db ?s1) = cd_exports (fst w)" "cd_proposals (es_db ?s1) = cd_proposals (fst w)"
    by (simp_all add: create_analysis_job_def write_case_outbox_def write_transition_def Let_def)
  have "pr_id p \<in> pr_id ` set (cd_projects (fst w))"
    using commit_case_Inr(3) [OF commit] unfolding db(2) facts(3) [symmetric]
    by (simp only: write_transition_ids flip: set_map)
  then obtain q where q: "q \<in> set (cd_projects (fst w))" "pr_id q = pr_id p" by auto
  have "\<exists>q \<in> set (cd_projects (fst w')). pr_id q = pr_id p \<and> pr_status q = ''analyzing''"
    unfolding w' unfolding db(2) unfolding write_transition_def
    using q facts(2,3)
    by (intro bexI [of _ "q\<lparr>pr_status := pr_status p', pr_status_changed_at := pr_status_changed_at p',
          pr_status_changed_by_user_id := pr_status_changed_by_user_id p'\<rparr>"])
       (auto simp: set_update_where intro!: image_eqI [where x = q])
  then show ?thesis
    using that facts from_intake db unfolding w'
    by (simp add: create_analysis_job_def write_case_outbox_def write_transition_def Let_def
        build_case_activity_event_def build_outbox_event_def)
qed

lemma start_analysis_finish:
  assumes "start_analysis e w a = (w', Inr (Some q))"
  obtains p where "p \<in> set (cd_projects (fst w))" "pr_id p = aa_project_id a"
    "finish_transition e w p (aa_organization_id a) ''analyzing'' (Some (aa_actor_user_id a)) (aa_actor_role a)
       (aa_reason a) = (w', Inr (Some q))"
  using assms by (auto simp: start_analysis_def human_action_def transition_and_return_def
      dest!: get_project_lean_Some split: option.splits)

text \<open>A successful \<open>start_analysis\<close> commits the new status, one audit entry, exactly one queued job
  row requested by the actor and exactly one unpublished \<open>analysis.started\<close> event with the next
  sequence number, together, and nothing else; so the job survives whatever becomes of its
  enqueue.\<close>

theorem start_analysis_writes_one_job:
  assumes "start_analysis e w a = (w', Inr (Some q))"
  shows "\<exists>h job event.
    cd_history (fst w') = cd_history (fst w) @ [h] \<and> psh_from_status h = Some ''intake'' \<and>
    psh_to_status h = ''analyzing'' \<and>
    cd_jobs (fst w') = cd_jobs (fst w) @ [job] \<and> aj_project_id job = aa_project_id a \<and>
    aj_status job = ''queued'' \<and> aj_requested_by_user_id job = Some (aa_actor_user_id a) \<and>
    cd_outbox (fst w') = cd_outbox (fst w) @ [event] \<and> ob_event_type event = EVENT_ANALYSIS_STARTED \<and>
    ob_aggregate_id event = aa_project_id a \<and> ob_seq event = cd_next_seq (fst w) \<and> \<not> ob_published event \<and>
    cd_exports (fst w') = cd_exports (fst w) \<and> cd_proposals (fst w') = cd_proposals (fst w)"
  using assms
proof (rule start_analysis_finish)
  fix p
  assume p: "pr_id p = aa_project_id a" and fin: "finish_transition e w p (aa_organization_id a) ''analyzing''
    (Some (aa_actor_user_id a)) (aa_actor_role a) (aa_reason a) = (w', Inr (Some q))"
  from fin show ?thesis
  proof (rule finish_to_analyzing, goal_cases)
    case (1 h job event)
    then show ?case
      using p by (intro exI [of _ h] exI [of _ job] exI [of _ event]) simp
  qed
qed

theorem start_analysis_writes_one_job_witness:
  "\<exists>h job event.
    cd_history (fst (fst (start_analysis (sample_env 1) (sample_case_db, empty_redis) sample_args))) = cd_history (fst (sample_case_db, empty_redis)) @ [h] \<and>
    psh_from_status h = Some ''intake'' \<and> psh_to_status h = ''analyzing'' \<and>
    cd_jobs (fst (fst (start_analysis (sample_env 1) (sample_case_db, empty_redis) sample_args))) = cd_jobs (fst (sample_case_db, empty_redis)) @ [job] \<and>
    aj_project_id job = aa_project_id sample_args \<and>
    aj_status job = ''queued'' \<and> aj_requested_by_user_id job = Some (aa_actor_user_id sample_args) \<and>
    cd_outbox (fst (fst (start_analysis (sample_env 1) (sample_case_db, empty_redis) sample_args))) = cd_outbox (fst (sample_case_db, empty_redis)) @ [event] \<and>
    ob_event_type event = EVENT_ANALYSIS_STARTED \<and>
    ob_aggregate_id event = aa_project_id sample_args \<and> ob_seq event = cd_next_seq (fst (sample_case_db, empty_redis)) \<and> \<not> ob_published event \<and>
    cd_exports (fst (fst (start_analysis (sample_env 1) (sample_case_db, empty_redis) sample_args))) = cd_exports (fst (sample_case_db, empty_redis)) \<and>
    cd_proposals (fst (fst (start_analysis (sample_env 1) (sample_case_db, empty_redis) sample_args))) = cd_proposals (fst (sample_case_db, empty_redis))"
  by (rule start_analysis_writes_one_job [where e = "sample_env 1" and q = "sample_project\<lparr>pr_status := ''analyzing'',
        pr_status_changed_at := Some (seconds 1), pr_status_changed_by_user_id := Some ''u1''\<rparr>"]) code_simp

text \<open>The load takes no lock and the write does not check the status it loaded, so two requests that
  both loaded the case in \<open>intake\<close> both start an analysis: the second one succeeds on the stale
  row, a second queued job appears, and the audit history records the same move twice and is no
  path of the status machine.\<close>

theorem overtaken_start_creates_second_job:
  assumes "finish_transition e_a w p org_a ''analyzing'' actor_a role_a reason_a = (w1, Inr x_a)"
    and "finish_transition e_b w1 p org_b ''analyzing'' actor_b role_b reason_b = (w2, Inr x_b)"
  shows "length (cd_jobs (fst w2)) = length (cd_jobs (fst w)) + 2 \<and>
    moves (cd_history (fst w2)) (pr_id p) =
      moves (cd_history (fst w)) (pr_id p) @ [(''intake'', ''analyzing''), (''intake'', ''analyzing'')] \<and>
    \<not> valid_trail allowed_targets s (moves (cd_history (fst w2)) (pr_id p)) t"
proof -
  obtain h1 job1 where one: "cd_history (fst w1) = cd_history (fst w) @ [h1]" "psh_project_id h1 = pr_id p"
    "psh_from_status h1 = Some ''intake''" "psh_to_status h1 = ''analyzing''" "cd_jobs (fst w1) = cd_jobs (fst w) @ [job1]"
    using assms(1) by (rule finish_to_analyzing)
  obtain h2 job2 where two: "cd_history (fst w2) = cd_history (fst w1) @ [h2]" "psh_project_id h2 = pr_id p"
    "psh_from_status h2 = Some ''intake''" "psh_to_status h2 = ''analyzing''" "cd_jobs (fst w2) = cd_jobs (fst w1) @ [job2]"
    using assms(2) by (rule finish_to_analyzing)
  have "moves (cd_history (fst w2)) (pr_id p) =
      moves (cd_history (fst w)) (pr_id p) @ [(''intake'', ''analyzing''), (''intake'', ''analyzing'')]"
    by (simp add: one two moves_def)
  moreover have "\<not> valid_trail allowed_targets s (xs @ [(''intake'', ''analyzing''), (''intake'', ''analyzing'')]) t" for xs
    by (simp add: case_machine.trail_append)
  ultimately show ?thesis
    by (simp add: one two)
qed

theorem overtaken_start_creates_second_job_witness:
  "let w = (sample_case_db, empty_redis);
       w1 = fst (finish_transition (sample_env 1) w sample_project (Some ''o1'') ''analyzing'' (Some ''u1'') ''manager'' None);
       w2 = fst (finish_transition (sample_env 2) w1 sample_project (Some ''o1'') ''analyzing'' (Some ''u2'') ''manager'' None)
   in length (cd_jobs (fst w2)) = length (cd_jobs (fst w)) + 2 \<and>
      moves (cd_history (fst w2)) (pr_id sample_project) =
        moves (cd_history (fst w)) (pr_id sample_project) @ [(''intake'', ''analyzing''), (''intake'', ''analyzing'')] \<and>
      \<not> valid_trail allowed_targets ''intake'' (moves (cd_history (fst w2)) (pr_id sample_project)) ''analyzing''"
  unfolding Let_def
  by (rule overtaken_start_creates_second_job [where org_a = "Some ''o1''" and actor_a = "Some ''u1''" and
        role_a = "''manager''" and reason_a = None and org_b = "Some ''o1''" and actor_b = "Some ''u2''" and
        role_b = "''manager''" and reason_b = None and e_a = "sample_env 1" and e_b = "sample_env 2" and
        x_a = "Some (sample_project\<lparr>pr_status := ''analyzing'', pr_status_changed_at := Some (seconds 1), pr_status_changed_by_user_id := Some ''u1''\<rparr>)" and
        x_b = "Some (sample_project\<lparr>pr_status := ''analyzing'', pr_status_changed_at := Some (seconds 2), pr_status_changed_by_user_id := Some ''u2''\<rparr>)"])
     code_simp+

subsection \<open>Tenants\<close>

text \<open>An action made in the name of an organisation cannot touch another's case: whatever it targets
  and however it ends, the rows of every case of another organisation and their audit histories
  stay as they were.\<close>

theorem action_stays_in_tenant:
  assumes "keyed pr_id (cd_projects (fst w))" "call_org c = Some org"
    and "q \<in> set (cd_projects (fst w))" "pr_organization_id q \<noteq> org"
    and "run_call e c w = (w', res)"
  shows "q \<in> set (cd_projects (fst w')) \<and>
    moves (cd_history (fst w')) (pr_id q) = moves (cd_history (fst w)) (pr_id q)"
  using assms(5)
proof (cases rule: run_call_finish)
  case unchanged
  with assms show ?thesis by simp
next
  case (loaded p i actor role reason)
  have p: "p \<in> set (cd_projects (fst w))" "pr_organization_id p = org"
    using get_project_lean_Some [OF loaded(1)] assms(2) by auto
  then have other: "pr_id q \<noteq> pr_id p"
    using keyed_unique [OF assms(1) assms(3) p(1)] assms(4) by auto
  from loaded(2) show ?thesis
  proof (cases rule: finish_transition_cases)
    case (failed err)
    with assms show ?thesis by simp
  next
    case (committed p' h)
    with other assms(3) apply_transition_Inr [OF committed(1)] show ?thesis
      by (simp add: moves_snoc) (simp add: write_transition_def set_update_where)
  qed
qed

theorem action_stays_in_tenant_witness:
  "let w = (sample_case_db\<lparr>cd_projects := [sample_project, sample_project\<lparr>pr_id := ''p2'', pr_organization_id := ''o2''\<rparr>]\<rparr>, empty_redis);
       q = sample_project\<lparr>pr_id := ''p2'', pr_organization_id := ''o2''\<rparr>;
       w' = fst (run_call (sample_env 1) (Cancel (sample_args\<lparr>aa_project_id := ''p2''\<rparr>)) w)
   in q \<in> set (cd_projects (fst w')) \<and>
      moves (cd_history (fst w')) (pr_id q) = moves (cd_history (fst w)) (pr_id q)"
  unfolding Let_def
  by (rule action_stays_in_tenant [where org = "''o1''" and e = "sample_env 1" and
        c = "Cancel (sample_args\<lparr>aa_project_id := ''p2''\<rparr>)", OF _ _ _ _ prod.collapse [symmetric]])
     code_simp+

end
