(* ===== verification/Offer_Domain.thy ===== *)
theory Offer_Domain
  imports Lifecycle
begin

section \<open>Offer statuses\<close>

text \<open>
  Models \<open>app/offer_processing/domain.py\<close>: the status values, error codes, retry schedule and the
  transition table of offer requests, and interprets the \<open>lifecycle\<close> interface on it.
\<close>

definition OFFER_STATUS_SUBMITTED :: string where
  [simp, constant_simps]: "OFFER_STATUS_SUBMITTED = ''submitted''"

definition OFFER_STATUS_QUEUED :: string where
  [simp, constant_simps]: "OFFER_STATUS_QUEUED = ''queued''"

definition OFFER_STATUS_PROCESSING :: string where
  [simp, constant_simps]: "OFFER_STATUS_PROCESSING = ''processing''"

definition OFFER_STATUS_NEEDS_MORE_INFO :: string where
  [simp, constant_simps]: "OFFER_STATUS_NEEDS_MORE_INFO = ''needs_more_info''"

definition OFFER_STATUS_NEEDS_REVIEW :: string where
  [simp, constant_simps]: "OFFER_STATUS_NEEDS_REVIEW = ''needs_review''"

definition OFFER_STATUS_COMPLETED :: string where
  [simp, constant_simps]: "OFFER_STATUS_COMPLETED = ''completed''"

definition OFFER_STATUS_FAILED :: string where
  [simp, constant_simps]: "OFFER_STATUS_FAILED = ''failed''"

definition OFFER_STATUS_CANCELLED :: string where
  [simp, constant_simps]: "OFFER_STATUS_CANCELLED = ''cancelled''"

definition OFFER_TERMINAL_STATUSES :: "string list" where
  "OFFER_TERMINAL_STATUSES = [OFFER_STATUS_COMPLETED, OFFER_STATUS_FAILED, OFFER_STATUS_CANCELLED]"

definition JOB_STATUS_QUEUED :: string where
  [simp, constant_simps]: "JOB_STATUS_QUEUED = ''queued''"

definition JOB_STATUS_RUNNING :: string where
  [simp, constant_simps]: "JOB_STATUS_RUNNING = ''running''"

definition JOB_STATUS_COMPLETED :: string where
  [simp, constant_simps]: "JOB_STATUS_COMPLETED = ''completed''"

definition JOB_STATUS_FAILED :: string where
  [simp, constant_simps]: "JOB_STATUS_FAILED = ''failed''"

definition AGENT_OUTCOME_OFFER_GENERATED :: string where
  [simp, constant_simps]: "AGENT_OUTCOME_OFFER_GENERATED = ''offer_generated''"

definition AGENT_OUTCOME_INSUFFICIENT_DATA :: string where
  [simp, constant_simps]: "AGENT_OUTCOME_INSUFFICIENT_DATA = ''insufficient_data''"

definition ERROR_PROVIDER_RATE_LIMITED :: string where
  [simp, constant_simps]: "ERROR_PROVIDER_RATE_LIMITED = ''PROVIDER_RATE_LIMITED''"

definition ERROR_PROVIDER_UNAVAILABLE :: string where
  [simp, constant_simps]: "ERROR_PROVIDER_UNAVAILABLE = ''PROVIDER_UNAVAILABLE''"

definition ERROR_VALIDATION_FAILED :: string where
  [simp, constant_simps]: "ERROR_VALIDATION_FAILED = ''VALIDATION_FAILED''"

definition ERROR_SNAPSHOT_BUILD_FAILED :: string where
  [simp, constant_simps]: "ERROR_SNAPSHOT_BUILD_FAILED = ''SNAPSHOT_BUILD_FAILED''"

definition ERROR_BUDGET_EXHAUSTED :: string where
  [simp, constant_simps]: "ERROR_BUDGET_EXHAUSTED = ''BUDGET_EXHAUSTED''"

definition ERROR_UNKNOWN :: string where
  [simp, constant_simps]: "ERROR_UNKNOWN = ''UNKNOWN''"

definition RETRY_BACKOFF_SECONDS :: "int list" where
  "RETRY_BACKOFF_SECONDS = [30, 120, 600]"

text \<open>\<open>RETRY_BACKOFF_SECONDS[min(attempt - 1, len - 1)]\<close>; a negative index counts from the end, and one
  below \<open>-3\<close> raises \<open>IndexError\<close>.\<close>

definition backoff_delay :: "int \<Rightarrow> int option" where
  "backoff_delay attempt =
    (let i = min (attempt - 1) 2;
         j = (if i < 0 then i + 3 else i)
     in if j < 0 then None else Some (RETRY_BACKOFF_SECONDS ! nat j))"

definition POISON_THRESHOLD :: int where
  [simp, constant_simps]: "POISON_THRESHOLD = 3"

definition OFFER_TRANSITIONS :: "(string \<times> string list) list" where
  "OFFER_TRANSITIONS =
    [(OFFER_STATUS_SUBMITTED, [OFFER_STATUS_QUEUED, OFFER_STATUS_CANCELLED]),
     (OFFER_STATUS_QUEUED, [OFFER_STATUS_PROCESSING, OFFER_STATUS_CANCELLED]),
     (OFFER_STATUS_PROCESSING, [OFFER_STATUS_NEEDS_MORE_INFO, OFFER_STATUS_NEEDS_REVIEW, OFFER_STATUS_FAILED,
        OFFER_STATUS_CANCELLED]),
     (OFFER_STATUS_NEEDS_MORE_INFO, [OFFER_STATUS_QUEUED, OFFER_STATUS_CANCELLED]),
     (OFFER_STATUS_NEEDS_REVIEW, [OFFER_STATUS_COMPLETED, OFFER_STATUS_CANCELLED]),
     (OFFER_STATUS_COMPLETED, []), (OFFER_STATUS_FAILED, []), (OFFER_STATUS_CANCELLED, [])]"

definition offer_targets :: "string \<Rightarrow> string list" where
  "offer_targets s = (case map_of OFFER_TRANSITIONS s of None \<Rightarrow> [] | Some ts \<Rightarrow> ts)"

definition is_valid_offer_transition :: "string \<Rightarrow> string \<Rightarrow> bool" where
  "is_valid_offer_transition from_status to_status \<longleftrightarrow> to_status \<in> set (offer_targets from_status)"

datatype transition_refused = InvalidOfferTransitionError string string

definition require_offer_transition :: "string \<Rightarrow> string \<Rightarrow> transition_refused + unit" where
  "require_offer_transition from_status to_status =
    (if is_valid_offer_transition from_status to_status then Inr ()
     else Inl (InvalidOfferTransitionError from_status to_status))"

lemma offer_targets_cases:
  "t \<in> set (offer_targets s) \<longleftrightarrow>
     (s = ''submitted'' \<and> t \<in> {''queued'', ''cancelled''}) \<or>
     (s = ''queued'' \<and> t \<in> {''processing'', ''cancelled''}) \<or>
     (s = ''processing'' \<and> t \<in> {''needs_more_info'', ''needs_review'', ''failed'', ''cancelled''}) \<or>
     (s = ''needs_more_info'' \<and> t \<in> {''queued'', ''cancelled''}) \<or>
     (s = ''needs_review'' \<and> t \<in> {''completed'', ''cancelled''})"
  by (simp add: offer_targets_def OFFER_TRANSITIONS_def)

lemma offer_targets_Nil:
  "offer_targets s = [] \<longleftrightarrow>
     s \<notin> {''submitted'', ''queued'', ''processing'', ''needs_more_info'', ''needs_review''}"
  by (auto simp: offer_targets_def OFFER_TRANSITIONS_def)

definition offer_status_known :: "string \<Rightarrow> bool" where
  "offer_status_known s \<longleftrightarrow> s \<in> fst ` set OFFER_TRANSITIONS"

lemma offer_status_known_cases:
  "offer_status_known s \<longleftrightarrow> s \<in> {''submitted'', ''queued'', ''processing'', ''needs_more_info'',
     ''needs_review'', ''completed'', ''failed'', ''cancelled''}"
  by (auto simp: offer_status_known_def OFFER_TRANSITIONS_def)

interpretation offer_machine: lifecycle offer_targets "\<lambda>s. s \<in> set OFFER_TERMINAL_STATUSES" offer_status_known
proof unfold_locales
  fix s t :: string
  show "s \<in> set OFFER_TERMINAL_STATUSES \<Longrightarrow> offer_targets s = []"
    by (auto simp: OFFER_TERMINAL_STATUSES_def offer_targets_Nil)
  show "t \<in> set (offer_targets s) \<Longrightarrow> offer_status_known s \<and> offer_status_known t"
    by (auto simp: offer_targets_cases offer_status_known_cases)
  show "offer_status_known s \<Longrightarrow> s \<notin> set OFFER_TERMINAL_STATUSES \<Longrightarrow> offer_targets s \<noteq> []"
    by (auto simp: OFFER_TERMINAL_STATUSES_def offer_status_known_cases offer_targets_Nil)
  show "s \<notin> set (offer_targets s)"
    by (auto simp: offer_targets_cases)
qed

lemma backoff_delay_attempt: "1 \<le> attempt \<Longrightarrow> \<exists>d. backoff_delay attempt = Some d \<and> 30 \<le> d \<and> d \<le> 600"
  by (cases "attempt = 1"; cases "attempt = 2")
     (auto simp: backoff_delay_def RETRY_BACKOFF_SECONDS_def Let_def min_def nth_Cons')

end
