(* ===== verification/Offer_Budget.thy ===== *)
theory Offer_Budget
  imports Novu_Prelude
begin

section \<open>AI budgets\<close>

text \<open>
  Models \<open>app/offer_processing/budget.py\<close> and \<open>budget_sweeper.py\<close>: the token counter of each
  organisation, one reservation row per job, and the sweeper that expires stale reservations.
  Every operation is one transaction on \<open>budget_db\<close>; alerts and log lines are left out. A NUMERIC(10,2)
  column rounds what is stored in it to cents.
\<close>

record ai_budget =
  bu_id :: string
  bu_organization_id :: string
  bu_daily_token_limit :: int
  bu_monthly_cost_limit_usd :: dec
  bu_alert_threshold_pct :: int
  bu_daily_tokens_used :: int
  bu_monthly_cost_used_usd :: dec
  bu_daily_reset_at :: "time option"
  bu_is_hard_limit :: bool

record reservation =
  rv_id :: string
  rv_organization_id :: string
  rv_offer_job_id :: string
  rv_token_estimate :: int
  rv_status :: string
  rv_reserved_at :: time
  rv_consumed_at :: "time option"
  rv_released_at :: "time option"
  rv_expired_at :: "time option"

record budget_db =
  bd_budgets :: "ai_budget list"
  bd_reservations :: "reservation list"

definition DEFAULT_TOKEN_ESTIMATE :: int where
  [simp, constant_simps]: "DEFAULT_TOKEN_ESTIMATE = 2000"

definition RESERVATION_EXPIRY_MINUTES :: int where
  [simp, constant_simps]: "RESERVATION_EXPIRY_MINUTES = 15"

datatype budget_error = BudgetExhaustedError string

fun dec_add :: "dec \<Rightarrow> dec \<Rightarrow> dec" where
  "dec_add (Dec m k) (Dec n l) =
     (if k \<le> l then Dec (m * 10 ^ (l - k) + n) l else Dec (m + n * 10 ^ (k - l)) k)"

subsection \<open>Operations\<close>

text \<open>The row the INSERT creates, with the column defaults.\<close>

definition new_budget :: "string \<Rightarrow> string \<Rightarrow> ai_budget" where
  "new_budget i org =
     \<lparr>bu_id = i, bu_organization_id = org, bu_daily_token_limit = 200000,
      bu_monthly_cost_limit_usd = Dec 50000 2, bu_alert_threshold_pct = 80, bu_daily_tokens_used = 0,
      bu_monthly_cost_used_usd = Dec 0 2, bu_daily_reset_at = None, bu_is_hard_limit = True\<rparr>"

definition ensure_budget_exists :: "string \<Rightarrow> string \<Rightarrow> budget_db \<Rightarrow> budget_db" where
  "ensure_budget_exists i org db =
    (if org \<in> bu_organization_id ` set (bd_budgets db) then db
     else db\<lparr>bd_budgets := bd_budgets db @ [new_budget i org]\<rparr>)"

definition credit_budget :: "string \<Rightarrow> int \<Rightarrow> budget_db \<Rightarrow> budget_db" where
  "credit_budget org est db =
     db\<lparr>bd_budgets := update_where (\<lambda>b. bu_organization_id b = org)
          (\<lambda>b. b\<lparr>bu_daily_tokens_used := max 0 (bu_daily_tokens_used b - est)\<rparr>) (bd_budgets db)\<rparr>"

definition budget_admits :: "string \<Rightarrow> int \<Rightarrow> ai_budget \<Rightarrow> bool" where
  "budget_admits org est b \<longleftrightarrow> bu_organization_id b = org \<and>
     (\<not> bu_is_hard_limit b \<or> bu_daily_tokens_used b + est \<le> bu_daily_token_limit b)"

text \<open>The transaction of a caller of \<open>reserve\<close>: rolled back when it raises.\<close>

definition reserve ::
  "(nat \<Rightarrow> string) \<Rightarrow> time \<Rightarrow> string \<Rightarrow> string \<Rightarrow> int \<Rightarrow> budget_db \<Rightarrow> budget_db \<times> (budget_error + unit)" where
  "reserve uuid now org job_id token_estimate db =
    (let db1 = ensure_budget_exists (uuid 0) org db in
     if \<not> list_ex (budget_admits org token_estimate) (bd_budgets db1) then (db, Inl (BudgetExhaustedError org))
     else
       let db2 = db1\<lparr>bd_budgets := update_where (budget_admits org token_estimate)
                   (\<lambda>b. b\<lparr>bu_daily_tokens_used := bu_daily_tokens_used b + token_estimate\<rparr>) (bd_budgets db1)\<rparr>;
           row = \<lparr>rv_id = uuid 1, rv_organization_id = org, rv_offer_job_id = job_id,
                  rv_token_estimate = token_estimate, rv_status = ''reserved'', rv_reserved_at = now,
                  rv_consumed_at = None, rv_released_at = None, rv_expired_at = None\<rparr>
       in (if job_id \<in> rv_offer_job_id ` set (bd_reservations db2) then db2
           else db2\<lparr>bd_reservations := bd_reservations db2 @ [row]\<rparr>, Inr ()))"

definition is_reserved :: "string \<Rightarrow> reservation \<Rightarrow> bool" where
  "is_reserved job_id r \<longleftrightarrow> rv_offer_job_id r = job_id \<and> rv_status r = ''reserved''"

definition record_actual ::
  "time \<Rightarrow> string \<Rightarrow> string \<Rightarrow> int \<Rightarrow> int \<Rightarrow> dec \<Rightarrow> budget_db \<Rightarrow> budget_db" where
  "record_actual now org job_id estimated_tokens actual_tokens cost_usd db =
    (let delta = actual_tokens - estimated_tokens in
     db\<lparr>bd_budgets := update_where (\<lambda>b. bu_organization_id b = org)
          (\<lambda>b. b\<lparr>bu_daily_tokens_used := max 0 (bu_daily_tokens_used b + delta),
                 bu_monthly_cost_used_usd := dec_quantize 2 (dec_add (bu_monthly_cost_used_usd b) cost_usd)\<rparr>)
          (bd_budgets db),
        bd_reservations := update_where (is_reserved job_id)
          (\<lambda>r. r\<lparr>rv_status := ''consumed'', rv_consumed_at := Some now\<rparr>) (bd_reservations db)\<rparr>)"

definition release :: "time \<Rightarrow> string \<Rightarrow> string \<Rightarrow> budget_db \<Rightarrow> budget_db" where
  "release now org job_id db =
    (case select_one (is_reserved job_id) (bd_reservations db) of
       None \<Rightarrow> db
     | Some row \<Rightarrow>
         credit_budget org (rv_token_estimate row)
           (db\<lparr>bd_reservations := update_where (is_reserved job_id)
              (\<lambda>r. r\<lparr>rv_status := ''released'', rv_released_at := Some now\<rparr>) (bd_reservations db)\<rparr>))"

definition reset_daily_counter :: "time \<Rightarrow> string \<Rightarrow> budget_db \<Rightarrow> budget_db" where
  "reset_daily_counter now org db =
     db\<lparr>bd_budgets := update_where (\<lambda>b. bu_organization_id b = org)
          (\<lambda>b. b\<lparr>bu_daily_tokens_used := 0, bu_daily_reset_at := Some now\<rparr>) (bd_budgets db)\<rparr>"

text \<open>\<open>0.015 * tokens / 1000\<close> has at most six decimals, so \<open>quantize\<close> rounds nothing.\<close>

definition estimate_cost_usd :: "int \<Rightarrow> dec" where
  "estimate_cost_usd total_tokens = dec_quantize 6 (Dec (15 * total_tokens) 6)"

subsection \<open>The sweeper\<close>

definition expire_reservation :: "time \<Rightarrow> reservation \<Rightarrow> budget_db \<Rightarrow> budget_db" where
  "expire_reservation now row db =
     credit_budget (rv_organization_id row) (rv_token_estimate row)
       (db\<lparr>bd_reservations := update_where (\<lambda>r. rv_id r = rv_id row \<and> rv_status r = ''reserved'')
          (\<lambda>r. r\<lparr>rv_status := ''expired'', rv_expired_at := Some now\<rparr>) (bd_reservations db)\<rparr>)"

definition stale_reservations :: "int \<Rightarrow> time \<Rightarrow> budget_db \<Rightarrow> reservation list" where
  "stale_reservations expiry_minutes now db =
     select_page (\<lambda>r. rv_status r = ''reserved'' \<and> rv_reserved_at r < now - minutes expiry_minutes)
       rv_reserved_at 200 (bd_reservations db)"

text \<open>
  One sweep is one transaction. Its SELECT writes \<open>:expiry_interval::interval\<close>, a spelling that the
  statement parser of the library need not take for the bind parameter: \<open>select_ok\<close> says whether the
  statement runs, and when it does not, the call raises (\<open>start\<close> logs it) and nothing is written. \<open>row_ok k\<close> says
  whether the server accepts the two updates of row \<open>k\<close>. The handler of the row swallows a refusal, but
  the transaction is then aborted: the later rows are refused as well, the commit saves nothing, and the
  number returned is still that of the rows before.
\<close>

datatype sweep_error = SweepStatementError

definition sweep_once ::
  "bool \<Rightarrow> (nat \<Rightarrow> bool) \<Rightarrow> int \<Rightarrow> time \<Rightarrow> budget_db \<Rightarrow> budget_db \<times> (sweep_error + nat)" where
  "sweep_once select_ok row_ok expiry_minutes now db =
    (if \<not> select_ok then (db, Inl SweepStatementError)
     else
       let stale = stale_reservations expiry_minutes now db;
           swept = takeWhile row_ok [0..<length stale]
       in (if length swept < length stale then db else fold (expire_reservation now) stale db,
           Inr (length swept)))"

subsection \<open>Runs of operations\<close>

datatype budget_op =
    Reserve "nat \<Rightarrow> string" time string string int
  | Release time string string
  | RecordActual time string string int int dec
  | Sweep bool "nat \<Rightarrow> bool" int time

fun budget_step :: "budget_op \<Rightarrow> budget_db \<Rightarrow> budget_db" where
  "budget_step (Reserve u now org job est) db = fst (reserve u now org job est db)"
| "budget_step (Release now org job) db = release now org job db"
| "budget_step (RecordActual now org job est actual cost) db = record_actual now org job est actual cost db"
| "budget_step (Sweep select_ok row_ok mins now) db = fst (sweep_once select_ok row_ok mins now db)"

fun budget_run :: "budget_op list \<Rightarrow> budget_db \<Rightarrow> budget_db" where
  "budget_run [] db = db"
| "budget_run (op # ops) db = budget_run ops (budget_step op db)"

definition empty_budget_db :: budget_db where
  "empty_budget_db = \<lparr>bd_budgets = [], bd_reservations = []\<rparr>"

definition used :: "budget_db \<Rightarrow> string \<Rightarrow> int" where
  "used db org = (case select_one (\<lambda>b. bu_organization_id b = org) (bd_budgets db) of
     None \<Rightarrow> 0 | Some b \<Rightarrow> bu_daily_tokens_used b)"

definition outstanding :: "budget_db \<Rightarrow> string \<Rightarrow> int" where
  "outstanding db org = sum_list (map rv_token_estimate
     (filter (\<lambda>r. rv_organization_id r = org \<and> rv_status r = ''reserved'') (bd_reservations db)))"

definition budget_inv :: "budget_db \<Rightarrow> bool" where
  "budget_inv db \<longleftrightarrow> keyed bu_organization_id (bd_budgets db) \<and> keyed rv_offer_job_id (bd_reservations db) \<and>
     keyed rv_id (bd_reservations db) \<and>
     (\<forall>r \<in> set (bd_reservations db). 0 \<le> rv_token_estimate r \<and>
        rv_organization_id r \<in> bu_organization_id ` set (bd_budgets db))"

lemma select_one_update_where_keep:
  assumes "\<And>r. q (f r) = q r"
  shows "select_one q (update_where p f rows) = map_option (\<lambda>r. if p r then f r else r) (select_one q rows)"
  using assms by (induction rows) (auto simp: select_one_def)

lemma used_update:
  assumes "\<And>b. bu_organization_id (f b) = bu_organization_id b"
  shows "used (db\<lparr>bd_budgets := update_where p f (bd_budgets db)\<rparr>) org =
    (case select_one (\<lambda>b. bu_organization_id b = org) (bd_budgets db) of
       None \<Rightarrow> 0 | Some b \<Rightarrow> bu_daily_tokens_used (if p b then f b else b))"
  using assms by (simp add: used_def select_one_update_where_keep split: option.splits)

lemma used_update_org:
  assumes "\<And>b. bu_organization_id (f b) = bu_organization_id b" "org \<in> bu_organization_id ` set (bd_budgets db)"
    and "\<And>b. b \<in> set (bd_budgets db) \<Longrightarrow> p b \<longleftrightarrow> bu_organization_id b = org"
    and "\<And>b. bu_daily_tokens_used (f b) = g (bu_daily_tokens_used b)"
  shows "used (db\<lparr>bd_budgets := update_where p f (bd_budgets db)\<rparr>) o' =
    (if o' = org then g (used db o') else used db o')"
proof (cases "select_one (\<lambda>b. bu_organization_id b = o') (bd_budgets db)")
  case None
  with assms(2) have "o' \<noteq> org" by (auto simp: select_one_None)
  with None assms(1) show ?thesis by (subst used_update) (simp_all add: used_def)
next
  case (Some b)
  then have "b \<in> set (bd_budgets db)" "bu_organization_id b = o'"
    by (auto dest: select_one_Some)
  with Some assms show ?thesis by (subst used_update) (auto simp: used_def)
qed

lemma used_reservations [simp]: "used (db\<lparr>bd_reservations := rs\<rparr>) = used db"
  by (simp add: used_def fun_eq_iff)

lemma outstanding_budgets [simp]: "outstanding (db\<lparr>bd_budgets := bs\<rparr>) = outstanding db"
  by (simp add: outstanding_def fun_eq_iff)

lemma outstanding_credit [simp]: "outstanding (credit_budget org est db) = outstanding db"
  by (simp add: credit_budget_def)

lemma credit_reservations [simp]: "bd_reservations (credit_budget org est db) = bd_reservations db"
  by (simp add: credit_budget_def)

lemma credit_orgs [simp]:
  "bu_organization_id ` set (bd_budgets (credit_budget org est db)) = bu_organization_id ` set (bd_budgets db)"
  by (simp add: credit_budget_def image_update_where)

lemma new_budget_fields [simp]:
  "bu_organization_id (new_budget i org) = org" "bu_daily_token_limit (new_budget i org) = 200000"
  "bu_daily_tokens_used (new_budget i org) = 0"
  by (simp_all add: new_budget_def)

lemma select_one_org: "select_one (\<lambda>b. bu_organization_id b = org) bs = Some b \<Longrightarrow> bu_organization_id b = org"
  by (drule select_one_Some) simp

lemma used_credit:
  "used (credit_budget org est db) o' = (if o' = org \<and> org \<in> bu_organization_id ` set (bd_budgets db)
     then max 0 (used db o' - est) else used db o')"
  unfolding credit_budget_def
  by (subst used_update)
     (auto simp: used_def select_one_None dest: select_one_org select_one_Some split: option.splits)

lemma outstanding_nonneg: "budget_inv db \<Longrightarrow> 0 \<le> outstanding db org"
  by (auto simp: outstanding_def budget_inv_def intro!: sum_list_nonneg)

text \<open>Closing one row takes its estimate out of what is outstanding.\<close>

lemma sum_close_row:
  assumes "distinct rows" "row \<in> set rows" "q row" "\<not> q (f row)" "\<And>r. r \<in> set rows \<Longrightarrow> p r \<longleftrightarrow> r = row"
  shows "sum_list (map w (filter (\<lambda>r. s r \<and> q r) (update_where p f rows))) =
    sum_list (map w (filter (\<lambda>r. s r \<and> q r) rows)) - (if s row then w row else (0 :: int))"
  using assms
proof (induction rows)
  case (Cons r rows)
  show ?case
  proof (cases "r = row")
    case True
    with Cons.prems have "update_where p f rows = rows"
      by (intro update_where_none) auto
    with True Cons.prems show ?thesis by simp
  next
    case False
    with Cons show ?thesis by simp
  qed
qed simp

lemma outstanding_close:
  assumes "budget_inv db" "row \<in> set (bd_reservations db)" "rv_status row = ''reserved''"
    and "\<And>r. r \<in> set (bd_reservations db) \<Longrightarrow> p r \<longleftrightarrow> r = row" "rv_status (f row) \<noteq> ''reserved''"
  shows "outstanding (db\<lparr>bd_reservations := update_where p f (bd_reservations db)\<rparr>) org =
    outstanding db org - (if rv_organization_id row = org then rv_token_estimate row else 0)"
proof -
  have "distinct (bd_reservations db)"
    using assms(1) by (auto simp: budget_inv_def keyed_def distinct_map)
  from sum_close_row [where q = "\<lambda>r. rv_status r = ''reserved''" and f = f and p = p and w = rv_token_estimate and
      s = "\<lambda>r. rv_organization_id r = org", OF this assms(2,3,5,4)]
  show ?thesis by (simp add: outstanding_def)
qed

lemma outstanding_row_le:
  assumes "budget_inv db" "row \<in> set (bd_reservations db)" "rv_status row = ''reserved''"
  shows "rv_token_estimate row \<le> outstanding db (rv_organization_id row)"
  unfolding outstanding_def
  by (rule member_le_sum_list) (use assms in \<open>auto simp: budget_inv_def\<close>)

lemma budget_inv_rows:
  assumes "budget_inv db" "\<And>r. rv_offer_job_id (f r) = rv_offer_job_id r" "\<And>r. rv_id (f r) = rv_id r"
    "\<And>r. rv_token_estimate (f r) = rv_token_estimate r" "\<And>r. rv_organization_id (f r) = rv_organization_id r"
  shows "budget_inv (db\<lparr>bd_reservations := update_where p f (bd_reservations db)\<rparr>)"
  using assms by (auto simp: budget_inv_def keyed_update_where set_update_where)

lemma budget_inv_budgets:
  assumes "budget_inv db" "\<And>b. bu_organization_id (f b) = bu_organization_id b"
  shows "budget_inv (db\<lparr>bd_budgets := update_where p f (bd_budgets db)\<rparr>)"
proof -
  have "bu_organization_id ` set (update_where p f (bd_budgets db)) = bu_organization_id ` set (bd_budgets db)"
    using map_update_where [of p bu_organization_id f "bd_budgets db"] assms(2)
    by (metis list.set_map)
  with assms show ?thesis by (simp add: budget_inv_def keyed_update_where)
qed

lemma budget_inv_credit: "budget_inv db \<Longrightarrow> budget_inv (credit_budget org est db)"
  by (simp add: credit_budget_def budget_inv_budgets)

subsection \<open>What each operation does to the ledger\<close>

text \<open>The balance of an organisation: tokens counted that no open reservation explains.\<close>

definition settled :: "budget_db \<Rightarrow> string \<Rightarrow> int" where
  "settled db org = used db org - outstanding db org"

lemma close_row_ledger:
  assumes inv: "budget_inv db" and row: "row \<in> set (bd_reservations db)" "rv_status row = ''reserved''"
    and p: "\<And>r. r \<in> set (bd_reservations db) \<Longrightarrow> p r \<longleftrightarrow> r = row"
    and f: "\<And>r. rv_offer_job_id (f r) = rv_offer_job_id r" "\<And>r. rv_id (f r) = rv_id r"
      "\<And>r. rv_token_estimate (f r) = rv_token_estimate r" "\<And>r. rv_organization_id (f r) = rv_organization_id r"
      "rv_status (f row) \<noteq> ''reserved''"
    and settled: "\<And>o'. 0 \<le> settled db o'"
  defines "db' \<equiv> credit_budget (rv_organization_id row) (rv_token_estimate row)
     (db\<lparr>bd_reservations := update_where p f (bd_reservations db)\<rparr>)"
  shows "budget_inv db'" "settled db' = settled db"
proof -
  show "budget_inv db'"
    unfolding db'_def using inv f by (intro budget_inv_credit budget_inv_rows)
  have org: "rv_organization_id row \<in> bu_organization_id ` set (bd_budgets db)"
    using inv row by (auto simp: budget_inv_def)
  have "rv_token_estimate row \<le> used db (rv_organization_id row)"
    using outstanding_row_le [OF inv row] settled [of "rv_organization_id row"] by (simp add: settled_def)
  then show "settled db' = settled db"
    by (simp add: settled_def db'_def used_credit org outstanding_close [where p = p and f = f, OF inv row p f(5)] fun_eq_iff max_def)
qed

lemma is_reserved_unique:
  assumes "budget_inv db" "r \<in> set (bd_reservations db)" "row \<in> set (bd_reservations db)"
    "is_reserved job row"
  shows "is_reserved job r \<longleftrightarrow> r = row"
  using assms keyed_unique [of rv_offer_job_id "bd_reservations db" r row]
  by (auto simp: is_reserved_def budget_inv_def)

lemma release_ledger:
  assumes "budget_inv db" "\<And>o'. 0 \<le> settled db o'"
    and "\<forall>r \<in> set (bd_reservations db). rv_offer_job_id r = job \<longrightarrow> rv_organization_id r = org"
  shows "budget_inv (release now org job db)" "settled (release now org job db) = settled db"
proof -
  show "budget_inv (release now org job db)" "settled (release now org job db) = settled db"
  proof (atomize (full), cases "select_one (is_reserved job) (bd_reservations db)")
    case (Some row)
    then have row: "row \<in> set (bd_reservations db)" "is_reserved job row"
      by (auto dest: select_one_Some)
    with assms(3) have org: "rv_organization_id row = org" by (auto simp: is_reserved_def)
    note close = close_row_ledger [OF assms(1) row(1), where p = "is_reserved job" and
        f = "\<lambda>r. r\<lparr>rv_status := ''released'', rv_released_at := Some now\<rparr>", unfolded org]
    show "budget_inv (release now org job db) \<and> settled (release now org job db) = settled db"
      using close is_reserved_unique [OF assms(1) _ row] row(2) assms(2)
      by (simp add: release_def Some is_reserved_def)
  qed (use assms in \<open>simp_all add: release_def\<close>)
qed

lemma expire_ledger:
  assumes "budget_inv db" "\<And>o'. 0 \<le> settled db o'"
    and row: "row \<in> set (bd_reservations db)" "rv_status row = ''reserved''"
  shows "budget_inv (expire_reservation now row db)"
    "settled (expire_reservation now row db) = settled db"
proof -
  have p: "(rv_id r = rv_id row \<and> rv_status r = ''reserved'') = (r = row)" if "r \<in> set (bd_reservations db)" for r
    using that assms(1) row keyed_unique [of rv_id "bd_reservations db" r row] by (auto simp: budget_inv_def)
  note close = close_row_ledger [OF assms(1) row p, where f = "\<lambda>r. r\<lparr>rv_status := ''expired'', rv_expired_at := Some now\<rparr>"]
  show "budget_inv (expire_reservation now row db)" "settled (expire_reservation now row db) = settled db"
    using close assms(2) by (simp_all add: expire_reservation_def)
qed

lemma expire_keeps_others:
  assumes "r \<in> set (bd_reservations db)" "rv_id r \<noteq> rv_id row"
  shows "r \<in> set (bd_reservations (expire_reservation now row db))"
  using assms by (auto simp: expire_reservation_def set_update_where intro!: image_eqI [where x = r])

lemma expire_all_ledger:
  assumes "budget_inv db" "\<And>o'. 0 \<le> settled db o'" "distinct (map rv_id rows)"
    and "\<And>r. r \<in> set rows \<Longrightarrow> r \<in> set (bd_reservations db) \<and> rv_status r = ''reserved''"
  shows "budget_inv (fold (expire_reservation now) rows db) \<and> settled (fold (expire_reservation now) rows db) = settled db"
  using assms
proof (induction rows arbitrary: db)
  case (Cons row rows)
  note step = expire_ledger [OF Cons.prems(1,2), of row now]
  have "r \<in> set (bd_reservations (expire_reservation now row db)) \<and> rv_status r = ''reserved''"
    if "r \<in> set rows" for r
  proof -
    have "rv_id r \<noteq> rv_id row"
      using that Cons.prems(3) by (metis distinct.simps(2) image_eqI list.simps(9) list.set_map)
    with that Cons.prems(4) [of r] show ?thesis by (simp add: expire_keeps_others)
  qed
  then show ?case
    using Cons.IH [of "expire_reservation now row db"] step Cons.prems by simp
qed simp

lemma sweep_ledger:
  assumes "budget_inv db" "\<And>o'. 0 \<le> settled db o'"
  shows "budget_inv (fst (sweep_once select_ok row_ok mins now db))"
    "settled (fst (sweep_once select_ok row_ok mins now db)) = settled db"
proof -
  let ?rows = "stale_reservations mins now db"
  have "distinct (map rv_id (bd_reservations db))"
    using assms(1) by (simp add: budget_inv_def keyed_def)
  then have "distinct (map rv_id ?rows)"
    by (auto simp: stale_reservations_def select_page_def distinct_map intro: inj_on_subset
        dest!: in_set_takeD intro!: distinct_take)
  moreover have "r \<in> set (bd_reservations db) \<and> rv_status r = ''reserved''" if "r \<in> set ?rows" for r
    using that set_select_page [of _ rv_reserved_at 200 "bd_reservations db"]
    unfolding stale_reservations_def by blast
  ultimately show "budget_inv (fst (sweep_once select_ok row_ok mins now db))"
    "settled (fst (sweep_once select_ok row_ok mins now db)) = settled db"
    using expire_all_ledger [OF assms, of ?rows now] assms(1) by (simp_all add: sweep_once_def Let_def)
qed

lemma record_ledger:
  fixes now :: time and cost :: dec
  assumes inv: "budget_inv db" and settled: "\<And>o'. 0 \<le> settled db o'"
    and row: "row \<in> set (bd_reservations db)" "is_reserved job row" and org: "rv_organization_id row = org"
    and actual: "0 \<le> actual"
  defines "db' \<equiv> record_actual now org job (rv_token_estimate row) actual cost db"
  shows "budget_inv db'" "settled db' o' = settled db o' + (if o' = org then actual else 0)"
proof -
  let ?close = "\<lambda>r. r\<lparr>rv_status := ''consumed'', rv_consumed_at := Some now\<rparr>"
  let ?count = "\<lambda>b. b\<lparr>bu_daily_tokens_used := max 0 (bu_daily_tokens_used b + (actual - rv_token_estimate row)),
    bu_monthly_cost_used_usd := dec_quantize 2 (dec_add (bu_monthly_cost_used_usd b) cost)\<rparr>"
  let ?db1 = "db\<lparr>bd_reservations := update_where (is_reserved job) ?close (bd_reservations db)\<rparr>"
  have db': "db' = ?db1\<lparr>bd_budgets := update_where (\<lambda>b. bu_organization_id b = org) ?count (bd_budgets ?db1)\<rparr>"
    by (simp add: db'_def record_actual_def Let_def)
  show "budget_inv db'"
    unfolding db' using inv by (intro budget_inv_budgets budget_inv_rows) simp_all
  have reserved: "rv_status row = ''reserved''" using row(2) by (simp add: is_reserved_def)
  have out: "outstanding db' o' = outstanding db o' - (if org = o' then rv_token_estimate row else 0)"
    unfolding db' using outstanding_close [where p = "is_reserved job" and f = ?close, OF inv row(1) reserved
        is_reserved_unique [OF inv _ row] , of o'] org by simp
  have has: "org \<in> bu_organization_id ` set (bd_budgets db)"
    using inv row(1) org by (auto simp: budget_inv_def)
  have "rv_token_estimate row \<le> used db org"
    using outstanding_row_le [OF inv row(1) reserved] settled [of org] org by (simp add: settled_def)
  then have "used db' o' = (if o' = org then used db o' + (actual - rv_token_estimate row) else used db o')"
    unfolding db' using has actual
    by (subst used_update_org [where org = org and g = "\<lambda>n. max 0 (n + (actual - rv_token_estimate row))"]) auto
  with out show "settled db' o' = settled db o' + (if o' = org then actual else 0)"
    by (simp add: settled_def)
qed

lemma ensure_ledger:
  assumes "budget_inv db"
  shows "budget_inv (ensure_budget_exists u org db)"
    "used (ensure_budget_exists u org db) = used db"
    "outstanding (ensure_budget_exists u org db) = outstanding db"
    "bd_reservations (ensure_budget_exists u org db) = bd_reservations db"
    "org \<in> bu_organization_id ` set (bd_budgets (ensure_budget_exists u org db))"
proof -
  show "budget_inv (ensure_budget_exists u org db)"
    using assms by (auto simp: ensure_budget_exists_def budget_inv_def keyed_snoc new_budget_def)
  show "used (ensure_budget_exists u org db) = used db"
    by (rule ext) (simp add: ensure_budget_exists_def used_def new_budget_def select_one_snoc split: option.split)
qed (auto simp: ensure_budget_exists_def new_budget_def)

lemma reserve_ledger:
  assumes inv: "budget_inv db" and est: "0 \<le> est" and fresh: "job \<notin> rv_offer_job_id ` set (bd_reservations db)"
    "u 1 \<notin> rv_id ` set (bd_reservations db)"
  shows "budget_inv (fst (reserve u now org job est db))"
    "settled (fst (reserve u now org job est db)) = settled db"
proof -
  let ?db1 = "ensure_budget_exists (u 0) org db"
  let ?add = "\<lambda>b. b\<lparr>bu_daily_tokens_used := bu_daily_tokens_used b + est\<rparr>"
  let ?db2 = "?db1\<lparr>bd_budgets := update_where (budget_admits org est) ?add (bd_budgets ?db1)\<rparr>"
  note ensured = ensure_ledger [OF inv, where u = "u 0" and org = org]
  show "budget_inv (fst (reserve u now org job est db))"
    "settled (fst (reserve u now org job est db)) = settled db"
  proof (atomize (full), cases "list_ex (budget_admits org est) (bd_budgets ?db1)")
    case True
    then obtain b where b: "b \<in> set (bd_budgets ?db1)" "budget_admits org est b"
      by (auto simp: list_ex_iff)
    have inv2: "budget_inv ?db2"
      using ensured(1) by (intro budget_inv_budgets) simp_all
    have used2: "used ?db2 o' = used db o' + (if o' = org then est else 0)" for o'
    proof -
      have "budget_admits org est b'" if "b' \<in> set (bd_budgets ?db1)" "bu_organization_id b' = org" for b'
        using that b ensured(1) keyed_unique [of bu_organization_id "bd_budgets ?db1" b' b]
        by (simp add: budget_inv_def budget_admits_def)
      then have "used ?db2 o' = used ?db1 o' + (if o' = org then est else 0)"
        using ensured(5)
        by (subst used_update_org [where org = org and g = "\<lambda>n. n + est"]) (auto simp: budget_admits_def)
      then show ?thesis by (simp add: ensured)
    qed
    have org2: "org \<in> bu_organization_id ` set (bd_budgets ?db2)"
      using ensured(5) map_update_where [of _ bu_organization_id ?add "bd_budgets ?db1"]
      by (metis (no_types, lifting) ai_budget.ext_inject ai_budget.select_convs ai_budget.surjective
          ai_budget.update_convs(6) budget_db.select_convs(1) budget_db.surjective budget_db.update_convs(1) list.set_map)
    with inv2 used2 True fresh est show "budget_inv (fst (reserve u now org job est db)) \<and>
        settled (fst (reserve u now org job est db)) = settled db"
      by (auto simp: reserve_def Let_def ensured settled_def outstanding_def budget_inv_def keyed_snoc fun_eq_iff)
  qed (use inv in \<open>simp_all add: reserve_def Let_def\<close>)
qed

lemma used_clamped:
  "used (db\<lparr>bd_budgets := update_where (\<lambda>b. bu_organization_id b = org)
      (\<lambda>b. b\<lparr>bu_daily_tokens_used := max 0 (bu_daily_tokens_used b + d), bu_monthly_cost_used_usd := c b\<rparr>) (bd_budgets db)\<rparr>) o' =
    (if o' = org \<and> org \<in> bu_organization_id ` set (bd_budgets db) then max 0 (used db o' + d) else used db o')"
  by (subst used_update)
     (auto simp: used_def select_one_None dest: select_one_org select_one_Some split: option.splits)

text \<open>A call recorded when the job has no open reservation: the estimate is subtracted all the same.\<close>

lemma record_unreserved_ledger:
  assumes inv: "budget_inv db" and org: "org \<in> bu_organization_id ` set (bd_budgets db)"
    and none: "\<not> list_ex (is_reserved job) (bd_reservations db)" and covered: "est \<le> settled db org + actual"
  shows "budget_inv (record_actual now org job est actual cost db)"
    "settled (record_actual now org job est actual cost db) o' =
       settled db o' + (if o' = org then actual - est else 0)"
proof -
  have rows: "update_where (is_reserved job) f (bd_reservations db) = bd_reservations db" for f
    using none by (intro update_where_none) (auto simp: list_ex_iff)
  have db': "record_actual now org job est actual cost db =
     db\<lparr>bd_budgets := update_where (\<lambda>b. bu_organization_id b = org)
          (\<lambda>b. b\<lparr>bu_daily_tokens_used := max 0 (bu_daily_tokens_used b + (actual - est)),
                 bu_monthly_cost_used_usd := dec_quantize 2 (dec_add (bu_monthly_cost_used_usd b) cost)\<rparr>)
          (bd_budgets db)\<rparr>"
    by (simp add: record_actual_def Let_def rows)
  show "budget_inv (record_actual now org job est actual cost db)"
    unfolding db' using inv by (rule budget_inv_budgets) simp
  have "0 \<le> used db org + (actual - est)"
    using covered outstanding_nonneg [OF inv, of org] by (simp add: settled_def)
  then show "settled (record_actual now org job est actual cost db) o' =
      settled db o' + (if o' = org then actual - est else 0)"
    unfolding db' settled_def used_clamped using org by simp
qed

text \<open>A second reservation of a job counts the estimate again and adds no row.\<close>

lemma repeated_reserve_ledger:
  assumes "budget_inv db" "job \<in> rv_offer_job_id ` set (bd_reservations db)"
    and "reserve u now org job est db = (db', Inr ())"
  shows "budget_inv db'" "used db' o' = used db o' + (if o' = org then est else 0)"
    "bd_reservations db' = bd_reservations db"
proof -
  let ?db1 = "ensure_budget_exists (u 0) org db"
  note ensured = ensure_ledger [OF assms(1), where u = "u 0" and org = org]
  from assms(3) have admits: "list_ex (budget_admits org est) (bd_budgets ?db1)"
    by (auto simp: reserve_def Let_def split: if_splits)
  with assms(2,3) have db': "db' = ?db1\<lparr>bd_budgets := update_where (budget_admits org est)
      (\<lambda>b. b\<lparr>bu_daily_tokens_used := bu_daily_tokens_used b + est\<rparr>) (bd_budgets ?db1)\<rparr>"
    by (auto simp: reserve_def Let_def ensured)
  obtain b where b: "b \<in> set (bd_budgets ?db1)" "budget_admits org est b"
    using admits by (auto simp: list_ex_iff)
  have "budget_admits org est b'" if "b' \<in> set (bd_budgets ?db1)" "bu_organization_id b' = org" for b'
    using that b ensured(1) keyed_unique [of bu_organization_id "bd_budgets ?db1" b' b]
    by (simp add: budget_inv_def budget_admits_def)
  then show "used db' o' = used db o' + (if o' = org then est else 0)"
    unfolding db' ensured(2) [symmetric] using ensured(5)
    by (subst used_update_org [where org = org and g = "\<lambda>n. n + est"]) (auto simp: budget_admits_def)
  show "budget_inv db'" unfolding db' using ensured(1) by (intro budget_inv_budgets) simp_all
  show "bd_reservations db' = bd_reservations db" by (simp add: db' ensured)
qed

subsection \<open>Properties\<close>

text \<open>
  What the ledger asks of its callers: a first reservation has a fresh identifier; a release names the
  organisation of the reservation; a recorded call names the estimate of the open reservation or, when
  the job has none open any more, an estimate that the settled part of the counter covers, so that the
  counter is not cut off at zero.
\<close>

fun op_ok :: "budget_op \<Rightarrow> budget_db \<Rightarrow> bool" where
  "op_ok (Reserve u now org job est) db \<longleftrightarrow> 0 \<le> est \<and>
     (job \<in> rv_offer_job_id ` set (bd_reservations db) \<or> u 1 \<notin> rv_id ` set (bd_reservations db))"
| "op_ok (Release now org job) db \<longleftrightarrow>
     (\<forall>r \<in> set (bd_reservations db). rv_offer_job_id r = job \<longrightarrow> rv_organization_id r = org)"
| "op_ok (RecordActual now org job est actual cost) db \<longleftrightarrow> 0 \<le> actual \<and>
     (if list_ex (is_reserved job) (bd_reservations db)
      then \<exists>r \<in> set (bd_reservations db). is_reserved job r \<and> rv_organization_id r = org \<and> rv_token_estimate r = est
      else org \<in> bu_organization_id ` set (bd_budgets db) \<and> est \<le> settled db org + actual)"
| "op_ok (Sweep select_ok row_ok mins now) db \<longleftrightarrow> True"

fun ops_ok :: "budget_op list \<Rightarrow> budget_db \<Rightarrow> bool" where
  "ops_ok [] db \<longleftrightarrow> True"
| "ops_ok (op # ops) db \<longleftrightarrow> op_ok op db \<and> ops_ok ops (budget_step op db)"

fun recorded :: "budget_op \<Rightarrow> string \<Rightarrow> int" where
  "recorded (RecordActual now org job est actual cost) o' = (if o' = org then actual else 0)"
| "recorded op o' = 0"

definition consumed :: "budget_op list \<Rightarrow> string \<Rightarrow> int" where
  "consumed ops org = sum_list (map (\<lambda>op. recorded op org) ops)"

text \<open>Where the counter leaves the reservations: up by the estimate at every repeated reservation of a job,
  down by it at every call recorded without an open one.\<close>

fun slip :: "budget_op \<Rightarrow> budget_db \<Rightarrow> string \<Rightarrow> int" where
  "slip (Reserve u now org job est) db o' =
     (if o' = org \<and> job \<in> rv_offer_job_id ` set (bd_reservations db) \<and> snd (reserve u now org job est db) = Inr ()
      then est else 0)"
| "slip (RecordActual now org job est actual cost) db o' =
     (if o' = org \<and> \<not> list_ex (is_reserved job) (bd_reservations db) then - est else 0)"
| "slip op db o' = 0"

fun slips :: "budget_op list \<Rightarrow> budget_db \<Rightarrow> string \<Rightarrow> int" where
  "slips [] db org = 0"
| "slips (op # ops) db org = slip op db org + slips ops (budget_step op db) org"

lemma reserve_step_ledger:
  assumes "budget_inv db" "op_ok (Reserve u now org job est) db"
  shows "budget_inv (fst (reserve u now org job est db))"
    "settled (fst (reserve u now org job est db)) o' = settled db o' + slip (Reserve u now org job est) db o'"
proof -
  have "budget_inv (fst (reserve u now org job est db)) \<and>
    settled (fst (reserve u now org job est db)) o' = settled db o' + slip (Reserve u now org job est) db o'"
  proof (cases "job \<in> rv_offer_job_id ` set (bd_reservations db)")
    case True
    obtain db' x where call: "reserve u now org job est db = (db', x)" by fastforce
    show ?thesis
    proof (cases x)
      case (Inl err)
      then have "db' = db" using call by (auto simp: reserve_def Let_def split: if_splits)
      with call Inl assms(1) show ?thesis by simp
    next
      case (Inr y)
      with repeated_reserve_ledger [OF assms(1) True, of u now org est db'] call True show ?thesis
        by (simp add: settled_def outstanding_def)
    qed
  qed (use assms reserve_ledger [of db est job u now org] in simp)
  then show "budget_inv (fst (reserve u now org job est db))"
    "settled (fst (reserve u now org job est db)) o' = settled db o' + slip (Reserve u now org job est) db o'"
    by simp_all
qed

lemma record_step_ledger:
  assumes "budget_inv db" "\<And>o'. 0 \<le> settled db o'" "op_ok (RecordActual now org job est actual cost) db"
  shows "budget_inv (record_actual now org job est actual cost db) \<and>
    settled (record_actual now org job est actual cost db) o' = settled db o' +
      recorded (RecordActual now org job est actual cost) o' + slip (RecordActual now org job est actual cost) db o'"
proof (cases "list_ex (is_reserved job) (bd_reservations db)")
  case True
  with assms(3) obtain r where "r \<in> set (bd_reservations db)" "is_reserved job r" "rv_organization_id r = org"
    "rv_token_estimate r = est" "0 \<le> actual" by auto
  with record_ledger [OF assms(1,2), where row = r and job = job and org = org and
      actual = actual and now = now and cost = cost] True show ?thesis by auto
next
  case False
  with assms record_unreserved_ledger [OF assms(1) _ False, of org est actual now cost] show ?thesis by simp
qed

lemma budget_step_ledger:
  assumes "budget_inv db" "\<And>o'. 0 \<le> settled db o'" "op_ok op db"
  shows "budget_inv (budget_step op db) \<and>
    settled (budget_step op db) o' = settled db o' + recorded op o' + slip op db o'"
proof (cases op)
  case (Reserve u now org job est)
  then show ?thesis using assms reserve_step_ledger by (simp del: op_ok.simps slip.simps)
next
  case (RecordActual now org job est actual cost)
  then show ?thesis using assms record_step_ledger by (simp del: op_ok.simps slip.simps recorded.simps)
qed (use assms release_ledger sweep_ledger in \<open>simp_all\<close>)

lemma step_settled_nonneg:
  assumes "0 \<le> settled db o'" "op_ok op db"
  shows "0 \<le> settled db o' + recorded op o' + slip op db o'"
  using assms by (cases op) auto

lemma budget_run_ledger:
  assumes "budget_inv db" "\<And>o'. 0 \<le> settled db o'" "ops_ok ops db"
  shows "budget_inv (budget_run ops db) \<and>
    settled (budget_run ops db) org = settled db org + consumed ops org + slips ops db org"
  using assms
proof (induction ops arbitrary: db)
  case (Cons op ops)
  then have ok: "op_ok op db" by simp
  note step = budget_step_ledger [OF Cons.prems(1,2) ok]
  have "0 \<le> settled (budget_step op db) o'" for o'
    using step [of o'] step_settled_nonneg [OF Cons.prems(2) ok, of o'] by simp
  with Cons.IH [of "budget_step op db"] Cons.prems(3) step [of org] show ?case
    by (simp add: consumed_def)
qed (simp add: consumed_def)

text \<open>C32: The token counter is a ledger. Over any order of reservations, releases, recorded calls and sweeps,
  failing sweeps and repeated reservations included, the counter of an organisation is exactly the
  estimates of its open reservations, plus the tokens recorded as really used, plus the estimates
  reserved again for a job that already had a reservation, minus the estimates of the calls recorded
  after their reservation was closed. The callers must release in the name of the
  organisation that reserved, record the estimate that was reserved, and record without an open
  reservation only what the settled part of the counter covers.\<close>

theorem budget_ledger_balances:
  assumes "ops_ok ops empty_budget_db"
  shows "used (budget_run ops empty_budget_db) org =
    outstanding (budget_run ops empty_budget_db) org + consumed ops org + slips ops empty_budget_db org"
proof -
  have "budget_inv empty_budget_db" "\<And>o'. settled empty_budget_db o' = 0"
    by (simp_all add: empty_budget_db_def budget_inv_def keyed_def settled_def used_def outstanding_def select_one_def)
  with budget_run_ledger [OF _ _ assms, of org] show ?thesis
    by (simp add: settled_def)
qed

text \<open>Three jobs: the first is left to the sweeper, whose first sweep fails, the second is recorded, the third
  is released, reserved again and recorded without an open reservation.\<close>

definition sample_budget_ops :: "budget_op list" where
  "sample_budget_ops =
     [Reserve (\<lambda>i. ''a'' @ str_nat i) (minutes 0) ''o1'' ''j1'' 2000,
      Reserve (\<lambda>i. ''b'' @ str_nat i) (minutes 1) ''o1'' ''j2'' 500,
      Reserve (\<lambda>i. ''c'' @ str_nat i) (minutes 2) ''o1'' ''j3'' 400,
      RecordActual (minutes 3) ''o1'' ''j2'' 500 300 (Dec 22500 6),
      Release (minutes 4) ''o1'' ''j3'',
      Reserve (\<lambda>i. ''d'' @ str_nat i) (minutes 5) ''o1'' ''j3'' 400,
      Sweep False (\<lambda>k. True) RESERVATION_EXPIRY_MINUTES (minutes 16),
      Sweep True (\<lambda>k. True) RESERVATION_EXPIRY_MINUTES (minutes 16)]"

definition retried_budget_ops :: "budget_op list" where
  "retried_budget_ops = sample_budget_ops @ [RecordActual (minutes 17) ''o1'' ''j3'' 400 350 (Dec 22500 6)]"

theorem budget_ledger_balances_witness:
  "used (budget_run retried_budget_ops empty_budget_db) ''o1'' =
     outstanding (budget_run retried_budget_ops empty_budget_db) ''o1'' + consumed retried_budget_ops ''o1'' +
     slips retried_budget_ops empty_budget_db ''o1''"
  by (rule budget_ledger_balances) code_simp

subsection \<open>The hard limit\<close>

definition within_hard_limits :: "budget_db \<Rightarrow> bool" where
  "within_hard_limits db \<longleftrightarrow>
     (\<forall>b \<in> set (bd_budgets db). bu_is_hard_limit b \<longrightarrow> 0 \<le> bu_daily_token_limit b \<and> bu_daily_tokens_used b \<le> bu_daily_token_limit b) \<and>
     (\<forall>r \<in> set (bd_reservations db). 0 \<le> rv_token_estimate r)"

fun cautious :: "budget_op \<Rightarrow> bool" where
  "cautious (Reserve u now org job est) \<longleftrightarrow> 0 \<le> est"
| "cautious (RecordActual now org job est actual cost) \<longleftrightarrow> actual \<le> est"
| "cautious op \<longleftrightarrow> True"

lemma within_credit:
  assumes "within_hard_limits db" "0 \<le> est"
  shows "within_hard_limits (credit_budget org est db)"
  using assms by (auto simp: within_hard_limits_def credit_budget_def set_update_where max_def)

lemma within_rows:
  assumes "within_hard_limits db" "\<And>r. rv_token_estimate (f r) = rv_token_estimate r"
  shows "within_hard_limits (db\<lparr>bd_reservations := update_where p f (bd_reservations db)\<rparr>)"
  using assms by (auto simp: within_hard_limits_def set_update_where)

lemma within_expire:
  "within_hard_limits db \<Longrightarrow> 0 \<le> rv_token_estimate row \<Longrightarrow> within_hard_limits (expire_reservation now row db)"
  unfolding expire_reservation_def by (intro within_credit within_rows) simp_all

lemma within_expire_all:
  "within_hard_limits db \<Longrightarrow> \<forall>row \<in> set rows. 0 \<le> rv_token_estimate row \<Longrightarrow>
     within_hard_limits (fold (expire_reservation now) rows db)"
  by (induction rows arbitrary: db) (simp_all add: within_expire)

lemma within_ensure: "within_hard_limits db \<Longrightarrow> within_hard_limits (ensure_budget_exists u org db)"
  by (simp add: within_hard_limits_def ensure_budget_exists_def)

lemma within_admit:
  assumes "within_hard_limits db"
  shows "within_hard_limits (db\<lparr>bd_budgets := update_where (budget_admits org est)
     (\<lambda>b. b\<lparr>bu_daily_tokens_used := bu_daily_tokens_used b + est\<rparr>) (bd_budgets db)\<rparr>)"
  using assms by (auto simp: within_hard_limits_def budget_admits_def set_update_where)

lemma within_new_row:
  "within_hard_limits db \<Longrightarrow> 0 \<le> rv_token_estimate r \<Longrightarrow>
     within_hard_limits (db\<lparr>bd_reservations := bd_reservations db @ [r]\<rparr>)"
  by (auto simp: within_hard_limits_def)

lemma within_step:
  assumes within: "within_hard_limits db" and "cautious op"
  shows "within_hard_limits (budget_step op db)"
proof (cases op)
  case (Reserve u now org job est)
  with assms within_new_row [OF within_admit [OF within_ensure [OF within]]]
    within_admit [OF within_ensure [OF within]] show ?thesis
    by (simp add: reserve_def Let_def)
next
  case (Release now org job)
  show ?thesis
  proof (cases "select_one (is_reserved job) (bd_reservations db)")
    case (Some row)
    then have "0 \<le> rv_token_estimate row"
      using within by (auto simp: within_hard_limits_def dest: select_one_Some)
    with Some Release within show ?thesis
      by (simp add: release_def) (intro within_credit within_rows, simp_all)
  qed (use Release within in \<open>simp add: release_def\<close>)
next
  case (RecordActual now org job est actual cost)
  with assms show ?thesis
    by (auto simp: record_actual_def within_hard_limits_def set_update_where max_def Let_def)
next
  case (Sweep select_ok row_ok mins now)
  have "\<forall>row \<in> set (stale_reservations mins now db). 0 \<le> rv_token_estimate row"
    using within set_select_page [of _ rv_reserved_at 200 "bd_reservations db"]
    unfolding stale_reservations_def within_hard_limits_def by blast
  with Sweep within show ?thesis
    by (simp add: sweep_once_def Let_def within_expire_all)
qed

text \<open>C33: No order of budget operations passes a hard daily limit: from a state within its limits, any run
  in which no job uses more than it estimated leaves every organisation with a hard limit at or
  below it.\<close>

theorem hard_limit_never_passed:
  assumes "within_hard_limits db" "list_all cautious ops"
    and "b \<in> set (bd_budgets (budget_run ops db))" "bu_is_hard_limit b"
  shows "bu_daily_tokens_used b \<le> bu_daily_token_limit b"
proof -
  from assms(1,2) have "within_hard_limits (budget_run ops db)"
    by (induction ops arbitrary: db) (simp_all add: within_step)
  with assms(3,4) show ?thesis by (simp add: within_hard_limits_def)
qed

definition tight_budget_db :: budget_db where
  "tight_budget_db = \<lparr>bd_budgets = [(new_budget ''b1'' ''o1'')\<lparr>bu_daily_token_limit := 3000\<rparr>], bd_reservations = []\<rparr>"

theorem hard_limit_never_passed_witness:
  "let b = hd (bd_budgets (budget_run sample_budget_ops tight_budget_db))
   in bu_daily_tokens_used b \<le> bu_daily_token_limit b"
  unfolding Let_def
  by (rule hard_limit_never_passed [where db = tight_budget_db and ops = sample_budget_ops]) code_simp+

subsection \<open>Where the callers leave the protocol\<close>

text \<open>A second reservation of the same job is not idempotent: whatever became of the job's row, the
  counter grows by the estimate again while no reservation is added, so a retry of a job counts
  twice and neither a release nor the sweeper gives the second amount back.\<close>

theorem second_reservation_leaks:
  assumes "budget_inv db" "r \<in> set (bd_reservations db)" "rv_offer_job_id r = job"
    and "reserve u now org job est db = (db', Inr ())"
  shows "used db' org = used db org + est \<and> bd_reservations db' = bd_reservations db \<and>
    settled db' org = settled db org + est"
  using repeated_reserve_ledger [OF assms(1) _ assms(4)] assms(2,3)
  by (auto simp: settled_def outstanding_def)

definition released_budget_db :: budget_db where
  "released_budget_db = budget_run [Reserve (\<lambda>i. ''a'' @ str_nat i) 0 ''o1'' ''j1'' 2000, Release 1 ''o1'' ''j1''] empty_budget_db"

theorem second_reservation_leaks_witness:
  "let db' = fst (reserve (\<lambda>i. ''b'' @ str_nat i) 2 ''o1'' ''j1'' 2000 released_budget_db)
   in used db' ''o1'' = used released_budget_db ''o1'' + 2000 \<and>
      bd_reservations db' = bd_reservations released_budget_db \<and>
      settled db' ''o1'' = settled released_budget_db ''o1'' + 2000"
  unfolding Let_def
  by (rule second_reservation_leaks [where r = "hd (bd_reservations released_budget_db)" and job = "''j1''" and
        u = "\<lambda>i. ''b'' @ str_nat i" and now = 2]) code_simp+

text \<open>A job that finishes after the sweeper expired its reservation is credited twice: the tokens it
  really used enter the counter as \<open>actual - estimate\<close>, so a job that used no more than its
  estimate is not counted at all.\<close>

theorem record_after_expiry_undercounts:
  assumes "budget_inv db" "\<And>o'. 0 \<le> settled db o'"
    and "row \<in> set (bd_reservations db)" "is_reserved job row" "rv_organization_id row = org"
    and "rv_token_estimate row = est" "est \<le> used (expire_reservation now row db) org + actual"
  shows "settled (record_actual now' org job est actual cost (expire_reservation now row db)) org =
    settled db org + (actual - est)"
proof -
  let ?db = "expire_reservation now row db"
  have reserved: "rv_status row = ''reserved''" using assms(4) by (simp add: is_reserved_def)
  note expired = expire_ledger [OF assms(1,2,3) reserved, where now = now]
  have p: "(rv_id r = rv_id row \<and> rv_status r = ''reserved'') = (r = row)" if "r \<in> set (bd_reservations db)" for r
    using that assms(1,3) reserved keyed_unique [of rv_id "bd_reservations db" r row] by (auto simp: budget_inv_def)
  have "\<not> is_reserved job r" if "r \<in> set (bd_reservations ?db)" for r
    using that p is_reserved_unique [OF assms(1) _ assms(3,4)]
    by (auto simp: expire_reservation_def set_update_where is_reserved_def split: if_splits)
  then have rows: "update_where (is_reserved job) f (bd_reservations ?db) = bd_reservations ?db" for f
    by (rule update_where_none)
  have "org \<in> bu_organization_id ` set (bd_budgets ?db)"
    using assms(1,3,5) by (auto simp: budget_inv_def expire_reservation_def)
  then have "used (record_actual now' org job est actual cost ?db) org = max 0 (used ?db org + (actual - est))"
    by (simp add: record_actual_def Let_def rows)
       (subst used_update_org [where org = org and g = "\<lambda>n. max 0 (n + (actual - est))"], simp_all)
  moreover have "outstanding (record_actual now' org job est actual cost ?db) org = outstanding ?db org"
    by (simp add: record_actual_def Let_def rows outstanding_def)
  ultimately show ?thesis
    using assms(7) expired(2) by (simp add: settled_def fun_eq_iff)
qed

definition reserving_ops :: "budget_op list" where
  "reserving_ops = [Reserve (\<lambda>i. ''a'' @ str_nat i) 0 ''o1'' ''j1'' 2000, Reserve (\<lambda>i. ''b'' @ str_nat i) 1 ''o1'' ''j2'' 3000]"

definition reserved_budget_db :: budget_db where
  "reserved_budget_db = budget_run reserving_ops empty_budget_db"

lemma reserved_budget_ledger: "budget_inv reserved_budget_db \<and> settled reserved_budget_db o' = 0"
proof -
  have start: "budget_inv empty_budget_db" "0 \<le> settled empty_budget_db o''" "settled empty_budget_db o'' = 0" for o''
    by (simp_all add: empty_budget_db_def budget_inv_def keyed_def settled_def used_def outstanding_def select_one_def)
  have "ops_ok reserving_ops empty_budget_db" by code_simp
  moreover have "map rv_offer_job_id (bd_reservations empty_budget_db) = []"
    "map rv_offer_job_id (bd_reservations (budget_step (hd reserving_ops) empty_budget_db)) = [''j1'']"
    by code_simp+
  then have "slips reserving_ops empty_budget_db o' = 0"
    by (simp add: reserving_ops_def flip: set_map del: budget_step.simps)
  ultimately show ?thesis
    using budget_run_ledger [OF start(1,2), of reserving_ops o']
    by (simp add: reserved_budget_db_def start(3)) (simp add: reserving_ops_def consumed_def)
qed

theorem record_after_expiry_undercounts_witness:
  "settled (record_actual (minutes 20) ''o1'' ''j1'' 2000 1500 (Dec 22500 6)
     (expire_reservation (minutes 16) (hd (bd_reservations reserved_budget_db)) reserved_budget_db)) ''o1'' = - 500"
proof -
  let ?row = "hd (bd_reservations reserved_budget_db)"
  have "settled (record_actual (minutes 20) ''o1'' ''j1'' 2000 1500 (Dec 22500 6)
     (expire_reservation (minutes 16) ?row reserved_budget_db)) ''o1'' = settled reserved_budget_db ''o1'' + (1500 - 2000)"
    by (rule record_after_expiry_undercounts [where row = ?row and db = reserved_budget_db])
      (simp add: reserved_budget_ledger, simp add: reserved_budget_ledger, code_simp+)
  then show ?thesis by (simp add: reserved_budget_ledger)
qed

end
