(* ===== verification/Offer_Store.thy ===== *)
theory Offer_Store
  imports Offer_Domain Offer_Budget Outbox
begin

section \<open>Offer tables and their repository\<close>

text \<open>
  Models the tables of \<open>app/models/offer_processing.py\<close> and \<open>app/offer_processing/repository.py\<close>.
  A session is the transaction's view of the database plus the rows added but not yet inserted:
  both session factories have \<open>autoflush=False\<close>, so a statement does not see pending rows and does
  not insert them; \<open>flush\<close> does. Executing a statement or flushing checks the table constraints and
  raises \<open>IntegrityError\<close>. Relationships and the columns no modelled code reads are left out.
\<close>

record offer_request =
  rq_id :: string
  rq_organization_id :: string
  rq_client_id :: "string option"
  rq_submitted_by_user_id :: string
  rq_idempotency_key :: string
  rq_work_type_code :: string
  rq_title :: string
  rq_parameters :: "json_obj option"
  rq_photo_ids :: "string list option"
  rq_status :: string
  rq_auto_send :: bool
  rq_auto_review_bypass :: bool
  rq_needs_more_info_payload :: "json option"
  rq_result_ready_at :: "time option"
  rq_completed_at :: "time option"
  rq_cancelled_at :: "time option"
  rq_cancelled_by_user_id :: "string option"
  rq_client_version :: "string option"
  rq_created_at :: time
  rq_updated_at :: time

record offer_job =
  jb_id :: string
  jb_offer_request_id :: string
  jb_organization_id :: string
  jb_idempotency_key :: string
  jb_status :: string
  jb_attempt :: int
  jb_retry_count :: int
  jb_max_retries :: int
  jb_next_retry_at :: "time option"
  jb_last_error_code :: "string option"
  jb_last_error_detail :: "string option"
  jb_error_repeat_count :: int
  jb_worker_id :: "string option"
  jb_leased_until :: "time option"
  jb_lease_version :: int
  jb_started_at :: "time option"
  jb_completed_at :: "time option"
  jb_created_at :: time

record agent_run =
  ar_id :: string
  ar_offer_job_id :: string
  ar_offer_request_id :: string
  ar_organization_id :: string
  ar_provider_key :: string
  ar_input_snapshot_hash :: "string option"
  ar_agent_model :: "string option"
  ar_status :: string
  ar_outcome :: "string option"
  ar_prompt_tokens :: "int option"
  ar_completion_tokens :: "int option"
  ar_estimated_cost_usd :: "dec option"
  ar_raw_output :: "json option"
  ar_parsed_output :: "json option"
  ar_validation_errors :: "string list option"
  ar_started_at :: "time option"
  ar_completed_at :: "time option"

record reconciler_event =
  re_id :: string
  re_check_type :: string
  re_outcome :: string
  re_offer_job_id :: "string option"
  re_offer_request_id :: "string option"
  re_organization_id :: "string option"
  re_old_status :: "string option"
  re_new_status :: "string option"
  re_reason :: "string option"
  re_extra :: "json option"

record offer_db =
  of_requests :: "offer_request list"
  of_jobs :: "offer_job list"
  of_runs :: "agent_run list"
  of_outbox :: "outbox_event list"
  of_next_seq :: nat
  of_budget :: budget_db
  of_reconciler_events :: "reconciler_event list"

datatype db_error = IntegrityError

subsection \<open>Constraints\<close>

definition job_statuses :: "string list" where
  "job_statuses = [''queued'', ''running'', ''completed'', ''failed'', ''cancelled'']"

definition run_statuses :: "string list" where
  "run_statuses = [''pending'', ''running'', ''completed'', ''failed'', ''cancelled'']"

definition run_outcomes :: "string list" where
  "run_outcomes = [''offer_generated'', ''insufficient_data'', ''error'', ''cancelled'']"

definition offer_constraints :: "offer_db \<Rightarrow> bool" where
  "offer_constraints db \<longleftrightarrow>
     keyed rq_id (of_requests db) \<and> keyed (\<lambda>r. (rq_organization_id r, rq_idempotency_key r)) (of_requests db) \<and>
     list_all (\<lambda>r. offer_status_known (rq_status r)) (of_requests db) \<and>
     keyed jb_id (of_jobs db) \<and> keyed jb_idempotency_key (of_jobs db) \<and>
     list_all (\<lambda>j. jb_status j \<in> set job_statuses \<and> jb_offer_request_id j \<in> rq_id ` set (of_requests db)) (of_jobs db) \<and>
     keyed ar_id (of_runs db) \<and> keyed ar_offer_job_id (of_runs db) \<and>
     list_all (\<lambda>a. ar_status a \<in> set run_statuses \<and>
        (case ar_outcome a of None \<Rightarrow> True | Some outcome \<Rightarrow> outcome \<in> set run_outcomes) \<and>
        ar_offer_job_id a \<in> jb_id ` set (of_jobs db)) (of_runs db) \<and>
     keyed ob_id (of_outbox db)"

definition checked :: "offer_db \<Rightarrow> db_error + offer_db" where
  "checked db = (if offer_constraints db then Inr db else Inl IntegrityError)"

lemma checked_Inr [simp]: "checked db = Inr db' \<longleftrightarrow> offer_constraints db \<and> db' = db"
  by (auto simp: checked_def)

subsection \<open>Sessions\<close>

text \<open>What the session's transaction sees, the objects added and not yet flushed, and the database as the session last
  committed it, which is what a close leaves.\<close>

record offer_session =
  ss_db :: offer_db
  ss_requests :: "offer_request list"
  ss_jobs :: "offer_job list"
  ss_runs :: "agent_run list"
  ss_events :: "outbox_event list"
  ss_saved :: offer_db

definition open_session :: "offer_db \<Rightarrow> offer_session" where
  "open_session db = \<lparr>ss_db = db, ss_requests = [], ss_jobs = [], ss_runs = [], ss_events = [], ss_saved = db\<rparr>"

text \<open>The identity column numbers the events as they are inserted.\<close>

fun number_events :: "nat \<Rightarrow> outbox_event list \<Rightarrow> outbox_event list" where
  "number_events n [] = []"
| "number_events n (e # es) = e\<lparr>ob_seq := n\<rparr> # number_events (n + 1) es"

definition insert_pending :: "offer_session \<Rightarrow> offer_db" where
  "insert_pending s =
    (let db = ss_db s in
     db\<lparr>of_requests := of_requests db @ ss_requests s, of_jobs := of_jobs db @ ss_jobs s,
        of_runs := of_runs db @ ss_runs s,
        of_outbox := of_outbox db @ number_events (of_next_seq db) (ss_events s),
        of_next_seq := of_next_seq db + length (ss_events s)\<rparr>)"

definition flush :: "offer_session \<Rightarrow> db_error + offer_session" where
  "flush s = bind_res (checked (insert_pending s)) (\<lambda>db. Inr ((open_session db)\<lparr>ss_saved := ss_saved s\<rparr>))"

text \<open>\<open>session.commit()\<close>: a flush, after which the transaction's view is the committed database. \<open>commit\<close> is a
  session block that ends with it: what it leaves.\<close>

definition commit_session :: "offer_session \<Rightarrow> db_error + offer_session" where
  "commit_session s = bind_res (flush s) (\<lambda>s1. Inr (s1\<lparr>ss_saved := ss_db s1\<rparr>))"

definition commit :: "offer_session \<Rightarrow> db_error + offer_db" where
  "commit s = bind_res (commit_session s) (\<lambda>s1. Inr (ss_saved s1))"

definition add_event :: "outbox_event \<Rightarrow> offer_session \<Rightarrow> offer_session" where
  "add_event e s = s\<lparr>ss_events := ss_events s @ [e]\<rparr>"

text \<open>A bulk statement on the transaction's view.\<close>

definition execute :: "(offer_db \<Rightarrow> offer_db) \<Rightarrow> offer_session \<Rightarrow> db_error + offer_session" where
  "execute f s = bind_res (checked (f (ss_db s))) (\<lambda>db. Inr (s\<lparr>ss_db := db\<rparr>))"

subsection \<open>Offer requests\<close>

definition or_else :: "'a option \<Rightarrow> 'a option \<Rightarrow> 'a option" where
  "or_else new old = (case new of None \<Rightarrow> old | Some x \<Rightarrow> Some x)"

record submission =
  sb_organization_id :: string
  sb_submitted_by_user_id :: string
  sb_idempotency_key :: string
  sb_work_type_code :: string
  sb_title :: string
  sb_parameters :: json_obj
  sb_photo_ids :: "string list"
  sb_client_id :: "string option"
  sb_auto_send :: bool
  sb_auto_review_bypass :: bool
  sb_client_version :: "string option"

definition create_offer_request :: "string \<Rightarrow> time \<Rightarrow> submission \<Rightarrow> offer_session \<Rightarrow> offer_session \<times> offer_request" where
  "create_offer_request uuid now b s =
    (let offer = \<lparr>rq_id = uuid_str uuid, rq_organization_id = sb_organization_id b, rq_client_id = sb_client_id b,
           rq_submitted_by_user_id = sb_submitted_by_user_id b, rq_idempotency_key = sb_idempotency_key b,
           rq_work_type_code = sb_work_type_code b, rq_title = sb_title b,
           rq_parameters = Some (sb_parameters b), rq_photo_ids = Some (sb_photo_ids b),
           rq_status = OFFER_STATUS_SUBMITTED, rq_auto_send = sb_auto_send b,
           rq_auto_review_bypass = sb_auto_review_bypass b, rq_needs_more_info_payload = None,
           rq_result_ready_at = None, rq_completed_at = None, rq_cancelled_at = None,
           rq_cancelled_by_user_id = None, rq_client_version = sb_client_version b,
           rq_created_at = now, rq_updated_at = now\<rparr>
     in (s\<lparr>ss_requests := ss_requests s @ [offer]\<rparr>, offer))"

definition get_offer_request_row :: "offer_session \<Rightarrow> string \<Rightarrow> string \<Rightarrow> offer_request option" where
  "get_offer_request_row s offer_request_id organization_id =
     select_one (\<lambda>r. rq_id r = offer_request_id \<and> rq_organization_id r = organization_id) (of_requests (ss_db s))"

definition get_offer_request_by_idempotency_key :: "offer_session \<Rightarrow> string \<Rightarrow> string \<Rightarrow> offer_request option" where
  "get_offer_request_by_idempotency_key s key organization_id =
     select_one (\<lambda>r. rq_idempotency_key r = key \<and> rq_organization_id r = organization_id) (of_requests (ss_db s))"

definition list_offer_requests :: "offer_session \<Rightarrow> string \<Rightarrow> nat \<Rightarrow> offer_request list" where
  "list_offer_requests s organization_id limit =
     select_page (\<lambda>r. rq_organization_id r = organization_id) (\<lambda>r. - rq_created_at r) limit (of_requests (ss_db s))"

record offer_values =
  ov_needs_more_info_payload :: "json option"
  ov_result_ready_at :: "time option"
  ov_completed_at :: "time option"
  ov_cancelled_at :: "time option"
  ov_cancelled_by_user_id :: "string option"

definition no_values :: offer_values where
  "no_values = \<lparr>ov_needs_more_info_payload = None, ov_result_ready_at = None, ov_completed_at = None,
     ov_cancelled_at = None, ov_cancelled_by_user_id = None\<rparr>"

definition set_offer_status :: "time \<Rightarrow> string \<Rightarrow> offer_values \<Rightarrow> offer_request \<Rightarrow> offer_request" where
  "set_offer_status now new_status v r =
     r\<lparr>rq_status := new_status, rq_updated_at := now,
       rq_needs_more_info_payload := or_else (ov_needs_more_info_payload v) (rq_needs_more_info_payload r),
       rq_result_ready_at := or_else (ov_result_ready_at v) (rq_result_ready_at r),
       rq_completed_at := or_else (ov_completed_at v) (rq_completed_at r),
       rq_cancelled_at := or_else (ov_cancelled_at v) (rq_cancelled_at r),
       rq_cancelled_by_user_id := or_else (ov_cancelled_by_user_id v) (rq_cancelled_by_user_id r)\<rparr>"

definition update_offer_status ::
  "time \<Rightarrow> string \<Rightarrow> string \<Rightarrow> offer_values \<Rightarrow> offer_session \<Rightarrow> db_error + offer_session" where
  "update_offer_status now offer_request_id new_status v =
     execute (\<lambda>db. db\<lparr>of_requests := update_where (\<lambda>r. rq_id r = offer_request_id)
       (set_offer_status now new_status v) (of_requests db)\<rparr>)"

subsection \<open>Offer jobs\<close>

definition create_offer_job ::
  "string \<Rightarrow> time \<Rightarrow> string \<Rightarrow> string \<Rightarrow> string \<Rightarrow> int \<Rightarrow> offer_session \<Rightarrow> offer_session \<times> offer_job" where
  "create_offer_job uuid now offer_request_id organization_id idempotency_key attempt s =
    (let job = \<lparr>jb_id = uuid_str uuid, jb_offer_request_id = offer_request_id,
           jb_organization_id = organization_id, jb_idempotency_key = idempotency_key,
           jb_status = JOB_STATUS_QUEUED, jb_attempt = attempt, jb_retry_count = 0, jb_max_retries = 3,
           jb_next_retry_at = None, jb_last_error_code = None, jb_last_error_detail = None,
           jb_error_repeat_count = 0, jb_worker_id = None, jb_leased_until = None, jb_lease_version = 0,
           jb_started_at = None, jb_completed_at = None, jb_created_at = now\<rparr>
     in (s\<lparr>ss_jobs := ss_jobs s @ [job]\<rparr>, job))"

definition get_offer_job :: "offer_session \<Rightarrow> string \<Rightarrow> offer_job option" where
  "get_offer_job s job_id = select_one (\<lambda>j. jb_id j = job_id) (of_jobs (ss_db s))"

definition get_latest_job_for_request :: "offer_session \<Rightarrow> string \<Rightarrow> offer_job option" where
  "get_latest_job_for_request s offer_request_id =
     latest_by jb_created_at (filter (\<lambda>j. jb_offer_request_id j = offer_request_id) (of_jobs (ss_db s)))"

text \<open>\<open>RETURNING lease_version\<close> of the updated row, or \<open>1\<close> when there is none.\<close>

definition mark_running :: "time \<Rightarrow> string \<Rightarrow> time \<Rightarrow> offer_job \<Rightarrow> offer_job" where
  "mark_running now worker_id leased_until j =
     j\<lparr>jb_status := JOB_STATUS_RUNNING, jb_worker_id := Some worker_id, jb_leased_until := Some leased_until,
       jb_lease_version := jb_lease_version j + 1, jb_started_at := Some now\<rparr>"

definition mark_job_running ::
  "time \<Rightarrow> string \<Rightarrow> string \<Rightarrow> time \<Rightarrow> offer_session \<Rightarrow> db_error + (offer_session \<times> int)" where
  "mark_job_running now job_id worker_id leased_until s =
     bind_res (execute (\<lambda>db. db\<lparr>of_jobs := update_where (\<lambda>j. jb_id j = job_id)
         (mark_running now worker_id leased_until) (of_jobs db)\<rparr>) s) (\<lambda>s'.
       Inr (s', case get_offer_job s' job_id of None \<Rightarrow> 1 | Some j \<Rightarrow> jb_lease_version j))"

record job_values =
  jv_status :: string
  jv_last_error_code :: "string option"
  jv_last_error_detail :: "string option"
  jv_retry_count :: "int option"
  jv_error_repeat_count :: "int option"
  jv_next_retry_at :: "time option"
  jv_completed_at :: "time option"

definition job_status_values :: "string \<Rightarrow> job_values" where
  "job_status_values status = \<lparr>jv_status = status, jv_last_error_code = None, jv_last_error_detail = None,
     jv_retry_count = None, jv_error_repeat_count = None, jv_next_retry_at = None, jv_completed_at = None\<rparr>"

definition get_or :: "'a option \<Rightarrow> 'a \<Rightarrow> 'a" where
  "get_or new old = (case new of None \<Rightarrow> old | Some x \<Rightarrow> x)"

definition set_job_values :: "job_values \<Rightarrow> offer_job \<Rightarrow> offer_job" where
  "set_job_values v j =
     j\<lparr>jb_status := jv_status v,
       jb_last_error_code := or_else (jv_last_error_code v) (jb_last_error_code j),
       jb_last_error_detail := or_else (jv_last_error_detail v) (jb_last_error_detail j),
       jb_retry_count := get_or (jv_retry_count v) (jb_retry_count j),
       jb_error_repeat_count := get_or (jv_error_repeat_count v) (jb_error_repeat_count j),
       jb_next_retry_at := or_else (jv_next_retry_at v) (jb_next_retry_at j),
       jb_completed_at := or_else (jv_completed_at v) (jb_completed_at j)\<rparr>"

definition holds_lease :: "string \<Rightarrow> int \<Rightarrow> offer_job \<Rightarrow> bool" where
  "holds_lease job_id expected_lease_version j \<longleftrightarrow> jb_id j = job_id \<and> jb_lease_version j = expected_lease_version"

definition update_job_status_fenced ::
  "string \<Rightarrow> int \<Rightarrow> job_values \<Rightarrow> offer_session \<Rightarrow> db_error + (offer_session \<times> bool)" where
  "update_job_status_fenced job_id expected_lease_version v s =
     bind_res (execute (\<lambda>db. db\<lparr>of_jobs := update_where (holds_lease job_id expected_lease_version)
         (set_job_values v) (of_jobs db)\<rparr>) s) (\<lambda>s'.
       Inr (s', list_ex (holds_lease job_id expected_lease_version) (of_jobs (ss_db s))))"

definition update_job_status :: "string \<Rightarrow> job_values \<Rightarrow> offer_session \<Rightarrow> db_error + offer_session" where
  "update_job_status job_id v =
     execute (\<lambda>db. db\<lparr>of_jobs := update_where (\<lambda>j. jb_id j = job_id) (set_job_values v) (of_jobs db)\<rparr>)"

subsection \<open>Agent runs\<close>

definition create_agent_run ::
  "string \<Rightarrow> string \<Rightarrow> string \<Rightarrow> string \<Rightarrow> string \<Rightarrow> string option \<Rightarrow> string option \<Rightarrow> offer_session
    \<Rightarrow> offer_session \<times> agent_run" where
  "create_agent_run uuid offer_job_id offer_request_id organization_id provider_key snapshot_hash agent_model s =
    (let run = \<lparr>ar_id = uuid_str uuid, ar_offer_job_id = offer_job_id, ar_offer_request_id = offer_request_id,
           ar_organization_id = organization_id, ar_provider_key = provider_key,
           ar_input_snapshot_hash = snapshot_hash, ar_agent_model = agent_model, ar_status = ''pending'',
           ar_outcome = None, ar_prompt_tokens = None, ar_completion_tokens = None,
           ar_estimated_cost_usd = None, ar_raw_output = None, ar_parsed_output = None,
           ar_validation_errors = None, ar_started_at = None, ar_completed_at = None\<rparr>
     in (s\<lparr>ss_runs := ss_runs s @ [run]\<rparr>, run))"

record run_values =
  rn_status :: string
  rn_outcome :: "string option"
  rn_prompt_tokens :: "int option"
  rn_completion_tokens :: "int option"
  rn_estimated_cost_usd :: "dec option"
  rn_raw_output :: "json option"
  rn_parsed_output :: "json option"
  rn_validation_errors :: "string list option"
  rn_started_at :: "time option"
  rn_completed_at :: "time option"

definition set_run_values :: "run_values \<Rightarrow> agent_run \<Rightarrow> agent_run" where
  "set_run_values v a =
     a\<lparr>ar_status := rn_status v,
       ar_outcome := or_else (rn_outcome v) (ar_outcome a),
       ar_prompt_tokens := or_else (rn_prompt_tokens v) (ar_prompt_tokens a),
       ar_completion_tokens := or_else (rn_completion_tokens v) (ar_completion_tokens a),
       ar_estimated_cost_usd := or_else (rn_estimated_cost_usd v) (ar_estimated_cost_usd a),
       ar_raw_output := or_else (rn_raw_output v) (ar_raw_output a),
       ar_parsed_output := or_else (rn_parsed_output v) (ar_parsed_output a),
       ar_validation_errors := or_else (rn_validation_errors v) (ar_validation_errors a),
       ar_started_at := or_else (rn_started_at v) (ar_started_at a),
       ar_completed_at := or_else (rn_completed_at v) (ar_completed_at a)\<rparr>"

definition update_agent_run :: "string \<Rightarrow> run_values \<Rightarrow> offer_session \<Rightarrow> db_error + offer_session" where
  "update_agent_run run_id v =
     execute (\<lambda>db. db\<lparr>of_runs := update_where (\<lambda>a. ar_id a = run_id) (set_run_values v) (of_runs db)\<rparr>)"

text \<open>A budget operation run in a session of its own.\<close>

definition on_budget :: "(budget_db \<Rightarrow> budget_db) \<Rightarrow> offer_db \<Rightarrow> offer_db" where
  "on_budget f db = db\<lparr>of_budget := f (of_budget db)\<rparr>"

subsection \<open>Facts the services share\<close>

definition empty_offer_db :: offer_db where
  "empty_offer_db = \<lparr>of_requests = [], of_jobs = [], of_runs = [], of_outbox = [], of_next_seq = 1,
     of_budget = empty_budget_db, of_reconciler_events = []\<rparr>"

lemma execute_Inr:
  assumes "execute f s = Inr s'"
  shows "s' = s\<lparr>ss_db := f (ss_db s)\<rparr>" "offer_constraints (f (ss_db s))"
  using assms by (auto simp: execute_def bind_res_eq_Inr)

lemma insert_pending_open [simp]: "insert_pending (open_session db) = db"
  by (simp add: insert_pending_def open_session_def)

lemma open_session_simps [simp]:
  "ss_db (open_session db) = db" "ss_requests (open_session db) = []" "ss_jobs (open_session db) = []"
  "ss_runs (open_session db) = []" "ss_events (open_session db) = []" "ss_saved (open_session db) = db"
  by (simp_all add: open_session_def)

lemma insert_pending_saved [simp]: "insert_pending (s\<lparr>ss_saved := db\<rparr>) = insert_pending s"
  by (simp add: insert_pending_def)

lemma insert_pending_rows:
  "of_requests (insert_pending s) = of_requests (ss_db s) @ ss_requests s"
  "of_jobs (insert_pending s) = of_jobs (ss_db s) @ ss_jobs s" "of_runs (insert_pending s) = of_runs (ss_db s) @ ss_runs s"
  "of_outbox (insert_pending s) = of_outbox (ss_db s) @ number_events (of_next_seq (ss_db s)) (ss_events s)"
  "of_next_seq (insert_pending s) = of_next_seq (ss_db s) + length (ss_events s)"
  "of_budget (insert_pending s) = of_budget (ss_db s)"
  by (simp_all add: insert_pending_def Let_def)

lemma add_event_rows [simp]:
  "ss_db (add_event e s) = ss_db s" "ss_requests (add_event e s) = ss_requests s" "ss_jobs (add_event e s) = ss_jobs s"
  "ss_runs (add_event e s) = ss_runs s" "ss_events (add_event e s) = ss_events s @ [e]"
  "ss_saved (add_event e s) = ss_saved s"
  by (simp_all add: add_event_def)

lemma execute_eq_Inr:
  "execute f s = Inr s' \<longleftrightarrow> offer_constraints (f (ss_db s)) \<and> s' = s\<lparr>ss_db := f (ss_db s)\<rparr>"
  by (auto simp: execute_def bind_res_eq_Inr)

lemma flush_Inr: "flush s = Inr s' \<longleftrightarrow>
    offer_constraints (insert_pending s) \<and> s' = (open_session (insert_pending s))\<lparr>ss_saved := ss_saved s\<rparr>"
  by (auto simp: flush_def bind_res_eq_Inr)

lemma commit_checked: "commit s = checked (insert_pending s)"
  by (simp add: commit_def commit_session_def flush_def checked_def)

lemma commit_Inr: "commit s = Inr db \<longleftrightarrow> offer_constraints (insert_pending s) \<and> db = insert_pending s"
  by (simp add: commit_checked)

lemma length_number_events [simp]: "length (number_events n es) = length es"
  by (induction es arbitrary: n) simp_all

lemma offer_constraints_keys:
  assumes "offer_constraints db"
  shows "keyed rq_id (of_requests db)" "keyed jb_id (of_jobs db)" "keyed jb_idempotency_key (of_jobs db)"
    "keyed ar_offer_job_id (of_runs db)"
    "keyed (\<lambda>r. (rq_organization_id r, rq_idempotency_key r)) (of_requests db)"
  using assms by (simp_all add: offer_constraints_def)

definition status_of :: "offer_db \<Rightarrow> string \<Rightarrow> string option" where
  "status_of db i = map_option rq_status (select_one (\<lambda>r. rq_id r = i) (of_requests db))"

lemma select_one_update_key:
  assumes "\<And>r. k (f r) = k r"
  shows "select_one (\<lambda>r. k r = i) (update_where (\<lambda>r. k r = j) f rows) =
    (if i = j then map_option f (select_one (\<lambda>r. k r = i) rows) else select_one (\<lambda>r. k r = i) rows)"
  using assms by (induction rows) (auto simp: select_one_def)

lemma set_offer_status_fields [simp]:
  "rq_id (set_offer_status now st v r) = rq_id r" "rq_status (set_offer_status now st v r) = st"
  "rq_organization_id (set_offer_status now st v r) = rq_organization_id r"
  "rq_idempotency_key (set_offer_status now st v r) = rq_idempotency_key r"
  by (simp_all add: set_offer_status_def)

lemma set_job_values_fields [simp]:
  "jb_id (set_job_values v j) = jb_id j" "jb_lease_version (set_job_values v j) = jb_lease_version j"
  "jb_status (set_job_values v j) = jv_status v" "jb_offer_request_id (set_job_values v j) = jb_offer_request_id j"
  by (simp_all add: set_job_values_def)

end
