(* ===== verification/Offer_Service.thy ===== *)
theory Offer_Service
  imports Offer_Store
begin

section \<open>The offer service and its routes\<close>

text \<open>
  Models \<open>app/offer_processing/service.py\<close> and \<open>app/api/routes/offer_requests.py\<close>. A service function
  works on the session of its request and returns it with its result, or raises; the routes turn
  the exceptions into HTTP statuses. \<open>get_db_session\<close> yields the session and closes it: \<open>request_scope\<close> leaves
  the database as the handler's session last committed it. UUIDs are drawn from the argument \<open>u\<close> in order.
\<close>

datatype service_error =
    OfferNotFoundError string
  | OfferAlreadyExistsError offer_request
  | OfferLockedError string
  | OfferTerminalError string
  | TransitionError transition_refused
  | DbError db_error

definition lift_db :: "db_error + 'a \<Rightarrow> service_error + 'a" where
  "lift_db r = (case r of Inl e \<Rightarrow> Inl (DbError e) | Inr x \<Rightarrow> Inr x)"

definition lift_move :: "transition_refused + unit \<Rightarrow> service_error + unit" where
  "lift_move r = (case r of Inl e \<Rightarrow> Inl (TransitionError e) | Inr x \<Rightarrow> Inr x)"

text \<open>The session's own copy of the offer follows the UPDATE it issued.\<close>

definition reread :: "offer_session \<Rightarrow> offer_request \<Rightarrow> offer_request" where
  "reread s offer = (case select_one (\<lambda>r. rq_id r = rq_id offer) (of_requests (ss_db s)) of
     None \<Rightarrow> offer | Some r \<Rightarrow> r)"

subsection \<open>Operations\<close>

definition submit_offer_request ::
  "(nat \<Rightarrow> string) \<Rightarrow> time \<Rightarrow> submission \<Rightarrow> offer_session \<Rightarrow> service_error + (offer_session \<times> offer_request)" where
  "submit_offer_request u now b s =
    (case get_offer_request_by_idempotency_key s (sb_idempotency_key b) (sb_organization_id b) of
       Some existing \<Rightarrow> Inl (OfferAlreadyExistsError existing)
     | None \<Rightarrow>
         (case create_offer_request (u 0) now b s of
            (s1, offer) \<Rightarrow>
              (case create_offer_job (u 1) now (rq_id offer) (sb_organization_id b)
                      (sb_idempotency_key b @ '':attempt:1'') 1 s1 of
                 (s2, job) \<Rightarrow>
                   bind_res (lift_db (update_offer_status now (rq_id offer) OFFER_STATUS_QUEUED no_values s2)) (\<lambda>s3.
                   bind_res (lift_db (flush (add_event (build_offer_status_changed_event (u 2) 0 now (rq_id offer)
                       (sb_organization_id b) (Some (jb_id job)) OFFER_STATUS_QUEUED None) s3))) (\<lambda>s4.
                   Inr (s4, offer))))))"

definition get_offer_request ::
  "string \<Rightarrow> string \<Rightarrow> offer_session \<Rightarrow> service_error + offer_request" where
  "get_offer_request offer_request_id organization_id s =
    (case get_offer_request_row s offer_request_id organization_id of
       None \<Rightarrow> Inl (OfferNotFoundError offer_request_id)
     | Some offer \<Rightarrow> Inr offer)"

definition get_offer_result ::
  "string \<Rightarrow> string \<Rightarrow> offer_session \<Rightarrow> service_error + offer_request" where
  "get_offer_result offer_request_id organization_id s =
     bind_res (get_offer_request offer_request_id organization_id s) (\<lambda>offer.
       if rq_status offer \<notin> {OFFER_STATUS_NEEDS_REVIEW, OFFER_STATUS_COMPLETED}
       then Inl (OfferLockedError (rq_status offer)) else Inr offer)"

definition latest_job_id :: "offer_session \<Rightarrow> string \<Rightarrow> string option" where
  "latest_job_id s offer_request_id = map_option jb_id (get_latest_job_for_request s offer_request_id)"

definition cancel_offer_request ::
  "(nat \<Rightarrow> string) \<Rightarrow> time \<Rightarrow> string \<Rightarrow> string \<Rightarrow> string \<Rightarrow> offer_session
    \<Rightarrow> service_error + (offer_session \<times> offer_request)" where
  "cancel_offer_request u now offer_request_id organization_id cancelled_by_user_id s =
     bind_res (get_offer_request offer_request_id organization_id s) (\<lambda>offer.
       if rq_status offer \<in> set OFFER_TERMINAL_STATUSES then Inl (OfferTerminalError (rq_status offer))
       else
         bind_res (lift_move (require_offer_transition (rq_status offer) OFFER_STATUS_CANCELLED)) (\<lambda>_.
         bind_res (lift_db (update_offer_status now offer_request_id OFFER_STATUS_CANCELLED
             (no_values\<lparr>ov_cancelled_at := Some now, ov_cancelled_by_user_id := Some cancelled_by_user_id\<rparr>) s)) (\<lambda>s1.
         Inr (add_event (build_offer_status_changed_event (u 0) 0 now offer_request_id organization_id
                (latest_job_id s1 offer_request_id) OFFER_STATUS_CANCELLED None) s1, reread s1 offer))))"

definition approve_offer ::
  "(nat \<Rightarrow> string) \<Rightarrow> time \<Rightarrow> string \<Rightarrow> string \<Rightarrow> string \<Rightarrow> offer_session
    \<Rightarrow> service_error + (offer_session \<times> offer_request)" where
  "approve_offer u now offer_request_id organization_id approved_by_user_id s =
     bind_res (get_offer_request offer_request_id organization_id s) (\<lambda>offer.
       bind_res (lift_move (require_offer_transition (rq_status offer) OFFER_STATUS_COMPLETED)) (\<lambda>_.
       bind_res (lift_db (update_offer_status now offer_request_id OFFER_STATUS_COMPLETED
           (no_values\<lparr>ov_completed_at := Some now\<rparr>) s)) (\<lambda>s1.
       Inr (add_event (build_offer_status_changed_event (u 0) 0 now offer_request_id organization_id
              (latest_job_id s1 offer_request_id) OFFER_STATUS_COMPLETED
              (Some [(''approved_by_user_id'', JStr approved_by_user_id)])) s1, reread s1 offer))))"

text \<open>\<open>list({...})\<close> gives the distinct ids in an order of its own: the argument \<open>order_of\<close>.\<close>

definition submit_more_info ::
  "(string list \<Rightarrow> string list) \<Rightarrow> (nat \<Rightarrow> string) \<Rightarrow> time \<Rightarrow> string \<Rightarrow> string \<Rightarrow> json_obj \<Rightarrow> string list
    \<Rightarrow> offer_session \<Rightarrow> service_error + (offer_session \<times> offer_request \<times> string)" where
  "submit_more_info order_of u now offer_request_id organization_id additional_parameters additional_photo_ids s =
     bind_res (get_offer_request offer_request_id organization_id s) (\<lambda>offer.
       if rq_status offer \<noteq> OFFER_STATUS_NEEDS_MORE_INFO then Inl (OfferLockedError (rq_status offer))
       else
         let merged_params = dict_merge (get_or (rq_parameters offer) []) additional_parameters;
             merged_photos = order_of (remdups (get_or (rq_photo_ids offer) [] @ additional_photo_ids));
             next_attempt = (case get_latest_job_for_request s offer_request_id of
                               None \<Rightarrow> 2 | Some existing_job \<Rightarrow> jb_attempt existing_job + 1);
             (s1, new_job) = create_offer_job (u 0) now offer_request_id organization_id
                (rq_idempotency_key offer @ '':attempt:'' @ str_int next_attempt) next_attempt s
         in bind_res (lift_db (execute (\<lambda>db. db\<lparr>of_requests := update_where (\<lambda>r. rq_id r = offer_request_id)
                (\<lambda>r. r\<lparr>rq_parameters := Some merged_params, rq_photo_ids := Some merged_photos,
                       rq_status := OFFER_STATUS_QUEUED, rq_needs_more_info_payload := None,
                       rq_updated_at := now\<rparr>) (of_requests db)\<rparr>) s1)) (\<lambda>s2.
            bind_res (lift_db (flush (add_event (build_offer_status_changed_event (u 1) 0 now offer_request_id
                organization_id (Some (jb_id new_job)) OFFER_STATUS_QUEUED
                (Some [(''requeued_attempt'', JInt next_attempt)])) s2))) (\<lambda>s3.
            Inr (s3, reread s3 offer, jb_id new_job))))"

subsection \<open>Routes\<close>

datatype api_error = HttpStatus nat | ServerError

datatype api_response = Body nat "string" "string" bool

text \<open>A user's id and organisation, as the authentication found them.\<close>

type_synonym user = "string \<times> string option"

definition require_org_id :: "user \<Rightarrow> api_error + string" where
  "require_org_id user = (case snd user of
     None \<Rightarrow> Inl (HttpStatus 403) | Some org \<Rightarrow> if org = [] then Inl (HttpStatus 403) else Inr org)"

text \<open>The session of a request: a close throws away what the handler has not committed.\<close>

definition request_scope :: "(offer_session \<Rightarrow> offer_session \<times> 'a) \<Rightarrow> offer_db \<Rightarrow> offer_db \<times> 'a" where
  "request_scope handler db = (case handler (open_session db) of (s, response) \<Rightarrow> (ss_saved s, response))"

text \<open>The session a handler leaves and its answer, from a service call whose exceptions map to statuses.\<close>

definition answer ::
  "(service_error \<Rightarrow> api_error) \<Rightarrow> offer_session \<Rightarrow> service_error + (offer_session \<times> offer_request)
    \<Rightarrow> offer_session \<times> (api_error + api_response)" where
  "answer status_of_error s r = (case r of
     Inl e \<Rightarrow> (s, Inl (status_of_error e))
   | Inr (s', offer) \<Rightarrow> (s', Inr (Body 200 (rq_id offer) (rq_status offer) False)))"

definition not_found_or :: "(service_error \<Rightarrow> api_error) \<Rightarrow> service_error \<Rightarrow> api_error" where
  "not_found_or other e = (case e of OfferNotFoundError i \<Rightarrow> HttpStatus 404 | _ \<Rightarrow> other e)"

definition locked_or_error :: "service_error \<Rightarrow> api_error" where
  "locked_or_error e = (case e of OfferLockedError d \<Rightarrow> HttpStatus 422 | _ \<Rightarrow> ServerError)"

definition conflict_or_error :: "service_error \<Rightarrow> api_error" where
  "conflict_or_error e =
    (case e of OfferTerminalError d \<Rightarrow> HttpStatus 409 | TransitionError t \<Rightarrow> HttpStatus 409 | _ \<Rightarrow> ServerError)"

definition with_org :: "user \<Rightarrow> (string \<Rightarrow> offer_session \<Rightarrow> offer_session \<times> (api_error + api_response))
    \<Rightarrow> offer_session \<Rightarrow> offer_session \<times> (api_error + api_response)" where
  "with_org user f s = (case require_org_id user of Inl e \<Rightarrow> (s, Inl e) | Inr org \<Rightarrow> f org s)"

definition handle_submit ::
  "(nat \<Rightarrow> string) \<Rightarrow> time \<Rightarrow> user \<Rightarrow> submission \<Rightarrow> offer_session \<Rightarrow> offer_session \<times> (api_error + api_response)" where
  "handle_submit u now user b = with_org user (\<lambda>org s.
     case submit_offer_request u now (b\<lparr>sb_organization_id := org, sb_submitted_by_user_id := fst user\<rparr>) s of
       Inr (s', offer) \<Rightarrow> (s', Inr (Body 201 (rq_id offer) (rq_status offer) True))
     | Inl (OfferAlreadyExistsError existing) \<Rightarrow> (s, Inr (Body 200 (rq_id existing) (rq_status existing) False))
     | Inl e \<Rightarrow> (s, Inl ServerError))"

definition route_submit ::
  "(nat \<Rightarrow> string) \<Rightarrow> time \<Rightarrow> user \<Rightarrow> submission \<Rightarrow> offer_db \<Rightarrow> offer_db \<times> (api_error + api_response)" where
  "route_submit u now user b = request_scope (handle_submit u now user b)"

definition route_get :: "user \<Rightarrow> string \<Rightarrow> offer_db \<Rightarrow> offer_db \<times> (api_error + api_response)" where
  "route_get user offer_id = request_scope (with_org user (\<lambda>org s.
     answer (not_found_or (\<lambda>_. ServerError)) s (bind_res (get_offer_request offer_id org s) (\<lambda>offer. Inr (s, offer)))))"

definition route_result :: "user \<Rightarrow> string \<Rightarrow> offer_db \<Rightarrow> offer_db \<times> (api_error + api_response)" where
  "route_result user offer_id = request_scope (with_org user (\<lambda>org s.
     answer (not_found_or locked_or_error) s (bind_res (get_offer_result offer_id org s) (\<lambda>offer. Inr (s, offer)))))"

definition route_cancel ::
  "(nat \<Rightarrow> string) \<Rightarrow> time \<Rightarrow> user \<Rightarrow> string \<Rightarrow> offer_db \<Rightarrow> offer_db \<times> (api_error + api_response)" where
  "route_cancel u now user offer_id = request_scope (with_org user (\<lambda>org s.
     answer (not_found_or conflict_or_error) s (cancel_offer_request u now offer_id org (fst user) s)))"

definition route_more_info ::
  "(string list \<Rightarrow> string list) \<Rightarrow> (nat \<Rightarrow> string) \<Rightarrow> time \<Rightarrow> user \<Rightarrow> string \<Rightarrow> json_obj \<Rightarrow> string list
    \<Rightarrow> offer_db \<Rightarrow> offer_db \<times> (api_error + api_response)" where
  "route_more_info order_of u now user offer_id params photos = request_scope (with_org user (\<lambda>org s.
     case submit_more_info order_of u now offer_id org params photos s of
       Inl e \<Rightarrow> (s, Inl (not_found_or locked_or_error e))
     | Inr (s', offer, job) \<Rightarrow>
         answer (\<lambda>_. ServerError) s' (bind_res (get_offer_request offer_id org s') (\<lambda>o1. Inr (s', o1)))))"

definition route_approve ::
  "(nat \<Rightarrow> string) \<Rightarrow> time \<Rightarrow> user \<Rightarrow> string \<Rightarrow> offer_db \<Rightarrow> offer_db \<times> (api_error + api_response)" where
  "route_approve u now user offer_id = request_scope (with_org user (\<lambda>org s.
     answer (not_found_or conflict_or_error) s (approve_offer u now offer_id org (fst user) s)))"

subsection \<open>What a service call changes\<close>

datatype service_call =
    SubmitOffer submission
  | CancelOffer string string string
  | ApproveOffer string string string
  | MoreInfo string string json_obj "string list"

fun run_service ::
  "(string list \<Rightarrow> string list) \<Rightarrow> (nat \<Rightarrow> string) \<Rightarrow> time \<Rightarrow> service_call \<Rightarrow> offer_session
    \<Rightarrow> service_error + offer_session" where
  "run_service order_of u now (SubmitOffer b) s =
     bind_res (submit_offer_request u now b s) (\<lambda>(s', offer). Inr s')"
| "run_service order_of u now (CancelOffer i org user) s =
     bind_res (cancel_offer_request u now i org user s) (\<lambda>(s', offer). Inr s')"
| "run_service order_of u now (ApproveOffer i org user) s =
     bind_res (approve_offer u now i org user s) (\<lambda>(s', offer). Inr s')"
| "run_service order_of u now (MoreInfo i org params photos) s =
     bind_res (submit_more_info order_of u now i org params photos s) (\<lambda>(s', offer, job). Inr s')"

lemma lift_db_Inr [simp]: "lift_db r = Inr x \<longleftrightarrow> r = Inr x"
  by (cases r) (simp_all add: lift_db_def)

lemma lift_move_Inr [simp]: "lift_move r = Inr x \<longleftrightarrow> r = Inr x"
  by (cases r) (simp_all add: lift_move_def)

lemma require_offer_transition_Inr [simp]:
  "require_offer_transition a b = Inr x \<longleftrightarrow> b \<in> set (offer_targets a)"
  by (simp add: require_offer_transition_def is_valid_offer_transition_def)

definition event_status :: "outbox_event \<Rightarrow> string option" where
  "event_status e = (case ob_payload e of JObj d \<Rightarrow> Option.bind (map_of d ''status'') (\<lambda>j. case j of JStr x \<Rightarrow> Some x | _ \<Rightarrow> None) | _ \<Rightarrow> None)"

lemma status_event_fields:
  "ob_aggregate_id (build_offer_status_changed_event u n now i org job st extra) = i"
  "ob_aggregate_id (e\<lparr>ob_seq := k\<rparr>) = ob_aggregate_id e" "event_status (e\<lparr>ob_seq := k\<rparr>) = event_status e"
  by (simp_all add: build_offer_status_changed_event_def build_outbox_event_def event_status_def)

lemma event_status_built:
  "(case extra of None \<Rightarrow> True | Some d \<Rightarrow> ''status'' \<notin> fst ` set d) \<Longrightarrow>
     event_status (build_offer_status_changed_event u n now i org job st extra) = Some st"
proof (cases extra)
  case (Some d)
  assume "case extra of None \<Rightarrow> True | Some d \<Rightarrow> ''status'' \<notin> fst ` set d"
  with Some have "map_of (rev d) ''status'' = None" by (simp add: map_of_eq_None_iff)
  with Some show ?thesis
    by (simp add: build_offer_status_changed_event_def build_outbox_event_def event_status_def map_of_dict_merge
        map_add_def)
qed (simp add: build_offer_status_changed_event_def build_outbox_event_def event_status_def dict_merge_def)

lemma status_of_pending:
  "status_of (ss_db s) i = Some st \<Longrightarrow> status_of (insert_pending s) i = Some st"
  by (auto simp: status_of_def insert_pending_def Let_def select_one_def find_Some_iff nth_append)

text \<open>What an UPDATE of one offer's row does to the statuses.\<close>

lemma status_of_update:
  assumes "\<And>r. rq_id (f r) = rq_id r" "\<And>r. rq_status (f r) = new"
  shows "status_of (db\<lparr>of_requests := update_where (\<lambda>r. rq_id r = j) f (of_requests db)\<rparr>) i =
    (if i = j then map_option (\<lambda>_. new) (status_of db i) else status_of db i)"
  using assms by (auto simp: status_of_def select_one_update_key option.map_comp comp_def)

lemma get_row_status:
  assumes "offer_constraints (ss_db s)" "get_offer_request i org s = Inr offer"
  shows "status_of (ss_db s) i = Some (rq_status offer)"
proof -
  from assms(2) have "offer \<in> set (of_requests (ss_db s))" "rq_id offer = i"
    by (auto simp: get_offer_request_def get_offer_request_row_def dest: select_one_Some split: option.splits)
  with offer_constraints_keys(1) [OF assms(1)] show ?thesis
    by (auto simp: status_of_def dest: keyed_select_one)
qed

definition announced :: "offer_db \<Rightarrow> offer_db \<Rightarrow> string \<Rightarrow> string \<Rightarrow> bool" where
  "announced db db' i st \<longleftrightarrow> (\<exists>st' e. status_of db' i = Some st' \<and> of_outbox db' = of_outbox db @ [e] \<and>
     (if st' = st then True
      else st' \<in> set (offer_targets st) \<and> ob_aggregate_id e = i \<and> event_status e = Some st'))"

text \<open>One offer moved by an UPDATE and its event.\<close>

lemma announced_move:
  assumes "status_of db j = Some old" "new \<in> set (offer_targets old)"
    and f: "\<And>r. rq_id (f r) = rq_id r" "\<And>r. rq_status (f r) = new"
    and e: "ob_aggregate_id e = j" "event_status e = Some new"
    and db': "of_requests db' = update_where (\<lambda>r. rq_id r = j) f (of_requests db)"
      "of_outbox db' = of_outbox db @ [e\<lparr>ob_seq := k\<rparr>]"
    and i: "status_of db i = Some st"
  shows "announced db db' i st"
proof -
  have "status_of db' i = status_of (db\<lparr>of_requests := update_where (\<lambda>r. rq_id r = j) f (of_requests db)\<rparr>) i"
    by (simp add: status_of_def db'(1))
  also have "\<dots> = (if i = j then Some new else Some st)"
    using assms(1) i by (simp add: status_of_update [where new = new, OF f])
  finally have "status_of db' i = (if i = j then Some new else Some st)" .
  with assms show ?thesis
    by (auto simp: announced_def status_event_fields)
qed

lemma run_service_announced:
  assumes db: "offer_constraints db" and run: "run_service order_of u now call (open_session db) = Inr s'"
    and i: "status_of db i = Some st"
  shows "announced db (insert_pending s') i st"
proof (cases call)
  case (SubmitOffer b)
  let ?b = "create_offer_request (u 0) now b (open_session db)"
  from run SubmitOffer have s': "of_outbox (insert_pending s') = of_outbox db @
      [(build_offer_status_changed_event (u 2) 0 now (rq_id (snd ?b)) (sb_organization_id b)
         (Some (uuid_str (u 1))) ''queued'' None)\<lparr>ob_seq := of_next_seq db\<rparr>]"
    and requests: "of_requests (insert_pending s') =
      update_where (\<lambda>r. rq_id r = rq_id (snd ?b)) (set_offer_status now ''queued'' no_values) (of_requests db) @ [snd ?b]"
    by (auto simp: submit_offer_request_def bind_res_eq_Inr create_offer_request_def create_offer_job_def Let_def
        update_offer_status_def execute_def flush_Inr add_event_def insert_pending_def open_session_def
        split: option.splits)
  from run SubmitOffer have "offer_constraints (insert_pending s')"
    by (auto simp: submit_offer_request_def bind_res_eq_Inr flush_Inr split: option.splits prod.splits)
  then have "rq_id (snd ?b) \<notin> rq_id ` set (of_requests db)"
    using offer_constraints_keys(1) [of "insert_pending s'"]
    by (simp add: requests keyed_snoc image_update_where)
  then have "update_where (\<lambda>r. rq_id r = rq_id (snd ?b)) (set_offer_status now ''queued'' no_values) (of_requests db) = of_requests db"
    by (intro update_where_none) (metis image_eqI)
  then have "status_of (insert_pending s') i = Some st"
    using i requests by (auto simp: status_of_def select_one_snoc split: option.splits)
  with s' show ?thesis by (auto simp: announced_def)
next
  case (CancelOffer j org user)
  with run obtain offer where offer: "get_offer_request j org (open_session db) = Inr offer"
    "OFFER_STATUS_CANCELLED \<in> set (offer_targets (rq_status offer))"
    by (auto simp: cancel_offer_request_def bind_res_eq_Inr split: if_splits)
  have row: "status_of db j = Some (rq_status offer)"
    using get_row_status [of "open_session db", OF _ offer(1)] db by simp
  from run CancelOffer offer show ?thesis
    by (intro announced_move [where f = "set_offer_status now ''cancelled''
          (no_values\<lparr>ov_cancelled_at := Some now, ov_cancelled_by_user_id := Some user\<rparr>)" and
          k = "of_next_seq db" and j = j, OF row offer(2) _ _ status_event_fields(1) event_status_built _ _ i])
       (auto simp: cancel_offer_request_def bind_res_eq_Inr update_offer_status_def execute_def add_event_def
          insert_pending_def open_session_def Let_def split: if_splits)
next
  case (ApproveOffer j org user)
  with run obtain offer where offer: "get_offer_request j org (open_session db) = Inr offer"
    "OFFER_STATUS_COMPLETED \<in> set (offer_targets (rq_status offer))"
    by (auto simp: approve_offer_def bind_res_eq_Inr split: if_splits)
  have row: "status_of db j = Some (rq_status offer)"
    using get_row_status [of "open_session db", OF _ offer(1)] db by simp
  from run ApproveOffer offer show ?thesis
    by (intro announced_move [where f = "set_offer_status now ''completed'' (no_values\<lparr>ov_completed_at := Some now\<rparr>)" and
          k = "of_next_seq db" and j = j, OF row offer(2) _ _ status_event_fields(1) event_status_built _ _ i])
       (auto simp: approve_offer_def bind_res_eq_Inr update_offer_status_def execute_def add_event_def
          insert_pending_def open_session_def Let_def split: if_splits)
next
  case (MoreInfo j org params photos)
  with run obtain offer where offer: "get_offer_request j org (open_session db) = Inr offer" "rq_status offer = ''needs_more_info''"
    by (auto simp: submit_more_info_def bind_res_eq_Inr split: if_splits)
  have row: "status_of db j = Some (rq_status offer)"
    using get_row_status [of "open_session db", OF _ offer(1)] db by simp
  from offer have move: "OFFER_STATUS_QUEUED \<in> set (offer_targets (rq_status offer))"
    by (simp add: offer_targets_cases)
  let ?next = "case get_latest_job_for_request (open_session db) j of None \<Rightarrow> 2 | Some job \<Rightarrow> jb_attempt job + 1"
  let ?f = "\<lambda>r. r\<lparr>rq_parameters := Some (dict_merge (get_or (rq_parameters offer) []) params),
    rq_photo_ids := Some (order_of (remdups (get_or (rq_photo_ids offer) [] @ photos))),
    rq_status := OFFER_STATUS_QUEUED, rq_needs_more_info_payload := None, rq_updated_at := now\<rparr>"
  from run MoreInfo offer show ?thesis
    by (intro announced_move [where f = ?f and k = "of_next_seq db" and j = j,
          OF row move _ _ status_event_fields(1) event_status_built _ _ i])
       (auto simp: submit_more_info_def bind_res_eq_Inr execute_def add_event_def flush_Inr create_offer_job_def
          insert_pending_def open_session_def Let_def split: if_splits)
qed

subsection \<open>Properties\<close>

text \<open>C34: Every service call that succeeds keeps every offer, moves an offer's status only along the offer
  state machine, and writes with it exactly one outbox event; when the status moved, the event is
  that offer's and carries the new status.\<close>

theorem service_moves_are_announced:
  assumes "offer_constraints db" "run_service order_of u now call (open_session db) = Inr s'"
    and "status_of db i = Some st"
  shows "\<exists>st' e. status_of (insert_pending s') i = Some st' \<and> of_outbox (insert_pending s') = of_outbox db @ [e] \<and>
    (if st' = st then True
     else st' \<in> set (offer_targets st) \<and> ob_aggregate_id e = i \<and> event_status e = Some st')"
  using run_service_announced [OF assms] by (simp add: announced_def)

definition hex :: "char \<Rightarrow> nat \<Rightarrow> string" where
  "hex c i = replicate 31 c @ str_nat i"

definition sample_submission :: submission where
  "sample_submission = \<lparr>sb_organization_id = ''o1'', sb_submitted_by_user_id = ''u1'', sb_idempotency_key = ''k1'',
     sb_work_type_code = ''tiling'', sb_title = ''Bathroom'', sb_parameters = [(''area'', JInt 4)],
     sb_photo_ids = [''ph1''], sb_client_id = None, sb_auto_send = False, sb_auto_review_bypass = False,
     sb_client_version = None\<rparr>"

definition sample_submitted :: offer_db where
  "sample_submitted = (case submit_offer_request (hex CHR ''a'') 0 sample_submission (open_session empty_offer_db) of
     Inl e \<Rightarrow> empty_offer_db | Inr (s, offer) \<Rightarrow> insert_pending s)"

definition sample_offer_id :: string where
  "sample_offer_id = uuid_str (hex CHR ''a'' 0)"

definition set_sample_status :: "string \<Rightarrow> offer_db" where
  "set_sample_status st = sample_submitted\<lparr>of_requests := update_where (\<lambda>r. rq_id r = sample_offer_id)
     (\<lambda>r. r\<lparr>rq_status := st\<rparr>) (of_requests sample_submitted)\<rparr>"

theorem service_moves_are_announced_witness:
  "let db = set_sample_status ''needs_review'';
       r = run_service id (hex CHR ''b'') 5 (ApproveOffer sample_offer_id ''o1'' ''m1'') (open_session db)
   in case r of
        Inl e \<Rightarrow> False
      | Inr s' \<Rightarrow> \<exists>st' e. status_of (insert_pending s') sample_offer_id = Some st' \<and>
          of_outbox (insert_pending s') = of_outbox db @ [e] \<and>
          (if st' = ''needs_review'' then True
           else st' \<in> set (offer_targets ''needs_review'') \<and> ob_aggregate_id e = sample_offer_id \<and> event_status e = Some st')"
proof -
  let ?db = "set_sample_status ''needs_review''"
  let ?r = "run_service id (hex CHR ''b'') 5 (ApproveOffer sample_offer_id ''o1'' ''m1'') (open_session ?db)"
  have "is_ok ?r" by code_simp
  then obtain s' where run: "?r = Inr s'" by (cases ?r) auto
  have db: "offer_constraints ?db" "status_of ?db sample_offer_id = Some ''needs_review''"
    by code_simp+
  from service_moves_are_announced [OF db(1) run db(2)] show ?thesis
    by (simp only: Let_def run sum.case)
qed

text \<open>What a submission leaves in its session: the new offer, its job and its event.\<close>

lemma submit_rows:
  assumes "submit_offer_request u now b s = Inr (s', offer)" "ss_requests s = []" "ss_jobs s = []" "ss_events s = []"
  defines "e \<equiv> (build_offer_status_changed_event (u 2) 0 now (rq_id offer) (sb_organization_id b)
     (Some (uuid_str (u 1))) ''queued'' None)\<lparr>ob_seq := of_next_seq (ss_db s)\<rparr>"
  shows "of_requests (ss_db s') = update_where (\<lambda>r. rq_id r = rq_id offer) (set_offer_status now ''queued'' no_values)
      (of_requests (ss_db s)) @ [offer]"
    "rq_status offer = ''submitted''" "of_outbox (ss_db s') = of_outbox (ss_db s) @ [e]"
    "of_jobs (ss_db s') = of_jobs (ss_db s) @ [snd (create_offer_job (u 1) now (rq_id offer) (sb_organization_id b)
       (sb_idempotency_key b @ '':attempt:1'') 1 s)]"
    "offer_constraints (ss_db s')" "ss_saved s' = ss_saved s"
  using assms(1-4) unfolding e_def
  by (auto simp: submit_offer_request_def bind_res_eq_Inr create_offer_request_def create_offer_job_def Let_def
      update_offer_status_def execute_def flush_Inr add_event_def insert_pending_def open_session_def
      split: option.splits)

text \<open>A submission is flushed as \<open>submitted\<close> although it is announced as \<open>queued\<close>: the status UPDATE runs
  while the new row is still pending, so it changes nothing, and the row is inserted afterwards
  with its first status, together with one queued job and the event that says \<open>queued\<close>.\<close>

lemma submission_is_flushed_submitted:
  assumes "submit_offer_request u now b (open_session db) = Inr (s', offer)"
  shows "status_of (ss_db s') (rq_id offer) = Some ''submitted'' \<and> rq_id offer \<notin> rq_id ` set (of_requests db) \<and>
    (\<exists>e job. of_outbox (ss_db s') = of_outbox db @ [e] \<and> event_status e = Some ''queued'' \<and>
       ob_aggregate_id e = rq_id offer \<and> of_jobs (ss_db s') = of_jobs db @ [job] \<and> jb_status job = ''queued'' \<and>
       jb_offer_request_id job = rq_id offer)"
proof -
  let ?e = "(build_offer_status_changed_event (u 2) 0 now (rq_id offer) (sb_organization_id b)
     (Some (uuid_str (u 1))) ''queued'' None)\<lparr>ob_seq := of_next_seq db\<rparr>"
  note rows = submit_rows [OF assms]
  have keys: "keyed rq_id (of_requests (ss_db s'))" using rows(5) by (simp add: offer_constraints_keys)
  have "status_of (ss_db s') (rq_id offer) = Some ''submitted''"
    using keyed_select_one [OF keys, of offer] rows(1,2) by (simp add: status_of_def)
  moreover have "rq_id offer \<notin> rq_id ` set (of_requests db)"
    using keys rows(1) by (simp add: keyed_snoc image_update_where)
  moreover have "event_status ?e = Some ''queued''"
    unfolding status_event_fields(3) by (rule event_status_built) simp
  ultimately show ?thesis
    using rows(3,4) by (simp add: create_offer_job_def Let_def status_event_fields)
qed

text \<open>Idempotency keys are meant to be per organisation. A second submission with a key of the same
  organisation answers the offer already there; but a key another organisation has used cannot be
  used at all, because the first job's key does not name the organisation: every such submission
  fails on the jobs' unique key.\<close>

theorem idempotency_keys_collide_across_tenants:
  assumes "offer_constraints db" "r \<in> set (of_requests db)" "rq_idempotency_key r = sb_idempotency_key b"
    and "j \<in> set (of_jobs db)" "jb_idempotency_key j = sb_idempotency_key b @ '':attempt:1''"
  shows "if rq_organization_id r = sb_organization_id b
    then submit_offer_request u now b (open_session db) = Inl (OfferAlreadyExistsError r)
    else \<not> is_ok (submit_offer_request u now b (open_session db))"
proof -
  have "get_offer_request_by_idempotency_key (open_session db) (sb_idempotency_key b) (sb_organization_id b) = Some r"
    if same: "rq_organization_id r = sb_organization_id b"
  proof -
    have "select_one (\<lambda>x. (rq_organization_id x, rq_idempotency_key x) = (rq_organization_id r, rq_idempotency_key r))
        (of_requests db) = Some r"
      using offer_constraints_keys(5) [OF assms(1)] assms(2) by (rule keyed_select_one)
    with assms(3) same show ?thesis
      by (simp add: get_offer_request_by_idempotency_key_def conj_commute)
  qed
  moreover have "\<not> is_ok (submit_offer_request u now b (open_session db))"
  proof (cases "submit_offer_request u now b (open_session db)")
    case (Inr p)
    then obtain s' offer where "submit_offer_request u now b (open_session db) = Inr (s', offer)" by (cases p) auto
    from submit_rows(4,5) [OF this] offer_constraints_keys(3) [of "ss_db s'"] have "sb_idempotency_key b @ '':attempt:1'' \<notin> jb_idempotency_key ` set (of_jobs db)"
      by (simp add: keyed_snoc create_offer_job_def Let_def)
    with assms(4,5) show ?thesis by force
  qed simp
  ultimately show ?thesis
    by (simp add: submit_offer_request_def)
qed

theorem idempotency_keys_collide_across_tenants_witness:
  "let b = sample_submission\<lparr>sb_organization_id := ''o2''\<rparr>
   in if rq_organization_id (hd (of_requests sample_submitted)) = sb_organization_id b
      then submit_offer_request (hex CHR ''b'') 9 b (open_session sample_submitted) =
             Inl (OfferAlreadyExistsError (hd (of_requests sample_submitted)))
      else \<not> is_ok (submit_offer_request (hex CHR ''b'') 9 b (open_session sample_submitted))"
  unfolding Let_def
  by (rule idempotency_keys_collide_across_tenants [where j = "hd (of_jobs sample_submitted)"]) code_simp+

text \<open>No service call commits.\<close>

lemma cancel_saved: "cancel_offer_request u now i org user s = Inr (s', offer) \<Longrightarrow> ss_saved s' = ss_saved s"
  by (auto simp: cancel_offer_request_def bind_res_eq_Inr update_offer_status_def execute_eq_Inr split: if_splits)

lemma approve_saved: "approve_offer u now i org user s = Inr (s', offer) \<Longrightarrow> ss_saved s' = ss_saved s"
  by (auto simp: approve_offer_def bind_res_eq_Inr update_offer_status_def execute_eq_Inr)

lemma more_info_saved:
  "submit_more_info order_of u now i org params photos s = Inr (s', offer, job) \<Longrightarrow> ss_saved s' = ss_saved s"
  by (auto simp: submit_more_info_def bind_res_eq_Inr execute_eq_Inr flush_Inr create_offer_job_def Let_def split: if_splits)

lemma request_scope_saved:
  "(\<And>org. ss_saved (fst (f org (open_session db))) = db) \<Longrightarrow> fst (request_scope (with_org user f) db) = db"
  by (cases "require_org_id user"; cases "f (projr (require_org_id user)) (open_session db)")
     (auto simp: request_scope_def with_org_def dest: meta_spec [of _ "projr (require_org_id user)"])

lemma answer_saved:
  "(\<And>s' offer. r = Inr (s', offer) \<Longrightarrow> ss_saved s' = ss_saved s) \<Longrightarrow> ss_saved (fst (answer h s r)) = ss_saved s"
  by (auto simp: answer_def split: sum.split)

lemma other_routes_saved:
  "fst (route_get user i db) = db" "fst (route_result user i db) = db" "fst (route_cancel u now user i db) = db"
  "fst (route_approve u now user i db) = db"
  unfolding route_get_def route_result_def route_cancel_def route_approve_def
  by (intro request_scope_saved; subst answer_saved;
      auto simp: bind_res_eq_Inr dest: cancel_saved approve_saved)+

lemma more_info_route_saved: "fst (route_more_info order_of u now user i params photos db) = db"
  unfolding route_more_info_def
  by (intro request_scope_saved)
     (auto simp: bind_res_eq_Inr answer_def split: sum.split dest: more_info_saved)

text \<open>C35: The offer routes never commit. A submission that is answered with 201 has inserted the offer, its queued job and
  its event into the session of the request, but the session is closed without a commit: the database
  is what it was, and a request for the new offer gets 404. A cancel, an approval, an answer to a request for
  more information and the reads leave the database as it was as well, whoever calls them and whatever
  they answer.\<close>

theorem offer_routes_persist_nothing:
  assumes "handle_submit u now user b (open_session db) = (s, Inr (Body 201 i st True))"
  shows "status_of (ss_db s) i = Some ''submitted'' \<and>
    (\<exists>e job. of_outbox (ss_db s) = of_outbox db @ [e] \<and> ob_aggregate_id e = i \<and>
       of_jobs (ss_db s) = of_jobs db @ [job] \<and> jb_status job = ''queued'' \<and> jb_offer_request_id job = i) \<and>
    fst (route_submit u now user b db) = db \<and>
    snd (route_get user i (fst (route_submit u now user b db))) = Inl (HttpStatus 404) \<and>
    fst (route_cancel u' now' user' k db) = db \<and> fst (route_approve u' now' user' k db) = db \<and>
    fst (route_more_info order_of u' now' user' k params photos db) = db \<and>
    fst (route_get user' k db) = db \<and> fst (route_result user' k db) = db"
proof -
  from assms obtain org offer where org: "require_org_id user = Inr org"
    and submit: "submit_offer_request u now (b\<lparr>sb_organization_id := org, sb_submitted_by_user_id := fst user\<rparr>)
      (open_session db) = Inr (s, offer)" and i: "i = rq_id offer"
    by (auto simp: handle_submit_def with_org_def split: sum.splits service_error.splits)
  note flushed = submission_is_flushed_submitted [OF submit]
  have "fst (route_submit u now user b db) = db"
    using submit_rows(6) [OF submit] by (simp add: route_submit_def request_scope_def assms)
  moreover have "get_offer_request_row (open_session db) i org = None"
    using flushed by (auto simp: get_offer_request_row_def select_one_None i) (metis imageI)
  then have "snd (route_get user i db) = Inl (HttpStatus 404)"
    by (simp add: route_get_def request_scope_def with_org_def org answer_def get_offer_request_def not_found_or_def)
  ultimately show ?thesis
    using flushed by (auto simp: i other_routes_saved more_info_route_saved)
qed

theorem offer_routes_persist_nothing_witness:
  "let r = handle_submit (hex CHR ''a'') 0 (''u1'', Some ''o1'') sample_submission (open_session empty_offer_db);
       db' = fst (route_submit (hex CHR ''a'') 0 (''u1'', Some ''o1'') sample_submission empty_offer_db)
   in snd r = Inr (Body 201 sample_offer_id ''submitted'' True) \<and>
      status_of (ss_db (fst r)) sample_offer_id = Some ''submitted'' \<and> db' = empty_offer_db \<and>
      snd (route_get (''u1'', Some ''o1'') sample_offer_id db') = Inl (HttpStatus 404)"
proof -
  let ?r = "handle_submit (hex CHR ''a'') 0 (''u1'', Some ''o1'') sample_submission (open_session empty_offer_db)"
  have r: "snd ?r = Inr (Body 201 sample_offer_id ''submitted'' True)" by code_simp
  then have "?r = (fst ?r, Inr (Body 201 sample_offer_id ''submitted'' True))" by (metis prod.collapse)
  note lost = offer_routes_persist_nothing [OF this]
  note kept = lost [THEN conjunct2, THEN conjunct2]
  from r lost [THEN conjunct1] kept [THEN conjunct1] kept [THEN conjunct2, THEN conjunct1] show ?thesis
    by (simp only: Let_def simp_thms)
qed

end
