(* ===== verification/Offer_Queue.thy ===== *)
theory Offer_Queue
  imports Job_Payload
begin

section \<open>The offer queue\<close>

text \<open>
  Models \<open>app/worker/offer_queue.py\<close>: three priority lists, one processing list, lease hashes, the
  Lua scripts that lease and acknowledge, the Pydantic payload (lax, unlike the other queues'),
  and the dead-letter keys. The lease and ack scripts are shown to refine those of the analysis
  queue (\<open>Lane_Queue\<close>) once the three lists are read as one.
\<close>

record offer_lease =
  ol_token :: string
  ol_raw :: string
  ol_leased_at_ms :: int
  ol_worker_id :: string
  ol_expires_at_ms :: int

record offer_dlq_entry =
  od_raw :: string
  od_reason :: string
  od_ts :: string

record offer_queue =
  oq_high :: "string list"
  oq_normal :: "string list"
  oq_low :: "string list"
  oq_processing :: "string list"
  oq_leases :: "(string \<times> offer_lease) list"
  oq_expiry :: "(string \<times> int) list"
  oq_sequence :: nat
  oq_dlq :: "(string \<times> offer_dlq_entry) list"
  oq_dlq_active :: "string list"

definition empty_offer_queue :: offer_queue where
  "empty_offer_queue = \<lparr>oq_high = [], oq_normal = [], oq_low = [], oq_processing = [], oq_leases = [],
     oq_expiry = [], oq_sequence = 0, oq_dlq = [], oq_dlq_active = []\<rparr>"

definition OFFER_LEASE_TIMEOUT_MS :: int where
  [simp, constant_simps]: "OFFER_LEASE_TIMEOUT_MS = 5 * 60 * 1000"

datatype offer_queue_error =
    OfferQueueCapacityError string int int
  | OfferLeaseOwnershipError string string

subsection \<open>Payloads\<close>

record offer_payload =
  op_job_id :: string
  op_offer_request_id :: string
  op_organization_id :: string
  op_work_type_code :: string
  op_idempotency_key :: string
  op_photo_ids :: "string list"
  op_parameters :: json_obj
  op_attempt :: int
  op_priority :: string

definition json_str :: "json \<Rightarrow> string option" where
  "json_str j = (case j of JStr s \<Rightarrow> Some s | _ \<Rightarrow> None)"

definition required_str :: "json_obj \<Rightarrow> string \<Rightarrow> string option" where
  "required_str d k = Option.bind (map_of d k) json_str"

fun all_some :: "'a option list \<Rightarrow> 'a list option" where
  "all_some [] = Some []"
| "all_some (None # xs) = None"
| "all_some (Some x # xs) = map_option ((#) x) (all_some xs)"

definition str_list_field :: "json_obj \<Rightarrow> string \<Rightarrow> string list option" where
  "str_list_field d k = (case map_of d k of Some (JList js) \<Rightarrow> all_some (map json_str js) | _ \<Rightarrow> None)"

definition obj_field :: "json_obj \<Rightarrow> string \<Rightarrow> json_obj option" where
  "obj_field d k = (case map_of d k of Some (JObj o1) \<Rightarrow> Some o1 | _ \<Rightarrow> None)"

text \<open>Pydantic's lax \<open>int\<close>: an integer, a boolean, a float with no fraction, or a text that it reads as an
  integer (the argument \<open>int_text\<close>).\<close>

definition lax_int :: "(string \<Rightarrow> int option) \<Rightarrow> json \<Rightarrow> int option" where
  "lax_int int_text j =
    (case j of
       JInt i \<Rightarrow> Some i
     | JBool b \<Rightarrow> Some (if b then 1 else 0)
     | JFloat (Dec m k) \<Rightarrow> if m mod 10 ^ k = 0 then Some (m div 10 ^ k) else None
     | JStr s \<Rightarrow> int_text s
     | _ \<Rightarrow> None)"

definition attempt_field :: "(string \<Rightarrow> int option) \<Rightarrow> json_obj \<Rightarrow> int option" where
  "attempt_field int_text d = (case map_of d ''attempt'' of None \<Rightarrow> Some 1 | Some j \<Rightarrow> lax_int int_text j)"

definition valid_priority :: "string \<Rightarrow> string" where
  "valid_priority v = (if v \<in> {''high'', ''normal'', ''low''} then v else ''normal'')"

definition offer_priority_field :: "json_obj \<Rightarrow> string option" where
  "offer_priority_field d = (case map_of d ''priority'' of
      None \<Rightarrow> Some ''normal'' | Some j \<Rightarrow> map_option valid_priority (json_str j))"

definition non_empty_code :: "string \<Rightarrow> string option" where
  "non_empty_code v = (let v' = py_strip v in if v' = [] then None else Some v')"

definition offer_field_names :: "string list" where
  "offer_field_names = [''job_id'', ''offer_request_id'', ''organization_id'', ''work_type_code'',
     ''idempotency_key'', ''photo_ids'', ''parameters'', ''attempt'', ''priority'']"

definition validate_offer_payload :: "(string \<Rightarrow> int option) \<Rightarrow> json_obj \<Rightarrow> offer_payload option" where
  "validate_offer_payload int_text d =
    (if extra_keys offer_field_names d \<noteq> [] then None
     else case (required_str d ''job_id'', required_str d ''offer_request_id'', required_str d ''organization_id'',
                Option.bind (required_str d ''work_type_code'') non_empty_code,
                required_str d ''idempotency_key'', str_list_field d ''photo_ids'',
                obj_field d ''parameters'', attempt_field int_text d, offer_priority_field d) of
       (Some job_id, Some request_id, Some org, Some code, Some key, Some photos, Some params, Some attempt,
        Some priority) \<Rightarrow>
         Some \<lparr>op_job_id = job_id, op_offer_request_id = request_id, op_organization_id = org,
               op_work_type_code = code, op_idempotency_key = key, op_photo_ids = photos,
               op_parameters = params, op_attempt = attempt, op_priority = priority\<rparr>
     | _ \<Rightarrow> None)"

definition offer_payload_json :: "offer_payload \<Rightarrow> json_obj" where
  "offer_payload_json p =
     [(''job_id'', JStr (op_job_id p)), (''offer_request_id'', JStr (op_offer_request_id p)),
      (''organization_id'', JStr (op_organization_id p)), (''work_type_code'', JStr (op_work_type_code p)),
      (''idempotency_key'', JStr (op_idempotency_key p)), (''photo_ids'', JList (map JStr (op_photo_ids p))),
      (''parameters'', JObj (op_parameters p)), (''attempt'', JInt (op_attempt p)),
      (''priority'', JStr (op_priority p))]"

text \<open>\<open>OfferJobPayload(...)\<close> and \<open>model_validate_json\<close>\<close>

definition parse_offer_payload :: "(string \<Rightarrow> int option) \<Rightarrow> json_codec \<Rightarrow> string \<Rightarrow> offer_payload option" where
  "parse_offer_payload int_text c raw =
    (case loads c raw of Some (JObj d) \<Rightarrow> validate_offer_payload int_text d | _ \<Rightarrow> None)"

subsection \<open>The scripts\<close>

datatype offer_lease_reply = OfferBackpressure nat | OfferNil | OfferLeased string string

text \<open>\<open>LPOP\<close> of the first list that has an element.\<close>

fun pop_offer :: "offer_queue \<Rightarrow> (string \<times> offer_queue) option" where
  "pop_offer q =
    (case oq_high q of
       raw # rest \<Rightarrow> Some (raw, q\<lparr>oq_high := rest\<rparr>)
     | [] \<Rightarrow>
        (case oq_normal q of
           raw # rest \<Rightarrow> Some (raw, q\<lparr>oq_normal := rest\<rparr>)
         | [] \<Rightarrow>
            (case oq_low q of
               raw # rest \<Rightarrow> Some (raw, q\<lparr>oq_low := rest\<rparr>)
             | [] \<Rightarrow> None)))"

declare pop_offer.simps [simp del]

definition offer_lease_script :: "offer_queue \<Rightarrow> int \<Rightarrow> string \<Rightarrow> int \<Rightarrow> int \<Rightarrow> offer_queue \<times> offer_lease_reply" where
  "offer_lease_script q leased_at_ms worker_id lease_timeout_ms max_concurrent =
    (let total_processing = length (oq_processing q) in
     if int total_processing \<ge> max_concurrent then (q, OfferBackpressure total_processing)
     else case pop_offer q of
       None \<Rightarrow> (q, OfferNil)
     | Some (raw, q1) \<Rightarrow>
         let token = str_nat (oq_sequence q1 + 1);
             expires_at_ms = leased_at_ms + lease_timeout_ms;
             lease = \<lparr>ol_token = token, ol_raw = raw, ol_leased_at_ms = leased_at_ms,
                      ol_worker_id = worker_id, ol_expires_at_ms = expires_at_ms\<rparr>
         in (q1\<lparr>oq_sequence := oq_sequence q1 + 1,
                oq_processing := oq_processing q1 @ [raw],
                oq_leases := AList.update token lease (oq_leases q1),
                oq_expiry := AList.update token expires_at_ms (oq_expiry q1)\<rparr>, OfferLeased token raw))"

definition offer_ack_script :: "offer_queue \<Rightarrow> string \<Rightarrow> string \<Rightarrow> offer_queue \<times> int" where
  "offer_ack_script q token worker_id =
    (case map_of (oq_leases q) token of
       None \<Rightarrow> (q, 0)
     | Some lease \<Rightarrow>
         if ol_worker_id lease \<noteq> worker_id then (q, -1)
         else (q\<lparr>oq_processing := remove1 (ol_raw lease) (oq_processing q),
                 oq_leases := AList.delete token (oq_leases q),
                 oq_expiry := AList.delete token (oq_expiry q)\<rparr>, 1))"

subsection \<open>Producer and consumer\<close>

text \<open>\<open>_priority_queue_key\<close>, as the list it names.\<close>

definition priority_queue :: "string \<Rightarrow> offer_queue \<Rightarrow> string list" where
  "priority_queue priority q =
    (if priority = ''high'' then oq_high q else if priority = ''low'' then oq_low q else oq_normal q)"

definition push_offer :: "string \<Rightarrow> string \<Rightarrow> offer_queue \<Rightarrow> offer_queue" where
  "push_offer priority raw q =
    (if priority = ''high'' then q\<lparr>oq_high := oq_high q @ [raw]\<rparr>
     else if priority = ''low'' then q\<lparr>oq_low := oq_low q @ [raw]\<rparr>
     else q\<lparr>oq_normal := oq_normal q @ [raw]\<rparr>)"

definition enqueue_offer_job ::
  "json_codec \<Rightarrow> offer_payload \<Rightarrow> int \<Rightarrow> offer_queue \<Rightarrow> offer_queue \<times> (offer_queue_error + unit)" where
  "enqueue_offer_job c payload max_depth q =
    (let depth = int (length (priority_queue (op_priority payload) q)) in
     if depth \<ge> max_depth then (q, Inl (OfferQueueCapacityError (op_priority payload) depth max_depth))
     else (push_offer (op_priority payload) (dumps c (JObj (offer_payload_json payload))) q, Inr ()))"

text \<open>\<open>HSET offer:dlq:<second>\<close> writes its three fields over those of an entry of the same second.\<close>

definition move_offer_to_dlq :: "int \<Rightarrow> string \<Rightarrow> string \<Rightarrow> string \<Rightarrow> offer_queue \<Rightarrow> offer_queue" where
  "move_offer_to_dlq now_s ts raw reason q =
    (let dlq_key = ''offer:dlq:'' @ str_int now_s in
     q\<lparr>oq_dlq := AList.update dlq_key \<lparr>od_raw = raw, od_reason = reason, od_ts = ts\<rparr> (oq_dlq q),
       oq_dlq_active := List.insert dlq_key (oq_dlq_active q)\<rparr>)"

record dequeued_offer_job =
  dq_lease_token :: string
  dq_payload :: offer_payload
  dq_leased_at :: time

text \<open>The clock of a call: \<open>now_ms\<close> of the lease, then the dead-letter second and its text, then \<open>leased_at\<close>.\<close>

record offer_clock =
  ok_now_ms :: int
  ok_dlq_second :: int
  ok_dlq_ts :: string
  ok_leased_at :: time

definition dequeue_offer_job ::
  "(string \<Rightarrow> int option) \<Rightarrow> json_codec \<Rightarrow> offer_clock \<Rightarrow> string \<Rightarrow> int \<Rightarrow> offer_queue
    \<Rightarrow> offer_queue \<times> dequeued_offer_job option" where
  "dequeue_offer_job int_text c clock worker_id max_concurrent q =
    (case offer_lease_script q (ok_now_ms clock) worker_id OFFER_LEASE_TIMEOUT_MS max_concurrent of
       (q', OfferNil) \<Rightarrow> (q', None)
     | (q', OfferBackpressure n) \<Rightarrow> (q', None)
     | (q', OfferLeased token raw) \<Rightarrow>
         (case parse_offer_payload int_text c raw of
            None \<Rightarrow> (move_offer_to_dlq (ok_dlq_second clock) (ok_dlq_ts clock) raw ''invalid_payload'' q', None)
          | Some payload \<Rightarrow>
              (q', Some \<lparr>dq_lease_token = token, dq_payload = payload, dq_leased_at = ok_leased_at clock\<rparr>)))"

definition ack_offer_job :: "string \<Rightarrow> string \<Rightarrow> offer_queue \<Rightarrow> offer_queue \<times> (offer_queue_error + unit)" where
  "ack_offer_job lease_token worker_id q =
    (case offer_ack_script q lease_token worker_id of
       (q', result) \<Rightarrow>
         (q', if result = -1 then Inl (OfferLeaseOwnershipError worker_id lease_token) else Inr ()))"

definition get_offer_queue_counts :: "offer_queue \<Rightarrow> nat \<times> nat" where
  "get_offer_queue_counts q =
     (length (oq_high q) + length (oq_normal q) + length (oq_low q), length (oq_processing q))"

subsection \<open>Refinement of the leased lane\<close>

definition as_lease :: "offer_lease \<Rightarrow> lease_hash" where
  "as_lease x = \<lparr>lh_token = ol_token x, lh_raw = ol_raw x, lh_worker_id = ol_worker_id x,
     lh_leased_at_ms = ol_leased_at_ms x, lh_lease_timeout_ms = ol_expires_at_ms x - ol_leased_at_ms x,
     lh_expires_at_ms = ol_expires_at_ms x\<rparr>"

definition as_lane :: "offer_queue \<Rightarrow> lane" where
  "as_lane q = \<lparr>ln_queue = oq_high q @ oq_normal q @ oq_low q, ln_processing = oq_processing q, ln_retry = [],
     ln_leases = map (\<lambda>(t, x). (t, as_lease x)) (oq_leases q), ln_expiry = oq_expiry q,
     ln_sequence = oq_sequence q, ln_dlq_history = [], ln_dlq_active = [], ln_dlq_legacy = []\<rparr>"

definition as_lease_reply :: "string \<Rightarrow> int \<Rightarrow> int \<Rightarrow> offer_lease_reply \<Rightarrow> lease_reply" where
  "as_lease_reply worker_id leased_at_ms lease_timeout_ms r =
    (case r of
       OfferBackpressure n \<Rightarrow> LeaseBackpressure n
     | OfferNil \<Rightarrow> LeaseNil
     | OfferLeased token raw \<Rightarrow>
         LeaseReply \<lparr>lh_token = token, lh_raw = raw, lh_worker_id = worker_id, lh_leased_at_ms = leased_at_ms,
           lh_lease_timeout_ms = lease_timeout_ms, lh_expires_at_ms = leased_at_ms + lease_timeout_ms\<rparr>)"

lemma map_alist_update:
  "map (\<lambda>(t, x). (t, f x)) (AList.update k v xs) = AList.update k (f v) (map (\<lambda>(t, x). (t, f x)) xs)"
  by (induction xs) auto

lemma map_alist_delete:
  "map (\<lambda>(t, x). (t, f x)) (AList.delete k xs) = AList.delete k (map (\<lambda>(t, x). (t, f x)) xs)"
  by (induction xs) auto

lemma map_of_map_snd: "map_of (map (\<lambda>(t, x). (t, f x)) xs) k = map_option f (map_of xs k)"
  by (induction xs) auto

lemma pop_offer_None: "pop_offer q = None \<longleftrightarrow> oq_high q @ oq_normal q @ oq_low q = []"
  by (auto simp: pop_offer.simps split: list.splits)

lemma pop_offer_Some:
  assumes "pop_offer q = Some (raw, q1)"
  shows "oq_high q @ oq_normal q @ oq_low q = raw # (oq_high q1 @ oq_normal q1 @ oq_low q1)"
    "oq_processing q1 = oq_processing q" "oq_leases q1 = oq_leases q" "oq_expiry q1 = oq_expiry q"
    "oq_sequence q1 = oq_sequence q"
  using assms by (auto simp: pop_offer.simps split: list.splits)

lemma offer_lease_refines:
  "lease_job_script (as_lane q) empty_lane now w timeout cap =
     (as_lane (fst (offer_lease_script q now w timeout cap)),
      as_lease_reply w now timeout (snd (offer_lease_script q now w timeout cap)))"
proof (cases "pop_offer q")
  case None
  then have "oq_high q @ oq_normal q @ oq_low q = []" by (simp only: pop_offer_None)
  with None show ?thesis
    by (simp add: lease_job_script_def offer_lease_script_def as_lane_def empty_lane_def Let_def as_lease_reply_def)
next
  case (Some p)
  obtain raw q1 where p: "p = (raw, q1)" by (cases p)
  note popped = pop_offer_Some [OF Some [unfolded p]]
  show ?thesis
    by (simp add: lease_job_script_def offer_lease_script_def as_lane_def empty_lane_def Let_def Some p popped
        as_lease_reply_def map_alist_update as_lease_def)
qed

lemma offer_ack_refines:
  "ack_job_script (as_lane q) token w = (as_lane (fst (offer_ack_script q token w)), snd (offer_ack_script q token w))"
  by (cases "map_of (oq_leases q) token")
     (simp_all add: ack_job_script_def offer_ack_script_def as_lane_def map_of_map_snd release_lease_def
        map_alist_delete as_lease_def)

text \<open>The offer queue's scripts refine those of the analysis queue it says it mirrors: read the
  three priority lists, high before normal before low, as one list and a lease is the lane's
  lease with no peer lane, an acknowledgement is the lane's acknowledgement, in the state they
  leave and in what they answer.\<close>

theorem offer_scripts_refine_lane:
  "lease_job_script (as_lane q) empty_lane now w timeout cap =
     (as_lane (fst (offer_lease_script q now w timeout cap)),
      as_lease_reply w now timeout (snd (offer_lease_script q now w timeout cap))) \<and>
   ack_job_script (as_lane q) token w =
     (as_lane (fst (offer_ack_script q token w)), snd (offer_ack_script q token w))"
  by (simp add: offer_lease_refines offer_ack_refines)

subsection \<open>Accounting\<close>

datatype offer_op =
    OEnqueue offer_payload int
  | ODequeue offer_clock string int
  | OAck string string

fun offer_step :: "(string \<Rightarrow> int option) \<times> json_codec \<Rightarrow> offer_op \<Rightarrow> offer_queue \<Rightarrow> offer_queue" where
  "offer_step (int_text, c) (OEnqueue p max_depth) q = fst (enqueue_offer_job c p max_depth q)"
| "offer_step (int_text, c) (ODequeue clock w cap) q = fst (dequeue_offer_job int_text c clock w cap q)"
| "offer_step (int_text, c) (OAck token w) q = fst (ack_offer_job token w q)"

definition offer_inv :: "offer_queue \<Rightarrow> bool" where
  "offer_inv q \<longleftrightarrow> lane_inv (as_lane q)"

definition offer_held :: "offer_queue \<Rightarrow> string multiset" where
  "offer_held q = mset (oq_high q) + mset (oq_normal q) + mset (oq_low q) + mset (oq_processing q)"

fun offer_added :: "json_codec \<Rightarrow> offer_op \<Rightarrow> offer_queue \<Rightarrow> string multiset" where
  "offer_added c (OEnqueue p max_depth) q =
     (if is_ok (snd (enqueue_offer_job c p max_depth q)) then {#dumps c (JObj (offer_payload_json p))#} else {#})"
| "offer_added c _ q = {#}"

fun offer_removed :: "offer_op \<Rightarrow> offer_queue \<Rightarrow> string multiset" where
  "offer_removed (OAck token w) q =
     (if snd (offer_ack_script q token w) = 1
      then (case map_of (oq_leases q) token of None \<Rightarrow> {#} | Some x \<Rightarrow> {#ol_raw x#}) else {#})"
| "offer_removed _ q = {#}"

lemma offer_held_lane: "offer_held q = lane_held (as_lane q)"
  by (simp add: offer_held_def lane_held_def as_lane_def)

lemma lease_payload_lane:
  "lease_payload (as_lane q) token = (case map_of (oq_leases q) token of None \<Rightarrow> {#} | Some x \<Rightarrow> {#ol_raw x#})"
  by (cases "map_of (oq_leases q) token") (simp_all add: lease_payload_def as_lane_def map_of_map_snd as_lease_def)

lemma as_lane_dlq [simp]: "as_lane (move_offer_to_dlq s ts raw reason q) = as_lane q"
  by (simp add: move_offer_to_dlq_def as_lane_def Let_def)

lemma as_lane_dequeue:
  "as_lane (fst (dequeue_offer_job int_text c clock w cap q)) =
     fst (lease_job_script (as_lane q) empty_lane (ok_now_ms clock) w OFFER_LEASE_TIMEOUT_MS cap)"
  by (cases "offer_lease_script q (ok_now_ms clock) w OFFER_LEASE_TIMEOUT_MS cap")
     (auto simp: offer_lease_refines dequeue_offer_job_def split: offer_lease_reply.split option.split)

lemma as_lane_ack: "as_lane (fst (ack_offer_job token w q)) = fst (ack_job_script (as_lane q) token w)"
  by (simp add: ack_offer_job_def offer_ack_refines case_prod_beta)

lemma as_lane_enqueue:
  "fst (enqueue_offer_job c p max_depth q) = q \<or>
   fst (enqueue_offer_job c p max_depth q) = push_offer (op_priority p) (dumps c (JObj (offer_payload_json p))) q"
  by (simp add: enqueue_offer_job_def Let_def)

lemma lane_inv_push_offer: "lane_inv (as_lane (push_offer prio raw q)) = lane_inv (as_lane q)"
  by (simp add: push_offer_def as_lane_def lane_inv_def)

lemma offer_held_push: "offer_held (push_offer prio raw q) = add_mset raw (offer_held q)"
  by (simp add: push_offer_def offer_held_def)

interpretation offers: work_ledger offer_inv "offer_step (int_text, c)" offer_held "offer_added c" offer_removed
  for int_text c
proof unfold_locales
  fix q :: offer_queue and op :: offer_op
  assume inv: "offer_inv q"
  then have lane: "lane_inv (as_lane q)" by (simp add: offer_inv_def)
  show "offer_inv (offer_step (int_text, c) op q)"
    using lane as_lane_enqueue lane_inv_push_offer script_invs
    by (cases op) (auto simp: offer_inv_def as_lane_dequeue as_lane_ack, metis)
  show "offer_held (offer_step (int_text, c) op q) + offer_removed op q = offer_held q + offer_added c op q"
  proof (cases op)
    case (OEnqueue p max_depth)
    then show ?thesis by (simp add: enqueue_offer_job_def Let_def offer_held_push)
  next
    case (ODequeue clock w cap)
    then show ?thesis
      by (simp add: offer_held_lane as_lane_dequeue lease_job_script_held [OF surjective_pairing])
  next
    case (OAck token w)
    with ack_job_script_held [OF lane surjective_pairing, of token w] show ?thesis
      by (simp add: offer_held_lane as_lane_ack offer_ack_refines lease_payload_lane split: if_splits)
  qed
qed

lemma offer_inv_empty: "offer_inv empty_offer_queue" "offer_held empty_offer_queue = {#}"
  by (simp_all add: offer_inv_def as_lane_def empty_offer_queue_def lane_inv_def offer_held_def)

text \<open>The offer queue neither loses nor duplicates work: over any run of enqueues, dequeues and
  acknowledgements from the empty queue, with any payloads readable or not, the payloads waiting
  or being processed, plus those acknowledged by their lease holder, are exactly those accepted.\<close>

theorem offer_queue_conserves_work:
  "offer_held (run_ops (offer_step (int_text, c)) ops empty_offer_queue) +
     run_total (offer_step (int_text, c)) offer_removed ops empty_offer_queue =
   run_total (offer_step (int_text, c)) (offer_added c) ops empty_offer_queue"
  using offers.run_balance [of empty_offer_queue int_text c ops] by (simp add: offer_inv_empty)

subsection \<open>Slots that are never freed\<close>

definition offer_tokens :: "offer_queue \<Rightarrow> string set" where
  "offer_tokens q = fst ` set (oq_leases q)"

lemma offer_tokens_slots:
  assumes "offer_inv q"
  shows "card (offer_tokens q) = length (oq_processing q)"
proof -
  have lane: "lane_inv (as_lane q)" using assms by (simp add: offer_inv_def)
  have "distinct (map fst (oq_leases q))"
    using lane_inv_leases(1) [OF lane] by (simp add: as_lane_def comp_def case_prod_beta)
  moreover have "size (mset (oq_processing q)) = size (mset (oq_leases q))"
    using lane_inv_leases(5) [OF lane] by (simp add: as_lane_def)
  ultimately show ?thesis
    using distinct_card [of "map fst (oq_leases q)"] by (simp add: offer_tokens_def)
qed

lemma offer_step_tokens:
  assumes "\<And>w. op \<noteq> OAck t w" "t \<in> offer_tokens q"
  shows "t \<in> offer_tokens (offer_step (int_text, c) op q)"
proof (cases op)
  case (OEnqueue p max_depth)
  with assms show ?thesis
    by (simp add: enqueue_offer_job_def push_offer_def offer_tokens_def Let_def)
next
  case (ODequeue clock w cap)
  show ?thesis
  proof (cases "pop_offer q")
    case None
    with ODequeue assms show ?thesis by (simp add: dequeue_offer_job_def offer_lease_script_def Let_def)
  next
    case (Some p)
    with ODequeue assms pop_offer_Some(3) [of q "fst p" "snd p"] show ?thesis
      by (cases p) (auto simp: dequeue_offer_job_def offer_lease_script_def Let_def offer_tokens_def dom_update
          move_offer_to_dlq_def split: option.split)
  qed
next
  case (OAck token w)
  with assms show ?thesis
    by (auto simp: ack_offer_job_def offer_ack_script_def offer_tokens_def AList.delete_eq image_iff case_prod_beta
        split: option.split)
qed

lemma offer_run_tokens:
  "(\<And>t w. OAck t w \<in> set ops \<Longrightarrow> t \<notin> T) \<Longrightarrow> T \<subseteq> offer_tokens q \<Longrightarrow>
     T \<subseteq> offer_tokens (run_ops (offer_step (int_text, c)) ops q)"
proof (induction ops arbitrary: q)
  case (Cons op ops)
  have "T \<subseteq> offer_tokens (offer_step (int_text, c) op q)"
    using Cons.prems offer_step_tokens [of op _ q int_text c] by fastforce
  moreover have "\<And>t w. OAck t w \<in> set ops \<Longrightarrow> t \<notin> T" by (meson Cons.prems(1) list.set_intros(2))
  ultimately show ?case by (simp add: Cons.IH)
qed simp

text \<open>There is no reaper: a lease that nobody acknowledges holds its slot for ever. Once as many leases
  are abandoned as the worker may have (an unreadable payload is one, and so is every job whose
  run fails), every later dequeue answers nothing and leases nothing, whatever is enqueued and
  however long ago the leases expired.\<close>

theorem abandoned_leases_block_offers:
  assumes "offer_inv q" "T \<subseteq> offer_tokens q" "\<And>t w. OAck t w \<in> set ops \<Longrightarrow> t \<notin> T" "cap \<le> int (card T)"
  shows "dequeue_offer_job int_text c clock worker cap (run_ops (offer_step (int_text, c)) ops q) =
    (run_ops (offer_step (int_text, c)) ops q, None)"
proof -
  let ?q = "run_ops (offer_step (int_text, c)) ops q"
  have "T \<subseteq> offer_tokens ?q"
    using assms(2,3) by (rule offer_run_tokens [rotated])
  then have "card T \<le> card (offer_tokens ?q)"
    by (intro card_mono) (simp_all add: offer_tokens_def)
  also have "\<dots> = length (oq_processing ?q)"
    using offers.run_inv [OF assms(1)] by (rule offer_tokens_slots)
  finally show ?thesis
    using assms(4) by (simp add: dequeue_offer_job_def offer_lease_script_def Let_def)
qed

definition sample_clock :: "int \<Rightarrow> offer_clock" where
  "sample_clock s = \<lparr>ok_now_ms = s * 1000, ok_dlq_second = s, ok_dlq_ts = ''t'', ok_leased_at = seconds s\<rparr>"

definition sample_offer_payload :: offer_payload where
  "sample_offer_payload = \<lparr>op_job_id = ''j1'', op_offer_request_id = ''r1'', op_organization_id = ''o1'',
     op_work_type_code = ''tiling'', op_idempotency_key = ''k'', op_photo_ids = [], op_parameters = [],
     op_attempt = 1, op_priority = ''normal''\<rparr>"

definition sample_offer_codec :: json_codec where
  "sample_offer_codec = table_codec [(JObj (offer_payload_json sample_offer_payload), ''{j1}'')]"

text \<open>Two unreadable payloads, leased by the worker that found them.\<close>

definition leaked_offer_queue :: offer_queue where
  "leaked_offer_queue =
     run_ops (offer_step (\<lambda>_. None, sample_offer_codec)) [ODequeue (sample_clock 1) ''w'' 2, ODequeue (sample_clock 2) ''w'' 2]
       (empty_offer_queue\<lparr>oq_high := [''?'', ''??'']\<rparr>)"

lemma leaked_offer_inv: "offer_inv leaked_offer_queue"
  unfolding leaked_offer_queue_def
  by (rule offers.run_inv) (simp add: offer_inv_def as_lane_def empty_offer_queue_def lane_inv_def)

theorem abandoned_leases_block_offers_witness:
  "let ops = [OEnqueue sample_offer_payload 5000, OAck ''7'' ''w''];
       q = run_ops (offer_step (\<lambda>_. None, sample_offer_codec)) ops leaked_offer_queue
   in dequeue_offer_job (\<lambda>_. None) sample_offer_codec (sample_clock 100000) ''w2'' 2 q = (q, None)"
  unfolding Let_def
proof (rule abandoned_leases_block_offers [where T = "{''1'', ''2''}"])
  show "offer_inv leaked_offer_queue" by (rule leaked_offer_inv)
  show "{''1'', ''2''} \<subseteq> offer_tokens leaked_offer_queue" by code_simp
  show "t \<notin> {''1'', ''2''}" if "OAck t w \<in> set [OEnqueue sample_offer_payload 5000, OAck ''7'' ''w'']" for t w
    using that by auto
qed simp

subsection \<open>A whole cycle\<close>

definition offer_payload_ok :: "offer_payload \<Rightarrow> bool" where
  "offer_payload_ok p \<longleftrightarrow> op_priority p \<in> {''high'', ''normal'', ''low''} \<and> trimmed (op_work_type_code p)"

lemma all_some_map: "(\<And>x. g (f x) = Some x) \<Longrightarrow> all_some (map (g \<circ> f) xs) = Some xs"
  by (induction xs) auto

lemma validate_offer_json:
  assumes "offer_payload_ok p"
  shows "validate_offer_payload int_text (offer_payload_json p) = Some p"
proof -
  have "all_some (map json_str (map JStr (op_photo_ids p))) = Some (op_photo_ids p)"
    using all_some_map [of json_str JStr] by (simp add: json_str_def comp_def)
  with assms show ?thesis
    by (simp add: validate_offer_payload_def offer_payload_json_def offer_field_names_def extra_keys_def
        required_str_def str_list_field_def obj_field_def attempt_field_def lax_int_def offer_priority_field_def
        json_str_def valid_priority_def non_empty_code_def trimmed_def offer_payload_ok_def Let_def)
qed

lemma validate_offer_ok: "validate_offer_payload int_text d = Some p \<Longrightarrow> offer_payload_ok p"
  by (auto simp: validate_offer_payload_def offer_payload_ok_def offer_priority_field_def valid_priority_def
      non_empty_code_def trimmed_def Let_def split: option.splits if_splits bind_splits)

lemma pop_push_offer:
  assumes "pop_offer q = None"
  shows "pop_offer (push_offer prio raw q) = Some (raw, q)"
proof -
  from assms have "oq_high q = []" "oq_normal q = []" "oq_low q = []" by (auto simp: pop_offer_None)
  then show ?thesis
    by (auto simp: push_offer_def pop_offer.simps intro!: offer_queue.equality)
qed

text \<open>A job goes through the offer queue whole: a validated payload put on an empty queue with room is
  what the next dequeue hands out, under the next lease token, and its acknowledgement by that
  worker succeeds and leaves the queue holding exactly what it held.\<close>

theorem offer_job_cycle:
  assumes "offer_inv q" "pop_offer q = None" "validate_offer_payload int_text d = Some p"
    and "loads c (dumps c (JObj (offer_payload_json p))) = Some (JObj (offer_payload_json p))"
    and "int (length (priority_queue (op_priority p) q)) < max_depth" "int (length (oq_processing q)) < cap"
    and "enqueue_offer_job c p max_depth q = (q1, r1)" "dequeue_offer_job int_text c clock w cap q1 = (q2, job)"
    and "ack_offer_job (str_nat (oq_sequence q + 1)) w q2 = (q3, r3)"
  shows "r1 = Inr () \<and> r3 = Inr () \<and> offer_held q3 = offer_held q \<and>
    job = Some \<lparr>dq_lease_token = str_nat (oq_sequence q + 1), dq_payload = p, dq_leased_at = ok_leased_at clock\<rparr>"
proof -
  let ?raw = "dumps c (JObj (offer_payload_json p))"
  have q1: "q1 = push_offer (op_priority p) ?raw q" "r1 = Inr ()"
    using assms(5,7) by (auto simp: enqueue_offer_job_def Let_def)
  have processing: "oq_processing q1 = oq_processing q" "oq_sequence q1 = oq_sequence q"
    by (simp_all add: q1 push_offer_def)
  have parse: "parse_offer_payload int_text c ?raw = Some p"
    using assms(4) validate_offer_json [OF validate_offer_ok [OF assms(3)]] by (simp add: parse_offer_payload_def)
  let ?x = "\<lparr>ol_token = str_nat (oq_sequence q + 1), ol_raw = ?raw, ol_leased_at_ms = ok_now_ms clock, ol_worker_id = w,
    ol_expires_at_ms = ok_now_ms clock + OFFER_LEASE_TIMEOUT_MS\<rparr>"
  have q2: "oq_leases q2 = AList.update (str_nat (oq_sequence q + 1)) ?x (oq_leases q)"
    "job = Some \<lparr>dq_lease_token = str_nat (oq_sequence q + 1), dq_payload = p, dq_leased_at = ok_leased_at clock\<rparr>"
    using assms(6,8) pop_push_offer [OF assms(2), of "op_priority p" ?raw] processing parse
    by (auto simp: dequeue_offer_job_def offer_lease_script_def Let_def q1(1))
  have lease: "map_of (oq_leases q2) (str_nat (oq_sequence q + 1)) = Some ?x"
    unfolding q2(1) by (simp add: update_conv')
  then have "snd (offer_ack_script q2 (str_nat (oq_sequence q + 1)) w) = 1" "r3 = Inr ()"
    using assms(9) by (auto simp: ack_offer_job_def offer_ack_script_def)
  moreover have "offer_held q3 + offer_removed (OAck (str_nat (oq_sequence q + 1)) w) q2 = offer_held q2"
    using offers.step_balance [of q2 int_text c "OAck (str_nat (oq_sequence q + 1)) w"] assms(9)
      offers.run_inv [OF assms(1), of int_text c "[OEnqueue p max_depth, ODequeue clock w cap]"] assms(7,8)
    by simp
  moreover have "offer_held q2 = add_mset ?raw (offer_held q)"
    using offers.step_balance [of q1 int_text c "ODequeue clock w cap"] assms(8)
      offers.run_inv [OF assms(1), of int_text c "[OEnqueue p max_depth]"] assms(7)
    by (simp add: q1(1) offer_held_push)
  ultimately show ?thesis
    using q1(2) q2 lease by simp
qed

theorem offer_job_cycle_witness:
  "let q = leaked_offer_queue; e = enqueue_offer_job sample_offer_codec sample_offer_payload 5000 q;
       d = dequeue_offer_job (\<lambda>_. None) sample_offer_codec (sample_clock 9) ''w'' 10 (fst e);
       a = ack_offer_job (str_nat (oq_sequence q + 1)) ''w'' (fst d)
   in snd e = Inr () \<and> snd a = Inr () \<and> offer_held (fst a) = offer_held q \<and>
      snd d = Some \<lparr>dq_lease_token = str_nat (oq_sequence q + 1), dq_payload = sample_offer_payload,
                     dq_leased_at = ok_leased_at (sample_clock 9)\<rparr>"
  unfolding Let_def
  by (rule offer_job_cycle [OF leaked_offer_inv _ _ _ _ _ prod.collapse [symmetric] prod.collapse [symmetric]
        prod.collapse [symmetric], where int_text = "\<lambda>_. None" and d = "offer_payload_json sample_offer_payload"])
     code_simp+

end
