(* ===== verification/Offer_Validation.thy ===== *)
theory Offer_Validation
  imports Novu_Prelude
begin

section \<open>Validation of AI output\<close>

text \<open>
  Models \<open>app/offer_processing/validation.py\<close>: the lax Pydantic schemas of the model's answer, the
  business rules and the normalisation. A number read from JSON is the decimal its text denotes; the
  texts Pydantic reads as numbers are the argument \<open>num_text\<close>. An error is a value of
  \<open>validation_issue\<close> and \<open>issue_text\<close> its message; the texts that Pydantic and \<open>repr\<close> make are an argument.
\<close>

definition MAX_MEASUREMENTS :: nat where
  [simp, constant_simps]: "MAX_MEASUREMENTS = 100"

definition MAX_WARNINGS :: nat where
  [simp, constant_simps]: "MAX_WARNINGS = 20"

definition MAX_QUESTIONS :: nat where
  [simp, constant_simps]: "MAX_QUESTIONS = 10"

definition ALLOWED_SURFACE_CONDITIONS :: "string list" where
  "ALLOWED_SURFACE_CONDITIONS = [''good'', ''requires_attention'', ''critical'']"

definition ALLOWED_SCOPES :: "string list" where
  "ALLOWED_SCOPES = [''cleaning'', ''local_repair'', ''full_reconstruction'']"

record measurement_item =
  mi_work_type_code :: string
  mi_quantity :: dec
  mi_unit :: string
  mi_surface_condition :: string
  mi_recommended_scope :: string
  mi_description :: string
  mi_confidence :: dec

record measurement_output =
  mo_outcome :: string
  mo_measurements :: "measurement_item list"
  mo_overall_confidence :: dec
  mo_warnings :: "string list"

datatype validated =
    ValidatedMeasurements measurement_output
  | InsufficientDataResult string "string list"

datatype validation_issue =
    NoWhitelist
  | SchemaIssue json
  | InsufficientSchemaIssue json
  | SurfaceNotAllowed nat string string
  | ScopeNotAllowed nat string string
  | UnknownCodes "string list"

datatype offer_validation_error = OfferValidationError "validation_issue list"

subsection \<open>Schemas\<close>

definition lax_float :: "(string \<Rightarrow> dec option) \<Rightarrow> json \<Rightarrow> dec option" where
  "lax_float num_text j =
    (case j of
       JFloat d \<Rightarrow> Some d
     | JInt i \<Rightarrow> Some (Dec (i * 10) 1)
     | JBool b \<Rightarrow> Some (Dec (if b then 10 else 0) 1)
     | JStr s \<Rightarrow> num_text s
     | _ \<Rightarrow> None)"

definition str_field :: "json_obj \<Rightarrow> string \<Rightarrow> string option \<Rightarrow> nat \<Rightarrow> nat \<Rightarrow> string option" where
  "str_field d k dflt lo hi =
    (case map_of d k of
       None \<Rightarrow> dflt
     | Some (JStr s) \<Rightarrow> if lo \<le> length s \<and> length s \<le> hi then Some s else None
     | Some _ \<Rightarrow> None)"

definition float_field :: "(string \<Rightarrow> dec option) \<Rightarrow> json_obj \<Rightarrow> string \<Rightarrow> (dec \<Rightarrow> bool) \<Rightarrow> dec option" where
  "float_field num_text d k ok =
     Option.bind (map_of d k) (\<lambda>j. Option.bind (lax_float num_text j) (\<lambda>x. if ok x then Some x else None))"

definition unit_interval :: "dec \<Rightarrow> bool" where
  "unit_interval x \<longleftrightarrow> dec_le (Dec 0 0) x \<and> dec_le x (Dec 1 0)"

definition quantity_ok :: "dec \<Rightarrow> bool" where
  "quantity_ok x \<longleftrightarrow> dec_pos x \<and> dec_le x (Dec 100000 0)"

definition raw_measurement_item :: "(string \<Rightarrow> dec option) \<Rightarrow> json \<Rightarrow> measurement_item option" where
  "raw_measurement_item num_text j =
    (case j of
       JObj d \<Rightarrow>
         (case (str_field d ''work_type_code'' None 1 64, float_field num_text d ''quantity'' quantity_ok,
                str_field d ''unit'' (Some ''ks'') 0 32, str_field d ''surface_condition'' None 0 32,
                str_field d ''recommended_scope'' (Some []) 0 64, str_field d ''description'' (Some []) 0 512,
                float_field num_text d ''confidence'' unit_interval) of
            (Some code, Some quantity, Some unit, Some surface, Some scope, Some description, Some confidence) \<Rightarrow>
              Some \<lparr>mi_work_type_code = py_lower (py_strip code), mi_quantity = quantity, mi_unit = unit,
                    mi_surface_condition = surface, mi_recommended_scope = scope, mi_description = description,
                    mi_confidence = confidence\<rparr>
          | _ \<Rightarrow> None)
     | _ \<Rightarrow> None)"

fun list_of :: "(json \<Rightarrow> 'a option) \<Rightarrow> json list \<Rightarrow> 'a list option" where
  "list_of f [] = Some []"
| "list_of f (j # js) = Option.bind (f j) (\<lambda>x. map_option ((#) x) (list_of f js))"

definition list_field :: "(json \<Rightarrow> 'a option) \<Rightarrow> json_obj \<Rightarrow> string \<Rightarrow> 'a list option \<Rightarrow> nat \<Rightarrow> nat \<Rightarrow> 'a list option" where
  "list_field f d k dflt lo hi =
    (case map_of d k of
       None \<Rightarrow> dflt
     | Some (JList js) \<Rightarrow> if lo \<le> length js \<and> length js \<le> hi then list_of f js else None
     | Some _ \<Rightarrow> None)"

definition text_item :: "json \<Rightarrow> string option" where
  "text_item j = (case j of JStr s \<Rightarrow> Some s | _ \<Rightarrow> None)"

definition outcome_field :: "json_obj \<Rightarrow> string option \<Rightarrow> string option" where
  "outcome_field d dflt = (case map_of d ''outcome'' of None \<Rightarrow> dflt | Some j \<Rightarrow> text_item j)"

definition raw_measurement_output :: "(string \<Rightarrow> dec option) \<Rightarrow> json_obj \<Rightarrow> measurement_output option" where
  "raw_measurement_output num_text d =
    (case (outcome_field d (Some ''offer_generated''),
           list_field (raw_measurement_item num_text) d ''measurements'' None 1 MAX_MEASUREMENTS,
           float_field num_text d ''overall_confidence'' unit_interval,
           list_field text_item d ''warnings'' (Some []) 0 MAX_WARNINGS) of
       (Some outcome, Some measurements, Some confidence, Some warnings) \<Rightarrow>
         Some \<lparr>mo_outcome = outcome, mo_measurements = measurements, mo_overall_confidence = confidence,
               mo_warnings = warnings\<rparr>
     | _ \<Rightarrow> None)"

definition raw_insufficient_data_output :: "json_obj \<Rightarrow> (string \<times> string list) option" where
  "raw_insufficient_data_output d =
    (case (outcome_field d None, list_field text_item d ''questions'' None 1 MAX_QUESTIONS) of
       (Some outcome, Some questions) \<Rightarrow> Some (outcome, questions)
     | _ \<Rightarrow> None)"

subsection \<open>The validator\<close>

fun item_issues :: "nat \<Rightarrow> measurement_item list \<Rightarrow> validation_issue list" where
  "item_issues i [] = []"
| "item_issues i (x # xs) =
    (if mi_surface_condition x \<notin> set ALLOWED_SURFACE_CONDITIONS
     then [SurfaceNotAllowed i (mi_work_type_code x) (mi_surface_condition x)] else []) @
    (if mi_recommended_scope x \<noteq> [] \<and> mi_recommended_scope x \<notin> set ALLOWED_SCOPES
     then [ScopeNotAllowed i (mi_work_type_code x) (mi_recommended_scope x)] else []) @
    item_issues (i + 1) xs"

definition unknown_codes :: "string list \<Rightarrow> measurement_item list \<Rightarrow> string list" where
  "unknown_codes known xs = filter (\<lambda>code. code \<notin> set known) (map mi_work_type_code xs)"

definition normalize_item :: "measurement_item \<Rightarrow> measurement_item" where
  "normalize_item x = x\<lparr>mi_quantity := dec_quantize 4 (mi_quantity x)\<rparr>"

definition validate_insufficient_data :: "json_obj \<Rightarrow> offer_validation_error + validated" where
  "validate_insufficient_data raw =
    (case raw_insufficient_data_output raw of
       None \<Rightarrow> Inl (OfferValidationError [InsufficientSchemaIssue (JObj raw)])
     | Some (outcome, questions) \<Rightarrow> Inr (InsufficientDataResult outcome questions))"

definition validate_measurements ::
  "(string \<Rightarrow> dec option) \<Rightarrow> string list option \<Rightarrow> json_obj \<Rightarrow> offer_validation_error + validated" where
  "validate_measurements num_text known_codes raw =
    (case known_codes of
       None \<Rightarrow> Inl (OfferValidationError [NoWhitelist])
     | Some known \<Rightarrow>
         (case raw_measurement_output num_text raw of
            None \<Rightarrow> Inl (OfferValidationError [SchemaIssue (JObj raw)])
          | Some parsed \<Rightarrow>
              let unknown = unknown_codes known (mo_measurements parsed);
                  errors = item_issues 0 (mo_measurements parsed) @ (if unknown \<noteq> [] then [UnknownCodes unknown] else [])
              in if errors \<noteq> [] then Inl (OfferValidationError errors)
                 else Inr (ValidatedMeasurements (parsed\<lparr>mo_measurements := map normalize_item (mo_measurements parsed),
                        mo_warnings := take MAX_WARNINGS (mo_warnings parsed)\<rparr>))))"

definition validate_output ::
  "(string \<Rightarrow> dec option) \<Rightarrow> string list option \<Rightarrow> json_obj \<Rightarrow> offer_validation_error + validated" where
  "validate_output num_text known_codes raw =
    (let outcome = (case map_of raw ''outcome'' of None \<Rightarrow> JStr ''offer_generated'' | Some j \<Rightarrow> j)
     in if outcome = JStr ''insufficient_data'' then validate_insufficient_data raw
        else validate_measurements num_text known_codes raw)"

text \<open>The message of an issue: \<open>schema_text\<close> is what Pydantic prints of its exception, \<open>list_repr\<close> the
  \<open>repr\<close> of a list of strings.\<close>

definition issue_text :: "(json \<Rightarrow> string) \<Rightarrow> (string list \<Rightarrow> string) \<Rightarrow> validation_issue \<Rightarrow> string" where
  "issue_text schema_text list_repr e =
    (case e of
       NoWhitelist \<Rightarrow> ''fail-closed: no work_type_code whitelist provided for validation''
     | SchemaIssue j \<Rightarrow> ''schema: '' @ schema_text j
     | InsufficientSchemaIssue j \<Rightarrow> ''insufficient_data schema: '' @ schema_text j
     | SurfaceNotAllowed i code c \<Rightarrow> ''item['' @ str_nat i @ ''] '' @ code @ '': surface_condition '' @
         [CHR 0x27] @ c @ [CHR 0x27] @ '' not allowed''
     | ScopeNotAllowed i code c \<Rightarrow> ''item['' @ str_nat i @ ''] '' @ code @ '': recommended_scope '' @
         [CHR 0x27] @ c @ [CHR 0x27] @ '' not allowed''
     | UnknownCodes codes \<Rightarrow> ''unknown work_type_codes: '' @ list_repr codes)"

subsection \<open>What passes\<close>

lemma list_of_Some: "list_of f js = Some xs \<Longrightarrow> length xs = length js \<and> (\<forall>x \<in> set xs. \<exists>j \<in> set js. f j = Some x)"
proof (induction js arbitrary: xs)
  case (Cons j js)
  then obtain x ys where "f j = Some x" "list_of f js = Some ys" "xs = x # ys"
    by (auto split: bind_splits)
  with Cons.IH [of ys] show ?case by auto
qed simp

lemma list_field_Some:
  assumes "list_field f d k dflt lo hi = Some xs" "dflt = None \<or> dflt = Some []"
  shows "(lo \<le> length xs \<or> (dflt = Some [] \<and> xs = [])) \<and> length xs \<le> hi \<and> (\<forall>x \<in> set xs. \<exists>j. f j = Some x)"
  using assms list_of_Some [of f _ xs] by (auto simp: list_field_def split: option.splits json.splits if_splits)

lemma float_field_Some: "float_field num_text d k ok = Some x \<Longrightarrow> ok x"
  by (auto simp: float_field_def split: bind_splits if_splits)

lemma raw_item_Some:
  assumes "raw_measurement_item num_text j = Some x"
  shows "quantity_ok (mi_quantity x)" "unit_interval (mi_confidence x)"
  using assms
  by (auto simp: raw_measurement_item_def split: json.splits option.splits dest: float_field_Some)

lemma item_issues_Nil:
  "item_issues i xs = [] \<longleftrightarrow>
     (\<forall>x \<in> set xs. mi_surface_condition x \<in> set ALLOWED_SURFACE_CONDITIONS \<and>
        (mi_recommended_scope x = [] \<or> mi_recommended_scope x \<in> set ALLOWED_SCOPES))"
  by (induction xs arbitrary: i) auto

lemma unknown_codes_Nil: "unknown_codes known xs = [] \<longleftrightarrow> (\<forall>x \<in> set xs. mi_work_type_code x \<in> set known)"
  by (auto simp: unknown_codes_def filter_empty_conv)

text \<open>Rounding to four places stays in range and moves a quantity by at most half a unit of the last place.\<close>

lemma quantize_quantity:
  assumes "quantity_ok (Dec m k)"
  obtains q where "dec_quantize 4 (Dec m k) = Dec q 4" "0 \<le> q" "q \<le> 100000 * 10 ^ 4"
    "2 * \<bar>q * 10 ^ k - m * 10 ^ 4\<bar> \<le> 10 ^ k"
proof (cases "k \<le> 4")
  case True
  then have k: "(10::int) ^ 4 = 10 ^ (4 - k) * 10 ^ k" by (simp flip: power_add)
  have "m \<le> 100000 * 10 ^ k" "0 < m"
    using assms by (simp_all add: quantity_ok_def)
  then have "m * 10 ^ (4 - k) \<le> 100000 * 10 ^ k * 10 ^ (4 - k)"
    by (intro mult_right_mono) simp_all
  also have "\<dots> = 100000 * 10 ^ 4" by (simp only: k ac_simps)
  finally have upper: "m * 10 ^ (4 - k) \<le> 100000 * 10 ^ 4" .
  have exact: "m * 10 ^ (4 - k) * 10 ^ k = m * 10 ^ 4" by (simp only: k mult.assoc)
  show ?thesis
  proof (rule that)
    show "dec_quantize 4 (Dec m k) = Dec (m * 10 ^ (4 - k)) 4" using True by simp
    show "2 * \<bar>m * 10 ^ (4 - k) * 10 ^ k - m * 10 ^ 4\<bar> \<le> 10 ^ k" by (simp only: exact) simp
  qed (use \<open>0 < m\<close> upper in simp_all)
next
  case False
  let ?d = "(10::int) ^ (k - 4)"
  let ?q = "round_half_up m ?d"
  have d: "0 < ?d" by simp
  have k: "(10::int) ^ k = ?d * 10 ^ 4" using False power_add [of "10::int" "k - 4" 4] by simp
  have m: "m \<le> 100000 * 10 ^ 4 * ?d" "0 < m"
    using assms by (simp_all add: quantity_ok_def k mult.assoc mult.commute)
  have "(2 * m + ?d) div (2 * ?d) \<le> (2 * (100000 * 10 ^ 4 * ?d) + ?d) div (2 * ?d)"
    by (intro zdiv_mono1) (use m in simp_all)
  also have "\<dots> = 100000 * 10 ^ 4"
  proof -
    have "(2 * (100000 * 10 ^ 4 * ?d) + ?d) = ?d + (100000 * 10 ^ 4) * (2 * ?d)" by (simp add: algebra_simps)
    also have "\<dots> div (2 * ?d) = ?d div (2 * ?d) + 100000 * 10 ^ 4" using d by simp
    also have "?d div (2 * ?d) = 0" using d by simp
    finally show ?thesis by simp
  qed
  finally have upper: "?q \<le> 100000 * 10 ^ 4" using m(2) by (simp add: round_half_up_def)
  have lower: "0 \<le> ?q" using m(2) d by (simp add: round_half_up_def pos_imp_zdiv_nonneg_iff)
  have scaled: "?q * 10 ^ k - m * 10 ^ 4 = (?q * ?d - m) * 10 ^ 4" by (simp add: k algebra_simps)
  have "2 * \<bar>?q * 10 ^ k - m * 10 ^ 4\<bar> \<le> 10 ^ k"
    unfolding scaled abs_mult using round_half_up_near [OF d, of m] by (simp add: k)
  with False upper lower show ?thesis by (intro that [of ?q]) simp_all
qed

text \<open>What \<open>validate_output\<close> lets through: \<open>quantity_kept\<close> relates a stored quantity to the raw one.\<close>

definition quantity_kept :: "dec \<Rightarrow> dec \<Rightarrow> bool" where
  "quantity_kept raw q =
    (case (raw, q) of
       (Dec m k, Dec n p) \<Rightarrow> p = 4 \<and> 0 \<le> n \<and> n \<le> 100000 * 10 ^ 4 \<and> 2 * \<bar>n * 10 ^ k - m * 10 ^ 4\<bar> \<le> 10 ^ k)"

definition item_passed :: "(string \<Rightarrow> dec option) \<Rightarrow> string list \<Rightarrow> json \<Rightarrow> measurement_item \<Rightarrow> bool" where
  "item_passed num_text known j x =
    (case raw_measurement_item num_text j of
       None \<Rightarrow> False
     | Some raw \<Rightarrow>
         x = raw\<lparr>mi_quantity := mi_quantity x\<rparr> \<and> quantity_kept (mi_quantity raw) (mi_quantity x) \<and>
         mi_work_type_code x \<in> set known \<and> mi_surface_condition x \<in> set ALLOWED_SURFACE_CONDITIONS \<and>
         (mi_recommended_scope x = [] \<or> mi_recommended_scope x \<in> set ALLOWED_SCOPES) \<and>
         unit_interval (mi_confidence x))"

lemma normalize_quantity_kept:
  assumes "quantity_ok (mi_quantity x)"
  shows "quantity_kept (mi_quantity x) (mi_quantity (normalize_item x))"
proof (cases "mi_quantity x")
  case (Dec m k)
  with assms obtain q where "dec_quantize 4 (Dec m k) = Dec q 4" "0 \<le> q" "q \<le> 100000 * 10 ^ 4"
      "2 * \<bar>q * 10 ^ k - m * 10 ^ 4\<bar> \<le> 10 ^ k"
    using quantize_quantity [of m k] by metis
  with Dec show ?thesis by (simp only: quantity_kept_def normalize_item_def prod.case dec.case) simp
qed

lemma list_of_pointwise: "list_of f js = Some xs \<Longrightarrow> list_all2 (\<lambda>j x. f j = Some x) js xs"
  by (induction js arbitrary: xs) (auto split: bind_splits)

lemma raw_output_Some:
  assumes "raw_measurement_output num_text d = Some m"
  shows "\<exists>js. map_of d ''measurements'' = Some (JList js) \<and> 1 \<le> length js \<and> length js \<le> MAX_MEASUREMENTS \<and>
           list_all2 (\<lambda>j x. raw_measurement_item num_text j = Some x) js (mo_measurements m)"
    and "unit_interval (mo_overall_confidence m)" "length (mo_warnings m) \<le> MAX_WARNINGS"
  using assms list_field_Some [of text_item d "''warnings''" "Some []" 0 MAX_WARNINGS]
  by (auto simp: raw_measurement_output_def list_field_def split: option.splits json.splits if_splits
      dest: float_field_Some list_of_pointwise)

lemma validate_measurements_Inr:
  assumes "validate_measurements num_text known_codes raw = Inr v"
  obtains known p where "known_codes = Some known" "raw_measurement_output num_text raw = Some p"
    "item_issues 0 (mo_measurements p) = []" "unknown_codes known (mo_measurements p) = []"
    "v = ValidatedMeasurements (p\<lparr>mo_measurements := map normalize_item (mo_measurements p),
           mo_warnings := take MAX_WARNINGS (mo_warnings p)\<rparr>)"
  using assms by (auto simp: validate_measurements_def Let_def split: option.splits if_splits)

text \<open>What passes the validator is safe to store. A result of \<open>validate_output\<close> that carries measurements
  comes only from a call with a whitelist, has one item per raw item in order, between 1 and 100 of them,
  each with a whitelisted code, an allowed surface condition and scope, a confidence in [0, 1] and a quantity
  of four places, at most 100000 and at most half a unit of the last place from the raw one; every other
  field of an item is the parsed one. The overall confidence is in [0, 1] and there are at most 20 warnings.\<close>

theorem validated_measurements_are_safe:
  assumes "validate_output num_text known_codes raw = Inr (ValidatedMeasurements m)"
  shows "\<exists>known js. known_codes = Some known \<and> map_of raw ''measurements'' = Some (JList js) \<and>
    1 \<le> length js \<and> length js \<le> MAX_MEASUREMENTS \<and>
    list_all2 (item_passed num_text known) js (mo_measurements m) \<and>
    unit_interval (mo_overall_confidence m) \<and> length (mo_warnings m) \<le> MAX_WARNINGS"
proof -
  have "validate_measurements num_text known_codes raw = Inr (ValidatedMeasurements m)"
    using assms by (auto simp: validate_output_def validate_insufficient_data_def Let_def split: if_splits option.splits)
  then obtain known p where p: "known_codes = Some known" "raw_measurement_output num_text raw = Some p"
      "item_issues 0 (mo_measurements p) = []" "unknown_codes known (mo_measurements p) = []"
      "m = p\<lparr>mo_measurements := map normalize_item (mo_measurements p), mo_warnings := take MAX_WARNINGS (mo_warnings p)\<rparr>"
    by (elim validate_measurements_Inr) blast
  obtain js where js: "map_of raw ''measurements'' = Some (JList js)" "1 \<le> length js" "length js \<le> MAX_MEASUREMENTS"
      "list_all2 (\<lambda>j x. raw_measurement_item num_text j = Some x) js (mo_measurements p)"
    using raw_output_Some(1) [OF p(2)] by blast
  have "item_passed num_text known j (normalize_item x)"
    if "raw_measurement_item num_text j = Some x" "x \<in> set (mo_measurements p)" for j x
    using that raw_item_Some [OF that(1)] p(3,4) normalize_quantity_kept [of x]
    by (simp add: item_passed_def item_issues_Nil unknown_codes_Nil) (simp add: normalize_item_def)
  with js(4) have "list_all2 (item_passed num_text known) js (map normalize_item (mo_measurements p))"
    by (auto simp: list_all2_conv_all_nth)
  with p js raw_output_Some(2,3) [OF p(2)] show ?thesis by auto
qed

definition sample_answer :: json_obj where
  "sample_answer = [(''measurements'', JList [JObj
     [(''work_type_code'', JStr '' Wall_Paint ''), (''quantity'', JFloat (Dec 1234567 5)),
      (''surface_condition'', JStr ''good''), (''confidence'', JFloat (Dec 9 1))]]),
     (''overall_confidence'', JFloat (Dec 8 1))]"

lemma validated_measurements_are_safe_witness:
  "\<exists>m. validate_output (\<lambda>_. None) (Some [''wall_paint'']) sample_answer = Inr (ValidatedMeasurements m) \<and>
     map mi_quantity (mo_measurements m) = [Dec 123457 4] \<and> length (mo_warnings m) \<le> MAX_WARNINGS"
proof -
  have run: "validate_output (\<lambda>_. None) (Some [''wall_paint'']) sample_answer = Inr (ValidatedMeasurements
     \<lparr>mo_outcome = ''offer_generated'', mo_measurements = [\<lparr>mi_work_type_code = ''wall_paint'', mi_quantity = Dec 123457 4,
        mi_unit = ''ks'', mi_surface_condition = ''good'', mi_recommended_scope = [], mi_description = [],
        mi_confidence = Dec 9 1\<rparr>], mo_overall_confidence = Dec 8 1, mo_warnings = []\<rparr>)"
    by code_simp
  from validated_measurements_are_safe [OF this] show ?thesis unfolding run by auto
qed

end
