(* ===== verification/Offer_Provider.thy ===== *)
theory Offer_Provider
  imports Offer_Validation
begin

section \<open>AI providers and the input snapshot\<close>

text \<open>
  Models \<open>app/offer_processing/provider.py\<close> and \<open>snapshot.py\<close>. The Anthropic SDK is an argument of
  \<open>claude_complete\<close>: \<open>None\<close> when it is not installed, otherwise what \<open>messages.create\<close> returns or raises
  for a call. An adapter is its key, its model and its \<open>complete\<close>. The instruction text of a call is
  kept as the parts it is made of; the system prompt and the tool descriptions, which are constants, are left out.
\<close>

record provider_request =
  pq_work_type_code :: string
  pq_parameters :: json_obj
  pq_photo_urls :: "string list"
  pq_work_type_definition :: json_obj
  pq_pricing_context :: json_obj
  pq_prompt_version :: string

record provider_response =
  pr_raw_output :: json_obj
  pr_prompt_tokens :: int
  pr_completion_tokens :: int
  pr_model_id :: string
  pr_model_build :: string
  pr_provider_key :: string
  pr_duration_ms :: int

text \<open>The exceptions of a call; \<open>OtherException\<close> is any exception that is not a \<open>ProviderError\<close>.\<close>

datatype provider_error =
    ProviderUnavailableError string
  | ProviderRateLimitedError string "int option"
  | ProviderRequestError string
  | OtherException string

fun retryable_error :: "provider_error \<Rightarrow> bool" where
  "retryable_error (ProviderUnavailableError m) = True"
| "retryable_error (ProviderRateLimitedError m s) = True"
| "retryable_error (ProviderRequestError m) = False"
| "retryable_error (OtherException m) = False"

record adapter =
  ad_key :: string
  ad_model_id :: string
  ad_complete :: "provider_request \<Rightarrow> provider_error + provider_response"

subsection \<open>The Claude adapter\<close>

definition MAX_PHOTOS :: nat where
  [simp, constant_simps]: "MAX_PHOTOS = 8"

definition DEFAULT_MODEL_ID :: string where
  [simp, constant_simps]: "DEFAULT_MODEL_ID = ''claude-opus-5''"

text \<open>The instruction: the work type code, the two JSON texts and the number of photos.\<close>

datatype content_block = InstructionText string string string nat | ImageUrl string

definition build_content :: "json_codec \<Rightarrow> provider_request \<Rightarrow> content_block list" where
  "build_content c request =
     InstructionText (pq_work_type_code request) (dumps c (JObj (pq_parameters request)))
       (dumps c (JObj (pq_work_type_definition request))) (length (pq_photo_urls request)) #
     map ImageUrl (filter (\<lambda>url. url \<noteq> [] \<and> take 4 url = ''http'') (take MAX_PHOTOS (pq_photo_urls request)))"

record tool_block =
  tb_type :: string
  tb_name :: string
  tb_input :: "json_obj option"

record sdk_message =
  sm_stop_reason :: string
  sm_content :: "tool_block list"
  sm_input_tokens :: int
  sm_output_tokens :: int

text \<open>What the SDK call gives: \<open>StatusError\<close> is an \<open>APIStatusError\<close> with its code, its text and its
  \<open>retry-after\<close> header (\<open>None\<close> when there is none), \<open>ConnectionError\<close> a connection error or timeout.\<close>

datatype sdk_reply =
    SdkMessage sdk_message
  | StatusError int string "string option"
  | ConnectionError string
  | SdkException string

definition safe_retry_after :: "(string \<Rightarrow> int option) \<Rightarrow> string option \<Rightarrow> int" where
  "safe_retry_after int_text header =
    (case header of None \<Rightarrow> 60 | Some h \<Rightarrow> (case int_text h of None \<Rightarrow> 60 | Some n \<Rightarrow> n))"

fun extract_tool_output :: "tool_block list \<Rightarrow> provider_error + json_obj" where
  "extract_tool_output [] = Inl (ProviderRequestError ''Model returned no tool call.'')"
| "extract_tool_output (b # blocks) =
    (if tb_type b \<noteq> ''tool_use'' then extract_tool_output blocks
     else
       let tool_input = (case tb_input b of None \<Rightarrow> [] | Some d \<Rightarrow> d)
       in if tb_name b = ''submit_measurements'' then Inr (dict_merge [(''outcome'', JStr ''offer_generated'')] tool_input)
          else if tb_name b = ''request_more_info'' then Inr (dict_merge [(''outcome'', JStr ''insufficient_data'')] tool_input)
          else extract_tool_output blocks)"

definition claude_complete ::
  "(string \<Rightarrow> content_block list \<Rightarrow> sdk_reply) option \<Rightarrow> (string \<Rightarrow> int option) \<Rightarrow> json_codec \<Rightarrow> int \<Rightarrow> string \<Rightarrow> string
    \<Rightarrow> provider_request \<Rightarrow> provider_error + provider_response" where
  "claude_complete sdk int_text c duration_ms api_key model request =
    (case sdk of
       None \<Rightarrow> Inl (ProviderUnavailableError ''anthropic SDK not installed'')
     | Some create \<Rightarrow>
         if api_key = [] then Inl (ProviderRequestError ''ANTHROPIC_API_KEY is not configured for the offer provider.'')
         else
           (case create model (build_content c request) of
              StatusError code m header \<Rightarrow>
                if code = 429 then Inl (ProviderRateLimitedError m (Some (safe_retry_after int_text header)))
                else if code \<ge> 500 then Inl (ProviderUnavailableError m)
                else Inl (ProviderRequestError m)
            | ConnectionError m \<Rightarrow> Inl (ProviderUnavailableError m)
            | SdkException m \<Rightarrow> Inl (OtherException m)
            | SdkMessage message \<Rightarrow>
                if sm_stop_reason message = ''refusal''
                then Inl (ProviderRequestError ''Model refused the offer measurement request.'')
                else bind_res (extract_tool_output (sm_content message)) (\<lambda>raw_output.
                  Inr \<lparr>pr_raw_output = raw_output, pr_prompt_tokens = sm_input_tokens message,
                       pr_completion_tokens = sm_output_tokens message, pr_model_id = model,
                       pr_model_build = model, pr_provider_key = ''claude'', pr_duration_ms = duration_ms\<rparr>)))"

subsection \<open>The mock adapter\<close>

definition mock_offer_response :: "provider_request \<Rightarrow> json_obj" where
  "mock_offer_response req =
     [(''outcome'', JStr ''offer_generated''),
      (''measurements'', JList [JObj
         [(''work_type_code'', JStr (pq_work_type_code req)), (''quantity'', JFloat (Dec 10 1)), (''unit'', JStr ''ks''),
          (''surface_condition'', JStr ''requires_attention''), (''recommended_scope'', JStr ''local_repair''),
          (''description'', JStr (''Mock measurement: '' @ pq_work_type_code req)),
          (''confidence'', JFloat (Dec 95 2))]]),
      (''overall_confidence'', JFloat (Dec 95 2)), (''warnings'', JList [])]"

text \<open>An empty override is falsy, so it does not override.\<close>

definition mock_complete :: "json_obj option \<Rightarrow> provider_request \<Rightarrow> provider_error + provider_response" where
  "mock_complete response_override request =
     Inr \<lparr>pr_raw_output = (case response_override of
             None \<Rightarrow> mock_offer_response request | Some d \<Rightarrow> if d = [] then mock_offer_response request else d),
          pr_prompt_tokens = 500, pr_completion_tokens = 300, pr_model_id = ''mock-v1'',
          pr_model_build = ''mock-v1-static'', pr_provider_key = ''mock'', pr_duration_ms = 10\<rparr>"

subsection \<open>The runtime\<close>

record agent_runtime =
  at_primary :: adapter
  at_fallbacks :: "adapter list"

fun try_adapters :: "adapter list \<Rightarrow> provider_error \<Rightarrow> provider_request \<Rightarrow> provider_error + provider_response" where
  "try_adapters [] last_exc request = Inl last_exc"
| "try_adapters (a # adapters) last_exc request =
    (case ad_complete a request of
       Inr response \<Rightarrow> Inr response
     | Inl e \<Rightarrow> if retryable_error e then try_adapters adapters e request else Inl e)"

text \<open>The list of adapters is never empty, so the first \<open>last_exc\<close> (an \<open>AssertionError\<close>) is never raised.\<close>

definition agent_runtime_run :: "agent_runtime \<Rightarrow> provider_request \<Rightarrow> provider_error + provider_response" where
  "agent_runtime_run rt = try_adapters (at_primary rt # at_fallbacks rt) (OtherException ''AssertionError'')"

datatype unknown_provider = UnknownProviderKey string

definition build_adapter ::
  "(string \<Rightarrow> content_block list \<Rightarrow> sdk_reply) option \<Rightarrow> (string \<Rightarrow> int option) \<Rightarrow> json_codec \<Rightarrow> int
    \<Rightarrow> string option \<Rightarrow> string option \<Rightarrow> string \<Rightarrow> unknown_provider + adapter" where
  "build_adapter sdk int_text c duration_ms anthropic_api_key claude_offer_model key =
    (if key = ''mock'' then Inr \<lparr>ad_key = ''mock'', ad_model_id = ''mock-v1'', ad_complete = mock_complete None\<rparr>
     else if key = ''claude'' then
       (let api_key = (case anthropic_api_key of None \<Rightarrow> [] | Some k \<Rightarrow> k);
            model = (case claude_offer_model of None \<Rightarrow> DEFAULT_MODEL_ID | Some m \<Rightarrow> if m = [] then DEFAULT_MODEL_ID else m)
        in Inr \<lparr>ad_key = ''claude'', ad_model_id = model,
                ad_complete = claude_complete sdk int_text c duration_ms api_key model\<rparr>)
     else Inl (UnknownProviderKey key))"

definition build_agent_runtime ::
  "(string \<Rightarrow> content_block list \<Rightarrow> sdk_reply) option \<Rightarrow> (string \<Rightarrow> int option) \<Rightarrow> json_codec \<Rightarrow> int
    \<Rightarrow> string option \<Rightarrow> string option \<Rightarrow> string \<Rightarrow> unknown_provider + agent_runtime" where
  "build_agent_runtime sdk int_text c duration_ms anthropic_api_key claude_offer_model provider_key =
     map_sum id (\<lambda>a. \<lparr>at_primary = a, at_fallbacks = []\<rparr>)
       (build_adapter sdk int_text c duration_ms anthropic_api_key claude_offer_model provider_key)"

subsection \<open>The input snapshot\<close>

definition CURRENT_PROMPT_VERSION :: string where
  [simp, constant_simps]: "CURRENT_PROMPT_VERSION = ''offer-v1''"

record snapshot_version_context =
  vc_prompt_version :: string
  vc_catalog_version :: int
  vc_pricing_version :: int
  vc_model_id :: string
  vc_model_build :: string
  vc_built_at :: string

definition current_version_context :: "string \<Rightarrow> string \<Rightarrow> string \<Rightarrow> snapshot_version_context" where
  "current_version_context built_at model_id model_build =
     \<lparr>vc_prompt_version = CURRENT_PROMPT_VERSION, vc_catalog_version = 1, vc_pricing_version = 1,
      vc_model_id = model_id, vc_model_build = model_build, vc_built_at = built_at\<rparr>"

record input_snapshot =
  in_work_type_code :: string
  in_parameters :: json_obj
  in_photo_urls :: "string list"
  in_work_type_definition :: json_obj
  in_pricing_context :: json_obj
  in_version_context :: snapshot_version_context

text \<open>\<open>json.dumps(..., sort_keys=True)\<close>: the fields in the order of their names; \<open>sort_keys\<close> of the nested objects
  belongs to the codec.\<close>

definition version_context_json :: "snapshot_version_context \<Rightarrow> json" where
  "version_context_json v = JObj
     [(''built_at'', JStr (vc_built_at v)), (''catalog_version'', JInt (vc_catalog_version v)),
      (''model_build'', JStr (vc_model_build v)), (''model_id'', JStr (vc_model_id v)),
      (''pricing_version'', JInt (vc_pricing_version v)), (''prompt_version'', JStr (vc_prompt_version v))]"

definition snapshot_json :: "input_snapshot \<Rightarrow> json" where
  "snapshot_json s = JObj
     [(''parameters'', JObj (in_parameters s)), (''photo_urls'', JList (map JStr (in_photo_urls s))),
      (''pricing_context'', JObj (in_pricing_context s)),
      (''version_context'', version_context_json (in_version_context s)),
      (''work_type_code'', JStr (in_work_type_code s)),
      (''work_type_definition'', JObj (in_work_type_definition s))]"

definition snapshot_sha256 :: "(string \<Rightarrow> string) \<Rightarrow> json_codec \<Rightarrow> input_snapshot \<Rightarrow> string" where
  "snapshot_sha256 sha256 c s = sha256 (dumps c (snapshot_json s))"

definition build_input_snapshot ::
  "string \<Rightarrow> string \<Rightarrow> json_obj \<Rightarrow> string list \<Rightarrow> json_obj \<Rightarrow> json_obj \<Rightarrow> string \<Rightarrow> string \<Rightarrow> input_snapshot" where
  "build_input_snapshot built_at work_type_code parameters photo_presigned_urls work_type_definition pricing_context
      model_id model_build =
     \<lparr>in_work_type_code = work_type_code, in_parameters = parameters, in_photo_urls = photo_presigned_urls,
      in_work_type_definition = work_type_definition, in_pricing_context = pricing_context,
      in_version_context = current_version_context built_at model_id model_build\<rparr>"

subsection \<open>Properties\<close>

text \<open>The runtime falls back on transport errors only. Its answer is that of the first adapter that
  succeeds or fails for good, and when every adapter is unavailable or rate limited it is the last one's error.\<close>

theorem fallback_stops_at_first_final_answer:
  "agent_runtime_run rt request =
    (let answers = map (\<lambda>a. ad_complete a request) (at_primary rt # at_fallbacks rt) in
     case find (\<lambda>r. case r of Inl e \<Rightarrow> \<not> retryable_error e | Inr response \<Rightarrow> True) answers of
       Some r \<Rightarrow> r
     | None \<Rightarrow> last answers)"
proof -
  have "try_adapters as e request =
      (case find (\<lambda>r. case r of Inl e \<Rightarrow> \<not> retryable_error e | Inr response \<Rightarrow> True) (map (\<lambda>a. ad_complete a request) as) of
         Some r \<Rightarrow> r
       | None \<Rightarrow> if as = [] then Inl e else last (map (\<lambda>a. ad_complete a request) as))" for as e
    by (induction as arbitrary: e) (auto split: sum.split option.split)
  then show ?thesis by (simp only: agent_runtime_run_def Let_def list.simps if_False)
qed

text \<open>The mock provider and the validator fit: against a whitelist, the mock's answer passes exactly when
  the code it was asked about has 1 to 64 characters and, stripped and in lower case, is in the whitelist.\<close>

theorem mock_answer_passes_exactly_for_known_codes:
  "is_ok (validate_output num_text (Some known) (mock_offer_response req)) \<longleftrightarrow>
     1 \<le> length (pq_work_type_code req) \<and> length (pq_work_type_code req) \<le> 64 \<and>
     py_lower (py_strip (pq_work_type_code req)) \<in> set known"
proof -
  let ?code = "pq_work_type_code req"
  have outcome: "map_of (mock_offer_response req) ''outcome'' = Some (JStr ''offer_generated'')"
    by (simp add: mock_offer_response_def)
  have item: "raw_measurement_output num_text (mock_offer_response req) =
    (if 1 \<le> length ?code \<and> length ?code \<le> 64 then Some
       \<lparr>mo_outcome = ''offer_generated'', mo_measurements = [\<lparr>mi_work_type_code = py_lower (py_strip ?code),
          mi_quantity = Dec 10 1, mi_unit = ''ks'', mi_surface_condition = ''requires_attention'',
          mi_recommended_scope = ''local_repair'', mi_description = ''Mock measurement: '' @ ?code,
          mi_confidence = Dec 95 2\<rparr>], mo_overall_confidence = Dec 95 2, mo_warnings = []\<rparr> else None)"
    by (simp add: raw_measurement_output_def mock_offer_response_def outcome_field_def list_field_def text_item_def
        raw_measurement_item_def str_field_def float_field_def lax_float_def quantity_ok_def unit_interval_def)
  show ?thesis
    by (auto simp: validate_output_def outcome validate_measurements_def item unknown_codes_def
        ALLOWED_SURFACE_CONDITIONS_def ALLOWED_SCOPES_def)
qed

end
