(* ===== verification/Offer_Runner.thy ===== *)
theory Offer_Runner
  imports Offer_Store Offer_Queue Offer_Provider
begin

section \<open>The offer worker\<close>

text \<open>
  Models \<open>OfferJobProcessor\<close> of \<open>app/worker/offer_runner.py\<close>. Each \<open>async with WorkerAsyncSessionFactory()\<close>
  is one transaction on the database. Between them other processes commit: \<open>ev_others k\<close> is what they did to the
  database before the \<open>k\<close>-th transaction of the job (\<open>0\<close> start, \<open>1\<close> budget, \<open>2\<close> agent run, \<open>3\<close> release or
  rejected answer, \<open>4\<close> result, \<open>5\<close> recorded budget, \<open>6\<close> failure). Log lines and timings are left out.
\<close>

record catalog_row =
  ct_code :: string
  ct_name :: string
  ct_name_cs :: "string option"

record photo_row =
  ph_id :: string
  ph_organization_id :: string
  ph_status :: string
  ph_storage_key :: string

record runner_env =
  ev_now :: "nat \<Rightarrow> time"
  ev_uuid :: "nat \<Rightarrow> string"
  ev_others :: "nat \<Rightarrow> offer_db \<Rightarrow> offer_db"
  ev_catalog :: "catalog_row list option"
  ev_photos :: "string \<Rightarrow> photo_row list option"
  ev_presign :: "string \<Rightarrow> string option"
  ev_codec :: json_codec
  ev_sha256 :: "string \<Rightarrow> string"
  ev_built_at :: string
  ev_num_text :: "string \<Rightarrow> dec option"
  ev_issue_text :: "validation_issue \<Rightarrow> string"

definition LEASE_DURATION_S :: int where
  [simp, constant_simps]: "LEASE_DURATION_S = 300"

text \<open>What can end \<open>run\<close> with an exception: \<open>BackoffIndexError\<close> is an attempt below \<open>-2\<close>.\<close>

datatype run_exception =
    RunDbError db_error
  | RunProviderException string
  | RunQueueError offer_queue_error
  | BackoffIndexError

subsection \<open>Inputs\<close>

definition get_work_type_by_code :: "string \<Rightarrow> catalog_row list \<Rightarrow> catalog_row option" where
  "get_work_type_by_code code rows = select_one (\<lambda>w. ct_code w = code) rows"

definition get_photo_by_id_in_org :: "string \<Rightarrow> string \<Rightarrow> photo_row list \<Rightarrow> photo_row option" where
  "get_photo_by_id_in_org photo_id org rows =
     select_one (\<lambda>p. ph_id p = photo_id \<and> ph_status p = ''active'' \<and> ph_organization_id p = org) rows"

text \<open>\<open>ev_catalog\<close> and \<open>ev_photos\<close> are the tables, or \<open>None\<close> when the query raises; \<open>ev_presign\<close> likewise.\<close>

definition work_type_def_of :: "catalog_row option \<Rightarrow> json_obj" where
  "work_type_def_of work_type =
    (case work_type of
       None \<Rightarrow> []
     | Some w \<Rightarrow> [(''code'', JStr (ct_code w)),
                  (''name'', JStr (case ct_name_cs w of None \<Rightarrow> ct_name w | Some n \<Rightarrow> if n = [] then ct_name w else n))])"

definition photo_url_of :: "runner_env \<Rightarrow> string \<Rightarrow> string \<Rightarrow> string option" where
  "photo_url_of env org photo_id =
    (case ev_photos env photo_id of
       None \<Rightarrow> None
     | Some rows \<Rightarrow>
         (case get_photo_by_id_in_org photo_id org rows of
            None \<Rightarrow> None
          | Some photo \<Rightarrow> if ph_storage_key photo = [] then None else ev_presign env (ph_storage_key photo)))"

definition unresolved_text :: string where
  "unresolved_text =
     ''Work-type catalog resolution failed; refusing to validate AI output without a whitelist.''"

definition resolve_ai_inputs :: "runner_env \<Rightarrow> offer_payload \<Rightarrow> string + (string list \<times> json_obj \<times> string list)" where
  "resolve_ai_inputs env p =
    (case ev_catalog env of
       None \<Rightarrow> Inl unresolved_text
     | Some rows \<Rightarrow>
         Inr (List.map_filter (photo_url_of env (op_organization_id p)) (op_photo_ids p),
              work_type_def_of (get_work_type_by_code (op_work_type_code p) rows), map ct_code rows))"

subsection \<open>Phase 1: start\<close>

definition offer_event :: "runner_env \<Rightarrow> nat \<Rightarrow> offer_payload \<Rightarrow> string \<Rightarrow> json_obj option \<Rightarrow> outbox_event" where
  "offer_event env i p status extra =
     build_offer_status_changed_event (ev_uuid env i) 0 (ev_now env i) (op_offer_request_id p) (op_organization_id p)
       (Some (op_job_id p)) status extra"

text \<open>The lease version, the prior error code and its repeat count.\<close>

definition start_job ::
  "runner_env \<Rightarrow> string \<Rightarrow> offer_payload \<Rightarrow> offer_db \<Rightarrow> db_error + (offer_db \<times> int \<times> string option \<times> int)" where
  "start_job env worker_id p db =
    (let s = open_session db;
         job = get_offer_job s (op_job_id p);
         prior_error_code = (case job of None \<Rightarrow> None | Some j \<Rightarrow> jb_last_error_code j);
         prior_error_repeat = (case job of None \<Rightarrow> 0 | Some j \<Rightarrow> jb_error_repeat_count j)
     in bind_res (mark_job_running (ev_now env 0) (op_job_id p) worker_id (ev_now env 0 + seconds LEASE_DURATION_S) s)
        (\<lambda>(s1, lease_version).
        bind_res (update_offer_status (ev_now env 0) (op_offer_request_id p) OFFER_STATUS_PROCESSING no_values s1) (\<lambda>s2.
        bind_res (commit (add_event (offer_event env 0 p OFFER_STATUS_PROCESSING None) s2)) (\<lambda>db'.
        Inr (db', lease_version, prior_error_code, prior_error_repeat)))))"

subsection \<open>Budget\<close>

text \<open>The reservation, in its own transaction: whether it was made. Its row has a foreign key to the job.\<close>

definition reserve_budget :: "runner_env \<Rightarrow> offer_payload \<Rightarrow> offer_db \<Rightarrow> db_error + (offer_db \<times> bool)" where
  "reserve_budget env p db =
    (case reserve (\<lambda>i. ev_uuid env (10 + i)) (ev_now env 1) (op_organization_id p) (op_job_id p)
            DEFAULT_TOKEN_ESTIMATE (of_budget db) of
       (b, Inl (BudgetExhaustedError org)) \<Rightarrow> Inr (db, False)
     | (b, Inr u) \<Rightarrow> if op_job_id p \<in> jb_id ` set (of_jobs db) then Inr (db\<lparr>of_budget := b\<rparr>, True) else Inl IntegrityError)"

definition release_budget :: "runner_env \<Rightarrow> offer_payload \<Rightarrow> bool \<Rightarrow> offer_db \<Rightarrow> offer_db" where
  "release_budget env p budget_reserved db =
    (if \<not> budget_reserved then db else on_budget (release (ev_now env 3) (op_organization_id p) (op_job_id p)) db)"

definition record_budget :: "runner_env \<Rightarrow> offer_payload \<Rightarrow> int \<Rightarrow> bool \<Rightarrow> offer_db \<Rightarrow> offer_db" where
  "record_budget env p actual_tokens budget_reserved db =
    (if \<not> budget_reserved then db
     else on_budget (record_actual (ev_now env 5) (op_organization_id p) (op_job_id p) DEFAULT_TOKEN_ESTIMATE
            actual_tokens (estimate_cost_usd actual_tokens)) db)"

subsection \<open>Failure\<close>

definition poison_text :: "int \<Rightarrow> string \<Rightarrow> string \<Rightarrow> string" where
  "poison_text new_error_repeat error_code error_detail =
     ''[POISON:'' @ str_int new_error_repeat @ ''x '' @ error_code @ ''] '' @ error_detail"

definition next_error_repeat :: "string option \<Rightarrow> int \<Rightarrow> string \<Rightarrow> int" where
  "next_error_repeat prior_error_code prior_error_repeat error_code =
    (if prior_error_code = Some error_code then prior_error_repeat + 1 else 1)"

definition failure_values :: "string \<Rightarrow> string \<Rightarrow> string \<Rightarrow> int \<Rightarrow> int \<Rightarrow> time option \<Rightarrow> job_values" where
  "failure_values status error_code error_detail retry_count new_error_repeat next_retry_at =
     \<lparr>jv_status = status, jv_last_error_code = Some error_code, jv_last_error_detail = Some (take 1000 error_detail),
      jv_retry_count = Some retry_count, jv_error_repeat_count = Some new_error_repeat,
      jv_next_retry_at = next_retry_at, jv_completed_at = None\<rparr>"

definition lift_run :: "db_error + 'a \<Rightarrow> run_exception + 'a" where
  "lift_run r = map_sum RunDbError id r"

definition requeue_failed_job :: "runner_env \<Rightarrow> offer_payload \<Rightarrow> int \<Rightarrow> job_values \<Rightarrow> offer_db \<Rightarrow> run_exception + offer_db" where
  "requeue_failed_job env p lease_version values db =
     bind_res (lift_run (update_job_status_fenced (op_job_id p) lease_version values (open_session db))) (\<lambda>(s1, owned).
     bind_res (lift_run (if owned
         then update_offer_status (ev_now env 6) (op_offer_request_id p) OFFER_STATUS_QUEUED no_values s1
         else Inr s1)) (\<lambda>s2.
     lift_run (commit s2)))"

definition fail_job_for_good ::
  "runner_env \<Rightarrow> offer_payload \<Rightarrow> int \<Rightarrow> job_values \<Rightarrow> json_obj \<Rightarrow> offer_db \<Rightarrow> run_exception + offer_db" where
  "fail_job_for_good env p lease_version values extra db =
     bind_res (lift_run (update_job_status_fenced (op_job_id p) lease_version values (open_session db))) (\<lambda>(s1, owned).
     bind_res (lift_run (if owned
         then map_sum id (add_event (offer_event env 6 p OFFER_STATUS_FAILED (Some extra)))
                (update_offer_status (ev_now env 6) (op_offer_request_id p) OFFER_STATUS_FAILED no_values s1)
         else Inr s1)) (\<lambda>s2.
     lift_run (commit s2)))"

text \<open>The arguments of a failure: code, detail and whether it may be retried.\<close>

definition fail_job ::
  "runner_env \<Rightarrow> offer_payload \<Rightarrow> string \<Rightarrow> string \<Rightarrow> bool \<Rightarrow> int \<Rightarrow> string option \<Rightarrow> int \<Rightarrow> offer_db \<Rightarrow> run_exception + offer_db" where
  "fail_job env p error_code error_detail retryable lease_version prior_error_code prior_error_repeat db =
    (let job = get_offer_job (open_session db) (op_job_id p);
         max_retries = (case job of None \<Rightarrow> 3 | Some j \<Rightarrow> jb_max_retries j);
         retry_count = (case job of None \<Rightarrow> 1 | Some j \<Rightarrow> jb_retry_count j + 1);
         prior_code = (if prior_error_code = None then (case job of None \<Rightarrow> None | Some j \<Rightarrow> jb_last_error_code j)
                       else prior_error_code);
         prior_repeat = (if prior_error_code = None then (case job of None \<Rightarrow> 0 | Some j \<Rightarrow> jb_error_repeat_count j)
                         else prior_error_repeat);
         new_error_repeat = next_error_repeat prior_code prior_repeat error_code;
         is_poison = (retryable \<and> new_error_repeat \<ge> POISON_THRESHOLD);
         detail = (if is_poison then poison_text new_error_repeat error_code error_detail else error_detail)
     in if retryable \<and> \<not> is_poison \<and> retry_count < max_retries then
          (case backoff_delay (op_attempt p) of
             None \<Rightarrow> Inl BackoffIndexError
           | Some delay_s \<Rightarrow>
               requeue_failed_job env p lease_version (failure_values OFFER_STATUS_QUEUED error_code detail retry_count
                 new_error_repeat (Some (ev_now env 6 + seconds delay_s))) db)
        else
          fail_job_for_good env p lease_version
            (failure_values JOB_STATUS_FAILED error_code detail retry_count new_error_repeat None)
            [(''error_code'', JStr error_code), (''poison'', JBool is_poison),
             (''error_repeat_count'', JInt new_error_repeat)] db)"

subsection \<open>Phase 2: the AI call\<close>

datatype phase2_stop = InputsUnresolved string | ProviderFailed provider_error | RunNotCreated db_error

definition provider_request_of :: "offer_payload \<Rightarrow> string list \<Rightarrow> json_obj \<Rightarrow> provider_request" where
  "provider_request_of p photo_urls work_type_def =
     \<lparr>pq_work_type_code = op_work_type_code p, pq_parameters = op_parameters p, pq_photo_urls = photo_urls,
      pq_work_type_definition = work_type_def, pq_pricing_context = [], pq_prompt_version = ''offer-v2''\<rparr>"

definition insert_agent_run ::
  "runner_env \<Rightarrow> agent_runtime \<Rightarrow> offer_payload \<Rightarrow> input_snapshot \<Rightarrow> offer_db \<Rightarrow> db_error + (offer_db \<times> string)" where
  "insert_agent_run env rt p snapshot db =
    (case create_agent_run (ev_uuid env 2) (op_job_id p) (op_offer_request_id p) (op_organization_id p)
            (ad_key (at_primary rt)) (Some (snapshot_sha256 (ev_sha256 env) (ev_codec env) snapshot))
            (Some (ad_model_id (at_primary rt))) (open_session db) of
       (s, agent_run) \<Rightarrow> bind_res (commit s) (\<lambda>db'. Inr (db', ar_id agent_run)))"

definition ai_call ::
  "runner_env \<Rightarrow> agent_runtime \<Rightarrow> offer_payload \<Rightarrow> offer_db
    \<Rightarrow> offer_db \<times> (phase2_stop + (string \<times> string list \<times> provider_response))" where
  "ai_call env rt p db =
    (case resolve_ai_inputs env p of
       Inl m \<Rightarrow> (db, Inl (InputsUnresolved m))
     | Inr (photo_urls, work_type_def, known_codes) \<Rightarrow>
         let snapshot = build_input_snapshot (ev_built_at env) (op_work_type_code p) (op_parameters p) photo_urls
                          work_type_def [] (ad_model_id (at_primary rt)) (ad_model_id (at_primary rt));
             db2 = ev_others env 2 db
         in (case insert_agent_run env rt p snapshot db2 of
               Inl e \<Rightarrow> (db2, Inl (RunNotCreated e))
             | Inr (db3, run_id) \<Rightarrow>
                 (case agent_runtime_run rt (provider_request_of p photo_urls work_type_def) of
                    Inl e \<Rightarrow> (db3, Inl (ProviderFailed e))
                  | Inr response \<Rightarrow> (db3, Inr (run_id, known_codes, response)))))"

subsection \<open>Phase 3: the result\<close>

definition total_tokens :: "provider_response \<Rightarrow> int" where
  "total_tokens response = pr_prompt_tokens response + pr_completion_tokens response"

text \<open>\<open>str\<close> of a nonnegative quantity of \<open>k\<close> places, which is how \<open>model_dump\<close> in JSON mode writes a \<open>Decimal\<close>.\<close>

fun dec_text :: "dec \<Rightarrow> string" where
  "dec_text (Dec m k) =
    (if k = 0 then str_int m
     else let frac = str_int (m mod 10 ^ k)
          in str_int (m div 10 ^ k) @ ''.'' @ replicate (k - length frac) (CHR ''0'') @ frac)"

definition item_json :: "measurement_item \<Rightarrow> json" where
  "item_json x = JObj
     [(''work_type_code'', JStr (mi_work_type_code x)), (''quantity'', JStr (dec_text (mi_quantity x))),
      (''unit'', JStr (mi_unit x)), (''surface_condition'', JStr (mi_surface_condition x)),
      (''recommended_scope'', JStr (mi_recommended_scope x)), (''description'', JStr (mi_description x)),
      (''confidence'', JFloat (mi_confidence x))]"

definition questions_json :: "string list \<Rightarrow> json_obj" where
  "questions_json questions = [(''questions'', JList (map JStr questions))]"

definition measurements_json :: "measurement_output \<Rightarrow> json_obj" where
  "measurements_json m =
     [(''measurements'', JList (map item_json (mo_measurements m))),
      (''overall_confidence'', JFloat (mo_overall_confidence m)),
      (''warnings'', JList (map JStr (mo_warnings m))), (''pricing_status'', JStr ''pending'')]"

definition completed_run_values :: "runner_env \<Rightarrow> dequeued_offer_job \<Rightarrow> string \<Rightarrow> json_obj \<Rightarrow> provider_response \<Rightarrow> run_values" where
  "completed_run_values env d outcome parsed response =
     \<lparr>rn_status = JOB_STATUS_COMPLETED, rn_outcome = Some outcome,
      rn_prompt_tokens = Some (pr_prompt_tokens response), rn_completion_tokens = Some (pr_completion_tokens response),
      rn_estimated_cost_usd = Some (estimate_cost_usd (total_tokens response)),
      rn_raw_output = Some (JObj (pr_raw_output response)), rn_parsed_output = Some (JObj parsed),
      rn_validation_errors = None, rn_started_at = Some (dq_leased_at d), rn_completed_at = Some (ev_now env 4)\<rparr>"

definition completed_job_values :: "runner_env \<Rightarrow> job_values" where
  "completed_job_values env = (job_status_values JOB_STATUS_COMPLETED)\<lparr>jv_completed_at := Some (ev_now env 4)\<rparr>"

definition handle_needs_more_info ::
  "runner_env \<Rightarrow> dequeued_offer_job \<Rightarrow> string \<Rightarrow> provider_response \<Rightarrow> string list \<Rightarrow> int \<Rightarrow> offer_session
    \<Rightarrow> db_error + (offer_session \<times> bool)" where
  "handle_needs_more_info env d run_id response questions lease_version s =
    (let p = dq_payload d in
     bind_res (update_agent_run run_id (completed_run_values env d AGENT_OUTCOME_INSUFFICIENT_DATA
        (questions_json questions) response) s) (\<lambda>s1.
     bind_res (update_job_status_fenced (op_job_id p) lease_version (completed_job_values env) s1) (\<lambda>(s2, owned).
     if \<not> owned then Inr (s2, False)
     else bind_res (update_offer_status (ev_now env 4) (op_offer_request_id p) OFFER_STATUS_NEEDS_MORE_INFO
            (no_values\<lparr>ov_needs_more_info_payload := Some (JObj (questions_json questions))\<rparr>) s2) (\<lambda>s3.
          Inr (add_event (offer_event env 4 p OFFER_STATUS_NEEDS_MORE_INFO (Some (questions_json questions))) s3, True)))))"

definition handle_offer_generated ::
  "runner_env \<Rightarrow> dequeued_offer_job \<Rightarrow> string \<Rightarrow> provider_response \<Rightarrow> measurement_output \<Rightarrow> int \<Rightarrow> offer_session
    \<Rightarrow> db_error + (offer_session \<times> bool)" where
  "handle_offer_generated env d run_id response m lease_version s =
    (let p = dq_payload d in
     bind_res (update_agent_run run_id (completed_run_values env d AGENT_OUTCOME_OFFER_GENERATED
        (measurements_json m) response) s) (\<lambda>s1.
     bind_res (update_job_status_fenced (op_job_id p) lease_version (completed_job_values env) s1) (\<lambda>(s2, owned).
     if \<not> owned then Inr (s2, False)
     else bind_res (update_offer_status (ev_now env 4) (op_offer_request_id p) OFFER_STATUS_NEEDS_REVIEW
            (no_values\<lparr>ov_result_ready_at := Some (ev_now env 4)\<rparr>) s2) (\<lambda>s3.
          Inr (add_event (offer_event env 4 p OFFER_STATUS_NEEDS_REVIEW None) s3, True)))))"

definition handle_validated ::
  "runner_env \<Rightarrow> dequeued_offer_job \<Rightarrow> string \<Rightarrow> provider_response \<Rightarrow> validated \<Rightarrow> int \<Rightarrow> offer_session
    \<Rightarrow> db_error + (offer_session \<times> bool)" where
  "handle_validated env d run_id response v lease_version s =
    (case v of
       InsufficientDataResult outcome questions \<Rightarrow> handle_needs_more_info env d run_id response questions lease_version s
     | ValidatedMeasurements m \<Rightarrow> handle_offer_generated env d run_id response m lease_version s)"

text \<open>The session of the result: when the lease is lost it is closed without a commit, and the tokens are
  recorded in another one. The flag says whether the result was stored.\<close>

definition persist_result ::
  "runner_env \<Rightarrow> dequeued_offer_job \<Rightarrow> string \<Rightarrow> provider_response \<Rightarrow> validated \<Rightarrow> int \<Rightarrow> offer_db \<Rightarrow> db_error + (offer_db \<times> bool)" where
  "persist_result env d run_id response v lease_version db =
     bind_res (handle_validated env d run_id response v lease_version (open_session db)) (\<lambda>(s, owned).
       if \<not> owned then Inr (record_budget env (dq_payload d) (total_tokens response) True (ev_others env 5 db), False)
       else bind_res (commit (s\<lparr>ss_db := record_budget env (dq_payload d) (total_tokens response) True (ss_db s)\<rparr>)) (\<lambda>db'.
         Inr (db', True)))"

definition rejected_run_values :: "runner_env \<Rightarrow> provider_response \<Rightarrow> string list \<Rightarrow> run_values" where
  "rejected_run_values env response errors =
     \<lparr>rn_status = ''failed'', rn_outcome = Some ''validation_error'',
      rn_prompt_tokens = Some (pr_prompt_tokens response), rn_completion_tokens = Some (pr_completion_tokens response),
      rn_estimated_cost_usd = None, rn_raw_output = Some (JObj (pr_raw_output response)), rn_parsed_output = None,
      rn_validation_errors = Some errors, rn_started_at = None, rn_completed_at = Some (ev_now env 3)\<rparr>"

definition store_rejected_run :: "runner_env \<Rightarrow> string \<Rightarrow> provider_response \<Rightarrow> string list \<Rightarrow> offer_db \<Rightarrow> db_error + offer_db" where
  "store_rejected_run env run_id response errors db =
     bind_res (update_agent_run run_id (rejected_run_values env response errors) (open_session db)) commit"

fun join_semicolon :: "string list \<Rightarrow> string" where
  "join_semicolon [] = []"
| "join_semicolon [x] = x"
| "join_semicolon (x # y # xs) = x @ ''; '' @ join_semicolon (y # xs)"

subsection \<open>The whole job\<close>

type_synonym run_state = "offer_db \<times> offer_queue"

text \<open>The failure handler as the last step of a job: its exception leaves the database as it found it.\<close>

definition then_fail ::
  "runner_env \<Rightarrow> offer_payload \<Rightarrow> int \<times> string option \<times> int \<Rightarrow> string \<Rightarrow> string \<Rightarrow> bool \<Rightarrow> run_state
    \<Rightarrow> run_state \<times> (run_exception + unit)" where
  "then_fail env p phase1 error_code error_detail retryable st =
    (case (phase1, st) of
       ((lease_version, prior_error_code, prior_error_repeat), (db, q)) \<Rightarrow>
         let db1 = ev_others env 6 db
         in (case fail_job env p error_code error_detail retryable lease_version prior_error_code prior_error_repeat db1 of
               Inl e \<Rightarrow> ((db1, q), Inl e)
             | Inr db2 \<Rightarrow> ((db2, q), Inr ())))"

definition stop_job ::
  "runner_env \<Rightarrow> offer_payload \<Rightarrow> int \<times> string option \<times> int \<Rightarrow> phase2_stop \<Rightarrow> run_state
    \<Rightarrow> run_state \<times> (run_exception + unit)" where
  "stop_job env p phase1 stop st =
    (let released = (release_budget env p True (ev_others env 3 (fst st)), snd st) in
     case stop of
       InputsUnresolved m \<Rightarrow> then_fail env p phase1 ERROR_SNAPSHOT_BUILD_FAILED m True released
     | ProviderFailed (ProviderRateLimitedError m retry_after) \<Rightarrow>
         then_fail env p phase1 ERROR_PROVIDER_RATE_LIMITED m True released
     | ProviderFailed (ProviderUnavailableError m) \<Rightarrow> then_fail env p phase1 ERROR_PROVIDER_UNAVAILABLE m True released
     | ProviderFailed (ProviderRequestError m) \<Rightarrow> then_fail env p phase1 ERROR_UNKNOWN m False released
     | ProviderFailed (OtherException m) \<Rightarrow> (st, Inl (RunProviderException m))
     | RunNotCreated e \<Rightarrow> (st, Inl (RunDbError e)))"

definition reject_answer ::
  "runner_env \<Rightarrow> offer_payload \<Rightarrow> int \<times> string option \<times> int \<Rightarrow> string \<Rightarrow> provider_response \<Rightarrow> string list \<Rightarrow> run_state
    \<Rightarrow> run_state \<times> (run_exception + unit)" where
  "reject_answer env p phase1 run_id response errors st =
    (case st of (db, q) \<Rightarrow>
       let db1 = ev_others env 3 db
       in (case store_rejected_run env run_id response errors db1 of
             Inl e \<Rightarrow> ((db1, q), Inl (RunDbError e))
           | Inr db2 \<Rightarrow>
               then_fail env p phase1 ERROR_VALIDATION_FAILED (join_semicolon errors) False
                 (record_budget env p (total_tokens response) True (ev_others env 5 db2), q)))"

definition finish_job ::
  "runner_env \<Rightarrow> string \<Rightarrow> dequeued_offer_job \<Rightarrow> int \<Rightarrow> string \<Rightarrow> provider_response \<Rightarrow> validated \<Rightarrow> run_state
    \<Rightarrow> run_state \<times> (run_exception + unit)" where
  "finish_job env worker_id d lease_version run_id response v st =
    (case st of (db, q) \<Rightarrow>
       let db1 = ev_others env 4 db
       in (case persist_result env d run_id response v lease_version db1 of
             Inl e \<Rightarrow> ((db1, q), Inl (RunDbError e))
           | Inr (db2, stored) \<Rightarrow>
               if \<not> stored then ((db2, q), Inr ())
               else (case ack_offer_job (dq_lease_token d) worker_id q of (q', r) \<Rightarrow> ((db2, q'), map_sum RunQueueError id r))))"

definition run ::
  "runner_env \<Rightarrow> string \<Rightarrow> agent_runtime \<Rightarrow> dequeued_offer_job \<Rightarrow> run_state \<Rightarrow> run_state \<times> (run_exception + unit)" where
  "run env worker_id rt d st =
    (case st of (db, q) \<Rightarrow>
       let p = dq_payload d; db0 = ev_others env 0 db
       in (case start_job env worker_id p db0 of
             Inl e \<Rightarrow> ((db0, q), Inl (RunDbError e))
           | Inr (db1, phase1) \<Rightarrow>
               let db2 = ev_others env 1 db1
               in (case reserve_budget env p db2 of
                     Inl e \<Rightarrow> ((db2, q), Inl (RunDbError e))
                   | Inr (db3, reserved) \<Rightarrow>
                       if \<not> reserved
                       then then_fail env p phase1 ERROR_BUDGET_EXHAUSTED ''Daily AI budget exhausted.'' False (db3, q)
                       else
                         (case ai_call env rt p db3 of
                            (db4, Inl stop) \<Rightarrow> stop_job env p phase1 stop (db4, q)
                          | (db4, Inr (run_id, known_codes, response)) \<Rightarrow>
                              (case validate_output (ev_num_text env) (Some known_codes) (pr_raw_output response) of
                                 Inl (OfferValidationError issues) \<Rightarrow>
                                   reject_answer env p phase1 run_id response (map (ev_issue_text env) issues) (db4, q)
                               | Inr v \<Rightarrow> finish_job env worker_id d (fst phase1) run_id response v (db4, q))))))"

text \<open>One turn of the worker's loop; an exception of \<open>run\<close> is logged and the loop goes on.\<close>

definition worker_turn ::
  "(string \<Rightarrow> int option) \<Rightarrow> offer_clock \<Rightarrow> runner_env \<Rightarrow> string \<Rightarrow> agent_runtime \<Rightarrow> run_state \<Rightarrow> run_state" where
  "worker_turn int_text clock env worker_id rt st =
    (case st of (db, q) \<Rightarrow>
       (case dequeue_offer_job int_text (ev_codec env) clock worker_id 10 q of
          (q', None) \<Rightarrow> (db, q')
        | (q', Some d) \<Rightarrow> fst (run env worker_id rt d (db, q'))))"

subsection \<open>What the transactions do\<close>

lemma mark_running_fields [simp]:
  "jb_id (mark_running now w u j) = jb_id j" "jb_status (mark_running now w u j) = ''running''"
  "jb_lease_version (mark_running now w u j) = jb_lease_version j + 1"
  "jb_retry_count (mark_running now w u j) = jb_retry_count j" "jb_max_retries (mark_running now w u j) = jb_max_retries j"
  "jb_last_error_code (mark_running now w u j) = jb_last_error_code j"
  "jb_error_repeat_count (mark_running now w u j) = jb_error_repeat_count j"
  by (simp_all add: mark_running_def)

text \<open>The database after phase 1.\<close>

lemma start_job_Inr:
  assumes "start_job env w p db = Inr (db', lv, code, reps)"
  shows "of_requests db' = update_where (\<lambda>r. rq_id r = op_offer_request_id p)
      (set_offer_status (ev_now env 0) OFFER_STATUS_PROCESSING no_values) (of_requests db)"
    and "of_jobs db' = update_where (\<lambda>j. jb_id j = op_job_id p)
      (mark_running (ev_now env 0) w (ev_now env 0 + seconds LEASE_DURATION_S)) (of_jobs db)"
    and "of_runs db' = of_runs db" "of_budget db' = of_budget db"
    and "of_outbox db' = of_outbox db @ [(offer_event env 0 p OFFER_STATUS_PROCESSING None)\<lparr>ob_seq := of_next_seq db\<rparr>]"
    and "lv = (case select_one (\<lambda>j. jb_id j = op_job_id p) (of_jobs db') of None \<Rightarrow> 1 | Some j \<Rightarrow> jb_lease_version j)"
    and "code = (case select_one (\<lambda>j. jb_id j = op_job_id p) (of_jobs db) of None \<Rightarrow> None | Some j \<Rightarrow> jb_last_error_code j)"
    and "reps = (case select_one (\<lambda>j. jb_id j = op_job_id p) (of_jobs db) of None \<Rightarrow> 0 | Some j \<Rightarrow> jb_error_repeat_count j)"
    and "offer_constraints db'"
  using assms
  by (auto simp: start_job_def Let_def bind_res_eq_Inr mark_job_running_def update_offer_status_def commit_Inr
      insert_pending_def add_event_def get_offer_job_def open_session_def execute_eq_Inr)

lemma started_lease:
  assumes "start_job env w p db = Inr (db', lv, code, reps)" "j \<in> set (of_jobs db)" "jb_id j = op_job_id p"
  shows "list_ex (holds_lease (op_job_id p) lv) (of_jobs db')"
    and "select_one (\<lambda>x. jb_id x = op_job_id p) (of_jobs db') =
      Some (mark_running (ev_now env 0) w (ev_now env 0 + seconds LEASE_DURATION_S) j)"
    and "lv = jb_lease_version j + 1" "code = jb_last_error_code j" "reps = jb_error_repeat_count j"
proof -
  note s = start_job_Inr [OF assms(1)]
  let ?j = "mark_running (ev_now env 0) w (ev_now env 0 + seconds LEASE_DURATION_S) j"
  have "keyed jb_id (of_jobs db')" using s(9) by (rule offer_constraints_keys)
  then have "keyed jb_id (of_jobs db)" by (simp add: s(2) keyed_update_where)
  from keyed_select_one [OF this assms(2)] assms(3)
  have j: "select_one (\<lambda>x. jb_id x = op_job_id p) (of_jobs db) = Some j" by simp
  from update_where_key_select [OF \<open>keyed jb_id (of_jobs db)\<close> j]
  show j': "select_one (\<lambda>x. jb_id x = op_job_id p) (of_jobs db') = Some ?j" by (simp add: s(2))
  then show "lv = jb_lease_version j + 1" "code = jb_last_error_code j" "reps = jb_error_repeat_count j"
    by (simp_all add: s(6-8) j)
  with select_one_Some [OF j'] show "list_ex (holds_lease (op_job_id p) lv) (of_jobs db')"
    by (auto simp: list_ex_iff holds_lease_def intro!: bexI [of _ ?j])
qed

lemma reserve_budget_rows:
  assumes "reserve_budget env p db = Inr (db', b)"
  shows "of_requests db' = of_requests db" "of_jobs db' = of_jobs db" "of_runs db' = of_runs db"
    "of_outbox db' = of_outbox db" "of_next_seq db' = of_next_seq db"
proof -
  obtain bud r where r: "reserve (\<lambda>i. ev_uuid env (10 + i)) (ev_now env 1) (op_organization_id p) (op_job_id p)
      DEFAULT_TOKEN_ESTIMATE (of_budget db) = (bud, r)" by (cases rule: prod.exhaust)
  have "\<exists>b'. db' = db\<lparr>of_budget := b'\<rparr>"
  proof (cases r)
    case (Inl e)
    with assms have "db' = db" unfolding reserve_budget_def r by (cases e) simp
    then have "db' = db\<lparr>of_budget := of_budget db\<rparr>" by simp
    then show ?thesis by (rule exI)
  next
    case (Inr u)
    with assms have "db' = db\<lparr>of_budget := bud\<rparr>" unfolding reserve_budget_def r by (simp split: if_splits)
    then show ?thesis by (rule exI)
  qed
  then show "of_requests db' = of_requests db" "of_jobs db' = of_jobs db" "of_runs db' = of_runs db"
      "of_outbox db' = of_outbox db" "of_next_seq db' = of_next_seq db"
    by auto
qed

lemma offer_constraints_budget [simp]: "offer_constraints (db\<lparr>of_budget := b\<rparr>) = offer_constraints db"
  by (simp add: offer_constraints_def)

lemma record_budget_rows [simp]:
  "of_requests (record_budget env p t b db) = of_requests db" "of_jobs (record_budget env p t b db) = of_jobs db"
  "of_runs (record_budget env p t b db) = of_runs db" "of_outbox (record_budget env p t b db) = of_outbox db"
  "of_next_seq (record_budget env p t b db) = of_next_seq db"
  "offer_constraints (record_budget env p t b db) = offer_constraints db"
  by (simp_all add: record_budget_def on_budget_def)

lemma insert_agent_run_Inr:
  assumes "insert_agent_run env rt p snapshot db = Inr (db', run_id)"
  shows "of_requests db' = of_requests db" "of_jobs db' = of_jobs db" "of_budget db' = of_budget db"
    "of_outbox db' = of_outbox db" "run_id \<in> ar_id ` set (of_runs db')" "offer_constraints db'"
    "\<exists>a. of_runs db' = of_runs db @ [a] \<and> ar_id a = run_id \<and> ar_offer_job_id a = op_job_id p"
  using assms
  by (auto simp: insert_agent_run_def create_agent_run_def Let_def bind_res_eq_Inr commit_Inr insert_pending_def)

subsection \<open>A worker that lost its lease\<close>

lemma update_fenced_lost:
  assumes "offer_constraints (ss_db s)" "\<not> list_ex (holds_lease job lv) (of_jobs (ss_db s))"
  shows "update_job_status_fenced job lv v s = Inr (s, False)"
proof -
  have "update_where (holds_lease job lv) (set_job_values v) (of_jobs (ss_db s)) = of_jobs (ss_db s)"
    using assms(2) by (intro update_where_none) (auto simp: list_ex_iff)
  with assms show ?thesis by (simp add: update_job_status_fenced_def execute_def checked_def)
qed

lemma set_run_values_fields [simp]:
  "ar_id (set_run_values v a) = ar_id a" "ar_offer_job_id (set_run_values v a) = ar_offer_job_id a"
  "ar_status (set_run_values v a) = rn_status v" "ar_outcome (set_run_values v a) = or_else (rn_outcome v) (ar_outcome a)"
  by (simp_all add: set_run_values_def)

text \<open>An update with an allowed status and outcome keeps the constraints; any other outcome breaks the CHECK.\<close>

lemma update_agent_run_allowed:
  assumes "offer_constraints (ss_db s)" "rn_status v \<in> set run_statuses" "rn_outcome v = Some out"
  shows "update_agent_run run_id v s =
    (if out \<in> set run_outcomes \<or> run_id \<notin> ar_id ` set (of_runs (ss_db s))
     then Inr (s\<lparr>ss_db := (ss_db s)\<lparr>of_runs := update_where (\<lambda>a. ar_id a = run_id) (set_run_values v) (of_runs (ss_db s))\<rparr>\<rparr>)
     else Inl IntegrityError)"
proof -
  let ?runs = "update_where (\<lambda>a. ar_id a = run_id) (set_run_values v) (of_runs (ss_db s))"
  have keys: "keyed ar_id ?runs = keyed ar_id (of_runs (ss_db s))"
      "keyed ar_offer_job_id ?runs = keyed ar_offer_job_id (of_runs (ss_db s))"
    by (simp_all add: keyed_update_where)
  have "offer_constraints ((ss_db s)\<lparr>of_runs := ?runs\<rparr>) \<longleftrightarrow>
      out \<in> set run_outcomes \<or> run_id \<notin> ar_id ` set (of_runs (ss_db s))"
  proof -
    let ?ok = "\<lambda>a. ar_status a \<in> set run_statuses \<and>
        (case ar_outcome a of None \<Rightarrow> True | Some outcome \<Rightarrow> outcome \<in> set run_outcomes) \<and>
        ar_offer_job_id a \<in> jb_id ` set (of_jobs (ss_db s))"
    have ok: "list_all ?ok (of_runs (ss_db s))" using assms(1) by (simp add: offer_constraints_def)
    have "?ok (set_run_values v a) \<longleftrightarrow> out \<in> set run_outcomes" if "a \<in> set (of_runs (ss_db s))" for a
      using ok that assms(2,3) by (auto simp: list_all_iff or_else_def)
    then have "list_all ?ok ?runs \<longleftrightarrow> out \<in> set run_outcomes \<or> run_id \<notin> ar_id ` set (of_runs (ss_db s))"
      unfolding list_all_update_where [OF ok] by auto
    with assms(1) show ?thesis by (simp add: offer_constraints_def keys)
  qed
  then show ?thesis by (auto simp: update_agent_run_def execute_def checked_def)
qed

subsection \<open>A concrete job\<close>

definition sample_worker_payload :: offer_payload where
  "sample_worker_payload = \<lparr>op_job_id = ''j1'', op_offer_request_id = ''o1'', op_organization_id = ''org'',
     op_work_type_code = ''paint'', op_idempotency_key = ''k:attempt:1'', op_photo_ids = [], op_parameters = [],
     op_attempt = 1, op_priority = ''normal''\<rparr>"

definition sample_dequeued :: dequeued_offer_job where
  "sample_dequeued = \<lparr>dq_lease_token = ''t1'', dq_payload = sample_worker_payload, dq_leased_at = seconds 90\<rparr>"

definition sample_worker_offer :: "string \<Rightarrow> offer_request" where
  "sample_worker_offer status = \<lparr>rq_id = ''o1'', rq_organization_id = ''org'', rq_client_id = None,
     rq_submitted_by_user_id = ''u'', rq_idempotency_key = ''k'', rq_work_type_code = ''paint'', rq_title = ''t'',
     rq_parameters = Some [], rq_photo_ids = Some [], rq_status = status, rq_auto_send = False,
     rq_auto_review_bypass = False, rq_needs_more_info_payload = None, rq_result_ready_at = None,
     rq_completed_at = None, rq_cancelled_at = None, rq_cancelled_by_user_id = None, rq_client_version = None,
     rq_created_at = 0, rq_updated_at = 0\<rparr>"

definition sample_worker_job :: offer_job where
  "sample_worker_job = \<lparr>jb_id = ''j1'', jb_offer_request_id = ''o1'', jb_organization_id = ''org'',
     jb_idempotency_key = ''k:attempt:1'', jb_status = ''queued'', jb_attempt = 1, jb_retry_count = 0, jb_max_retries = 3,
     jb_next_retry_at = None, jb_last_error_code = None, jb_last_error_detail = None, jb_error_repeat_count = 0,
     jb_worker_id = None, jb_leased_until = None, jb_lease_version = 0, jb_started_at = None, jb_completed_at = None,
     jb_created_at = 0\<rparr>"

definition sample_worker_db :: "string \<Rightarrow> offer_db" where
  "sample_worker_db status = empty_offer_db\<lparr>of_requests := [sample_worker_offer status], of_jobs := [sample_worker_job]\<rparr>"

definition sample_agent_run :: agent_run where
  "sample_agent_run = snd (create_agent_run ''r1'' ''j1'' ''o1'' ''org'' ''mock'' None None (open_session empty_offer_db))"

definition sample_env :: "nat \<Rightarrow> runner_env" where
  "sample_env n = \<lparr>ev_now = (\<lambda>k. seconds (100 + int k)), ev_uuid = (\<lambda>i. ''u'' @ str_nat (100 * n + i)), ev_others = (\<lambda>k. id),
     ev_catalog = Some [\<lparr>ct_code = ''paint'', ct_name = ''Painting'', ct_name_cs = None\<rparr>],
     ev_photos = (\<lambda>i. Some []), ev_presign = (\<lambda>k. None), ev_codec = table_codec [], ev_sha256 = id, ev_built_at = ''now'',
     ev_num_text = (\<lambda>s. None), ev_issue_text = issue_text (\<lambda>j. []) (\<lambda>xs. [])\<rparr>"

definition mock_runtime :: agent_runtime where
  "mock_runtime = \<lparr>at_primary = \<lparr>ad_key = ''mock'', ad_model_id = ''mock-v1'', ad_complete = mock_complete None\<rparr>,
     at_fallbacks = []\<rparr>"

definition sample_response :: provider_response where
  "sample_response = \<lparr>pr_raw_output = [], pr_prompt_tokens = 500, pr_completion_tokens = 300, pr_model_id = ''mock-v1'',
     pr_model_build = ''mock-v1-static'', pr_provider_key = ''mock'', pr_duration_ms = 10\<rparr>"

lemma sample_env_others [simp]: "ev_others (sample_env n) k = id"
  by (simp add: sample_env_def)

text \<open>The last steps of a worker whose lease version is no longer the job's: its result is rolled back, its token use recorded and
  its lease left unacknowledged; its failure handler changes no row.\<close>

lemma stale_result_is_rolled_back:
  assumes "offer_constraints (ev_others env 4 db)" "offer_constraints (ev_others env 6 db)" "1 \<le> op_attempt (dq_payload d)"
    and "\<not> list_ex (holds_lease (op_job_id (dq_payload d)) lv) (of_jobs (ev_others env 4 db))"
    and "\<not> list_ex (holds_lease (op_job_id (dq_payload d)) lv) (of_jobs (ev_others env 6 db))"
  shows "finish_job env worker_id d lv run_id response v (db, q) =
      ((record_budget env (dq_payload d) (total_tokens response) True (ev_others env 5 (ev_others env 4 db)), q), Inr ()) \<and>
    then_fail env (dq_payload d) (lv, prior) error_code error_detail retryable (db, q) =
      ((ev_others env 6 db, q), Inr ())"
proof
  have lost: "update_job_status_fenced (op_job_id (dq_payload d)) lv u
      ((open_session (ev_others env 4 db))\<lparr>ss_db := (ev_others env 4 db)\<lparr>of_runs := runs\<rparr>\<rparr>) = Inr (s', owned) \<Longrightarrow> \<not> owned"
    for u runs s' owned
    using assms(4) by (auto simp: update_job_status_fenced_def bind_res_eq_Inr)
  have "offer_constraints ((ev_others env 4 db)\<lparr>of_runs := update_where (\<lambda>a. ar_id a = run_id) (set_run_values u) (of_runs (ev_others env 4 db))\<rparr>)"
    if "rn_status u = ''completed''" "rn_outcome u = Some out" "out \<in> {''offer_generated'', ''insufficient_data''}" for u out
    using update_agent_run_allowed [of "open_session (ev_others env 4 db)" u out run_id] assms(1) that
      execute_Inr(2) [of _ "open_session (ev_others env 4 db)"]
    by (auto simp: run_outcomes_def run_statuses_def update_agent_run_def)
  then have fenced: "update_job_status_fenced (op_job_id (dq_payload d)) lv u'
      ((open_session (ev_others env 4 db))\<lparr>ss_db := (ev_others env 4 db)\<lparr>of_runs := update_where (\<lambda>a. ar_id a = run_id)
         (set_run_values u) (of_runs (ev_others env 4 db))\<rparr>\<rparr>) = Inr (((open_session (ev_others env 4 db))\<lparr>ss_db :=
         (ev_others env 4 db)\<lparr>of_runs := update_where (\<lambda>a. ar_id a = run_id) (set_run_values u) (of_runs (ev_others env 4 db))\<rparr>\<rparr>), False)"
    if "rn_status u = ''completed''" "rn_outcome u = Some out" "out \<in> {''offer_generated'', ''insufficient_data''}" for u u' out
    using that assms(4) by (intro update_fenced_lost) auto
  have "persist_result env d run_id response v lv (ev_others env 4 db) =
      Inr (record_budget env (dq_payload d) (total_tokens response) True (ev_others env 5 (ev_others env 4 db)), False)"
    using assms(1) unfolding persist_result_def handle_validated_def handle_needs_more_info_def handle_offer_generated_def Let_def
    by (cases v) (simp_all add: update_agent_run_allowed fenced completed_run_values_def run_statuses_def run_outcomes_def)
  then show "finish_job env worker_id d lv run_id response v (db, q) =
      ((record_budget env (dq_payload d) (total_tokens response) True (ev_others env 5 (ev_others env 4 db)), q), Inr ())"
    by (simp add: finish_job_def Let_def)
  have unchanged: "fail_job env (dq_payload d) error_code error_detail retryable lv c n (ev_others env 6 db) = Inr (ev_others env 6 db)"
    for c n
  proof -
    obtain s where "backoff_delay (op_attempt (dq_payload d)) = Some s" using backoff_delay_attempt [OF assms(3)] by blast
    then show ?thesis
      using assms(2,5) by (simp add: fail_job_def requeue_failed_job_def fail_job_for_good_def Let_def update_fenced_lost
          lift_run_def commit_checked checked_def)
  qed
  then show "then_fail env (dq_payload d) (lv, prior) error_code error_detail retryable (db, q) = ((ev_others env 6 db, q), Inr ())"
    by (cases prior) (simp add: then_fail_def Let_def)
qed

subsection \<open>What a failure does to the job\<close>

lemma lift_run_Inr [simp]: "lift_run r = Inr y \<longleftrightarrow> r = Inr y"
  by (cases r) (auto simp: lift_run_def)

definition will_retry :: "bool \<Rightarrow> int \<Rightarrow> offer_job \<Rightarrow> bool" where
  "will_retry retryable new_error_repeat j \<longleftrightarrow>
     retryable \<and> new_error_repeat < POISON_THRESHOLD \<and> jb_retry_count j + 1 < jb_max_retries j"

lemma fenced_Inr:
  "update_job_status_fenced job lv v s = Inr (s', owned) \<longleftrightarrow>
     offer_constraints (ss_db s') \<and> owned = list_ex (holds_lease job lv) (of_jobs (ss_db s)) \<and>
     s' = s\<lparr>ss_db := (ss_db s)\<lparr>of_jobs := update_where (holds_lease job lv) (set_job_values v) (of_jobs (ss_db s))\<rparr>\<rparr>"
  by (auto simp: update_job_status_fenced_def bind_res_eq_Inr execute_eq_Inr)

definition retry_state :: "offer_job \<Rightarrow> string \<times> int \<times> int \<times> string option \<times> int" where
  "retry_state j = (jb_status j, jb_retry_count j, jb_max_retries j, jb_last_error_code j, jb_error_repeat_count j)"

lemma retry_state_failure:
  "retry_state (set_job_values (failure_values st code detail c n t) j) = (st, c, jb_max_retries j, Some code, n)"
  by (simp add: retry_state_def set_job_values_def failure_values_def or_else_def get_or_def)

lemma failure_values_status [simp]: "jv_status (failure_values st code d c n t) = st"
  by (simp add: failure_values_def)

lemma requeue_failed_job_Inr:
  assumes "requeue_failed_job env p lv v db = Inr db'" "list_ex (holds_lease (op_job_id p) lv) (of_jobs db)"
  shows "of_jobs db' = update_where (holds_lease (op_job_id p) lv) (set_job_values v) (of_jobs db)"
    "of_requests db' = update_where (\<lambda>r. rq_id r = op_offer_request_id p)
       (set_offer_status (ev_now env 6) OFFER_STATUS_QUEUED no_values) (of_requests db)"
  using assms
  by (auto simp: requeue_failed_job_def bind_res_eq_Inr fenced_Inr update_offer_status_def execute_eq_Inr commit_Inr
      insert_pending_rows)

lemma fail_job_for_good_Inr:
  assumes "fail_job_for_good env p lv v extra db = Inr db'" "list_ex (holds_lease (op_job_id p) lv) (of_jobs db)"
  shows "of_jobs db' = update_where (holds_lease (op_job_id p) lv) (set_job_values v) (of_jobs db)"
    "of_requests db' = update_where (\<lambda>r. rq_id r = op_offer_request_id p)
       (set_offer_status (ev_now env 6) OFFER_STATUS_FAILED no_values) (of_requests db)"
  using assms
  by (auto simp: fail_job_for_good_def bind_res_eq_Inr fenced_Inr update_offer_status_def execute_eq_Inr commit_Inr
      insert_pending_rows map_sum_eq_Inr)

lemma fail_job_split:
  assumes fail: "fail_job env p code detail retryable lv prior_code prior_repeat db = Inr db'"
    and job: "select_one (\<lambda>x. jb_id x = op_job_id p) (of_jobs db) = Some j" "jb_lease_version j = lv"
    and n: "n = next_error_repeat (if prior_code = None then jb_last_error_code j else prior_code)
              (if prior_code = None then jb_error_repeat_count j else prior_repeat) code"
  obtains v now st where
    "of_jobs db' = update_where (holds_lease (op_job_id p) lv) (set_job_values v) (of_jobs db)"
    "of_requests db' = update_where (\<lambda>r. rq_id r = op_offer_request_id p) (set_offer_status now st no_values) (of_requests db)"
    "st = ''queued'' \<and> will_retry retryable n j \<or> st = ''failed'' \<and> \<not> will_retry retryable n j"
    "retry_state (set_job_values v j) = (st, jb_retry_count j + 1, jb_max_retries j, Some code, n)"
    "jv_status v = st"
proof -
  have owned: "list_ex (holds_lease (op_job_id p) lv) (of_jobs db)"
    using job select_one_Some [OF job(1)] by (auto simp: list_ex_iff holds_lease_def)
  have get: "get_offer_job (open_session db) (op_job_id p) = Some j" by (simp add: get_offer_job_def job(1))
  show ?thesis
  proof (cases "will_retry retryable n j")
    case True
    then obtain t where "requeue_failed_job env p lv (failure_values OFFER_STATUS_QUEUED code detail (jb_retry_count j + 1) n t) db = Inr db'"
      using fail unfolding fail_job_def Let_def get option.case n [symmetric]
      by (auto simp: will_retry_def split: option.splits)
    from that [OF requeue_failed_job_Inr [OF this owned, unfolded OFFER_STATUS_QUEUED_def]] True
    show ?thesis by (simp add: retry_state_failure)
  next
    case False
    then obtain d extra where "fail_job_for_good env p lv (failure_values JOB_STATUS_FAILED code d (jb_retry_count j + 1) n None) extra db = Inr db'"
      using fail unfolding fail_job_def Let_def get option.case n [symmetric]
      by (auto simp: will_retry_def split: if_splits)
    from that [OF fail_job_for_good_Inr [OF this owned, unfolded OFFER_STATUS_FAILED_def]] False
    show ?thesis by (simp add: retry_state_failure)
  qed
qed

lemma failed_round:
  assumes "start_job env w p db = Inr (db1, lv, prior_code, prior_repeat)"
    and "fail_job env p code detail retryable lv prior_code prior_repeat db1 = Inr db2"
    and j: "select_one (\<lambda>x. jb_id x = op_job_id p) (of_jobs db) = Some j"
  obtains j2 where "select_one (\<lambda>x. jb_id x = op_job_id p) (of_jobs db2) = Some j2"
    "jb_retry_count j2 = jb_retry_count j + 1" "jb_max_retries j2 = jb_max_retries j"
    "jb_status j2 = ''queued'' \<Longrightarrow> jb_retry_count j + 1 < jb_max_retries j"
proof -
  let ?j1 = "mark_running (ev_now env 0) w (ev_now env 0 + seconds LEASE_DURATION_S) j"
  have in_db: "j \<in> set (of_jobs db)" "jb_id j = op_job_id p" using select_one_Some [OF j] by simp_all
  note lease = started_lease [OF assms(1) in_db]
  have lv: "jb_lease_version ?j1 = lv" using lease(3) by simp
  obtain v now st n where
    v: "of_jobs db2 = update_where (holds_lease (op_job_id p) lv) (set_job_values v) (of_jobs db1)"
      "st = ''queued'' \<and> will_retry retryable n ?j1 \<or> st = ''failed'' \<and> \<not> will_retry retryable n ?j1"
      "retry_state (set_job_values v ?j1) = (st, jb_retry_count ?j1 + 1, jb_max_retries ?j1, Some code, n)" "jv_status v = st"
    by (rule fail_job_split [OF assms(2) lease(2) lv refl])
  have "select_one (\<lambda>x. jb_id x = op_job_id p) (of_jobs db2) = Some (set_job_values v ?j1)"
    using lease(2,3) in_db by (simp add: v(1) select_one_update_where holds_lease_def)
  with v(2-4) show ?thesis by (auto simp: retry_state_def will_retry_def intro: that)
qed

subsection \<open>What a run leaves behind\<close>

text \<open>Phase 1 does not ask the transition table. Whatever the status of the offer, an enqueued job that is run
  moves it to \<open>processing\<close> and announces it; an offer that was cancelled, failed or completed is revived,
  a move the table refuses.\<close>

theorem started_job_revives_offer:
  assumes "start_job env w p db = Inr (db', phase1)" "status_of db (op_offer_request_id p) = Some st"
    and "st \<in> set OFFER_TERMINAL_STATUSES"
  shows "status_of db' (op_offer_request_id p) = Some OFFER_STATUS_PROCESSING \<and>
    ob_payload (last (of_outbox db')) = JObj [(''status'', JStr OFFER_STATUS_PROCESSING), (''job_id'', JStr (op_job_id p))] \<and>
    \<not> is_valid_offer_transition st OFFER_STATUS_PROCESSING"
proof -
  obtain lv c n where "phase1 = (lv, c, n)" by (cases phase1)
  note s = start_job_Inr [OF assms(1) [unfolded this]]
  have "status_of db' (op_offer_request_id p) = Some OFFER_STATUS_PROCESSING"
    using assms(2) by (auto simp: status_of_def s(1) select_one_update_key)
  moreover have "ob_payload (last (of_outbox db')) = JObj [(''status'', JStr OFFER_STATUS_PROCESSING), (''job_id'', JStr (op_job_id p))]"
    by (simp add: s(5) offer_event_def build_offer_status_changed_event_def build_outbox_event_def dict_merge_def)
  moreover have "\<not> is_valid_offer_transition st OFFER_STATUS_PROCESSING"
    using assms(3) by (auto simp: is_valid_offer_transition_def offer_targets_cases OFFER_TERMINAL_STATUSES_def)
  ultimately show ?thesis by blast
qed

theorem started_job_revives_offer_witness:
  "let r = start_job (sample_env 0) ''w1'' sample_worker_payload (sample_worker_db ''cancelled'')
   in case r of Inl e \<Rightarrow> False | Inr (db', phase1) \<Rightarrow> status_of db' ''o1'' = Some ''processing''"
proof -
  obtain db' phase1 where r: "start_job (sample_env 0) ''w1'' sample_worker_payload (sample_worker_db ''cancelled'') = Inr (db', phase1)"
  proof -
    have "is_ok (start_job (sample_env 0) ''w1'' sample_worker_payload (sample_worker_db ''cancelled''))" by code_simp
    then show thesis using that by (metis is_ok.simps(1) old.sum.exhaust surj_pair)
  qed
  have "status_of (sample_worker_db ''cancelled'') (op_offer_request_id sample_worker_payload) = Some ''cancelled''"
      "''cancelled'' \<in> set OFFER_TERMINAL_STATUSES" and o1: "op_offer_request_id sample_worker_payload = ''o1''"
    by code_simp+
  from started_job_revives_offer [OF r this(1,2)] o1 show ?thesis by (simp add: r)
qed

text \<open>A retried job cannot complete. \<open>agent_runs\<close> has one row per job and a retry keeps the job, so a job that has had an
  agent run raises \<open>IntegrityError\<close> when it is run again with budget and catalog at hand, before any provider is called:
  the job stays running, its lease unacknowledged and its tokens reserved.\<close>

theorem retried_job_cannot_complete:
  assumes "a \<in> set (of_runs db)" "ar_offer_job_id a = op_job_id (dq_payload d)"
    and "start_job env w (dq_payload d) db = Inr (db1, phase1)"
    and "reserve_budget env (dq_payload d) db1 = Inr (db2, True)"
    and "ev_catalog env = Some rows" "\<And>k. ev_others env k = id"
  shows "run env w rt d (db, q) = ((db2, q), Inl (RunDbError IntegrityError))"
proof -
  let ?p = "dq_payload d"
  obtain lv c n where "phase1 = (lv, c, n)" by (cases phase1)
  then have "of_runs db2 = of_runs db"
    using start_job_Inr(3) [OF assms(3) [unfolded \<open>phase1 = (lv, c, n)\<close>]] reserve_budget_rows(3) [OF assms(4)] by simp
  moreover have "op_job_id ?p \<in> ar_offer_job_id ` set (of_runs db)" using assms(1,2) by (metis imageI)
  ultimately have "insert_agent_run env rt ?p snapshot db2 = Inl IntegrityError" for snapshot
    by (simp add: insert_agent_run_def create_agent_run_def Let_def commit_checked checked_def offer_constraints_def
        insert_pending_rows keyed_snoc)
  with assms(5,6) have "ai_call env rt ?p db2 = (db2, Inl (RunNotCreated IntegrityError))"
    by (simp add: ai_call_def resolve_ai_inputs_def Let_def)
  with assms(3,4,6) show ?thesis by (simp add: run_def Let_def stop_job_def)
qed

theorem retried_job_cannot_complete_witness:
  "let db = (sample_worker_db ''queued'')\<lparr>of_runs := [sample_agent_run]\<rparr>
   in snd (run (sample_env 0) ''w1'' mock_runtime sample_dequeued (db, empty_offer_queue)) = Inl (RunDbError IntegrityError)"
proof -
  let ?db = "(sample_worker_db ''queued'')\<lparr>of_runs := [sample_agent_run]\<rparr>"
  have "is_ok (start_job (sample_env 0) ''w1'' (dq_payload sample_dequeued) ?db)" by code_simp
  then obtain db1 phase1 where start: "start_job (sample_env 0) ''w1'' (dq_payload sample_dequeued) ?db = Inr (db1, phase1)"
    by (metis is_ok.simps(1) old.sum.exhaust surj_pair)
  have "(case start_job (sample_env 0) ''w1'' (dq_payload sample_dequeued) ?db of Inl e \<Rightarrow> None
      | Inr (db1, phase1) \<Rightarrow> (case reserve_budget (sample_env 0) (dq_payload sample_dequeued) db1 of Inl e \<Rightarrow> None | Inr (db2, b) \<Rightarrow> Some b)) = Some True"
    by code_simp
  then obtain db2 where res: "reserve_budget (sample_env 0) (dq_payload sample_dequeued) db1 = Inr (db2, True)"
    unfolding start by (auto split: sum.splits)
  have "sample_agent_run \<in> set (of_runs ?db)" "ar_offer_job_id sample_agent_run = op_job_id (dq_payload sample_dequeued)"
    by simp code_simp
  from retried_job_cannot_complete [OF this start res, where rt = mock_runtime and q = empty_offer_queue] show ?thesis
    by (simp add: Let_def sample_env_def)
qed

text \<open>A rejected answer is never recorded. The run row is given the outcome \<open>validation_error\<close>, which its CHECK
  refuses, so the handler of a failed validation raises: the job is left running, no tokens are counted and the failure
  handler is not reached.\<close>

theorem rejected_answer_raises:
  assumes "offer_constraints (ev_others env 3 db)" "run_id \<in> ar_id ` set (of_runs (ev_others env 3 db))"
  shows "reject_answer env p phase1 run_id response errors (db, q) =
    ((ev_others env 3 db, q), Inl (RunDbError IntegrityError))"
proof -
  have "update_agent_run run_id (rejected_run_values env response errors) (open_session (ev_others env 3 db)) = Inl IntegrityError"
    using update_agent_run_allowed [of "open_session (ev_others env 3 db)" "rejected_run_values env response errors" "''validation_error''" run_id]
      assms by (simp add: rejected_run_values_def run_statuses_def run_outcomes_def)
  then show ?thesis by (simp add: reject_answer_def store_rejected_run_def)
qed

theorem rejected_answer_raises_witness:
  "let db = (sample_worker_db ''processing'')\<lparr>of_runs := [sample_agent_run]\<rparr>
   in snd (reject_answer (sample_env 0) sample_worker_payload (1, None, 0) (ar_id sample_agent_run) sample_response [''e''] (db, empty_offer_queue)) =
      Inl (RunDbError IntegrityError)"
proof -
  let ?db = "(sample_worker_db ''processing'')\<lparr>of_runs := [sample_agent_run]\<rparr>"
  have "offer_constraints (ev_others (sample_env 0) 3 ?db)" by (simp only: sample_env_others id_apply) code_simp
  moreover have "ar_id sample_agent_run \<in> ar_id ` set (of_runs (ev_others (sample_env 0) 3 ?db))" by simp
  ultimately show ?thesis by (simp only: Let_def rejected_answer_raises snd_conv)
qed

subsection \<open>Every way a run returns\<close>

definition job_status_of :: "offer_db \<Rightarrow> string \<Rightarrow> string option" where
  "job_status_of db i = map_option jb_status (select_one (\<lambda>j. jb_id j = i) (of_jobs db))"

text \<open>The worker holds the job's lease and the offer exists.\<close>

definition holding :: "offer_payload \<Rightarrow> int \<Rightarrow> offer_db \<Rightarrow> bool" where
  "holding p lv db \<longleftrightarrow>
     map_option jb_lease_version (select_one (\<lambda>j. jb_id j = op_job_id p) (of_jobs db)) = Some lv \<and>
     status_of db (op_offer_request_id p) \<noteq> None"

definition aligned :: "offer_payload \<Rightarrow> offer_db \<Rightarrow> bool" where
  "aligned p db \<longleftrightarrow>
     (status_of db (op_offer_request_id p), job_status_of db (op_job_id p)) \<in>
       {(Some OFFER_STATUS_QUEUED, Some JOB_STATUS_QUEUED), (Some OFFER_STATUS_FAILED, Some JOB_STATUS_FAILED),
        (Some OFFER_STATUS_NEEDS_MORE_INFO, Some JOB_STATUS_COMPLETED),
        (Some OFFER_STATUS_NEEDS_REVIEW, Some JOB_STATUS_COMPLETED)}"

lemma holding_same_rows:
  "of_jobs db' = of_jobs db \<Longrightarrow> of_requests db' = of_requests db \<Longrightarrow> holding p lv db' = holding p lv db"
  by (simp add: holding_def status_of_def)

lemma holding_owned: "holding p lv db \<Longrightarrow> list_ex (holds_lease (op_job_id p) lv) (of_jobs db)"
  by (auto simp: holding_def list_ex_iff holds_lease_def dest: select_one_Some)

lemma holding_moved:
  assumes "holding p lv db"
    and "of_jobs db' = update_where (holds_lease (op_job_id p) lv) (set_job_values v) (of_jobs db)"
    and "of_requests db' = update_where (\<lambda>r. rq_id r = op_offer_request_id p) (set_offer_status now st u) (of_requests db)"
  shows "status_of db' (op_offer_request_id p) = Some st" "job_status_of db' (op_job_id p) = Some (jv_status v)"
proof -
  obtain j where j: "select_one (\<lambda>j. jb_id j = op_job_id p) (of_jobs db) = Some j" "jb_lease_version j = lv"
    using assms(1) by (auto simp: holding_def)
  with select_one_Some [OF j(1)] show "job_status_of db' (op_job_id p) = Some (jv_status v)"
    by (simp add: job_status_of_def assms(2) select_one_update_where holds_lease_def)
  show "status_of db' (op_offer_request_id p) = Some st"
    using assms(1) by (auto simp: status_of_def holding_def assms(3) select_one_update_key)
qed

lemma fail_job_aligned:
  assumes "holding p lv db" "fail_job env p code detail retryable lv c n db = Inr db'"
  shows "aligned p db'"
proof -
  obtain j where j: "select_one (\<lambda>j. jb_id j = op_job_id p) (of_jobs db) = Some j" "jb_lease_version j = lv"
    using assms(1) by (auto simp: holding_def)
  obtain v now st n where
    "of_jobs db' = update_where (holds_lease (op_job_id p) lv) (set_job_values v) (of_jobs db)"
    "of_requests db' = update_where (\<lambda>r. rq_id r = op_offer_request_id p) (set_offer_status now st no_values) (of_requests db)"
    "st = ''queued'' \<and> will_retry retryable n j \<or> st = ''failed'' \<and> \<not> will_retry retryable n j" "jv_status v = st"
    by (rule fail_job_split [OF assms(2) j refl])
  with holding_moved [OF assms(1)] show ?thesis by (auto simp: aligned_def)
qed

lemma agent_run_Inr:
  "update_agent_run run_id v s = Inr s' \<longleftrightarrow> offer_constraints (ss_db s') \<and>
     s' = s\<lparr>ss_db := (ss_db s)\<lparr>of_runs := update_where (\<lambda>a. ar_id a = run_id) (set_run_values v) (of_runs (ss_db s))\<rparr>\<rparr>"
  by (auto simp: update_agent_run_def execute_eq_Inr)

lemma offer_status_Inr:
  "update_offer_status now i st u s = Inr s' \<longleftrightarrow> offer_constraints (ss_db s') \<and>
     s' = s\<lparr>ss_db := (ss_db s)\<lparr>of_requests := update_where (\<lambda>r. rq_id r = i) (set_offer_status now st u) (of_requests (ss_db s))\<rparr>\<rparr>"
  by (auto simp: update_offer_status_def execute_eq_Inr)

text \<open>The status a validated answer moves the offer to.\<close>

definition answer_status :: "validated \<Rightarrow> string" where
  "answer_status v = (case v of InsufficientDataResult outcome questions \<Rightarrow> OFFER_STATUS_NEEDS_MORE_INFO
     | ValidatedMeasurements m \<Rightarrow> OFFER_STATUS_NEEDS_REVIEW)"

lemma handle_validated_Inr:
  assumes "handle_validated env d run_id response v lv (open_session db) = Inr (s, owned)"
    and "list_ex (holds_lease (op_job_id (dq_payload d)) lv) (of_jobs db)"
  shows "owned" "ss_jobs s = []" "ss_requests s = []" "ss_runs s = []"
    "of_jobs (ss_db s) = update_where (holds_lease (op_job_id (dq_payload d)) lv) (set_job_values (completed_job_values env)) (of_jobs db)"
    "\<exists>u. of_requests (ss_db s) = update_where (\<lambda>r. rq_id r = op_offer_request_id (dq_payload d))
       (set_offer_status (ev_now env 4) (answer_status v) u) (of_requests db)"
  using assms
  by (cases v; auto simp: handle_validated_def handle_needs_more_info_def handle_offer_generated_def Let_def answer_status_def
      bind_res_eq_Inr agent_run_Inr fenced_Inr offer_status_Inr)+

lemma completed_job_status [simp]: "jv_status (completed_job_values env) = ''completed''"
  by (simp add: completed_job_values_def job_status_values_def)

lemma persist_result_aligned:
  assumes "persist_result env d run_id response v lv db = Inr (db', stored)" "holding (dq_payload d) lv db"
  shows "stored \<and> aligned (dq_payload d) db'"
proof -
  have owned: "list_ex (holds_lease (op_job_id (dq_payload d)) lv) (of_jobs db)" using assms(2) by (rule holding_owned)
  obtain s where s: "handle_validated env d run_id response v lv (open_session db) = Inr (s, True)"
      "commit (s\<lparr>ss_db := record_budget env (dq_payload d) (total_tokens response) True (ss_db s)\<rparr>) = Inr db'" "stored"
    using assms(1) handle_validated_Inr(1) [OF _ owned]
    by (fastforce simp: persist_result_def bind_res_eq_Inr split: if_splits)
  note rows = handle_validated_Inr [OF s(1) owned]
  have "of_jobs db' = of_jobs (ss_db s)" "of_requests db' = of_requests (ss_db s)"
    using s(2) rows(2,3) by (auto simp: commit_Inr insert_pending_rows)
  with rows(5,6) obtain u where
    "of_jobs db' = update_where (holds_lease (op_job_id (dq_payload d)) lv) (set_job_values (completed_job_values env)) (of_jobs db)"
    "of_requests db' = update_where (\<lambda>r. rq_id r = op_offer_request_id (dq_payload d))
       (set_offer_status (ev_now env 4) (answer_status v) u) (of_requests db)"
    by auto
  from holding_moved [OF assms(2) this] s(3) show ?thesis
    by (auto simp: aligned_def answer_status_def split: validated.split)
qed

lemma start_job_holding:
  assumes "start_job env w p db = Inr (db', lv, c, n)" "holding p lv0 db"
  shows "holding p lv db'"
proof -
  note s = start_job_Inr [OF assms(1)]
  obtain j where j: "select_one (\<lambda>j. jb_id j = op_job_id p) (of_jobs db) = Some j"
    using assms(2) by (auto simp: holding_def)
  with select_one_Some [OF j] have "map_option jb_lease_version (select_one (\<lambda>j. jb_id j = op_job_id p) (of_jobs db')) = Some lv"
    by (simp add: s(2,6) select_one_update_where)
  moreover have "status_of db' (op_offer_request_id p) \<noteq> None"
    using assms(2) by (auto simp: holding_def status_of_def s(1) select_one_update_key)
  ultimately show ?thesis by (simp add: holding_def)
qed

lemma release_budget_rows [simp]:
  "of_requests (release_budget env p b db) = of_requests db" "of_jobs (release_budget env p b db) = of_jobs db"
  by (simp_all add: release_budget_def on_budget_def)

lemma holding_budget [simp]:
  "holding p lv (release_budget env p' b db) = holding p lv db" "holding p lv (record_budget env p' t b db) = holding p lv db"
  by (simp_all add: holding_def status_of_def)

lemma ai_call_holding:
  assumes "ai_call env rt p db = (db', r)" "holding p lv db" "\<And>k db. holding p lv db \<Longrightarrow> holding p lv (ev_others env k db)"
  shows "holding p lv db'"
proof (cases "resolve_ai_inputs env p")
  case (Inr t)
  then obtain urls work_type known where t: "resolve_ai_inputs env p = Inr (urls, work_type, known)" by (metis prod_cases3)
  let ?snapshot = "build_input_snapshot (ev_built_at env) (op_work_type_code p) (op_parameters p) urls work_type []
      (ad_model_id (at_primary rt)) (ad_model_id (at_primary rt))"
  have held: "holding p lv (ev_others env 2 db)" using assms(2,3) by blast
  show ?thesis
  proof (cases "insert_agent_run env rt p ?snapshot (ev_others env 2 db)")
    case (Inl e)
    with assms(1) t held show ?thesis by (simp add: ai_call_def Let_def)
  next
    case (Inr x)
    then obtain db3 run_id where x: "insert_agent_run env rt p ?snapshot (ev_others env 2 db) = Inr (db3, run_id)"
      by (cases x) simp
    then have "db' = db3" using assms(1) t by (simp add: ai_call_def Let_def split: sum.splits)
    with held holding_same_rows [OF insert_agent_run_Inr(2) [OF x] insert_agent_run_Inr(1) [OF x]] show ?thesis by blast
  qed
qed (use assms in \<open>simp add: ai_call_def\<close>)

lemma store_rejected_run_rows:
  assumes "store_rejected_run env run_id response errors db = Inr db'"
  shows "of_jobs db' = of_jobs db" "of_requests db' = of_requests db"
  using assms by (auto simp: store_rejected_run_def bind_res_eq_Inr agent_run_Inr commit_Inr insert_pending_rows)

lemma then_fail_aligned:
  assumes "then_fail env p (lv, c, n) code detail retryable (db, q) = ((db', q'), Inr ())" "holding p lv (ev_others env 6 db)"
  shows "aligned p db'"
  using assms fail_job_aligned by (auto simp: then_fail_def Let_def split: sum.splits)

text \<open>No other process takes over the job's lease or deletes a row.\<close>

definition lease_kept :: "runner_env \<Rightarrow> offer_payload \<Rightarrow> bool" where
  "lease_kept env p \<longleftrightarrow> (\<forall>k lv db. holding p lv db \<longrightarrow> holding p lv (ev_others env k db))"

lemma stop_job_aligned:
  assumes "stop_job env p (lv, c, n) stop (db, q) = ((db', q'), Inr ())" "holding p lv db" "lease_kept env p"
  shows "aligned p db'"
proof -
  have "holding p lv (ev_others env 6 (release_budget env p True (ev_others env 3 db)))"
    using assms(2,3) by (simp add: lease_kept_def)
  with assms(1) show ?thesis
    by (auto simp: stop_job_def Let_def split: phase2_stop.splits provider_error.splits elim: then_fail_aligned)
qed

lemma reject_answer_aligned:
  assumes "reject_answer env p (lv, c, n) run_id response errors (db, q) = ((db', q'), Inr ())" "holding p lv db"
    and "lease_kept env p"
  shows "aligned p db'"
proof -
  obtain db5 where db5: "store_rejected_run env run_id response errors (ev_others env 3 db) = Inr db5"
    using assms(1) by (auto simp: reject_answer_def Let_def split: sum.splits)
  have "holding p lv db5"
    using assms(2,3) holding_same_rows [OF store_rejected_run_rows [OF db5]] by (simp add: lease_kept_def)
  then have "holding p lv (ev_others env 6 (record_budget env p (total_tokens response) True (ev_others env 5 db5)))"
    using assms(3) by (simp add: lease_kept_def)
  with assms(1) db5 show ?thesis by (auto simp: reject_answer_def Let_def elim: then_fail_aligned)
qed

lemma finish_job_aligned:
  assumes "finish_job env w d lv run_id response v (db, q) = ((db', q'), Inr ())" "holding (dq_payload d) lv db"
    and "lease_kept env (dq_payload d)"
  shows "aligned (dq_payload d) db'"
proof -
  obtain db5 stored where db5: "persist_result env d run_id response v lv (ev_others env 4 db) = Inr (db5, stored)"
    using assms(1) by (auto simp: finish_job_def Let_def split: sum.splits prod.splits)
  have "stored \<and> aligned (dq_payload d) db5"
    using assms(2,3) by (intro persist_result_aligned [OF db5]) (simp add: lease_kept_def)
  with assms(1) db5 show ?thesis by (simp add: finish_job_def Let_def split: prod.splits)
qed

text \<open>C37: A run that returns leaves the offer and its job agreeing. As long as no other process takes over the job's lease or
  deletes a row, whatever the budget, the catalog, the provider and the validator answer, once \<open>run\<close> has returned the
  two are both \<open>queued\<close> (to be retried), both \<open>failed\<close>, or the job is \<open>completed\<close> and the
  offer waits for more information or for review; neither is left running.\<close>

theorem returned_run_aligns_offer_and_job:
  assumes "run env w rt d (db, q) = ((db', q'), Inr ())" "holding (dq_payload d) lv0 db" "lease_kept env (dq_payload d)"
  shows "aligned (dq_payload d) db'"
proof -
  let ?p = "dq_payload d"
  have keep: "holding ?p lv (ev_others env k db)" if "holding ?p lv db" for k lv db
    using assms(3) that by (simp add: lease_kept_def)
  obtain db1 lv c n where start: "start_job env w ?p (ev_others env 0 db) = Inr (db1, lv, c, n)"
    using assms(1) by (auto simp: run_def Let_def split: sum.splits prod.splits)
  obtain db3 reserved where res: "reserve_budget env ?p (ev_others env 1 db1) = Inr (db3, reserved)"
    using assms(1) start by (auto simp: run_def Let_def split: sum.splits prod.splits)
  have h3: "holding ?p lv db3"
    using start_job_holding [OF start] assms(2) keep
      holding_same_rows [OF reserve_budget_rows(2) [OF res] reserve_budget_rows(1) [OF res]] by blast
  obtain db4 r where call: "ai_call env rt ?p db3 = (db4, r)" by (cases "ai_call env rt ?p db3")
  have h4: "holding ?p lv db4" using ai_call_holding [OF call h3] keep by blast
  consider
      "then_fail env ?p (lv, c, n) ERROR_BUDGET_EXHAUSTED ''Daily AI budget exhausted.'' False (db3, q) = ((db', q'), Inr ())"
    | stop where "stop_job env ?p (lv, c, n) stop (db4, q) = ((db', q'), Inr ())"
    | run_id response errors where "reject_answer env ?p (lv, c, n) run_id response errors (db4, q) = ((db', q'), Inr ())"
    | run_id response v where "finish_job env w d lv run_id response v (db4, q) = ((db', q'), Inr ())"
    using assms(1) start res call
    by (auto simp: run_def Let_def split: if_splits sum.splits prod.splits offer_validation_error.splits)
  then show ?thesis
    using h3 h4 keep assms(3)
    by cases (blast intro: then_fail_aligned stop_job_aligned reject_answer_aligned finish_job_aligned)+
qed

theorem returned_run_aligns_offer_and_job_witness:
  "let r = run (sample_env 0) ''w1'' mock_runtime sample_dequeued (sample_worker_db ''queued'', empty_offer_queue)
   in is_ok (snd r) \<and> aligned sample_worker_payload (fst (fst r)) \<and> status_of (fst (fst r)) ''o1'' = Some ''needs_review''"
proof -
  let ?r = "run (sample_env 0) ''w1'' mock_runtime sample_dequeued (sample_worker_db ''queued'', empty_offer_queue)"
  have ok: "is_ok (snd ?r)" "status_of (fst (fst ?r)) ''o1'' = Some ''needs_review''"
    by code_simp+
  have "holding (dq_payload sample_dequeued) 0 (sample_worker_db ''queued'')" by code_simp
  moreover have "lease_kept (sample_env 0) (dq_payload sample_dequeued)" by (simp add: lease_kept_def)
  moreover obtain db' q' where "?r = ((db', q'), Inr ())"
    using ok(1) by (cases ?r; cases "snd ?r") auto
  ultimately have "aligned (dq_payload sample_dequeued) (fst (fst ?r))"
    using returned_run_aligns_offer_and_job by (metis fst_conv)
  with ok show ?thesis by (simp add: Let_def) (simp add: sample_dequeued_def)
qed

subsection \<open>A superseded worker\<close>

text \<open>The tables other workers and the clients share with a run, without the token budgets.\<close>

type_synonym shared_rows = "offer_request list \<times> offer_job list \<times> outbox_event list \<times> agent_run list"

definition shared :: "offer_db \<Rightarrow> shared_rows" where
  "shared db = (of_requests db, of_jobs db, of_outbox db, of_runs db)"

lemma shared_budget [simp]:
  "shared (record_budget env p t b db) = shared db" "shared (release_budget env p b db) = shared db"
  by (simp_all add: shared_def release_budget_def on_budget_def)

lemma shared_reserve: "reserve_budget env p db = Inr (db', b) \<Longrightarrow> shared db' = shared db"
  by (simp add: shared_def reserve_budget_rows)

text \<open>What the other processes guarantee of the shared rows from some point on: it holds whatever they do, it bars the
  worker's lease version, and a further agent run of the job does not end it.\<close>

definition superseded :: "runner_env \<Rightarrow> string \<Rightarrow> int \<Rightarrow> (shared_rows \<Rightarrow> bool) \<Rightarrow> bool" where
  "superseded env job lv P \<longleftrightarrow>
     (\<forall>k db. P (shared db) \<longrightarrow> P (shared (ev_others env k db))) \<and>
     (\<forall>rqs js obs runs. P (rqs, js, obs, runs) \<longrightarrow> \<not> list_ex (holds_lease job lv) js) \<and>
     (\<forall>rqs js obs runs a. P (rqs, js, obs, runs) \<and> ar_offer_job_id a = job \<longrightarrow> P (rqs, js, obs, runs @ [a]))"

lemma superseded_others: "superseded env job lv P \<Longrightarrow> P (shared db) \<Longrightarrow> P (shared (ev_others env k db))"
  by (simp add: superseded_def)

lemma superseded_lost: "superseded env job lv P \<Longrightarrow> P (shared db) \<Longrightarrow> \<not> list_ex (holds_lease job lv) (of_jobs db)"
  unfolding superseded_def shared_def by blast

lemma fenced_update_lost:
  assumes "update_job_status_fenced job lv v s = Inr (s', owned)" "\<not> list_ex (holds_lease job lv) (of_jobs (ss_db s))"
  shows "\<not> owned" "s' = s"
proof -
  have "update_where (holds_lease job lv) (set_job_values v) (of_jobs (ss_db s)) = of_jobs (ss_db s)"
    using assms(2) by (intro update_where_none) (auto simp: list_ex_iff)
  with assms show "\<not> owned" "s' = s" by (auto simp: fenced_Inr)
qed

lemma handle_validated_lost:
  assumes "handle_validated env d run_id response v lv (open_session db) = Inr (s, owned)"
    and "\<not> list_ex (holds_lease (op_job_id (dq_payload d)) lv) (of_jobs db)"
  shows "\<not> owned"
  using assms
  by (cases v) (auto simp: handle_validated_def handle_needs_more_info_def handle_offer_generated_def Let_def
      bind_res_eq_Inr agent_run_Inr fenced_Inr split: if_splits)

lemma finish_job_lost:
  assumes sup: "superseded env (op_job_id (dq_payload d)) lv P" and P: "P (shared db)"
    and run: "finish_job env w d lv run_id response v (db, q) = ((db', q'), r)"
  shows "P (shared db') \<and> q' = q"
proof (cases "persist_result env d run_id response v lv (ev_others env 4 db)")
  case (Inl e)
  with run superseded_others [OF sup P, of 4] show ?thesis by (simp add: finish_job_def Let_def)
next
  case (Inr x)
  note lost = superseded_lost [OF sup superseded_others [OF sup P, of 4]]
  obtain s owned where s: "handle_validated env d run_id response v lv (open_session (ev_others env 4 db)) = Inr (s, owned)"
    using Inr by (auto simp: persist_result_def bind_res_eq_Inr split: prod.splits)
  with Inr handle_validated_lost [OF s lost]
  have "x = (record_budget env (dq_payload d) (total_tokens response) True (ev_others env 5 (ev_others env 4 db)), False)"
    by (simp add: persist_result_def)
  with run Inr superseded_others [OF sup superseded_others [OF sup P, of 4], of 5] show ?thesis
    by (auto simp: finish_job_def Let_def)
qed

lemma fail_job_lost:
  assumes "fail_job env p code detail retryable lv c n db = Inr db'" "\<not> list_ex (holds_lease (op_job_id p) lv) (of_jobs db)"
  shows "db' = db"
proof -
  have requeue: "requeue_failed_job env p lv v db = Inr db' \<Longrightarrow> db' = db" for v
    using fenced_update_lost [of "op_job_id p" lv v "open_session db"] assms(2)
    by (auto simp: requeue_failed_job_def bind_res_eq_Inr commit_Inr)
  have for_good: "fail_job_for_good env p lv v extra db = Inr db' \<Longrightarrow> db' = db" for v extra
    using fenced_update_lost [of "op_job_id p" lv v "open_session db"] assms(2)
    by (auto simp: fail_job_for_good_def bind_res_eq_Inr commit_Inr)
  from assms(1) requeue for_good show ?thesis
    by (auto simp: fail_job_def Let_def split: if_splits option.splits)
qed

lemma then_fail_lost:
  assumes sup: "superseded env (op_job_id p) lv P" and P: "P (shared db)"
    and run: "then_fail env p (lv, c, n) code detail retryable (db, q) = ((db', q'), r)"
  shows "P (shared db') \<and> q' = q"
proof -
  note P6 = superseded_others [OF sup P, of 6]
  show ?thesis
    using run P6 fail_job_lost [OF _ superseded_lost [OF sup P6]]
    by (auto simp: then_fail_def Let_def split: sum.splits) metis
qed

lemma stop_job_lost:
  assumes sup: "superseded env (op_job_id p) lv P" and P: "P (shared db)"
    and run: "stop_job env p (lv, c, n) stop (db, q) = ((db', q'), r)"
  shows "P (shared db') \<and> q' = q"
proof -
  have "P (shared (release_budget env p True (ev_others env 3 db)))"
    using superseded_others [OF sup P] by simp
  with run P show ?thesis
    by (auto simp: stop_job_def Let_def split: phase2_stop.splits provider_error.splits dest: then_fail_lost [OF sup, rotated])
qed

text \<open>A rejected answer cannot be stored: when the update goes through there was no row to update.\<close>

lemma store_rejected_run_same:
  assumes "store_rejected_run env run_id response errors db = Inr db'"
  shows "db' = db"
proof -
  let ?runs = "update_where (\<lambda>a. ar_id a = run_id) (set_run_values (rejected_run_values env response errors)) (of_runs db)"
  from assms have ok: "offer_constraints (db\<lparr>of_runs := ?runs\<rparr>)" and db': "db' = db\<lparr>of_runs := ?runs\<rparr>"
    by (auto simp: store_rejected_run_def bind_res_eq_Inr agent_run_Inr commit_Inr insert_pending_def)
  have "ar_id a \<noteq> run_id" if "a \<in> set (of_runs db)" for a
  proof
    assume "ar_id a = run_id"
    with that have "set_run_values (rejected_run_values env response errors) a \<in> set ?runs"
      by (auto simp: set_update_where intro!: image_eqI [where x = a])
    with ok show False
      by (auto simp: offer_constraints_def list_all_iff or_else_def rejected_run_values_def run_outcomes_def
          dest!: bspec split: option.splits)
  qed
  then have "?runs = of_runs db" by (intro update_where_none) auto
  with db' show ?thesis by simp
qed

lemma reject_answer_lost:
  assumes sup: "superseded env (op_job_id p) lv P" and P: "P (shared db)"
    and run: "reject_answer env p (lv, c, n) run_id response errors (db, q) = ((db', q'), r)"
  shows "P (shared db') \<and> q' = q"
proof (cases "store_rejected_run env run_id response errors (ev_others env 3 db)")
  case (Inl e)
  with run superseded_others [OF sup P, of 3] show ?thesis by (simp add: reject_answer_def Let_def)
next
  case (Inr db2)
  with store_rejected_run_same have "db2 = ev_others env 3 db" by blast
  then have "P (shared (record_budget env p (total_tokens response) True (ev_others env 5 db2)))"
    using superseded_others [OF sup] P by simp
  with run Inr show ?thesis
    by (auto simp: reject_answer_def Let_def dest: then_fail_lost [OF sup, rotated])
qed

lemma ai_call_lost:
  assumes sup: "superseded env (op_job_id p) lv P" and P: "P (shared db)" and run: "ai_call env rt p db = (db', r)"
  shows "P (shared db')"
proof (cases "resolve_ai_inputs env p")
  case (Inl m)
  with run P show ?thesis by (simp add: ai_call_def)
next
  case (Inr t)
  then obtain urls work_type known where t: "resolve_ai_inputs env p = Inr (urls, work_type, known)" by (metis prod_cases3)
  let ?snapshot = "build_input_snapshot (ev_built_at env) (op_work_type_code p) (op_parameters p) urls work_type []
      (ad_model_id (at_primary rt)) (ad_model_id (at_primary rt))"
  note P2 = superseded_others [OF sup P, of 2]
  show ?thesis
  proof (cases "insert_agent_run env rt p ?snapshot (ev_others env 2 db)")
    case (Inl e)
    with run t P2 show ?thesis by (simp add: ai_call_def Let_def)
  next
    case (Inr x)
    then obtain db3 run_id where x: "insert_agent_run env rt p ?snapshot (ev_others env 2 db) = Inr (db3, run_id)"
      by (cases x) simp
    then have "db' = db3" using run t by (simp add: ai_call_def Let_def split: sum.splits)
    with insert_agent_run_Inr [OF x] P2 sup show ?thesis
      by (auto simp: shared_def superseded_def)
  qed
qed

text \<open>C36: A superseded worker is fenced out of everything but its own agent run and its tokens. Take a run whose job is taken
  over before its budget transaction, and anything the other processes guarantee from then on about the offers, the jobs,
  the outbox events and the agent runs, which may depend on all of these rows but not on whether this job
  has one agent run more. Whatever the run goes on to do (its budget, its inputs, the provider, the answer, its failure
  handler) and however it ends, it does not break that guarantee, and it leaves the Redis queue alone. What it may still write is
  exactly what the guarantee cannot see: the agent-run row it inserts before the AI call, which nothing fences, and its
  budget transactions.\<close>

theorem stale_worker_writes_nothing:
  assumes "start_job env w (dq_payload d) (ev_others env 0 db) = Inr (db1, lv, c, n)"
    and "superseded env (op_job_id (dq_payload d)) lv P" "P (shared (ev_others env 1 db1))"
    and "run env w rt d (db, q) = ((db', q'), r)"
  shows "P (shared db') \<and> q' = q"
proof (cases "reserve_budget env (dq_payload d) (ev_others env 1 db1)")
  case (Inl e)
  with assms show ?thesis by (simp add: run_def Let_def)
next
  case (Inr x)
  then obtain db3 reserved where res: "reserve_budget env (dq_payload d) (ev_others env 1 db1) = Inr (db3, reserved)"
    by (cases x) simp
  have P3: "P (shared db3)" using assms(3) shared_reserve [OF res] by simp
  obtain db4 answer where call: "ai_call env rt (dq_payload d) db3 = (db4, answer)"
    by (cases "ai_call env rt (dq_payload d) db3")
  note P4 = ai_call_lost [OF assms(2) P3 call]
  from assms(1,4) res call show ?thesis
    using then_fail_lost [OF assms(2) P3] stop_job_lost [OF assms(2) P4] reject_answer_lost [OF assms(2) P4]
      finish_job_lost [OF assms(2) P4]
    by (fastforce simp: run_def Let_def split: if_splits sum.splits prod.splits offer_validation_error.splits)
qed

text \<open>A job taken over by another worker right after its start: the old worker calls the provider, inserts its agent run and
  reserves its tokens, and changes nothing of the offer, the job and the events.\<close>

definition takeover :: "offer_db \<Rightarrow> offer_db" where
  "takeover db = db\<lparr>of_jobs := map (\<lambda>j. j\<lparr>jb_worker_id := Some ''w2'', jb_lease_version := 9\<rparr>) (of_jobs db)\<rparr>"

definition takeover_env :: runner_env where
  "takeover_env = (sample_env 0)\<lparr>ev_others := (\<lambda>k. if k = 1 then takeover else id)\<rparr>"

definition taken_db :: offer_db where
  "taken_db = (case start_job takeover_env ''w1'' sample_worker_payload (sample_worker_db ''queued'') of
     Inl e \<Rightarrow> empty_offer_db | Inr (db1, phase1) \<Rightarrow> takeover db1)"

theorem stale_worker_writes_nothing_witness:
  "let r = run takeover_env ''w1'' mock_runtime sample_dequeued (sample_worker_db ''queued'', empty_offer_queue)
   in (of_requests (fst (fst r)), of_jobs (fst (fst r)), of_outbox (fst (fst r))) =
        (of_requests taken_db, of_jobs taken_db, of_outbox taken_db) \<and> snd (fst r) = empty_offer_queue \<and>
      length (of_runs (fst (fst r))) = 1 \<and> is_ok (snd r)"
proof -
  let ?r = "run takeover_env ''w1'' mock_runtime sample_dequeued (sample_worker_db ''queued'', empty_offer_queue)"
  let ?P = "\<lambda>(rqs, js, obs, runs :: agent_run list). (rqs, js, obs) = (of_requests taken_db, of_jobs taken_db, of_outbox taken_db)"
  have p: "dq_payload sample_dequeued = sample_worker_payload" by (simp add: sample_dequeued_def)
  have ok: "is_ok (start_job takeover_env ''w1'' sample_worker_payload (sample_worker_db ''queued''))" by code_simp
  then obtain db1 lv c n where start: "start_job takeover_env ''w1'' sample_worker_payload (sample_worker_db ''queued'') = Inr (db1, lv, c, n)"
    by (metis is_ok.simps(1) old.sum.exhaust prod_cases4)
  have "(case start_job takeover_env ''w1'' sample_worker_payload (sample_worker_db ''queued'') of
      Inl e \<Rightarrow> True | Inr (db1, lv, c, n) \<Rightarrow> list_ex (holds_lease ''j1'' lv) (of_jobs taken_db)) = False" by code_simp
  then have lost: "\<not> list_ex (holds_lease ''j1'' lv) (of_jobs taken_db)" by (simp add: start)
  have taken: "takeover db1 = taken_db" by (simp add: taken_db_def start)
  have twice: "takeover taken_db = taken_db" by (simp add: taken [symmetric] takeover_def)
  have "?P (shared (takeover db))" if "?P (shared db)" for db
  proof -
    have "of_jobs (takeover db) = of_jobs (takeover taken_db)" using that by (simp add: shared_def takeover_def)
    with that show ?thesis by (simp add: shared_def twice) (simp add: takeover_def)
  qed
  with lost have "superseded takeover_env ''j1'' lv ?P"
    by (auto simp: superseded_def takeover_env_def)
  moreover have "op_job_id sample_worker_payload = ''j1''" by code_simp
  moreover have "ev_others takeover_env 0 = id" "ev_others takeover_env 1 = takeover" by (simp_all add: takeover_env_def)
  moreover have "?P (shared taken_db)" by (simp add: shared_def)
  ultimately have "?P (shared (fst (fst ?r))) \<and> snd (fst ?r) = empty_offer_queue"
    using stale_worker_writes_nothing [of takeover_env "''w1''" sample_dequeued "sample_worker_db ''queued''" db1 lv c n ?P
        mock_runtime empty_offer_queue "fst (fst ?r)" "snd (fst ?r)" "snd ?r"]
    by (simp add: p start taken)
  moreover have "length (of_runs (fst (fst ?r))) = 1 \<and> is_ok (snd ?r)" by code_simp
  ultimately show ?thesis by (simp add: Let_def shared_def)
qed

end
