(* ===== verification/Offer_Reconciler.thy ===== *)
theory Offer_Reconciler
  imports Offer_Runner
begin

section \<open>The offer reconciler\<close>

text \<open>
  Models \<open>app/offer_processing/reconciler.py\<close>: the sweep of expired leases, the sweep of stuck requests and the
  alert on the outbox. A sweep is one PostgreSQL transaction of raw SQL. A statement the server refuses aborts it: the
  ones after it fail too and \<open>COMMIT\<close> rolls back. A statement that raises in Python before it is sent leaves the transaction as
  it is. Which of the two the inserts into \<open>reconciler_events\<close> do, some of which write \<open>:extra::jsonb\<close>, is for the SQL
  library and the server to say: the argument \<open>audit\<close> gives the end of that insert for each row, and the
  theorems hold for all of them. The other statements end as the constraints say. The polling
  loops, logging and rows another reconciler has locked are left out; JSON columns are read as values.
\<close>

definition LEASE_GRACE_S :: int where
  [simp, constant_simps]: "LEASE_GRACE_S = 120"

definition STUCK_REQUEST_MINUTES :: int where
  [simp, constant_simps]: "STUCK_REQUEST_MINUTES = 10"

definition STALE_OUTBOX_MINUTES :: int where
  [simp, constant_simps]: "STALE_OUTBOX_MINUTES = 5"

definition STALE_OUTBOX_ALERT_COUNT :: nat where
  [simp, constant_simps]: "STALE_OUTBOX_ALERT_COUNT = 50"

subsection \<open>A raw transaction\<close>

record tx =
  tx_db :: offer_db
  tx_failed :: bool

definition begin_tx :: "offer_db \<Rightarrow> tx" where
  "begin_tx db = \<lparr>tx_db = db, tx_failed = False\<rparr>"

definition commit_tx :: "offer_db \<Rightarrow> tx \<Rightarrow> offer_db" where
  "commit_tx db t = (if tx_failed t then db else tx_db t)"

text \<open>How a statement ends that breaks no constraint: accepted, refused by the server, or not sent because Python raises.\<close>

datatype stmt_end = Accepted | Refused | NotSent

text \<open>A statement: the transaction after it and whether it went through.\<close>

definition sql :: "stmt_end \<Rightarrow> (offer_db \<Rightarrow> offer_db) \<Rightarrow> tx \<Rightarrow> tx \<times> bool" where
  "sql e f t =
    (if e = NotSent then (t, False)
     else if tx_failed t \<or> e = Refused \<or> \<not> offer_constraints (f (tx_db t)) then (t\<lparr>tx_failed := True\<rparr>, False)
     else (t\<lparr>tx_db := f (tx_db t)\<rparr>, True))"

text \<open>Statements in a row, up to the first that raises.\<close>

type_synonym statement = "stmt_end \<times> (offer_db \<Rightarrow> offer_db)"

fun sql_all :: "statement list \<Rightarrow> tx \<Rightarrow> tx \<times> bool" where
  "sql_all [] t = (t, True)"
| "sql_all ((e, f) # stmts) t = (case sql e f t of (t1, went) \<Rightarrow> if went then sql_all stmts t1 else (t1, False))"

definition insert_outbox :: "outbox_event \<Rightarrow> offer_db \<Rightarrow> offer_db" where
  "insert_outbox e db =
     db\<lparr>of_outbox := of_outbox db @ [e\<lparr>ob_seq := of_next_seq db\<rparr>], of_next_seq := of_next_seq db + 1\<rparr>"

definition insert_audit :: "reconciler_event \<Rightarrow> offer_db \<Rightarrow> offer_db" where
  "insert_audit e db = db\<lparr>of_reconciler_events := of_reconciler_events db @ [e]\<rparr>"

definition reconciler_outbox_event :: "(nat \<Rightarrow> string) \<Rightarrow> nat \<Rightarrow> time \<Rightarrow> string \<Rightarrow> string \<Rightarrow> json_obj \<Rightarrow> outbox_event" where
  "reconciler_outbox_event uuid i now req_id org_id extra =
     build_outbox_event (uuid i) 0 now EVENT_OFFER_STATUS_CHANGED AGGREGATE_OFFER req_id org_id
       (JObj ([(''event_id'', JStr (uuid_str (uuid (i + 1)))), (''offer_request_id'', JStr req_id)] @ extra @
          [(''source'', JStr ''reconciler''), (''ts'', format_occurred_at (Some now))]))"

definition set_request_status :: "time \<Rightarrow> string \<Rightarrow> (string \<Rightarrow> bool) \<Rightarrow> string \<Rightarrow> offer_db \<Rightarrow> offer_db" where
  "set_request_status now req_id allowed st db =
     db\<lparr>of_requests := update_where (\<lambda>r. rq_id r = req_id \<and> allowed (rq_status r))
          (\<lambda>r. r\<lparr>rq_status := st, rq_updated_at := now\<rparr>) (of_requests db)\<rparr>"

subsection \<open>Expired leases\<close>

text \<open>A row of the query: the job and its offer request as they were read.\<close>

definition joined :: "offer_db \<Rightarrow> (offer_job \<times> offer_request) list" where
  "joined db = List.map_filter (\<lambda>j. map_option (Pair j)
     (select_one (\<lambda>r. rq_id r = jb_offer_request_id j) (of_requests db))) (of_jobs db)"

definition lease_until :: "offer_job \<Rightarrow> time" where
  "lease_until j = (case jb_leased_until j of None \<Rightarrow> 0 | Some t \<Rightarrow> t)"

definition lease_expired :: "time \<Rightarrow> offer_job \<Rightarrow> bool" where
  "lease_expired cutoff j \<longleftrightarrow> jb_status j = JOB_STATUS_RUNNING \<and>
     (case jb_leased_until j of None \<Rightarrow> False | Some t \<Rightarrow> t < cutoff)"

definition expired_jobs :: "time \<Rightarrow> offer_db \<Rightarrow> (offer_job \<times> offer_request) list" where
  "expired_jobs now db =
     select_page (\<lambda>row. lease_expired (now - seconds LEASE_GRACE_S) (fst row)) (\<lambda>row. lease_until (fst row)) 50 (joined db)"

definition not_final :: "string \<Rightarrow> bool" where
  "not_final st \<longleftrightarrow> st \<notin> {''completed'', ''failed'', ''cancelled''}"

definition requeue_row :: "int \<Rightarrow> offer_job \<Rightarrow> offer_job" where
  "requeue_row new_lv j =
     j\<lparr>jb_status := ''queued'', jb_worker_id := None, jb_leased_until := None, jb_lease_version := new_lv,
       jb_retry_count := jb_retry_count j + 1\<rparr>"

definition fail_row :: "int \<Rightarrow> offer_job \<Rightarrow> offer_job" where
  "fail_row new_lv j =
     j\<lparr>jb_status := ''failed'', jb_lease_version := new_lv,
       jb_last_error_code := Some ''LEASE_EXPIRED_RETRIES_EXHAUSTED'',
       jb_last_error_detail := Some ''Reconciler: lease expired and retries exhausted.''\<rparr>"

definition update_running_job :: "string \<Rightarrow> (offer_job \<Rightarrow> offer_job) \<Rightarrow> offer_db \<Rightarrow> offer_db" where
  "update_running_job job_id f db =
     db\<lparr>of_jobs := update_where (\<lambda>j. jb_id j = job_id \<and> jb_status j = JOB_STATUS_RUNNING) f (of_jobs db)\<rparr>"

definition expired_audit :: "string \<Rightarrow> string \<Rightarrow> offer_job \<Rightarrow> string \<Rightarrow> string option \<Rightarrow> json \<Rightarrow> reconciler_event" where
  "expired_audit uuid outcome j new_status reason extra =
     \<lparr>re_id = uuid_str uuid, re_check_type = ''expired_lease'', re_outcome = outcome, re_offer_job_id = Some (jb_id j),
      re_offer_request_id = Some (jb_offer_request_id j), re_organization_id = Some (jb_organization_id j),
      re_old_status = Some ''running'', re_new_status = Some new_status, re_reason = reason, re_extra = Some extra\<rparr>"

text \<open>The statements of one row: those before it joins the list of jobs to enqueue again, and those after.\<close>

definition retry_statements :: "time \<Rightarrow> offer_job \<Rightarrow> statement list" where
  "retry_statements now j =
     [(Accepted, update_running_job (jb_id j) (requeue_row (jb_lease_version j + 1))),
      (Accepted, set_request_status now (jb_offer_request_id j) not_final ''queued'')]"

definition retry_audit :: "(nat \<Rightarrow> string) \<Rightarrow> stmt_end \<Rightarrow> offer_job \<Rightarrow> int \<Rightarrow> statement list" where
  "retry_audit uuid audit j delay_s =
     [(audit, insert_audit (expired_audit (uuid 0) ''requeued'' j ''queued'' None
        (JObj [(''new_lease_version'', JInt (jb_lease_version j + 1)), (''retry_count'', JInt (jb_retry_count j + 1)),
               (''delay_s'', JInt delay_s)])))]"

definition exhausted_statements :: "time \<Rightarrow> (nat \<Rightarrow> string) \<Rightarrow> stmt_end \<Rightarrow> offer_job \<Rightarrow> statement list" where
  "exhausted_statements now uuid audit j =
     [(Accepted, update_running_job (jb_id j) (fail_row (jb_lease_version j + 1))),
      (Accepted, set_request_status now (jb_offer_request_id j) not_final ''failed''),
      (Accepted, insert_outbox (reconciler_outbox_event uuid 0 now (jb_offer_request_id j) (jb_organization_id j)
         [(''job_id'', JStr (jb_id j)), (''status'', JStr ''failed'')])),
      (audit, insert_audit (expired_audit (uuid 2) ''failed_permanently'' j ''failed''
         (Some ''LEASE_EXPIRED_RETRIES_EXHAUSTED'')
         (JObj [(''retry_count'', JInt (jb_retry_count j)), (''max_retries'', JInt (jb_max_retries j))])))]"

record sweep_state =
  sw_tx :: tx
  sw_requeue :: "(offer_job \<times> offer_request) list"
  sw_count :: nat

text \<open>One row: an exception in it is logged and the loop goes on. \<open>uuid\<close> gives the ids drawn for the row.\<close>

definition expired_row ::
  "time \<Rightarrow> (string \<Rightarrow> nat \<Rightarrow> string) \<Rightarrow> (string \<Rightarrow> stmt_end) \<Rightarrow> offer_job \<times> offer_request \<Rightarrow> sweep_state \<Rightarrow> sweep_state" where
  "expired_row now uuid audit row s =
    (let j = fst row in
     if jb_retry_count j < jb_max_retries j then
       (case backoff_delay (jb_attempt j) of
          None \<Rightarrow> s
        | Some delay_s \<Rightarrow>
            (case sql_all (retry_statements now j) (sw_tx s) of
               (t1, False) \<Rightarrow> s\<lparr>sw_tx := t1\<rparr>
             | (t1, True) \<Rightarrow>
                 (case sql_all (retry_audit (uuid (jb_id j)) (audit (jb_id j)) j delay_s) t1 of
                    (t2, ok) \<Rightarrow> s\<lparr>sw_tx := t2, sw_requeue := sw_requeue s @ [row],
                                   sw_count := sw_count s + (if ok then 1 else 0)\<rparr>)))
     else
       (case sql_all (exhausted_statements now (uuid (jb_id j)) (audit (jb_id j)) j) (sw_tx s) of
          (t1, ok) \<Rightarrow> s\<lparr>sw_tx := t1, sw_count := sw_count s + (if ok then 1 else 0)\<rparr>))"

definition payload_of_row :: "offer_job \<times> offer_request \<Rightarrow> offer_payload option" where
  "payload_of_row row =
    (case row of (j, r) \<Rightarrow>
       map_option (\<lambda>code. \<lparr>op_job_id = jb_id j, op_offer_request_id = jb_offer_request_id j,
           op_organization_id = jb_organization_id j, op_work_type_code = code,
           op_idempotency_key = jb_idempotency_key j, op_photo_ids = get_or (rq_photo_ids r) [],
           op_parameters = get_or (rq_parameters r) [], op_attempt = jb_attempt j, op_priority = ''normal''\<rparr>)
         (non_empty_code (rq_work_type_code r)))"

text \<open>\<open>enqueue_offer_job\<close> with its default depth; a row that cannot be enqueued is logged and skipped.\<close>

definition reenqueue :: "json_codec \<Rightarrow> offer_job \<times> offer_request \<Rightarrow> offer_queue \<Rightarrow> offer_queue" where
  "reenqueue c row q =
    (case payload_of_row row of None \<Rightarrow> q | Some payload \<Rightarrow> fst (enqueue_offer_job c payload 5000 q))"

definition expired_sweep ::
  "time \<Rightarrow> (string \<Rightarrow> nat \<Rightarrow> string) \<Rightarrow> (string \<Rightarrow> stmt_end) \<Rightarrow> offer_db \<Rightarrow> sweep_state" where
  "expired_sweep now uuid audit db =
     fold (expired_row now uuid audit) (expired_jobs now db) \<lparr>sw_tx = begin_tx db, sw_requeue = [], sw_count = 0\<rparr>"

definition reconcile_expired_leases ::
  "json_codec \<Rightarrow> time \<Rightarrow> (string \<Rightarrow> nat \<Rightarrow> string) \<Rightarrow> (string \<Rightarrow> stmt_end) \<Rightarrow> run_state \<Rightarrow> run_state \<times> nat" where
  "reconcile_expired_leases c now uuid audit st =
    (case st of (db, q) \<Rightarrow>
       let s = expired_sweep now uuid audit db
       in ((commit_tx db (sw_tx s), fold (reenqueue c) (sw_requeue s) q), sw_count s))"

subsection \<open>Stuck requests\<close>

definition is_stuck :: "time \<Rightarrow> offer_db \<Rightarrow> offer_request \<Rightarrow> bool" where
  "is_stuck cutoff db r \<longleftrightarrow> rq_status r \<in> {''queued'', ''processing''} \<and> rq_updated_at r < cutoff \<and>
     \<not> list_ex (\<lambda>j. jb_offer_request_id j = rq_id r \<and> jb_status j \<in> {''queued'', ''running''}) (of_jobs db)"

definition stuck_requests :: "time \<Rightarrow> offer_db \<Rightarrow> offer_request list" where
  "stuck_requests now db =
     select_page (is_stuck (now - minutes STUCK_REQUEST_MINUTES) db) rq_updated_at 50 (of_requests db)"

definition latest_job :: "offer_db \<Rightarrow> string \<Rightarrow> offer_job option" where
  "latest_job db req_id = latest_by jb_created_at (filter (\<lambda>j. jb_offer_request_id j = req_id) (of_jobs db))"

text \<open>The status a stuck request is given and the reason.\<close>

definition reconciled :: "offer_job option \<Rightarrow> string \<times> string" where
  "reconciled latest =
    (case latest of
       None \<Rightarrow> (OFFER_STATUS_FAILED, ''no_jobs_found'')
     | Some j \<Rightarrow>
         if jb_status j \<in> {''completed'', ''failed'', ''cancelled''} then
           ((if jb_status j = ''completed'' then ''needs_review''
             else if jb_status j = ''failed'' then OFFER_STATUS_FAILED else ''cancelled''),
            ''aligned_with_job_'' @ jb_status j)
         else (OFFER_STATUS_FAILED, ''job_in_unexpected_state_'' @ jb_status j))"

definition stuck_statements ::
  "time \<Rightarrow> (nat \<Rightarrow> string) \<Rightarrow> stmt_end \<Rightarrow> offer_request \<Rightarrow> string \<times> string \<Rightarrow> statement list" where
  "stuck_statements now uuid audit r verdict =
    (case verdict of (new_status, reason) \<Rightarrow>
      [(Accepted, set_request_status now (rq_id r) (\<lambda>st. st \<in> {''queued'', ''processing''}) new_status),
       (Accepted, insert_outbox (reconciler_outbox_event uuid 0 now (rq_id r) (rq_organization_id r)
          [(''status'', JStr new_status), (''reason'', JStr reason)])),
       (audit, insert_audit \<lparr>re_id = uuid_str (uuid 2), re_check_type = ''stuck_request'', re_outcome = ''reconciled'',
          re_offer_job_id = None, re_offer_request_id = Some (rq_id r),
          re_organization_id = Some (rq_organization_id r), re_old_status = Some (rq_status r),
          re_new_status = Some new_status, re_reason = Some (take 128 reason), re_extra = None\<rparr>)])"

text \<open>The query for the latest job fails too once the transaction has failed.\<close>

definition stuck_row ::
  "time \<Rightarrow> (string \<Rightarrow> nat \<Rightarrow> string) \<Rightarrow> (string \<Rightarrow> stmt_end) \<Rightarrow> offer_request \<Rightarrow> tx \<times> nat \<Rightarrow> tx \<times> nat" where
  "stuck_row now uuid audit r s =
    (case s of (t, n) \<Rightarrow>
       if tx_failed t then (t, n)
       else (case sql_all (stuck_statements now (uuid (rq_id r)) (audit (rq_id r)) r
                 (reconciled (latest_job (tx_db t) (rq_id r)))) t of
               (t1, ok) \<Rightarrow> (t1, n + (if ok then 1 else 0))))"

definition reconcile_stuck_requests ::
  "time \<Rightarrow> (string \<Rightarrow> nat \<Rightarrow> string) \<Rightarrow> (string \<Rightarrow> stmt_end) \<Rightarrow> offer_db \<Rightarrow> offer_db \<times> nat" where
  "reconcile_stuck_requests now uuid audit db =
    (case fold (stuck_row now uuid audit) (stuck_requests now db) (begin_tx db, 0) of
       (t, n) \<Rightarrow> (commit_tx db t, n))"

subsection \<open>Outbox drift\<close>

definition stale_outbox_count :: "time \<Rightarrow> offer_db \<Rightarrow> nat" where
  "stale_outbox_count now db = length (filter (\<lambda>e. \<not> ob_published e \<and>
     (case ob_created_at e of None \<Rightarrow> False | Some t \<Rightarrow> t < now - minutes STALE_OUTBOX_MINUTES)) (of_outbox db))"

text \<open>\<open>None\<close> when the insert of the alert raises.\<close>

definition alert_stale_outbox :: "time \<Rightarrow> string \<Rightarrow> stmt_end \<Rightarrow> offer_db \<Rightarrow> offer_db \<times> nat option" where
  "alert_stale_outbox now uuid audit db =
    (let cnt = stale_outbox_count now db in
     if cnt \<ge> STALE_OUTBOX_ALERT_COUNT then
       (case sql audit (insert_audit \<lparr>re_id = uuid_str uuid, re_check_type = ''stale_outbox'', re_outcome = ''alert'',
            re_offer_job_id = None, re_offer_request_id = None, re_organization_id = None, re_old_status = None,
            re_new_status = None, re_reason = Some ''stale_outbox_alert'',
            re_extra = Some (JObj [(''stale_count'', JInt (int cnt)), (''threshold'', JInt (int STALE_OUTBOX_ALERT_COUNT)),
              (''older_than_minutes'', JInt STALE_OUTBOX_MINUTES)])\<rparr>) (begin_tx db) of
          (t, ok) \<Rightarrow> (commit_tx db t, if ok then Some cnt else None))
     else (db, Some cnt))"

definition reconciler_sweep_once ::
  "json_codec \<Rightarrow> time \<Rightarrow> (string \<Rightarrow> nat \<Rightarrow> string) \<Rightarrow> (string \<Rightarrow> stmt_end) \<Rightarrow> run_state \<Rightarrow> run_state \<times> (nat \<times> nat \<times> nat) option" where
  "reconciler_sweep_once c now uuid audit st =
    (case reconcile_expired_leases c now uuid audit st of
       ((db1, q1), expired) \<Rightarrow>
         (case reconcile_stuck_requests now uuid audit db1 of
            (db2, stuck) \<Rightarrow>
              (case alert_stale_outbox now (uuid ''alert'' 0) (audit ''alert'') db2 of
                 (db3, stale) \<Rightarrow> ((db3, q1), map_option (\<lambda>n. (expired, stuck, n)) stale))))"

subsection \<open>Raw transactions\<close>

lemma sql_failed: "tx_failed t \<Longrightarrow> sql e f t = (t, False)"
  by (simp add: sql_def)

lemma sql_all_failed: "tx_failed t \<Longrightarrow> stmts \<noteq> [] \<Longrightarrow> sql_all stmts t = (t, False)"
  by (cases stmts) (auto simp: sql_failed)

lemma sql_True:
  "sql e f t = (t', True) \<Longrightarrow> e = Accepted \<and> \<not> tx_failed t \<and> t' = t\<lparr>tx_db := f (tx_db t)\<rparr> \<and> offer_constraints (tx_db t')"
  by (cases e) (auto simp: sql_def split: if_splits)

lemma sql_False: "sql e f t = (t', False) \<Longrightarrow> tx_db t' = tx_db t \<and> (if e = NotSent then t' = t else tx_failed t')"
  by (cases e) (auto simp: sql_def split: if_splits)

text \<open>Statements that leave the transaction intact have run up to the first that was not sent.\<close>

lemma sql_all_kept:
  assumes "sql_all stmts t = (t', ok)" "\<not> tx_failed t'"
  shows "tx_db t' = fold snd (takeWhile (\<lambda>x. fst x \<noteq> NotSent) stmts) (tx_db t) \<and> \<not> tx_failed t"
  using assms
proof (induction stmts t rule: sql_all.induct)
  case (2 e f stmts t)
  obtain t1 went where one: "sql e f t = (t1, went)" by (cases rule: prod.exhaust)
  show ?case
  proof (cases went)
    case True
    with 2 one sql_True [of e f t t1] show ?thesis by simp
  next
    case False
    with 2 one sql_False [of e f t t1] show ?thesis by (simp split: if_splits)
  qed
qed simp

lemma sql_all_constraints:
  assumes "sql_all stmts t = (t', ok)" "offer_constraints (tx_db t)"
  shows "offer_constraints (tx_db t')"
  using assms
proof (induction stmts t rule: sql_all.induct)
  case (2 e f stmts t)
  obtain t1 went where one: "sql e f t = (t1, went)" by (cases rule: prod.exhaust)
  with 2 sql_True [of e f t t1] sql_False [of e f t t1] show ?case by (cases went) simp_all
qed simp

lemma sql_all_sent:
  assumes "sql_all stmts t = (t', False)" "list_all (\<lambda>x. fst x = Accepted) stmts"
  shows "tx_failed t'"
  using assms
proof (induction stmts t rule: sql_all.induct)
  case (2 e f stmts t)
  obtain t1 went where one: "sql e f t = (t1, went)" by (cases rule: prod.exhaust)
  with 2 sql_False [of e f t t1] show ?case by (cases went) simp_all
qed simp

subsection \<open>The batch of expired leases\<close>

lemma map_of_joined: "row \<in> set (joined db) \<Longrightarrow> fst row \<in> set (of_jobs db) \<and> rq_id (snd row) = jb_offer_request_id (fst row)"
  by (auto simp: joined_def List.map_filter_def split: option.splits dest: select_one_Some)

lemma keyed_joined:
  assumes "keyed jb_id (of_jobs db)"
  shows "keyed (\<lambda>row. jb_id (fst row)) (joined db)"
proof -
  have "keyed (\<lambda>row. jb_id (fst row)) (List.map_filter (\<lambda>j. map_option (Pair j) (g j)) js)" if "keyed jb_id js"
    for js and g :: "offer_job \<Rightarrow> offer_request option"
    using that
  proof (induction js)
    case (Cons j js)
    have "fst ` set (List.map_filter (\<lambda>j. map_option (Pair j) (g j)) js) \<subseteq> set js"
      by (auto simp: List.map_filter_def)
    with Cons show ?case by (auto simp: List.map_filter_def keyed_def split: option.splits)
  qed (simp add: List.map_filter_def keyed_def)
  with assms show ?thesis by (simp add: joined_def)
qed

lemma expired_job_row:
  assumes "row \<in> set (expired_jobs now db)"
  shows "fst row \<in> set (of_jobs db)" "jb_status (fst row) = ''running''"
  using assms set_select_page [of _ _ 50 "joined db"] map_of_joined [of row db]
  by (auto simp: expired_jobs_def lease_expired_def dest!: subsetD [OF set_select_page])

text \<open>What a row of the batch becomes. A row with retries left whose attempt has no backoff raises \<open>IndexError\<close> before any
  statement and is skipped.\<close>

definition has_retries :: "offer_job \<Rightarrow> bool" where
  "has_retries j \<longleftrightarrow> jb_retry_count j < jb_max_retries j"

definition skipped :: "offer_job \<Rightarrow> bool" where
  "skipped j \<longleftrightarrow> has_retries j \<and> backoff_delay (jb_attempt j) = None"

definition recover :: "offer_job \<times> offer_request \<Rightarrow> offer_job \<Rightarrow> offer_job" where
  "recover row =
    (if skipped (fst row) then id
     else if has_retries (fst row) then requeue_row (jb_lease_version (fst row) + 1)
     else fail_row (jb_lease_version (fst row) + 1))"

lemma recover_fields [simp]:
  "jb_id (recover row x) = jb_id x"
  "\<not> skipped (fst row) \<Longrightarrow> jb_lease_version (recover row x) = jb_lease_version (fst row) + 1"
  "\<not> skipped (fst row) \<Longrightarrow> jb_status (recover row x) = (if has_retries (fst row) then ''queued'' else ''failed'')"
  by (simp_all add: recover_def requeue_row_def fail_row_def)

lemma attempt_not_skipped: "1 \<le> jb_attempt j \<Longrightarrow> \<not> skipped j"
  using backoff_delay_attempt by (force simp: skipped_def)

lemma update_where_same [simp]: "update_where p id rows = rows"
  by (induction rows) simp_all

lemma statements_jobs:
  "of_jobs (fold snd (takeWhile (\<lambda>x. fst x \<noteq> NotSent) (retry_statements now j)) db) =
     update_where (\<lambda>x. jb_id x = jb_id j \<and> jb_status x = ''running'') (requeue_row (jb_lease_version j + 1)) (of_jobs db)"
  "of_jobs (fold snd (takeWhile (\<lambda>x. fst x \<noteq> NotSent) (retry_audit u a j d)) db) = of_jobs db"
  "of_jobs (fold snd (takeWhile (\<lambda>x. fst x \<noteq> NotSent) (exhausted_statements now u a j)) db) =
     update_where (\<lambda>x. jb_id x = jb_id j \<and> jb_status x = ''running'') (fail_row (jb_lease_version j + 1)) (of_jobs db)"
  by (cases a; simp add: retry_statements_def retry_audit_def exhausted_statements_def update_running_job_def
      set_request_status_def insert_audit_def insert_outbox_def)+

lemma retry_statements_sent: "list_all (\<lambda>x. fst x = Accepted) (retry_statements now j)"
  by (simp add: retry_statements_def)

lemma statements_nonempty [simp]: "retry_statements now j \<noteq> []" "exhausted_statements now u e j \<noteq> []"
  by (simp_all add: retry_statements_def exhausted_statements_def)

lemma expired_row_failed:
  assumes "tx_failed (sw_tx s)"
  shows "tx_failed (sw_tx (expired_row now uuid a row s))" "sw_requeue (expired_row now uuid a row s) = sw_requeue s"
    "sw_count (expired_row now uuid a row s) = sw_count s"
  using assms
  by (auto simp: expired_row_def Let_def sql_all_failed split: option.splits)

lemma expired_fold_failed:
  assumes "tx_failed (sw_tx s)"
  shows "tx_failed (sw_tx (fold (expired_row now uuid a) rows s)) \<and>
    sw_requeue (fold (expired_row now uuid a) rows s) = sw_requeue s \<and> sw_count (fold (expired_row now uuid a) rows s) = sw_count s"
  using assms by (induction rows arbitrary: s) (simp_all add: expired_row_failed)

lemma retry_row_jobs:
  assumes "\<not> tx_failed (sw_tx (expired_row now uuid a row s))" "has_retries (fst row)" "\<not> skipped (fst row)"
  shows "of_jobs (tx_db (sw_tx (expired_row now uuid a row s))) =
      update_where (\<lambda>x. jb_id x = jb_id (fst row) \<and> jb_status x = ''running'') (recover row) (of_jobs (tx_db (sw_tx s))) \<and>
    sw_requeue (expired_row now uuid a row s) = sw_requeue s @ [row]"
proof -
  let ?j = "fst row"
  obtain d where d: "backoff_delay (jb_attempt ?j) = Some d" using assms(2,3) by (auto simp: skipped_def)
  obtain t1 ok1 where first: "sql_all (retry_statements now ?j) (sw_tx s) = (t1, ok1)" by (cases rule: prod.exhaust)
  obtain t2 ok2 where after: "sql_all (retry_audit (uuid (jb_id ?j)) (a (jb_id ?j)) ?j d) t1 = (t2, ok2)"
    by (cases rule: prod.exhaust)
  have "ok1"
  proof (rule ccontr)
    assume "\<not> ok1"
    with first sql_all_sent [OF _ retry_statements_sent] have "tx_failed t1" by simp
    with assms(1,2) d first \<open>\<not> ok1\<close> show False by (simp add: expired_row_def Let_def has_retries_def)
  qed
  with assms(1,2) d first after have kept: "\<not> tx_failed t2" by (simp add: expired_row_def Let_def has_retries_def)
  note two = sql_all_kept [OF after kept]
  note one = sql_all_kept [OF first two [THEN conjunct2]]
  from one two assms(2,3) d first after \<open>ok1\<close> show ?thesis
    by (simp add: expired_row_def Let_def recover_def has_retries_def statements_jobs)
qed

lemma expired_row_jobs:
  assumes "\<not> tx_failed (sw_tx (expired_row now uuid a row s))"
  shows "of_jobs (tx_db (sw_tx (expired_row now uuid a row s))) =
      update_where (\<lambda>x. jb_id x = jb_id (fst row) \<and> jb_status x = ''running'') (recover row) (of_jobs (tx_db (sw_tx s))) \<and>
    sw_requeue (expired_row now uuid a row s) =
      sw_requeue s @ (if has_retries (fst row) \<and> \<not> skipped (fst row) then [row] else [])"
proof -
  obtain t3 ok3 where final: "sql_all (exhausted_statements now (uuid (jb_id (fst row))) (a (jb_id (fst row))) (fst row)) (sw_tx s) = (t3, ok3)"
    by (cases rule: prod.exhaust)
  consider "skipped (fst row)" | "has_retries (fst row)" "\<not> skipped (fst row)" | "\<not> has_retries (fst row)" by blast
  then show ?thesis
  proof cases
    case 1
    then show ?thesis by (simp add: expired_row_def Let_def skipped_def has_retries_def recover_def)
  next
    case 2
    with retry_row_jobs [OF assms] show ?thesis by simp
  next
    case 3
    with assms final have "\<not> tx_failed t3" by (simp add: expired_row_def Let_def has_retries_def)
    from sql_all_kept [OF final this] 3 final show ?thesis
      by (simp add: expired_row_def Let_def recover_def has_retries_def skipped_def statements_jobs)
  qed
qed

lemma expired_row_constraints:
  assumes "offer_constraints (tx_db (sw_tx s))"
  shows "offer_constraints (tx_db (sw_tx (expired_row now uuid a row s)))"
proof -
  obtain t1 ok1 where first: "sql_all (retry_statements now (fst row)) (sw_tx s) = (t1, ok1)" by (cases rule: prod.exhaust)
  obtain t3 ok3 where final: "sql_all (exhausted_statements now (uuid (jb_id (fst row))) (a (jb_id (fst row))) (fst row)) (sw_tx s) = (t3, ok3)"
    by (cases rule: prod.exhaust)
  note ok = sql_all_constraints [OF first assms] sql_all_constraints [OF final assms]
  then show ?thesis
    using assms first final sql_all_constraints [OF _ ok(1)]
    by (auto simp: expired_row_def Let_def split: option.splits bool.splits prod.splits)
qed

lemma expired_sweep_constraints:
  assumes "offer_constraints db"
  shows "offer_constraints (tx_db (sw_tx (expired_sweep now uuid a db)))"
proof -
  have "offer_constraints (tx_db (sw_tx s)) \<Longrightarrow> offer_constraints (tx_db (sw_tx (fold (expired_row now uuid a) rows s)))" for rows s
    by (induction rows arbitrary: s) (simp_all add: expired_row_constraints)
  with assms show ?thesis by (simp add: expired_sweep_def begin_tx_def)
qed

lemma expired_fold_jobs:
  assumes "\<not> tx_failed (sw_tx (fold (expired_row now uuid a) rows s))"
  shows "of_jobs (tx_db (sw_tx (fold (expired_row now uuid a) rows s))) =
      fold (\<lambda>row. update_where (\<lambda>x. jb_id x = jb_id (fst row) \<and> jb_status x = ''running'') (recover row)) rows (of_jobs (tx_db (sw_tx s))) \<and>
    sw_requeue (fold (expired_row now uuid a) rows s) =
      sw_requeue s @ filter (\<lambda>row. has_retries (fst row) \<and> \<not> skipped (fst row)) rows"
  using assms
proof (induction rows arbitrary: s)
  case (Cons row rows)
  have "\<not> tx_failed (sw_tx (expired_row now uuid a row s))"
    using Cons.prems expired_fold_failed [of "expired_row now uuid a row s" now uuid a rows] by auto
  with Cons expired_row_jobs [of now uuid a row s] show ?case by simp
qed simp

text \<open>What the sweep leaves of one job.\<close>

lemma reconcile_expired_db:
  "fst (fst (reconcile_expired_leases c now uuid a (db, q))) = commit_tx db (sw_tx (expired_sweep now uuid a db))"
  by (simp add: reconcile_expired_leases_def Let_def)

lemma reconcile_expired_constraints:
  "offer_constraints db \<Longrightarrow> offer_constraints (fst (fst (reconcile_expired_leases c now uuid a (db, q))))"
  by (simp add: reconcile_expired_db commit_tx_def expired_sweep_constraints)

lemma swept_jobs:
  assumes "\<not> tx_failed (sw_tx (expired_sweep now uuid a db))"
  shows "of_jobs (fst (fst (reconcile_expired_leases c now uuid a (db, q)))) =
      fold (\<lambda>row. update_where (\<lambda>x. jb_id x = jb_id (fst row) \<and> jb_status x = ''running'') (recover row))
        (expired_jobs now db) (of_jobs db)"
    and "sw_requeue (expired_sweep now uuid a db) =
      filter (\<lambda>row. has_retries (fst row) \<and> \<not> skipped (fst row)) (expired_jobs now db)"
  using assms expired_fold_jobs [OF assms [unfolded expired_sweep_def]]
  by (simp_all add: reconcile_expired_db commit_tx_def begin_tx_def expired_sweep_def)

lemma distinct_batch: "offer_constraints db \<Longrightarrow> distinct (map (\<lambda>row. jb_id (fst row)) (expired_jobs now db))"
  unfolding expired_jobs_def keyed_def [symmetric] by (intro keyed_select_page keyed_joined offer_constraints_keys)

lemma swept_job:
  assumes "offer_constraints db" "\<not> tx_failed (sw_tx (expired_sweep now uuid a db))" "(j, r) \<in> set (expired_jobs now db)"
  shows "select_one (\<lambda>x. jb_id x = jb_id j) (of_jobs (fst (fst (reconcile_expired_leases c now uuid a (db, q))))) =
    Some (recover (j, r) j)"
proof -
  have "select_one (\<lambda>x. jb_id x = jb_id j) (of_jobs db) = Some j" "jb_status j = ''running''"
    using expired_job_row [OF assms(3)] keyed_select_one [OF offer_constraints_keys(2) [OF assms(1)]] by simp_all
  with fold_update_own [of jb_id recover "\<lambda>row. jb_id (fst row)" "expired_jobs now db" "(j, r)" "\<lambda>x. jb_status x = ''running''" "of_jobs db"]
  show ?thesis
    using assms(3) distinct_batch [OF assms(1)] by (simp add: swept_jobs(1) [OF assms(2)])
qed

subsection \<open>A concrete sweep\<close>

definition expired_db :: offer_db where
  "expired_db = (sample_worker_db ''processing'')\<lparr>of_jobs :=
     [sample_worker_job\<lparr>jb_status := ''running'', jb_leased_until := Some (seconds 100), jb_lease_version := 4\<rparr>]\<rparr>"

definition sweep_uuid :: "string \<Rightarrow> nat \<Rightarrow> string" where
  "sweep_uuid key i = key @ ''-'' @ str_nat i"

definition stuck_db :: offer_db where
  "stuck_db = (sample_worker_db ''processing'')\<lparr>of_jobs := [sample_worker_job\<lparr>jb_status := ''completed''\<rparr>]\<rparr>"

text \<open>C39: A recovered lease fences its old worker. Take a job of the batch of a sweep of expired leases, with an attempt of at
  least 1, and a sweep that no refused statement has rolled back (an audit insert that raises in Python before it is
  sent, as \<open>:extra::jsonb\<close> may, rolls nothing back). Then no row carries the lease version of the old worker any more, so each of
  its fenced updates matches no row and changes nothing; the job is queued again when it has retries left and
  failed otherwise, and the queued ones are exactly those the sweep sends to Redis.\<close>

theorem recovered_lease_fences_worker:
  assumes "offer_constraints db" "\<not> tx_failed (sw_tx (expired_sweep now uuid audit db))"
    and "(j, r) \<in> set (expired_jobs now db)" "1 \<le> jb_attempt j"
  shows "let db' = fst (fst (reconcile_expired_leases c now uuid audit (db, q))) in
    \<not> list_ex (holds_lease (jb_id j) (jb_lease_version j)) (of_jobs db') \<and>
    update_job_status_fenced (jb_id j) (jb_lease_version j) v (open_session db') = Inr (open_session db', False) \<and>
    job_status_of db' (jb_id j) = Some (if jb_retry_count j < jb_max_retries j then JOB_STATUS_QUEUED else JOB_STATUS_FAILED) \<and>
    ((j, r) \<in> set (sw_requeue (expired_sweep now uuid audit db))) = (jb_retry_count j < jb_max_retries j)"
proof -
  let ?db = "fst (fst (reconcile_expired_leases c now uuid audit (db, q)))"
  note going = attempt_not_skipped [OF assms(4)]
  note own = swept_job [OF assms(1-3), where c = c and q = q]
  have ok: "offer_constraints ?db" using assms(1) by (rule reconcile_expired_constraints)
  have "\<not> list_ex (holds_lease (jb_id j) (jb_lease_version j)) (of_jobs ?db)"
  proof
    assume "list_ex (holds_lease (jb_id j) (jb_lease_version j)) (of_jobs ?db)"
    then obtain x where x: "x \<in> set (of_jobs ?db)" "jb_id x = jb_id j" "jb_lease_version x = jb_lease_version j"
      by (auto simp: list_ex_iff holds_lease_def)
    with keyed_select_one [OF offer_constraints_keys(2) [OF ok] x(1)] own
    have "jb_lease_version (recover (j, r) j) = jb_lease_version j" by simp
    with going show False by simp
  qed
  with update_fenced_lost [of "open_session ?db"] ok own going show ?thesis
    using assms(3) by (simp add: Let_def job_status_of_def swept_jobs(2) [OF assms(2)] has_retries_def)
qed

theorem recovered_lease_fences_worker_witness:
  "let j = hd (of_jobs expired_db);
       db' = fst (fst (reconcile_expired_leases (table_codec []) (seconds 400) sweep_uuid (\<lambda>i. NotSent) (expired_db, empty_offer_queue)))
   in \<not> list_ex (holds_lease (jb_id j) (jb_lease_version j)) (of_jobs db') \<and>
      update_job_status_fenced (jb_id j) (jb_lease_version j) (job_status_values ''completed'') (open_session db') =
        Inr (open_session db', False) \<and>
      job_status_of db' (jb_id j) = Some ''queued'' \<and>
      (j, hd (of_requests expired_db)) \<in> set (sw_requeue (expired_sweep (seconds 400) sweep_uuid (\<lambda>i. NotSent) expired_db))"
proof -
  let ?j = "hd (of_jobs expired_db)" and ?r = "hd (of_requests expired_db)"
  have ok: "offer_constraints expired_db" "\<not> tx_failed (sw_tx (expired_sweep (seconds 400) sweep_uuid (\<lambda>i. NotSent) expired_db))"
      "1 \<le> jb_attempt ?j"
    by code_simp+
  have "expired_jobs (seconds 400) expired_db = [(?j, ?r)]" by code_simp
  then have row: "(?j, ?r) \<in> set (expired_jobs (seconds 400) expired_db)" by simp
  have "jb_retry_count ?j < jb_max_retries ?j" by code_simp
  with recovered_lease_fences_worker [OF ok(1,2) row ok(3), of "table_codec []" empty_offer_queue "job_status_values ''completed''"]
  show ?thesis by (simp only: Let_def if_True JOB_STATUS_QUEUED_def simp_thms)
qed

subsection \<open>When the audit row cannot be written\<close>

lemma update_running_job_constraints:
  assumes "offer_constraints db" and f: "\<And>x. jb_id (f x) = jb_id x" "\<And>x. jb_idempotency_key (f x) = jb_idempotency_key x"
    "\<And>x. jb_offer_request_id (f x) = jb_offer_request_id x" "\<And>x. jb_status (f x) \<in> set job_statuses"
  shows "offer_constraints (update_running_job i f db)"
proof -
  let ?jobs = "update_where (\<lambda>j. jb_id j = i \<and> jb_status j = ''running'') f (of_jobs db)"
  let ?ok = "\<lambda>j. jb_status j \<in> set job_statuses \<and> jb_offer_request_id j \<in> rq_id ` set (of_requests db)"
  have "list_all ?ok (of_jobs db)" using assms(1) by (simp add: offer_constraints_def)
  then have "list_all ?ok ?jobs" by (subst list_all_update_where) (auto simp: list_all_iff f)
  moreover have "jb_id ` set ?jobs = jb_id ` set (of_jobs db)" by (simp add: image_update_where f(1))
  ultimately show ?thesis
    using assms(1) by (simp add: offer_constraints_def update_running_job_def keyed_update_where f(1,2))
qed

lemma set_request_status_constraints:
  assumes "offer_constraints db" "offer_status_known st"
  shows "offer_constraints (set_request_status now i allowed st db)"
proof -
  let ?rows = "update_where (\<lambda>r. rq_id r = i \<and> allowed (rq_status r)) (\<lambda>r. r\<lparr>rq_status := st, rq_updated_at := now\<rparr>) (of_requests db)"
  have "list_all (\<lambda>r. offer_status_known (rq_status r)) (of_requests db)" using assms(1) by (simp add: offer_constraints_def)
  then have "list_all (\<lambda>r. offer_status_known (rq_status r)) ?rows" by (subst list_all_update_where) (simp_all add: assms(2))
  moreover have "rq_id ` set ?rows = rq_id ` set (of_requests db)" by (simp add: image_update_where)
  ultimately show ?thesis
    using assms(1) by (simp add: offer_constraints_def set_request_status_def keyed_update_where)
qed

text \<open>One audit row that the server refuses undoes the whole sweep, but not what the sweep sends to Redis. If the insert
  into \<open>reconciler_events\<close> is refused for the first job of the batch, which has retries left, then no job is recovered:
  the database is as it was, the count is 0, and yet that job is enqueued again, as it will be by every sweep.\<close>

theorem failed_audit_requeues_without_recovering:
  assumes "offer_constraints db" "expired_jobs now db = row # rows"
    and "jb_retry_count (fst row) < jb_max_retries (fst row)" "1 \<le> jb_attempt (fst row)" "audit (jb_id (fst row)) = Refused"
  shows "reconcile_expired_leases c now uuid audit (db, q) = ((db, reenqueue c row q), 0)"
proof -
  let ?j = "fst row" and ?s = "\<lparr>sw_tx = begin_tx db, sw_requeue = [], sw_count = 0\<rparr>"
  obtain d where d: "backoff_delay (jb_attempt ?j) = Some d" using backoff_delay_attempt [OF assms(4)] by blast
  have "offer_constraints (update_running_job (jb_id ?j) (requeue_row (jb_lease_version ?j + 1)) db)"
    using assms(1) by (rule update_running_job_constraints) (simp_all add: requeue_row_def job_statuses_def)
  then have "\<exists>t1. sql_all (retry_statements now ?j) (begin_tx db) = (t1, True) \<and> \<not> tx_failed t1"
    using set_request_status_constraints [of _ "''queued''" now "jb_offer_request_id ?j" not_final]
    by (simp add: retry_statements_def sql_def begin_tx_def offer_status_known_cases)
  then have first: "tx_failed (sw_tx (expired_row now uuid audit row ?s))" "sw_requeue (expired_row now uuid audit row ?s) = [row]"
      "sw_count (expired_row now uuid audit row ?s) = 0"
    using assms(3,5) d by (auto simp: expired_row_def Let_def retry_audit_def sql_def)
  with expired_fold_failed [OF first(1), of now uuid audit rows] show ?thesis
    by (simp add: reconcile_expired_leases_def expired_sweep_def assms(2) commit_tx_def)
qed

theorem failed_audit_requeues_without_recovering_witness:
  "let r = reconcile_expired_leases (table_codec []) (seconds 400) sweep_uuid (\<lambda>i. Refused) (expired_db, empty_offer_queue)
   in fst (fst r) = expired_db \<and> oq_normal (snd (fst r)) \<noteq> [] \<and> snd r = 0"
proof -
  let ?row = "(hd (of_jobs expired_db), hd (of_requests expired_db))"
  have "offer_constraints expired_db" "jb_retry_count (fst ?row) < jb_max_retries (fst ?row)" "1 \<le> jb_attempt (fst ?row)"
      "expired_jobs (seconds 400) expired_db = [?row]" "oq_normal (reenqueue (table_codec []) ?row empty_offer_queue) \<noteq> []"
    by code_simp+
  then show ?thesis
    using failed_audit_requeues_without_recovering [where db = expired_db and row = ?row and rows = "[]" and now = "seconds 400"
        and audit = "\<lambda>i. Refused" and c = "table_codec []" and uuid = sweep_uuid and q = empty_offer_queue]
    by (simp only: Let_def) simp
qed

subsection \<open>Stuck requests end\<close>

lemma keyed_stuck: "keyed rq_id (of_requests db) \<Longrightarrow> distinct (map rq_id (stuck_requests now db))"
  unfolding stuck_requests_def keyed_def [symmetric] by (rule keyed_select_page)

lemma stuck_statements_rows:
  "of_jobs (fold snd (takeWhile (\<lambda>x. fst x \<noteq> NotSent) (stuck_statements now u a r v)) db) = of_jobs db"
  "of_requests (fold snd (takeWhile (\<lambda>x. fst x \<noteq> NotSent) (stuck_statements now u a r v)) db) =
     update_where (\<lambda>x. rq_id x = rq_id r \<and> rq_status x \<in> {''queued'', ''processing''})
       (\<lambda>x. x\<lparr>rq_status := fst v, rq_updated_at := now\<rparr>) (of_requests db)"
  by (cases a; simp add: stuck_statements_def set_request_status_def insert_outbox_def insert_audit_def split: prod.split)+

lemma stuck_fold_failed: "tx_failed (fst s) \<Longrightarrow> fold (stuck_row now uuid a) rows s = s"
  by (induction rows arbitrary: s) (auto simp: stuck_row_def split: prod.split)

lemma stuck_row_rows:
  assumes "\<not> tx_failed (fst (stuck_row now uuid a r s))"
  shows "of_jobs (tx_db (fst (stuck_row now uuid a r s))) = of_jobs (tx_db (fst s)) \<and>
    of_requests (tx_db (fst (stuck_row now uuid a r s))) =
      update_where (\<lambda>x. rq_id x = rq_id r \<and> rq_status x \<in> {''queued'', ''processing''})
        (\<lambda>x. x\<lparr>rq_status := fst (reconciled (latest_job (tx_db (fst s)) (rq_id r))), rq_updated_at := now\<rparr>)
        (of_requests (tx_db (fst s)))"
proof (cases "tx_failed (fst s)")
  case False
  obtain t1 ok where t1: "sql_all (stuck_statements now (uuid (rq_id r)) (a (rq_id r)) r
      (reconciled (latest_job (tx_db (fst s)) (rq_id r)))) (fst s) = (t1, ok)" by (cases rule: prod.exhaust)
  with assms False have "\<not> tx_failed t1" by (cases s) (simp add: stuck_row_def)
  from sql_all_kept [OF t1 this] t1 False show ?thesis
    by (cases s) (simp add: stuck_row_def stuck_statements_rows)
qed (use assms in \<open>cases s; simp add: stuck_row_def\<close>)

lemma stuck_fold_rows:
  assumes "\<not> tx_failed (fst (fold (stuck_row now uuid a) rows s))"
  shows "of_requests (tx_db (fst (fold (stuck_row now uuid a) rows s))) =
    fold (\<lambda>r. update_where (\<lambda>x. rq_id x = rq_id r \<and> rq_status x \<in> {''queued'', ''processing''})
      (\<lambda>x. x\<lparr>rq_status := fst (reconciled (latest_job (tx_db (fst s)) (rq_id r))), rq_updated_at := now\<rparr>)) rows
      (of_requests (tx_db (fst s)))"
  using assms
proof (induction rows arbitrary: s)
  case (Cons r rows)
  have ok: "\<not> tx_failed (fst (stuck_row now uuid a r s))"
    using Cons.prems stuck_fold_failed [of "stuck_row now uuid a r s" now uuid a rows] by auto
  have same: "latest_job (tx_db (fst (stuck_row now uuid a r s))) = latest_job (tx_db (fst s))"
    using stuck_row_rows [OF ok] by (simp add: latest_job_def fun_eq_iff)
  from Cons.IH [of "stuck_row now uuid a r s"] Cons.prems stuck_row_rows [OF ok] show ?case
    by (simp add: same)
qed simp

text \<open>C40: Stuck requests do not stay stuck. When the sweep of stuck requests commits, each request of its batch has the status
  its latest job calls for (\<open>needs_review\<close>, \<open>failed\<close> or \<open>cancelled\<close>, and \<open>failed\<close> when it has none), and so
  it is not stuck any more.\<close>

theorem stuck_requests_are_resolved:
  assumes "offer_constraints db" "r \<in> set (stuck_requests now db)"
    and "\<not> tx_failed (fst (fold (stuck_row now uuid audit) (stuck_requests now db) (begin_tx db, 0)))"
  shows "let db' = fst (reconcile_stuck_requests now uuid audit db) in
    status_of db' (rq_id r) = Some (fst (reconciled (latest_job db (rq_id r)))) \<and>
    fst (reconciled (latest_job db (rq_id r))) \<in> {OFFER_STATUS_NEEDS_REVIEW, OFFER_STATUS_FAILED, OFFER_STATUS_CANCELLED}"
proof -
  let ?rows = "stuck_requests now db"
  let ?db = "fst (reconcile_stuck_requests now uuid audit db)"
  have keyed: "keyed rq_id (of_requests db)" using assms(1) by (rule offer_constraints_keys)
  have r: "r \<in> set (of_requests db)" "rq_status r \<in> {''queued'', ''processing''}"
    using assms(2) by (auto simp: stuck_requests_def is_stuck_def dest!: subsetD [OF set_select_page])
  have "?db = tx_db (fst (fold (stuck_row now uuid audit) ?rows (begin_tx db, 0)))"
    using assms(3) by (cases "fold (stuck_row now uuid audit) ?rows (begin_tx db, 0)")
      (simp add: reconcile_stuck_requests_def commit_tx_def)
  with stuck_fold_rows [OF assms(3)] have requests: "of_requests ?db =
      fold (\<lambda>r. update_where (\<lambda>x. rq_id x = rq_id r \<and> rq_status x \<in> {''queued'', ''processing''})
        (\<lambda>x. x\<lparr>rq_status := fst (reconciled (latest_job db (rq_id r))), rq_updated_at := now\<rparr>)) ?rows (of_requests db)"
    by (simp add: begin_tx_def)
  have "status_of ?db (rq_id r) = Some (fst (reconciled (latest_job db (rq_id r))))"
    using fold_update_own [of rq_id "\<lambda>r x. x\<lparr>rq_status := fst (reconciled (latest_job db (rq_id r))), rq_updated_at := now\<rparr>"
        rq_id ?rows r "\<lambda>x. rq_status x \<in> {''queued'', ''processing''}" "of_requests db"]
      keyed_stuck [OF keyed, of now] assms(2) keyed_select_one [OF keyed r(1)] r(2)
    by (simp add: status_of_def requests)
  moreover have "fst (reconciled l) \<in> {OFFER_STATUS_NEEDS_REVIEW, OFFER_STATUS_FAILED, OFFER_STATUS_CANCELLED}" for l
    by (auto simp: reconciled_def split: option.split)
  ultimately show ?thesis by (simp add: Let_def)
qed

theorem stuck_requests_are_resolved_witness:
  "let db' = fst (reconcile_stuck_requests (minutes 30) sweep_uuid (\<lambda>i. Accepted) stuck_db) in
   status_of db' (rq_id (hd (of_requests stuck_db))) = Some ''needs_review''"
proof -
  let ?r = "hd (of_requests stuck_db)"
  have ok: "offer_constraints stuck_db"
      "\<not> tx_failed (fst (fold (stuck_row (minutes 30) sweep_uuid (\<lambda>i. Accepted)) (stuck_requests (minutes 30) stuck_db) (begin_tx stuck_db, 0)))"
    by code_simp+
  have "stuck_requests (minutes 30) stuck_db = [?r]" by code_simp
  then have r: "?r \<in> set (stuck_requests (minutes 30) stuck_db)" by simp
  have "fst (reconciled (latest_job stuck_db (rq_id ?r))) = ''needs_review''" by code_simp
  with stuck_requests_are_resolved [OF ok(1) r ok(2)] show ?thesis by (simp only: Let_def)
qed

subsection \<open>Retries end\<close>

text \<open>
  What writes \<open>offer_jobs\<close> once a job is there: the start of a run, the failure handler and the result of a worker, and the sweep
  of expired leases, by any worker, with any lease version and for any job, in any order. A run that ends in
  an exception, or whose process dies, is a start that nothing follows until a sweep finds its lease
  expired. A step that raises leaves the database as it was. What other processes do between the transactions of a
  run is here other steps of the sequence.
\<close>

datatype job_step =
    Started runner_env string offer_payload
  | Failed runner_env offer_payload string string bool int "string option" int
  | Finished runner_env dequeued_offer_job string provider_response validated int
  | Swept json_codec time "string \<Rightarrow> nat \<Rightarrow> string" "string \<Rightarrow> stmt_end"

fun job_do :: "job_step \<Rightarrow> offer_db \<Rightarrow> offer_db" where
  "job_do (Started env w p) db = (case start_job env w p db of Inl e \<Rightarrow> db | Inr (db', phase1) \<Rightarrow> db')"
| "job_do (Failed env p code detail retryable lv prior_code prior_repeat) db =
    (case fail_job env p code detail retryable lv prior_code prior_repeat db of Inl e \<Rightarrow> db | Inr db' \<Rightarrow> db')"
| "job_do (Finished env d run_id response v lv) db =
    (case persist_result (env\<lparr>ev_others := (\<lambda>k. id)\<rparr>) d run_id response v lv db of Inl e \<Rightarrow> db | Inr (db', stored) \<Rightarrow> db')"
| "job_do (Swept c now uuid audit) db = fst (fst (reconcile_expired_leases c now uuid audit (db, empty_offer_queue)))"

text \<open>How often a queued job is set running.\<close>

fun runs_begun :: "string \<Rightarrow> job_step list \<Rightarrow> offer_db \<Rightarrow> nat" where
  "runs_begun i [] db = 0"
| "runs_begun i (st # steps) db =
    (if job_status_of db i = Some JOB_STATUS_QUEUED \<and> job_status_of (job_do st db) i = Some JOB_STATUS_RUNNING then 1 else 0) +
    runs_begun i steps (job_do st db)"

text \<open>A step never gives retries back, and it takes one when it queues the job again.\<close>

definition spends :: "offer_job \<Rightarrow> offer_job \<Rightarrow> bool" where
  "spends j j' \<longleftrightarrow> jb_max_retries j' = jb_max_retries j \<and> jb_retry_count j \<le> jb_retry_count j' \<and>
     (jb_status j' = ''queued'' \<longrightarrow> jb_status j = ''queued'' \<or>
        jb_retry_count j < jb_retry_count j' \<and> jb_retry_count j' \<le> jb_max_retries j)"

lemma spends_refl [simp]: "spends j j"
  by (simp add: spends_def)

definition job_after :: "offer_db \<Rightarrow> string \<Rightarrow> offer_job \<Rightarrow> bool" where
  "job_after db i j \<longleftrightarrow> offer_constraints db \<and> (\<exists>j'. select_one (\<lambda>x. jb_id x = i) (of_jobs db) = Some j' \<and> spends j j')"

lemma job_after_same:
  "offer_constraints db \<Longrightarrow> select_one (\<lambda>x. jb_id x = i) (of_jobs db) = Some j \<Longrightarrow> job_after db i j"
  by (auto simp: job_after_def)

lemma job_after_update:
  assumes "select_one (\<lambda>x. jb_id x = i) (of_jobs db) = Some j" "of_jobs db' = update_where q f (of_jobs db)"
    and "\<And>x. jb_id (f x) = jb_id x" "q j \<Longrightarrow> spends j (f j)" "offer_constraints db'"
  shows "job_after db' i j"
  using assms by (simp add: job_after_def select_one_update_where_keep)

lemma started_after:
  assumes "start_job env w p db = Inr (db', phase1)" "select_one (\<lambda>x. jb_id x = i) (of_jobs db) = Some j"
  shows "job_after db' i j"
proof -
  obtain lv c n where "phase1 = (lv, c, n)" by (cases phase1)
  note s = start_job_Inr [OF assms(1) [unfolded this]]
  show ?thesis
    by (rule job_after_update [OF assms(2) s(2) _ _ s(9)]) (simp_all add: spends_def)
qed

lemma fail_job_constraints:
  assumes "fail_job env p code detail retryable lv c n db = Inr db'"
  shows "offer_constraints db'"
  using assms
  by (auto simp: fail_job_def requeue_failed_job_def fail_job_for_good_def Let_def bind_res_eq_Inr commit_Inr
      split: if_splits option.splits)

lemma failed_after:
  assumes "fail_job env p code detail retryable lv c n db = Inr db'" "offer_constraints db"
    and j: "select_one (\<lambda>x. jb_id x = i) (of_jobs db) = Some j"
  shows "job_after db' i j"
proof (cases "list_ex (holds_lease (op_job_id p) lv) (of_jobs db)")
  case False
  with fail_job_lost [OF assms(1)] assms(2) j show ?thesis by (simp add: job_after_same)
next
  case True
  then obtain x where x: "x \<in> set (of_jobs db)" "jb_id x = op_job_id p" "jb_lease_version x = lv"
    by (auto simp: list_ex_iff holds_lease_def)
  from keyed_select_one [OF offer_constraints_keys(2) [OF assms(2)] x(1)] x(2)
  have one: "select_one (\<lambda>y. jb_id y = op_job_id p) (of_jobs db) = Some x" by simp
  obtain v st m where
    v: "of_jobs db' = update_where (holds_lease (op_job_id p) lv) (set_job_values v) (of_jobs db)"
      "st = ''queued'' \<and> will_retry retryable m x \<or> st = ''failed'' \<and> \<not> will_retry retryable m x"
      "retry_state (set_job_values v x) = (st, jb_retry_count x + 1, jb_max_retries x, Some code, m)"
    by (rule fail_job_split [OF assms(1) one x(3) refl])
  have "spends x (set_job_values v x)"
    using v(2,3) by (auto simp: spends_def retry_state_def will_retry_def)
  moreover have "j = x" if "holds_lease (op_job_id p) lv j"
    using that j one select_one_Some [OF j] by (auto simp: holds_lease_def)
  ultimately show ?thesis
    by (intro job_after_update [OF j v(1)] fail_job_constraints [OF assms(1)]) auto
qed

lemma finished_after:
  assumes "persist_result env d run_id response v lv db = Inr (db', stored)" "ev_others env 5 = id" "offer_constraints db"
    and j: "select_one (\<lambda>x. jb_id x = i) (of_jobs db) = Some j"
  shows "job_after db' i j"
proof -
  obtain s owned where s: "handle_validated env d run_id response v lv (open_session db) = Inr (s, owned)"
    using assms(1) by (auto simp: persist_result_def bind_res_eq_Inr split: prod.splits)
  show ?thesis
  proof (cases "list_ex (holds_lease (op_job_id (dq_payload d)) lv) (of_jobs db)")
    case False
    with assms(1,2) s handle_validated_lost [OF s False]
    have "db' = record_budget env (dq_payload d) (total_tokens response) True db" by (simp add: persist_result_def)
    with assms(3) j show ?thesis by (simp add: job_after_same)
  next
    case True
    note rows = handle_validated_Inr [OF s True]
    have "commit (s\<lparr>ss_db := record_budget env (dq_payload d) (total_tokens response) True (ss_db s)\<rparr>) = Inr db'"
      using assms(1) s rows(1) by (auto simp: persist_result_def bind_res_eq_Inr)
    then have "offer_constraints db'" "of_jobs db' = of_jobs (ss_db s)"
      using rows(2) by (auto simp: commit_Inr insert_pending_rows)
    with rows(5) have "of_jobs db' =
        update_where (holds_lease (op_job_id (dq_payload d)) lv) (set_job_values (completed_job_values env)) (of_jobs db)" by simp
    from job_after_update [OF j this _ _ \<open>offer_constraints db'\<close>] show ?thesis
      by (simp add: spends_def set_job_values_def completed_job_values_def job_status_values_def get_or_def)
  qed
qed

lemma swept_after:
  assumes "offer_constraints db" and j: "select_one (\<lambda>x. jb_id x = i) (of_jobs db) = Some j"
  shows "job_after (fst (fst (reconcile_expired_leases c now uuid a (db, q)))) i j"
proof (cases "tx_failed (sw_tx (expired_sweep now uuid a db))")
  case True
  with assms show ?thesis by (simp add: reconcile_expired_db commit_tx_def job_after_same)
next
  case False
  let ?db = "fst (fst (reconcile_expired_leases c now uuid a (db, q)))"
  have i: "i = jb_id j" "j \<in> set (of_jobs db)" using select_one_Some [OF j] by simp_all
  have "\<exists>j'. select_one (\<lambda>x. jb_id x = i) (of_jobs ?db) = Some j' \<and> spends j j'"
  proof (cases "i \<in> (\<lambda>row. jb_id (fst row)) ` set (expired_jobs now db)")
    case True
    then obtain r where row: "(j, r) \<in> set (expired_jobs now db)"
      using keyed_unique [OF offer_constraints_keys(2) [OF assms(1)] _ i(2)] expired_job_row(1) i(1) by fastforce
    have "jb_status j = ''running''" using expired_job_row(2) [OF row] by simp
    then have "spends j (recover (j, r) j)"
      by (simp add: spends_def recover_def requeue_row_def fail_row_def has_retries_def)
    with swept_job [OF assms(1) False row] i(1) show ?thesis by blast
  next
    case False
    with j fold_update_other [of jb_id recover i "\<lambda>row. jb_id (fst row)" "expired_jobs now db" "\<lambda>x. jb_status x = ''running''" "of_jobs db"]
    show ?thesis by (simp add: swept_jobs(1) [OF \<open>\<not> tx_failed _\<close>])
  qed
  with reconcile_expired_constraints [OF assms(1)] show ?thesis by (simp add: job_after_def)
qed

lemma step_after:
  assumes "offer_constraints db" "select_one (\<lambda>x. jb_id x = i) (of_jobs db) = Some j"
  shows "job_after (job_do st db) i j"
proof (cases st)
  case (Started env w p)
  with assms show ?thesis by (auto simp: job_after_same started_after split: sum.split)
next
  case (Failed env p code detail retryable lv c n)
  with assms show ?thesis by (auto simp: job_after_same failed_after split: sum.split)
next
  case (Finished env d run_id response v lv)
  with assms show ?thesis by (auto simp: job_after_same finished_after split: sum.split)
next
  case (Swept c now uuid a)
  with assms show ?thesis by (simp add: swept_after)
qed

definition runs_left :: "offer_job \<Rightarrow> int" where
  "runs_left j = (if jb_status j = ''queued'' then 1 else 0) + max 0 (jb_max_retries j - jb_retry_count j)"

lemma spends_runs:
  assumes "spends j j'"
  shows "runs_left j' + (if jb_status j = ''queued'' \<and> jb_status j' = ''running'' then 1 else 0) \<le> runs_left j"
  using assms by (auto simp: spends_def runs_left_def)

text \<open>C38: A failing offer job is not run for ever. In any sequence of starts, failures, results and lease sweeps, by any
  workers and with any codes, a queued job is set running at most once more than it has retries left. This
  counts the runs that end in the failure handler, which takes a retry before it queues the job again, and those that
  end in an exception or a crash, whose job the sweep queues again while \<open>retry_count < max_retries\<close>. It
  does not count the start of a job that is not queued, which a second delivery from Redis would cause.\<close>

theorem failing_job_stops_retrying:
  assumes "offer_constraints db" "select_one (\<lambda>x. jb_id x = i) (of_jobs db) = Some j"
  shows "int (runs_begun i steps db) \<le>
    (if jb_status j = JOB_STATUS_QUEUED then 1 else 0) + max 0 (jb_max_retries j - jb_retry_count j)"
proof -
  have "int (runs_begun i steps db) \<le> runs_left j"
    using assms
  proof (induction steps arbitrary: db j)
    case (Cons st steps)
    obtain j' where j': "offer_constraints (job_do st db)" "select_one (\<lambda>x. jb_id x = i) (of_jobs (job_do st db)) = Some j'"
        "spends j j'"
      using step_after [OF Cons.prems] by (auto simp: job_after_def)
    from Cons.IH [OF j'(1,2)] spends_runs [OF j'(3)] Cons.prems(2) j'(2) show ?case
      by (auto simp: job_status_of_def split: if_splits)
  qed (simp add: runs_left_def)
  then show ?thesis by (simp add: runs_left_def)
qed

text \<open>A job with three retries: two runs crash and are swept, one fails in its handler with the third retry, which ends it.\<close>

definition later_env :: "nat \<Rightarrow> runner_env" where
  "later_env n = (sample_env n)\<lparr>ev_now := (\<lambda>k. minutes (20 * int n))\<rparr>"

definition failing_steps :: "job_step list" where
  "failing_steps =
     [Started (later_env 1) ''w1'' sample_worker_payload,
      Swept (table_codec []) (minutes 30) sweep_uuid (\<lambda>i. NotSent),
      Started (later_env 2) ''w2'' sample_worker_payload,
      Swept (table_codec []) (minutes 50) sweep_uuid (\<lambda>i. NotSent),
      Started (later_env 3) ''w1'' sample_worker_payload,
      Failed (later_env 3) sample_worker_payload ''E'' ''d'' True 5 None 0,
      Swept (table_codec []) (minutes 70) sweep_uuid (\<lambda>i. NotSent)]"

definition crashing_steps :: "job_step list" where
  "crashing_steps = concat (map (\<lambda>n.
     [Started (later_env n) ''w1'' sample_worker_payload,
      Swept (table_codec []) (minutes (20 * int n + 10)) (\<lambda>i k. sweep_uuid (i @ str_nat n) k) (\<lambda>i. NotSent)]) [1, 2, 3, 4, 5])"

theorem failing_job_stops_retrying_witness:
  "int (runs_begun ''j1'' crashing_steps (sample_worker_db ''queued'')) \<le> 4 \<and>
   runs_begun ''j1'' crashing_steps (sample_worker_db ''queued'') = 4 \<and>
   job_status_of (fold job_do failing_steps (sample_worker_db ''queued'')) ''j1'' = Some ''failed''"
proof -
  have "offer_constraints (sample_worker_db ''queued'')"
      "select_one (\<lambda>x. jb_id x = ''j1'') (of_jobs (sample_worker_db ''queued'')) = Some sample_worker_job"
      "(if jb_status sample_worker_job = JOB_STATUS_QUEUED then 1 else 0) +
        max 0 (jb_max_retries sample_worker_job - jb_retry_count sample_worker_job) = 4"
    by code_simp+
  then have "int (runs_begun ''j1'' crashing_steps (sample_worker_db ''queued'')) \<le> 4"
    using failing_job_stops_retrying [of "sample_worker_db ''queued''" "''j1''" sample_worker_job crashing_steps] by simp
  moreover have "runs_begun ''j1'' crashing_steps (sample_worker_db ''queued'') = 4" by code_simp
  moreover have "job_status_of (fold job_do failing_steps (sample_worker_db ''queued'')) ''j1'' = Some ''failed''" by code_simp
  ultimately show ?thesis by blast
qed

end
