(* ===== verification/Analysis_Jobs.thy ===== *)
theory Analysis_Jobs
  imports Case_Transitions Outbox
begin

section \<open>Analysis jobs in the database\<close>

text \<open>
  Models the job part of \<open>app/repositories/analysis_repository.py\<close> and the table \<open>analysis_jobs\<close>. An operation
  gets the job object a session has loaded, which may be older than the row. The operations that set attributes of the
  object are flushed column by column: a column is written when its attribute differs from the loaded one. The others
  are one \<open>UPDATE\<close> whose \<open>WHERE\<close> looks at the row as it is. The argument \<open>ok\<close> says whether the statements and the
  commit go through; otherwise the operation raises and nothing is written. Each operation returns the database and the
  object after its refresh.
\<close>

record job_row =
  jw_id :: string
  jw_project_id :: string
  jw_status :: string
  jw_job_type :: string
  jw_work_type_code :: "string option"
  jw_profile_id :: "string option"
  jw_profile_code :: "string option"
  jw_profile_version :: "int option"
  jw_requested_by_user_id :: "string option"
  jw_parent_job_id :: "string option"
  jw_retry_count :: int
  jw_attempt_count :: int
  jw_lease_token :: "string option"
  jw_worker_id :: "string option"
  jw_leased_at :: "time option"
  jw_heartbeat_at :: "time option"
  jw_started_at :: "time option"
  jw_finished_at :: "time option"
  jw_error_message :: "string option"
  jw_error_traceback :: "string option"
  jw_input_payload :: "string option"
  jw_output_summary :: "string option"
  jw_created_at :: time

record job_project =
  jp_project :: project
  jp_created_by_user_id :: "string option"

record job_db =
  jd_jobs :: "job_row list"
  jd_projects :: "job_project list"
  jd_outbox :: "outbox_event list"
  jd_next_seq :: nat

subsection \<open>Statuses\<close>

definition ANALYSIS_JOB_STATUS_QUEUED :: string where
  [simp, constant_simps]: "ANALYSIS_JOB_STATUS_QUEUED = ''queued''"
definition ANALYSIS_JOB_STATUS_RUNNING :: string where
  [simp, constant_simps]: "ANALYSIS_JOB_STATUS_RUNNING = ''running''"
definition ANALYSIS_JOB_STATUS_COMPLETED :: string where
  [simp, constant_simps]: "ANALYSIS_JOB_STATUS_COMPLETED = ''completed''"
definition ANALYSIS_JOB_STATUS_FAILED :: string where
  [simp, constant_simps]: "ANALYSIS_JOB_STATUS_FAILED = ''failed''"
definition ANALYSIS_JOB_STATUS_CANCELED :: string where
  [simp, constant_simps]: "ANALYSIS_JOB_STATUS_CANCELED = ''canceled''"
definition ANALYSIS_JOB_STATUS_DEAD_LETTER :: string where
  [simp, constant_simps]: "ANALYSIS_JOB_STATUS_DEAD_LETTER = ''dead_letter''"
definition ANALYSIS_JOB_TYPE_MANUAL_TRIGGER :: string where
  [simp, constant_simps]: "ANALYSIS_JOB_TYPE_MANUAL_TRIGGER = ''manual_trigger''"
definition ANALYSIS_JOB_TYPE_QUOTE_RECALCULATION :: string where
  [simp, constant_simps]: "ANALYSIS_JOB_TYPE_QUOTE_RECALCULATION = ''quote_recalculation''"

definition ANALYSIS_JOB_STATUSES :: "string list" where
  "ANALYSIS_JOB_STATUSES = [''queued'', ''running'', ''completed'', ''failed'', ''canceled'', ''dead_letter'']"

definition ANALYSIS_JOB_FINAL_STATUSES :: "string list" where
  "ANALYSIS_JOB_FINAL_STATUSES = [''completed'', ''failed'', ''canceled'', ''dead_letter'']"

definition ALLOWED_ANALYSIS_JOB_TRANSITIONS :: "(string \<times> string list) list" where
  "ALLOWED_ANALYSIS_JOB_TRANSITIONS =
    [(''queued'', [''running'', ''failed'', ''canceled'', ''dead_letter'']),
     (''running'', [''completed'', ''failed'', ''canceled'', ''dead_letter'']),
     (''completed'', []), (''failed'', []), (''canceled'', []), (''dead_letter'', [])]"

definition job_targets :: "string \<Rightarrow> string list" where
  "job_targets s = (case map_of ALLOWED_ANALYSIS_JOB_TRANSITIONS s of None \<Rightarrow> [] | Some ts \<Rightarrow> ts)"

datatype job_error =
    InvalidAnalysisJobStatusError string
  | InvalidAnalysisJobStatusTransition string string
  | AnalysisJobLeaseOwnershipError string
  | RequesterMissing string
  | JobDbError

definition normalize_analysis_job_status :: "string \<Rightarrow> job_error + string" where
  "normalize_analysis_job_status status =
    (if py_strip status \<in> set ANALYSIS_JOB_STATUSES then Inr (py_strip status)
     else Inl (InvalidAnalysisJobStatusError status))"

definition validate_analysis_job_transition :: "string \<Rightarrow> string \<Rightarrow> job_error + unit" where
  "validate_analysis_job_transition current_status target_status =
     bind_res (normalize_analysis_job_status current_status) (\<lambda>current.
     bind_res (normalize_analysis_job_status target_status) (\<lambda>target.
       if current = target \<or> target \<in> set (job_targets current) then Inr ()
       else Inl (InvalidAnalysisJobStatusTransition current target)))"

text \<open>\<open>_set_job_status\<close>: an argument that is not given is \<open>None\<close>.\<close>

definition set_job_status ::
  "time \<Rightarrow> string \<Rightarrow> string option option \<Rightarrow> string option option \<Rightarrow> job_row \<Rightarrow> job_error + job_row" where
  "set_job_status now status error_message error_traceback j =
     bind_res (normalize_analysis_job_status (jw_status j)) (\<lambda>current.
     bind_res (normalize_analysis_job_status status) (\<lambda>target.
       if current = target then Inr j
       else bind_res (validate_analysis_job_transition current target) (\<lambda>_.
         let final = (target \<in> set ANALYSIS_JOB_FINAL_STATUSES);
             j1 = j\<lparr>jw_status := target\<rparr>;
             j2 = (if target = ANALYSIS_JOB_STATUS_RUNNING
                   then j1\<lparr>jw_started_at := Some (case jw_started_at j of None \<Rightarrow> now | Some t \<Rightarrow> t), jw_finished_at := None\<rparr>
                   else if final then j1\<lparr>jw_finished_at := Some now\<rparr> else j1);
             cleared = (\<lambda>given old. case given of Some v \<Rightarrow> v
                          | None \<Rightarrow> if target = ANALYSIS_JOB_STATUS_COMPLETED then None else old);
             j3 = j2\<lparr>jw_error_message := cleared error_message (jw_error_message j),
                     jw_error_traceback := cleared error_traceback (jw_error_traceback j)\<rparr>
         in Inr (if final then j3\<lparr>jw_lease_token := None, jw_worker_id := None, jw_leased_at := None,
                                   jw_heartbeat_at := None\<rparr> else j3))))"

subsection \<open>The unit of work\<close>

definition get_analysis_job :: "job_db \<Rightarrow> string \<Rightarrow> job_row option" where
  "get_analysis_job db job_id = select_one (\<lambda>j. jw_id j = job_id) (jd_jobs db)"

text \<open>The columns the repository sets on an object, each written only where it changed.\<close>

definition merge_columns :: "job_row \<Rightarrow> job_row \<Rightarrow> job_row \<Rightarrow> job_row" where
  "merge_columns old new r =
    (let col = (\<lambda>f. if f new = f old then f r else f new); tcol = (\<lambda>f. if f new = f old then f r else f new) in
     r\<lparr>jw_status := (if jw_status new = jw_status old then jw_status r else jw_status new),
       jw_started_at := tcol jw_started_at, jw_finished_at := tcol jw_finished_at,
       jw_error_message := col jw_error_message, jw_error_traceback := col jw_error_traceback,
       jw_output_summary := col jw_output_summary, jw_lease_token := col jw_lease_token,
       jw_worker_id := col jw_worker_id, jw_leased_at := tcol jw_leased_at, jw_heartbeat_at := tcol jw_heartbeat_at\<rparr>)"

definition write_jobs :: "(job_row list \<Rightarrow> job_row list) \<Rightarrow> job_db \<Rightarrow> job_db" where
  "write_jobs f db = db\<lparr>jd_jobs := f (jd_jobs db)\<rparr>"

text \<open>Flush of \<open>new\<close>, loaded as \<open>old\<close>, commit and refresh; a changed object whose row is gone is a stale-data error.\<close>

definition flush_job :: "bool \<Rightarrow> job_row \<Rightarrow> job_row \<Rightarrow> job_db \<Rightarrow> job_error + (job_db \<times> job_row)" where
  "flush_job ok old new db =
    (case get_analysis_job db (jw_id old) of
       None \<Rightarrow> Inl JobDbError
     | Some r \<Rightarrow>
         if \<not> ok then Inl JobDbError
         else Inr (write_jobs (update_where (\<lambda>x. jw_id x = jw_id old) (merge_columns old new)) db, merge_columns old new r))"

text \<open>\<open>UPDATE ... WHERE id = .. AND ..\<close> followed by the check of the row count.\<close>

definition update_job ::
  "bool \<Rightarrow> (job_row \<Rightarrow> bool) \<Rightarrow> (job_row \<Rightarrow> job_row) \<Rightarrow> string \<Rightarrow> job_row \<Rightarrow> job_db \<Rightarrow> job_error + (job_db \<times> job_row)" where
  "update_job ok cond f target j db =
    (case get_analysis_job db (jw_id j) of
       None \<Rightarrow> Inl JobDbError
     | Some r \<Rightarrow>
         if \<not> ok then Inl JobDbError
         else if cond r then Inr (write_jobs (update_where (\<lambda>x. jw_id x = jw_id j \<and> cond x) f) db, f r)
         else Inl (InvalidAnalysisJobStatusTransition (jw_status r) target))"

subsection \<open>Operations\<close>

definition new_job ::
  "time \<Rightarrow> string \<Rightarrow> string \<Rightarrow> string \<Rightarrow> string \<Rightarrow> string option \<Rightarrow> int \<Rightarrow> string option \<Rightarrow> job_row" where
  "new_job now uuid_hex project_id user job_type parent_job_id retry_count input_payload =
     \<lparr>jw_id = ''job_'' @ take 8 uuid_hex, jw_project_id = project_id, jw_status = ANALYSIS_JOB_STATUS_QUEUED,
      jw_job_type = job_type, jw_work_type_code = None, jw_profile_id = None, jw_profile_code = None,
      jw_profile_version = None, jw_requested_by_user_id = Some user, jw_parent_job_id = parent_job_id,
      jw_retry_count = retry_count, jw_attempt_count = 0, jw_lease_token = None, jw_worker_id = None,
      jw_leased_at = None, jw_heartbeat_at = None, jw_started_at = None, jw_finished_at = None,
      jw_error_message = None, jw_error_traceback = None, jw_input_payload = input_payload,
      jw_output_summary = None, jw_created_at = now\<rparr>"

record job_profile =
  jf_work_type_code :: "string option"
  jf_profile_id :: "string option"
  jf_profile_code :: "string option"
  jf_profile_version :: "int option"

definition create_queued_job ::
  "bool \<Rightarrow> time \<Rightarrow> string \<Rightarrow> job_project \<Rightarrow> string option \<Rightarrow> string option \<Rightarrow> int \<Rightarrow> string \<Rightarrow> string option
    \<Rightarrow> job_profile \<Rightarrow> job_db \<Rightarrow> job_error + (job_db \<times> job_row)" where
  "create_queued_job ok now uuid_hex p user_id parent_job_id retry_count job_type input_payload profile db =
    (case (case user_id of Some u \<Rightarrow> if u \<noteq> [] then Some u else jp_created_by_user_id p | None \<Rightarrow> jp_created_by_user_id p) of
       None \<Rightarrow> Inl (RequesterMissing (pr_id (jp_project p)))
     | Some user \<Rightarrow>
         let j = (new_job now uuid_hex (pr_id (jp_project p)) user job_type parent_job_id retry_count input_payload)
                 \<lparr>jw_work_type_code := jf_work_type_code profile, jw_profile_id := jf_profile_id profile,
                  jw_profile_code := jf_profile_code profile, jw_profile_version := jf_profile_version profile\<rparr>
         in if \<not> ok \<or> get_analysis_job db (jw_id j) \<noteq> None then Inl JobDbError
            else Inr (write_jobs (\<lambda>jobs. jobs @ [j]) db, j))"

definition mark_analysis_job_running ::
  "bool \<Rightarrow> time \<Rightarrow> string option \<Rightarrow> string option \<Rightarrow> time option \<Rightarrow> time option \<Rightarrow> job_row \<Rightarrow> job_db
    \<Rightarrow> job_error + (job_db \<times> job_row)" where
  "mark_analysis_job_running ok now lease_token worker_id leased_at heartbeat_at j db =
    (let lease_timestamp = (case leased_at of None \<Rightarrow> now | Some t \<Rightarrow> t);
         heartbeat = (case heartbeat_at of None \<Rightarrow> lease_timestamp | Some t \<Rightarrow> t)
     in update_job ok (\<lambda>r. jw_status r = ANALYSIS_JOB_STATUS_QUEUED)
          (\<lambda>r. r\<lparr>jw_status := ANALYSIS_JOB_STATUS_RUNNING,
                 jw_started_at := Some (case jw_started_at r of None \<Rightarrow> now | Some t \<Rightarrow> t), jw_finished_at := None,
                 jw_attempt_count := jw_attempt_count r + 1, jw_lease_token := lease_token, jw_worker_id := worker_id,
                 jw_leased_at := Some lease_timestamp, jw_heartbeat_at := Some heartbeat\<rparr>)
          ANALYSIS_JOB_STATUS_RUNNING j db)"

text \<open>The refreshed object, when the row is the worker's own.\<close>

definition assert_job_lease_owned :: "string \<Rightarrow> string \<Rightarrow> job_row \<Rightarrow> job_db \<Rightarrow> job_error + job_row" where
  "assert_job_lease_owned lease_token worker_id j db =
    (case get_analysis_job db (jw_id j) of
       None \<Rightarrow> Inl JobDbError
     | Some r \<Rightarrow>
         bind_res (normalize_analysis_job_status (jw_status r)) (\<lambda>status.
           if status \<noteq> ANALYSIS_JOB_STATUS_RUNNING \<or> jw_lease_token r \<noteq> Some lease_token \<or> jw_worker_id r \<noteq> Some worker_id
           then Inl (AnalysisJobLeaseOwnershipError (jw_id r)) else Inr r))"

definition heartbeat_job_lease ::
  "bool \<Rightarrow> string \<Rightarrow> string \<Rightarrow> string \<Rightarrow> time \<Rightarrow> time \<Rightarrow> job_db \<Rightarrow> job_error + (job_db \<times> bool)" where
  "heartbeat_job_lease ok job_id lease_token worker_id leased_at heartbeat_at db =
    (let owned = (\<lambda>r. jw_id r = job_id \<and> jw_status r = ANALYSIS_JOB_STATUS_RUNNING \<and>
                      jw_lease_token r = Some lease_token \<and> jw_worker_id r = Some worker_id)
     in if \<not> ok then Inl JobDbError
        else if list_ex owned (jd_jobs db)
        then Inr (write_jobs (update_where owned (\<lambda>r. r\<lparr>jw_leased_at := Some leased_at, jw_heartbeat_at := Some heartbeat_at\<rparr>)) db,
                  True)
        else Inr (db, False))"

definition released :: "job_row \<Rightarrow> job_row" where
  "released r = r\<lparr>jw_lease_token := None, jw_worker_id := None, jw_leased_at := None, jw_heartbeat_at := None\<rparr>"

definition reset_job_to_queued :: "bool \<Rightarrow> job_row \<Rightarrow> job_db \<Rightarrow> job_error + (job_db \<times> job_row)" where
  "reset_job_to_queued ok j db =
     bind_res (normalize_analysis_job_status (jw_status j)) (\<lambda>current.
       if current = ANALYSIS_JOB_STATUS_QUEUED then
         (case get_analysis_job db (jw_id j) of None \<Rightarrow> Inl JobDbError | Some r \<Rightarrow> Inr (db, r))
       else if current \<noteq> ANALYSIS_JOB_STATUS_RUNNING
         then Inl (InvalidAnalysisJobStatusTransition (jw_status j) ANALYSIS_JOB_STATUS_QUEUED)
       else update_job ok (\<lambda>r. jw_status r = ANALYSIS_JOB_STATUS_RUNNING)
         (\<lambda>r. (released r)\<lparr>jw_status := ANALYSIS_JOB_STATUS_QUEUED, jw_started_at := None, jw_finished_at := None,
            jw_error_message := None, jw_error_traceback := None\<rparr>) ANALYSIS_JOB_STATUS_QUEUED j db)"

definition schedule_job_retry ::
  "bool \<Rightarrow> string \<Rightarrow> string option \<Rightarrow> job_row \<Rightarrow> job_db \<Rightarrow> job_error + (job_db \<times> job_row)" where
  "schedule_job_retry ok message error_traceback j db =
     update_job ok (\<lambda>r. jw_status r = ANALYSIS_JOB_STATUS_RUNNING)
       (\<lambda>r. (released r)\<lparr>jw_status := ANALYSIS_JOB_STATUS_QUEUED, jw_started_at := None, jw_finished_at := None,
          jw_error_message := Some message, jw_error_traceback := error_traceback, jw_output_summary := None\<rparr>)
       ANALYSIS_JOB_STATUS_QUEUED j db"

definition requeue_dead_letter_job :: "bool \<Rightarrow> job_row \<Rightarrow> job_db \<Rightarrow> job_error + (job_db \<times> job_row)" where
  "requeue_dead_letter_job ok j db =
     bind_res (normalize_analysis_job_status (jw_status j)) (\<lambda>current.
       if current \<noteq> ANALYSIS_JOB_STATUS_DEAD_LETTER
         then Inl (InvalidAnalysisJobStatusTransition (jw_status j) ANALYSIS_JOB_STATUS_QUEUED)
       else update_job ok (\<lambda>r. jw_status r = ANALYSIS_JOB_STATUS_DEAD_LETTER)
         (\<lambda>r. (released r)\<lparr>jw_status := ANALYSIS_JOB_STATUS_QUEUED, jw_attempt_count := 0, jw_started_at := None,
            jw_finished_at := None, jw_error_message := None, jw_error_traceback := None, jw_output_summary := None\<rparr>)
         ANALYSIS_JOB_STATUS_QUEUED j db)"

text \<open>The operations that end a job through \<open>_set_job_status\<close>.\<close>

definition end_job ::
  "bool \<Rightarrow> time \<Rightarrow> string \<Rightarrow> string option option \<Rightarrow> string option option \<Rightarrow> job_row \<Rightarrow> job_db
    \<Rightarrow> job_error + (job_db \<times> job_row)" where
  "end_job ok now status error_message error_traceback j db =
     bind_res (set_job_status now status error_message error_traceback j) (\<lambda>j'. flush_job ok j j' db)"

definition mark_job_dead_letter where
  "mark_job_dead_letter ok now message error_traceback =
     end_job ok now ANALYSIS_JOB_STATUS_DEAD_LETTER (Some (Some message)) (Some error_traceback)"

definition fail_analysis_job where
  "fail_analysis_job ok now message error_traceback =
     end_job ok now ANALYSIS_JOB_STATUS_FAILED (Some (Some message)) (Some error_traceback)"

definition update_analysis_job_status where
  "update_analysis_job_status ok now status = end_job ok now status None None"

definition complete_job_without_result ::
  "bool \<Rightarrow> time \<Rightarrow> string option \<Rightarrow> job_row \<Rightarrow> job_db \<Rightarrow> job_error + (job_db \<times> job_row)" where
  "complete_job_without_result ok now output_summary j db =
     bind_res (normalize_analysis_job_status (jw_status j)) (\<lambda>current.
       if current = ANALYSIS_JOB_STATUS_COMPLETED then
         (case get_analysis_job db (jw_id j) of None \<Rightarrow> Inl JobDbError | Some r \<Rightarrow> Inr (db, r))
       else bind_res (set_job_status now ANALYSIS_JOB_STATUS_COMPLETED (Some None) (Some None) j) (\<lambda>j'.
         flush_job ok j (j'\<lparr>jw_output_summary := output_summary\<rparr>) db))"

subsection \<open>Reads\<close>

definition active_job :: "job_row \<Rightarrow> bool" where
  "active_job j \<longleftrightarrow> jw_status j \<in> {ANALYSIS_JOB_STATUS_QUEUED, ANALYSIS_JOB_STATUS_RUNNING}"

definition project_of :: "job_db \<Rightarrow> string \<Rightarrow> job_project option" where
  "project_of db project_id = select_one (\<lambda>p. pr_id (jp_project p) = project_id) (jd_projects db)"

definition job_organization :: "job_db \<Rightarrow> job_row \<Rightarrow> string option" where
  "job_organization db j = map_option (\<lambda>p. pr_organization_id (jp_project p)) (project_of db (jw_project_id j))"

definition get_project_in_org :: "job_db \<Rightarrow> string \<Rightarrow> string \<Rightarrow> job_project option" where
  "get_project_in_org db project_id organization_id =
     select_one (\<lambda>p. pr_id (jp_project p) = project_id \<and> pr_organization_id (jp_project p) = organization_id) (jd_projects db)"

definition get_analysis_job_in_org :: "job_db \<Rightarrow> string \<Rightarrow> string \<Rightarrow> job_row option" where
  "get_analysis_job_in_org db job_id organization_id =
     select_one (\<lambda>j. jw_id j = job_id \<and> job_organization db j = Some organization_id) (jd_jobs db)"

text \<open>\<open>ORDER BY created_at DESC LIMIT 1\<close>\<close>

definition get_active_job_for_project_by_type :: "job_db \<Rightarrow> string \<Rightarrow> string option \<Rightarrow> job_row option" where
  "get_active_job_for_project_by_type db project_id job_type =
     latest_by jw_created_at (filter (\<lambda>j. jw_project_id j = project_id \<and> active_job j \<and>
       (case job_type of None \<Rightarrow> True | Some t \<Rightarrow> jw_job_type j = t)) (jd_jobs db))"

definition count_active_jobs_for_organization :: "job_db \<Rightarrow> string \<Rightarrow> string option \<Rightarrow> int" where
  "count_active_jobs_for_organization db organization_id job_type =
     int (length (filter (\<lambda>j. job_organization db j = Some organization_id \<and> active_job j \<and>
       (case job_type of None \<Rightarrow> True | Some t \<Rightarrow> jw_job_type j = t)) (jd_jobs db)))"

definition retry_inflight :: "job_row \<Rightarrow> bool" where
  "retry_inflight j \<longleftrightarrow> active_job j \<and> (jw_retry_count j > 0 \<or> jw_attempt_count j > 1)"

definition count_retry_inflight_jobs :: "job_db \<Rightarrow> int" where
  "count_retry_inflight_jobs db = int (length (filter retry_inflight (jd_jobs db)))"

definition list_active_jobs_with_organization_id :: "job_db \<Rightarrow> (job_row \<times> string) list" where
  "list_active_jobs_with_organization_id db =
     List.map_filter (\<lambda>j. map_option (Pair j) (job_organization db j))
       (sort_key (\<lambda>j. (jw_created_at j, jw_id j)) (filter active_job (jd_jobs db)))"

subsection \<open>The table of transitions is a lifecycle\<close>

lemmas job_status_sets = ANALYSIS_JOB_STATUSES_def ANALYSIS_JOB_FINAL_STATUSES_def job_targets_def
  ALLOWED_ANALYSIS_JOB_TRANSITIONS_def

lemma job_targets_cases:
  "t \<in> set (job_targets s) \<longleftrightarrow>
     (s = ''queued'' \<and> t \<in> {''running'', ''failed'', ''canceled'', ''dead_letter''}) \<or>
     (s = ''running'' \<and> t \<in> {''completed'', ''failed'', ''canceled'', ''dead_letter''})"
  by (simp add: job_status_sets)

lemma job_targets_Nil: "job_targets s = [] \<longleftrightarrow> s \<notin> {''queued'', ''running''}"
  by (auto simp: job_status_sets)

interpretation job_machine: lifecycle job_targets "\<lambda>s. s \<in> set ANALYSIS_JOB_FINAL_STATUSES"
    "\<lambda>s. s \<in> set ANALYSIS_JOB_STATUSES"
proof unfold_locales
  fix s t :: string
  show "s \<in> set ANALYSIS_JOB_FINAL_STATUSES \<Longrightarrow> job_targets s = []"
    by (auto simp: job_targets_Nil ANALYSIS_JOB_FINAL_STATUSES_def)
  show "t \<in> set (job_targets s) \<Longrightarrow> s \<in> set ANALYSIS_JOB_STATUSES \<and> t \<in> set ANALYSIS_JOB_STATUSES"
    by (auto simp: job_targets_cases ANALYSIS_JOB_STATUSES_def)
  show "s \<in> set ANALYSIS_JOB_STATUSES \<Longrightarrow> s \<notin> set ANALYSIS_JOB_FINAL_STATUSES \<Longrightarrow> job_targets s \<noteq> []"
    by (auto simp: job_targets_Nil job_status_sets)
  show "s \<notin> set (job_targets s)"
    by (auto simp: job_targets_cases)
qed

lemma statuses_stripped_all: "list_all (\<lambda>s. py_strip s = s) ANALYSIS_JOB_STATUSES"
  by code_simp

lemma statuses_stripped: "s \<in> set ANALYSIS_JOB_STATUSES \<Longrightarrow> py_strip s = s"
  using statuses_stripped_all by (simp add: list_all_iff)

lemma normalize_known: "s \<in> set ANALYSIS_JOB_STATUSES \<Longrightarrow> normalize_analysis_job_status s = Inr s"
  by (simp add: normalize_analysis_job_status_def statuses_stripped)

lemma final_statuses_known: "s \<in> set ANALYSIS_JOB_FINAL_STATUSES \<Longrightarrow> s \<in> set ANALYSIS_JOB_STATUSES"
  by (auto simp: job_status_sets)

subsection \<open>Well-formed jobs\<close>

definition no_lease :: "job_row \<Rightarrow> bool" where
  "no_lease j \<longleftrightarrow> jw_lease_token j = None \<and> jw_worker_id j = None \<and> jw_leased_at j = None \<and> jw_heartbeat_at j = None"

definition job_ok :: "job_row \<Rightarrow> bool" where
  "job_ok j \<longleftrightarrow> jw_status j \<in> set ANALYSIS_JOB_STATUSES \<and> 0 \<le> jw_attempt_count j \<and>
     (jw_status j = ''queued'' \<longrightarrow> no_lease j \<and> jw_started_at j = None \<and> jw_finished_at j = None) \<and>
     (jw_status j = ''running'' \<longrightarrow> jw_started_at j \<noteq> None \<and> jw_finished_at j = None \<and> jw_leased_at j \<noteq> None \<and>
        jw_heartbeat_at j \<noteq> None \<and> 0 < jw_attempt_count j) \<and>
     (jw_status j \<in> set ANALYSIS_JOB_FINAL_STATUSES \<longrightarrow> no_lease j \<and> jw_finished_at j \<noteq> None)"

definition jobs_ok :: "job_db \<Rightarrow> bool" where
  "jobs_ok db \<longleftrightarrow> keyed jw_id (jd_jobs db) \<and> list_all job_ok (jd_jobs db)"

lemma get_analysis_job_Some: "get_analysis_job db i = Some j \<Longrightarrow> j \<in> set (jd_jobs db) \<and> jw_id j = i"
  unfolding get_analysis_job_def by (drule select_one_Some) simp

lemma jobs_ok_get: "jobs_ok db \<Longrightarrow> get_analysis_job db i = Some j \<Longrightarrow> job_ok j"
  by (auto simp: jobs_ok_def list_all_iff dest: get_analysis_job_Some)

lemma jobs_ok_write:
  assumes "jobs_ok db" "\<And>r. r \<in> set (jd_jobs db) \<Longrightarrow> p r \<Longrightarrow> job_ok (f r)" "\<And>r. jw_id (f r) = jw_id r"
  shows "jobs_ok (write_jobs (update_where p f) db)"
  using assms unfolding jobs_ok_def write_jobs_def by (simp add: keyed_update_where list_all_update_where)

text \<open>An object read from the row and flushed is the row.\<close>

definition fixed_columns where
  "fixed_columns j = ((jw_id j, jw_project_id j, jw_job_type j, jw_work_type_code j, jw_profile_id j, jw_profile_code j,
     jw_profile_version j, jw_requested_by_user_id j, jw_parent_job_id j, jw_retry_count j, jw_attempt_count j,
     jw_input_payload j, jw_created_at j), job_row.more j)"

lemma fixed_columns_update [simp]:
  "fixed_columns (j\<lparr>jw_status := a\<rparr>) = fixed_columns j" "fixed_columns (j\<lparr>jw_started_at := b\<rparr>) = fixed_columns j"
  "fixed_columns (j\<lparr>jw_finished_at := b\<rparr>) = fixed_columns j" "fixed_columns (j\<lparr>jw_error_message := c\<rparr>) = fixed_columns j"
  "fixed_columns (j\<lparr>jw_error_traceback := c\<rparr>) = fixed_columns j" "fixed_columns (j\<lparr>jw_output_summary := c\<rparr>) = fixed_columns j"
  "fixed_columns (j\<lparr>jw_lease_token := c\<rparr>) = fixed_columns j" "fixed_columns (j\<lparr>jw_worker_id := c\<rparr>) = fixed_columns j"
  "fixed_columns (j\<lparr>jw_leased_at := b\<rparr>) = fixed_columns j" "fixed_columns (j\<lparr>jw_heartbeat_at := b\<rparr>) = fixed_columns j"
  by (simp_all add: fixed_columns_def)

lemma merge_columns_fresh: "fixed_columns new = fixed_columns old \<Longrightarrow> merge_columns old new old = new"
  by (rule job_row.equality) (simp_all add: merge_columns_def fixed_columns_def Let_def)

lemma set_job_status_fixed: "set_job_status now s m t j = Inr j' \<Longrightarrow> fixed_columns j' = fixed_columns j"
  by (auto simp: set_job_status_def bind_res_eq_Inr Let_def split: if_splits)

subsection \<open>The table under its operations\<close>

text \<open>One operation of the repository. The statements with a condition on the row take any object of a job; the ones that
  flush the object take it as it stands in the table.\<close>

inductive job_step :: "job_db \<Rightarrow> job_db \<Rightarrow> bool" where
  Create: "create_queued_job ok now u p user parent n t payload pf db = Inr (db', r) \<Longrightarrow> job_step db db'"
| Claim: "mark_analysis_job_running ok now tok w la hb j db = Inr (db', r) \<Longrightarrow> job_step db db'"
| Heartbeat: "heartbeat_job_lease ok i tok w la hb db = Inr (db', b) \<Longrightarrow> job_step db db'"
| Reset: "reset_job_to_queued ok j db = Inr (db', r) \<Longrightarrow> job_step db db'"
| Retry: "schedule_job_retry ok m tb j db = Inr (db', r) \<Longrightarrow> job_step db db'"
| Reprocess: "requeue_dead_letter_job ok j db = Inr (db', r) \<Longrightarrow> job_step db db'"
| End: "get_analysis_job db i = Some j \<Longrightarrow> s \<in> set ANALYSIS_JOB_FINAL_STATUSES \<Longrightarrow>
    end_job ok now s m tb j db = Inr (db', r) \<Longrightarrow> job_step db db'"
| Finish: "get_analysis_job db i = Some j \<Longrightarrow> complete_job_without_result ok now out j db = Inr (db', r) \<Longrightarrow> job_step db db'"

definition closed_for_good :: "job_row \<Rightarrow> bool" where
  "closed_for_good j \<longleftrightarrow> jw_status j \<in> {''completed'', ''failed'', ''canceled''}"

definition succeeded_by :: "job_row \<Rightarrow> job_row \<Rightarrow> bool" where
  "succeeded_by j j' \<longleftrightarrow> jw_id j' = jw_id j \<and> jw_project_id j' = jw_project_id j \<and> jw_job_type j' = jw_job_type j \<and>
     jw_retry_count j' = jw_retry_count j \<and> (closed_for_good j \<longrightarrow> j' = j)"

definition jobs_follow :: "job_db \<Rightarrow> job_db \<Rightarrow> bool" where
  "jobs_follow db db' \<longleftrightarrow> jobs_ok db' \<and> (\<forall>j \<in> set (jd_jobs db). \<exists>j' \<in> set (jd_jobs db'). succeeded_by j j')"

lemma jobs_follow_refl: "jobs_ok db \<Longrightarrow> jobs_follow db db"
  unfolding jobs_follow_def succeeded_by_def by blast

lemma jobs_follow_trans: "jobs_follow a b \<Longrightarrow> jobs_follow b c \<Longrightarrow> jobs_follow a c"
  unfolding jobs_follow_def succeeded_by_def by (metis (no_types, lifting))

lemma jobs_follow_write:
  assumes "jobs_ok db" "\<And>r. r \<in> set (jd_jobs db) \<Longrightarrow> p r \<Longrightarrow> succeeded_by r (f r) \<and> job_ok (f r)"
    and "\<And>r. jw_id (f r) = jw_id r"
  shows "jobs_follow db (write_jobs (update_where p f) db)"
proof -
  have "\<exists>j' \<in> set (jd_jobs (write_jobs (update_where p f) db)). succeeded_by j j'" if "j \<in> set (jd_jobs db)" for j
    using that assms(2) [OF that]
    by (intro bexI [where x = "if p j then f j else j"]) (auto simp: write_jobs_def set_update_where succeeded_by_def)
  with jobs_ok_write assms show ?thesis unfolding jobs_follow_def by blast
qed

text \<open>An \<open>UPDATE\<close> of rows in one status that is not closed for good.\<close>

lemma update_job_follows:
  assumes "update_job ok cond f t j db = Inr (db', r)" "jobs_ok db"
    and "\<And>x. cond x \<Longrightarrow> job_ok x \<Longrightarrow> succeeded_by x (f x) \<and> job_ok (f x)" "\<And>x. jw_id (f x) = jw_id x"
  shows "jobs_follow db db'"
proof -
  have "db' = write_jobs (update_where (\<lambda>x. jw_id x = jw_id j \<and> cond x) f) db"
    using assms(1) by (auto simp: update_job_def split: option.splits if_splits)
  with assms(2-4) show ?thesis by (auto intro!: jobs_follow_write simp: jobs_ok_def list_all_iff)
qed

lemma flush_follows:
  assumes "jobs_ok db" "get_analysis_job db i = Some j" "fixed_columns r = fixed_columns j"
    and "succeeded_by j r \<and> job_ok r"
  shows "jobs_follow db (write_jobs (update_where (\<lambda>x. jw_id x = i) (merge_columns j r)) db)"
proof (rule jobs_follow_write [OF assms(1)])
  fix x
  show "jw_id (merge_columns j r x) = jw_id x" by (simp add: merge_columns_def Let_def)
  assume "x \<in> set (jd_jobs db)" "jw_id x = i"
  with get_analysis_job_Some [OF assms(2)] assms(1) have "x = j" by (auto simp: jobs_ok_def dest: keyed_unique)
  with assms(3,4) show "succeeded_by x (merge_columns j r x) \<and> job_ok (merge_columns j r x)"
    by (simp add: merge_columns_fresh)
qed

lemmas job_simps = job_ok_def no_lease_def released_def succeeded_by_def closed_for_good_def ANALYSIS_JOB_STATUSES_def
  ANALYSIS_JOB_FINAL_STATUSES_def

lemma final_statuses_not_active:
  "s \<in> set ANALYSIS_JOB_FINAL_STATUSES \<Longrightarrow> s \<in> set ANALYSIS_JOB_STATUSES \<and> s \<noteq> ''queued'' \<and> s \<noteq> ''running''"
  by (auto simp: job_status_sets)

lemma succeeded_by_refl: "succeeded_by j j"
  by (simp add: succeeded_by_def)

lemma fixed_follow: "fixed_columns r = fixed_columns j \<Longrightarrow> \<not> closed_for_good j \<Longrightarrow> succeeded_by j r"
  by (simp add: fixed_columns_def succeeded_by_def)

text \<open>What \<open>_set_job_status\<close> makes of a well-formed job.\<close>

lemma set_job_status_ended:
  assumes "set_job_status now s m t j = Inr j'" "job_ok j" "s \<in> set ANALYSIS_JOB_FINAL_STATUSES"
  shows "(jw_status j = s \<and> j' = j) \<or>
    (jw_status j \<in> {''queued'', ''running''} \<and> jw_status j' = s \<and> no_lease j' \<and> jw_finished_at j' = Some now)"
proof (cases "jw_status j = s")
  case True
  with assms show ?thesis by (simp add: set_job_status_def job_ok_def normalize_known)
next
  case False
  have norm: "normalize_analysis_job_status (jw_status j) = Inr (jw_status j)" "normalize_analysis_job_status s = Inr s"
    using assms(2,3) final_statuses_known by (simp_all add: job_ok_def normalize_known)
  with assms(1) False have "s \<in> set (job_targets (jw_status j))"
    by (auto simp: set_job_status_def bind_res_eq_Inr validate_analysis_job_transition_def split: if_splits)
  then have "jw_status j \<in> {''queued'', ''running''}" "s \<noteq> ''running''"
    using assms(3) by (auto simp: job_targets_cases ANALYSIS_JOB_FINAL_STATUSES_def)
  with assms(1,3) norm False show ?thesis
    by (auto simp: set_job_status_def bind_res_eq_Inr Let_def no_lease_def)
qed

lemma ended_ok:
  assumes "set_job_status now s m t j = Inr j'" "job_ok j" "s \<in> set ANALYSIS_JOB_FINAL_STATUSES"
  shows "succeeded_by j j' \<and> job_ok j'"
proof -
  have fixed: "fixed_columns j' = fixed_columns j" using set_job_status_fixed [OF assms(1)] .
  then have count: "jw_attempt_count j' = jw_attempt_count j" by (simp add: fixed_columns_def)
  from set_job_status_ended [OF assms] show ?thesis
  proof
    assume "jw_status j = s \<and> j' = j"
    with assms(2) succeeded_by_refl show ?thesis by simp
  next
    assume e: "jw_status j \<in> {''queued'', ''running''} \<and> jw_status j' = s \<and> no_lease j' \<and> jw_finished_at j' = Some now"
    then have "\<not> closed_for_good j" by (auto simp: closed_for_good_def)
    with fixed have "succeeded_by j j'" by (rule fixed_follow)
    moreover have "job_ok j'"
      using e count assms(2) final_statuses_not_active [OF assms(3)] unfolding job_ok_def by simp
    ultimately show ?thesis by simp
  qed
qed

lemma flush_job_Inr:
  "flush_job ok j j' db = Inr (db', r) \<Longrightarrow> get_analysis_job db i = Some j \<Longrightarrow>
     db' = write_jobs (update_where (\<lambda>x. jw_id x = i) (merge_columns j j')) db \<and> r = merge_columns j j' j"
  using get_analysis_job_Some [of db i j] by (auto simp: flush_job_def split: if_splits)

lemma job_step_follows:
  assumes "job_step db db'" "jobs_ok db"
  shows "jobs_follow db db'"
  using assms
proof (cases rule: job_step.cases)
  case (Create ok now u p user parent n t payload pf r)
  then have "db' = write_jobs (\<lambda>jobs. jobs @ [r]) db" "get_analysis_job db (jw_id r) = None" "job_ok r"
    by (auto simp: create_queued_job_def new_job_def job_simps Let_def split: option.splits if_splits)
  with assms(2) show ?thesis
    by (auto simp: jobs_follow_def jobs_ok_def write_jobs_def keyed_snoc get_analysis_job_def select_one_None
        intro: succeeded_by_refl)
next
  case (Claim ok now tok w la hb j r)
  then show ?thesis
    unfolding mark_analysis_job_running_def Let_def
    by (elim update_job_follows [OF _ assms(2)]) (auto simp: job_simps)
next
  case (Heartbeat ok i tok w la hb b)
  let ?f = "\<lambda>r. r\<lparr>jw_leased_at := Some la, jw_heartbeat_at := Some hb\<rparr>"
  have "succeeded_by x (?f x) \<and> job_ok (?f x)" if "jw_status x = ''running''" "job_ok x" for x
    using that by (simp add: job_simps)
  moreover have "\<forall>x \<in> set (jd_jobs db). job_ok x" using assms(2) by (simp add: jobs_ok_def list_all_iff)
  ultimately have "jobs_follow db (write_jobs (update_where (\<lambda>r. jw_id r = i \<and> jw_status r = ''running'' \<and>
      jw_lease_token r = Some tok \<and> jw_worker_id r = Some w) ?f) db)"
    by (intro jobs_follow_write [OF assms(2)]) simp_all
  with Heartbeat jobs_follow_refl [OF assms(2)] show ?thesis
    by (simp add: heartbeat_job_lease_def Let_def split: if_splits)
next
  case (Reset ok j r)
  then consider "db' = db"
    | "update_job ok (\<lambda>r. jw_status r = ANALYSIS_JOB_STATUS_RUNNING)
         (\<lambda>r. (released r)\<lparr>jw_status := ANALYSIS_JOB_STATUS_QUEUED, jw_started_at := None, jw_finished_at := None,
            jw_error_message := None, jw_error_traceback := None\<rparr>) ANALYSIS_JOB_STATUS_QUEUED j db = Inr (db', r)"
    by (auto simp: reset_job_to_queued_def bind_res_eq_Inr split: option.splits if_splits)
  then show ?thesis
  proof cases
    case 1
    with jobs_follow_refl [OF assms(2)] show ?thesis by simp
  next
    case 2
    then show ?thesis by (elim update_job_follows [OF _ assms(2)]) (auto simp: job_simps)
  qed
next
  case (Retry ok m tb j r)
  then show ?thesis
    unfolding schedule_job_retry_def by (elim update_job_follows [OF _ assms(2)]) (auto simp: job_simps)
next
  case (Reprocess ok j r)
  then show ?thesis
    unfolding requeue_dead_letter_job_def bind_res_eq_Inr
    by (auto split: if_splits elim!: update_job_follows [OF _ assms(2)] simp: job_simps)
next
  case (End i j s ok now m tb r)
  then obtain j' where j': "set_job_status now s m tb j = Inr j'" "flush_job ok j j' db = Inr (db', r)"
    by (auto simp: end_job_def bind_res_eq_Inr)
  have "job_ok j" using jobs_ok_get [OF assms(2)] End by simp
  with ended_ok j'(1) End set_job_status_fixed flush_job_Inr [OF j'(2)] flush_follows [OF assms(2)] show ?thesis by metis
next
  case (Finish i j ok now out r)
  have ok: "job_ok j" using jobs_ok_get [OF assms(2)] Finish by simp
  then have norm: "normalize_analysis_job_status (jw_status j) = Inr (jw_status j)" by (simp add: job_ok_def normalize_known)
  show ?thesis
  proof (cases "jw_status j = ''completed''")
    case True
    with Finish norm assms(2) jobs_follow_refl show ?thesis
      by (auto simp: complete_job_without_result_def split: option.splits)
  next
    case False
    with Finish norm obtain j' where j': "set_job_status now ''completed'' (Some None) (Some None) j = Inr j'"
      "flush_job ok j (j'\<lparr>jw_output_summary := out\<rparr>) db = Inr (db', r)"
      by (auto simp: complete_job_without_result_def bind_res_eq_Inr)
    have "succeeded_by j j' \<and> job_ok j'" using ended_ok [OF j'(1) ok] by (simp add: ANALYSIS_JOB_FINAL_STATUSES_def)
    moreover have "\<not> closed_for_good j"
      using set_job_status_ended [OF j'(1) ok] False by (auto simp: ANALYSIS_JOB_FINAL_STATUSES_def closed_for_good_def)
    moreover have "fixed_columns (j'\<lparr>jw_output_summary := out\<rparr>) = fixed_columns j" using set_job_status_fixed [OF j'(1)] by simp
    moreover have "job_ok (j'\<lparr>jw_output_summary := out\<rparr>) = job_ok j'" by (simp add: job_ok_def no_lease_def)
    ultimately show ?thesis
      using flush_job_Inr [OF j'(2)] Finish flush_follows [OF assms(2)] fixed_follow by metis
  qed
qed

text \<open>C5: However the operations of the repository follow one another, the job table stays well formed: a queued job
  has neither lease nor start nor end, a running one has a start, a heartbeat and a counted attempt, a job in a final
  status has no lease and an end; and the row of a job that is completed, failed or canceled stays as it is. The
  operations are creation, claim, heartbeat, reset, retry and reprocessing, on any object however old it is, since their
  UPDATE checks the row; and the ends and the completion on an object that agrees with its row. Not among them: an end on
  an object that a session has loaded before the row changed, which overwrites it whatever it is, and the failure path
  that sets the status of the object before it calls the repository.\<close>

theorem job_table_stays_well_formed:
  assumes "job_step\<^sup>*\<^sup>* db db'" "jobs_ok db"
  shows "jobs_ok db' \<and> (\<forall>j \<in> set (jd_jobs db). \<exists>j' \<in> set (jd_jobs db'). jw_id j' = jw_id j \<and>
    jw_project_id j' = jw_project_id j \<and> jw_retry_count j' = jw_retry_count j \<and>
    (jw_status j \<in> {''completed'', ''failed'', ''canceled''} \<longrightarrow> j' = j))"
proof -
  have "jobs_follow db db'"
    using assms
  proof (induction rule: rtranclp_induct)
    case base
    then show ?case by (rule jobs_follow_refl)
  next
    case (step y z)
    then have "jobs_ok y" by (simp add: jobs_follow_def)
    with step job_step_follows jobs_follow_trans show ?case by blast
  qed
  then show ?thesis by (auto simp: jobs_follow_def succeeded_by_def closed_for_good_def)
qed

definition sample_job_db :: job_db where
  "sample_job_db = \<lparr>jd_jobs = [], jd_projects = [\<lparr>jp_project = \<lparr>pr_id = ''p1'', pr_organization_id = ''o1'',
      pr_status = ''analyzing'', pr_status_changed_at = None, pr_status_changed_by_user_id = None\<rparr>,
      jp_created_by_user_id = Some ''u1''\<rparr>], jd_outbox = [], jd_next_seq = 1\<rparr>"

definition no_profile :: job_profile where
  "no_profile = \<lparr>jf_work_type_code = None, jf_profile_id = None, jf_profile_code = None, jf_profile_version = None\<rparr>"

definition sample_queued :: "job_db \<times> job_row" where
  "sample_queued = (case create_queued_job True 5 ''0123456789abcdef'' (hd (jd_projects sample_job_db)) None None 0
     ANALYSIS_JOB_TYPE_MANUAL_TRIGGER None no_profile sample_job_db of Inr x \<Rightarrow> x)"

definition sample_claimed :: "job_db \<times> job_row" where
  "sample_claimed = (case mark_analysis_job_running True 9 (Some ''1'') (Some ''w1'') None None (snd sample_queued)
     (fst sample_queued) of Inr x \<Rightarrow> x)"

lemma sample_job_steps: "job_step\<^sup>*\<^sup>* sample_job_db (fst sample_claimed)"
proof -
  have "create_queued_job True 5 ''0123456789abcdef'' (hd (jd_projects sample_job_db)) None None 0
     ANALYSIS_JOB_TYPE_MANUAL_TRIGGER None no_profile sample_job_db = Inr (fst sample_queued, snd sample_queued)"
    by code_simp
  from job_step.Create [OF this] have first: "job_step sample_job_db (fst sample_queued)" .
  have "mark_analysis_job_running True 9 (Some ''1'') (Some ''w1'') None None (snd sample_queued) (fst sample_queued) =
      Inr (fst sample_claimed, snd sample_claimed)"
    by code_simp
  from job_step.Claim [OF this] first show ?thesis by (meson r_into_rtranclp rtranclp.rtrancl_into_rtrancl)
qed

theorem job_table_stays_well_formed_witness:
  "jobs_ok (fst sample_claimed) \<and> map jw_status (jd_jobs (fst sample_claimed)) = [''running'']"
proof -
  have "jobs_ok sample_job_db" by code_simp
  from job_table_stays_well_formed [OF sample_job_steps this] have "jobs_ok (fst sample_claimed)" by blast
  moreover have "map jw_status (jd_jobs (fst sample_claimed)) = [''running'']" by code_simp
  ultimately show ?thesis by simp
qed

text \<open>A session that loaded the running job before it was canceled ends it all the same.\<close>

lemma stale_end_overwrites:
  "case end_job True 20 ''canceled'' None None (snd sample_claimed) (fst sample_claimed) of
     Inr (db, j) \<Rightarrow> (case end_job True 30 ''completed'' None None (snd sample_claimed) db of
        Inr (db', j') \<Rightarrow> map jw_status (jd_jobs db) = [''canceled''] \<and> map jw_status (jd_jobs db') = [''completed'']
      | _ \<Rightarrow> False)
   | _ \<Rightarrow> False"
  by code_simp

end
