(* ===== verification/Analysis_Service.thy ===== *)
theory Analysis_Service
  imports Analysis_Jobs Analysis_Queue Backpressure
begin

section \<open>The analysis service\<close>

text \<open>
  Models \<open>app/services/analysis_service.py\<close> except for the execution of a job: retry backoff, failure policy, the guards,
  the reconciliation on reads and of expired leases, creation, retry, reprocessing and cancelling. The state is the
  database and the Redis queues, which may be absent (\<open>None\<close>). The environment holds what a call meets: the settings
  (every attribute read here is an int), the JSON texts, the hash of the jitter as a function, the heartbeat keys of the
  workers, the clock, and whether the n-th write of the call goes through. A call that raises returns the state as it
  was at the raise. Log lines and metrics are left out.
\<close>

datatype analysis_error =
    ServiceHTTP int string
  | ServiceJob job_error
  | ServiceQueue queue_error
  | ServiceSetting string
  | ServiceRedis

text \<open>How the Redis calls that deliver a reprocessed job end: as they should, with an error before anything was pushed,
  with one after the push and before the dead-letter entry is taken away, or with the last reply lost.\<close>

datatype delivery_fault = DeliveryWorks | FailsBeforePush | FailsAfterPush | ReplyLost

datatype heartbeat_read = HeartbeatError | HeartbeatSeen "time option"

record service_env =
  sv_settings :: settings
  sv_codec :: json_codec
  sv_digest :: "string \<Rightarrow> nat"
  sv_probe :: runtime_probe
  sv_inspect_ok :: bool
  sv_delivery :: delivery_fault
  sv_heartbeat :: "string \<Rightarrow> heartbeat_read"
  sv_now :: time
  sv_uuid :: string
  sv_ok :: "nat \<Rightarrow> bool"

type_synonym service_state = "job_db \<times> redis option"

definition of_job :: "job_error + 'a \<Rightarrow> analysis_error + 'a" where
  [simp]: "of_job = map_sum ServiceJob id"

definition of_queue :: "queue_error + 'a \<Rightarrow> analysis_error + 'a" where
  [simp]: "of_queue = map_sum ServiceQueue id"

fun guard_exception :: "guard_error \<Rightarrow> analysis_error" where
  "guard_exception (HTTPException n s) = ServiceHTTP (int n) s"
| "guard_exception (SettingError s) = ServiceSetting s"

definition of_guard :: "guard_error + 'a \<Rightarrow> analysis_error + 'a" where
  [simp]: "of_guard = map_sum guard_exception id"

definition setting_of :: "service_env \<Rightarrow> string \<Rightarrow> int" where
  "setting_of e attr = int_setting (sv_settings e) attr 0"

definition given :: "string option \<Rightarrow> bool" where
  "given v = (case v of None \<Rightarrow> False | Some s \<Rightarrow> s \<noteq> [])"

subsection \<open>Backoff and failure policy\<close>

definition MAX_RETRY_JITTER_SECONDS :: int where
  [simp, constant_simps]: "MAX_RETRY_JITTER_SECONDS = 30"

definition MAX_JOB_RETRY_COUNT :: int where
  [simp, constant_simps]: "MAX_JOB_RETRY_COUNT = 10"

definition retry_backoff_jitter_window_seconds :: "service_env \<Rightarrow> int \<Rightarrow> int" where
  "retry_backoff_jitter_window_seconds e base_delay =
    (let remaining_room = max 0 (setting_of e ''analysis_retry_backoff_max_seconds'' - base_delay)
     in if remaining_room \<le> 0 then 0
        else min remaining_room (max 1 (min MAX_RETRY_JITTER_SECONDS (base_delay div 4))))"

definition retry_backoff_jitter_seconds :: "service_env \<Rightarrow> string \<Rightarrow> int \<Rightarrow> int \<Rightarrow> int" where
  "retry_backoff_jitter_seconds e job_id attempt_count jitter_window =
    (if jitter_window \<le> 0 then 0
     else int (sv_digest e (job_id @ '':'' @ str_int attempt_count)) mod (jitter_window + 1))"

definition retry_base_delay :: "service_env \<Rightarrow> int \<Rightarrow> int" where
  "retry_base_delay e attempt_count =
     min (setting_of e ''analysis_retry_backoff_base_seconds'' * 2 ^ nat (max 0 (attempt_count - 1)))
       (setting_of e ''analysis_retry_backoff_max_seconds'')"

definition retry_backoff_seconds :: "service_env \<Rightarrow> string \<Rightarrow> int \<Rightarrow> int" where
  "retry_backoff_seconds e job_id attempt_count =
    (let base_delay = retry_base_delay e attempt_count;
         jitter_window = retry_backoff_jitter_window_seconds e base_delay;
         jitter = retry_backoff_jitter_seconds e job_id attempt_count jitter_window
     in min (base_delay + jitter) (setting_of e ''analysis_retry_backoff_max_seconds''))"

datatype failure_cause =
    InvalidAnalysisResultPayload | AnalysisProfileResolution | CatalogValidation | HttpError | TimeoutError
  | QuoteUnavailable | OtherException

record failure_policy =
  fp_retryable :: bool
  fp_classification :: string

definition classify_analysis_failure :: "failure_cause option \<Rightarrow> string option \<Rightarrow> failure_policy" where
  "classify_analysis_failure cause failure_type =
    (if cause = Some InvalidAnalysisResultPayload \<or> failure_type = Some ''invalid_payload''
     then \<lparr>fp_retryable = False, fp_classification = ''invalid_payload''\<rparr>
     else if cause = Some AnalysisProfileResolution \<or> failure_type = Some ''analysis_profile_resolution''
     then \<lparr>fp_retryable = False, fp_classification = ''analysis_profile_resolution''\<rparr>
     else if cause = Some CatalogValidation \<or> failure_type = Some ''catalog_validation''
     then \<lparr>fp_retryable = False, fp_classification = ''catalog_validation''\<rparr>
     else if cause = Some HttpError \<or> failure_type = Some ''http_error''
     then \<lparr>fp_retryable = False, fp_classification = ''http_error''\<rparr>
     else if cause = Some TimeoutError \<or> failure_type = Some ''timeout''
     then \<lparr>fp_retryable = True, fp_classification = ''timeout''\<rparr>
     else if failure_type = Some ''quote_recalculation_unavailable''
     then \<lparr>fp_retryable = True, fp_classification = ''quote_recalculation_unavailable''\<rparr>
     else \<lparr>fp_retryable = True, fp_classification = ''exception''\<rparr>)"

subsection \<open>A failed attempt\<close>

record execution_result =
  ex_disposition :: string
  ex_retry_at :: "time option"
  ex_attempt_count :: int
  ex_failure_reason :: "string option"

definition skipped :: execution_result where
  "skipped = \<lparr>ex_disposition = ''skipped'', ex_retry_at = None, ex_attempt_count = 0, ex_failure_reason = None\<rparr>"

definition job_attempt_count :: "job_row \<Rightarrow> int" where
  "job_attempt_count j = max 0 (jw_attempt_count j)"

definition dead_lettered :: "int \<Rightarrow> string \<Rightarrow> execution_result" where
  "dead_lettered attempt_count message =
     \<lparr>ex_disposition = ''dead_lettered'', ex_retry_at = None, ex_attempt_count = attempt_count,
      ex_failure_reason = Some message\<rparr>"

definition max_attempts :: "service_env \<Rightarrow> int" where
  "max_attempts e = max 1 (setting_of e ''analysis_job_max_attempts'')"

definition handle_attempt_failure ::
  "service_env \<Rightarrow> string \<Rightarrow> string option \<Rightarrow> bool \<Rightarrow> job_row \<Rightarrow> job_db \<Rightarrow> job_error + (job_db \<times> execution_result)" where
  "handle_attempt_failure e message error_traceback retryable j db =
    (let attempt_count = job_attempt_count j in
     if retryable \<and> attempt_count < max_attempts e then
       let retry_budget = effective_max_retry_inflight (sv_settings e) in
       if max 0 (count_retry_inflight_jobs db) \<ge> retry_budget then
         bind_res (mark_job_dead_letter (sv_ok e 0) (sv_now e)
             (message @ '' Retry budget exhausted at '' @ str_int retry_budget @ '' in-flight retries.'')
             error_traceback j db)
           (\<lambda>(db', j'). Inr (db', dead_lettered attempt_count message))
       else
         bind_res (schedule_job_retry (sv_ok e 0) message error_traceback j db)
           (\<lambda>(db', j'). Inr (db',
             \<lparr>ex_disposition = ''retry_scheduled'',
              ex_retry_at = Some (sv_now e + seconds (retry_backoff_seconds e (jw_id j) attempt_count)),
              ex_attempt_count = attempt_count, ex_failure_reason = Some message\<rparr>))
     else
       bind_res (mark_job_dead_letter (sv_ok e 0) (sv_now e) message error_traceback j db)
         (\<lambda>(db', j'). Inr (db', dead_lettered attempt_count message)))"

text \<open>\<open>_fail_job_and_raise\<close>: it sets the status on the object before it calls \<open>fail_job\<close>.\<close>

definition fail_job_and_raise ::
  "service_env \<Rightarrow> string \<Rightarrow> int \<Rightarrow> string \<Rightarrow> job_row \<Rightarrow> job_db \<Rightarrow> job_db \<times> analysis_error" where
  "fail_job_and_raise e message status_code detail j db =
    (let dirty = j\<lparr>jw_status := ANALYSIS_JOB_STATUS_FAILED, jw_error_message := Some message\<rparr> in
     case bind_res (set_job_status (sv_now e) ANALYSIS_JOB_STATUS_FAILED (Some (Some message)) (Some None) dirty)
            (\<lambda>j'. flush_job (sv_ok e 0) j j' db) of
       Inl err \<Rightarrow> (db, ServiceJob err)
     | Inr (db', j') \<Rightarrow> (db', ServiceHTTP status_code detail))"

definition fail_job_before_processing ::
  "service_env \<Rightarrow> string \<Rightarrow> string \<Rightarrow> string option \<Rightarrow> job_db \<Rightarrow> job_db \<times> (analysis_error + bool)" where
  "fail_job_before_processing e job_id message error_traceback db =
    (case get_analysis_job db job_id of
       None \<Rightarrow> (db, Inr False)
     | Some j \<Rightarrow>
         (case fail_analysis_job (sv_ok e 0) (sv_now e) message error_traceback j db of
            Inl (InvalidAnalysisJobStatusTransition a b) \<Rightarrow> (db, Inr False)
          | Inl err \<Rightarrow> (db, Inl (ServiceJob err))
          | Inr (db', j') \<Rightarrow> (db', Inr True)))"

text \<open>\<open>recover_job_after_worker_error\<close>: the text is what \<open>str(cause).strip()\<close> gives, or the name of its type.\<close>

definition recover_job_after_worker_error ::
  "service_env \<Rightarrow> leased_analysis_job \<Rightarrow> failure_cause \<Rightarrow> string \<Rightarrow> string \<Rightarrow> job_db
    \<Rightarrow> job_db \<times> (analysis_error + execution_result)" where
  "recover_job_after_worker_error e lease cause error_message error_traceback db =
    (case get_analysis_job db (ap_job_id (lj_payload lease)) of
       None \<Rightarrow> (db, Inr (skipped\<lparr>ex_failure_reason := Some error_message\<rparr>))
     | Some j \<Rightarrow>
         (case assert_job_lease_owned (lj_token lease) (lj_worker_id lease) j db of
            Inl err \<Rightarrow> (db, Inl (ServiceJob err))
          | Inr owned \<Rightarrow>
              (case handle_attempt_failure e error_message (Some error_traceback)
                      (fp_retryable (classify_analysis_failure (Some cause) None)) owned db of
                 Inl (InvalidAnalysisJobStatusTransition a b) \<Rightarrow>
                   (db, Inr (skipped\<lparr>ex_attempt_count := job_attempt_count owned, ex_failure_reason := Some error_message\<rparr>))
               | Inl err \<Rightarrow> (db, Inl (ServiceJob err))
               | Inr (db', result) \<Rightarrow> (db', Inr result))))"

text \<open>\<open>_lease_datetime_from_ms\<close>\<close>

definition lease_datetime_from_ms :: "int \<Rightarrow> time" where
  "lease_datetime_from_ms ms = ms * 1000"

definition refresh_job_lease_heartbeat ::
  "service_env \<Rightarrow> string \<Rightarrow> string \<Rightarrow> string \<Rightarrow> int \<Rightarrow> job_db \<Rightarrow> job_error + (job_db \<times> bool)" where
  "refresh_job_lease_heartbeat e job_id lease_token worker_id leased_at_ms db =
     (let timestamp = lease_datetime_from_ms leased_at_ms
      in heartbeat_job_lease (sv_ok e 0) job_id lease_token worker_id timestamp timestamp db)"

subsection \<open>An expired lease\<close>

definition reconcile_expired_lease ::
  "service_env \<Rightarrow> leased_analysis_job \<Rightarrow> job_db \<Rightarrow> job_db \<times> (analysis_error + string)" where
  "reconcile_expired_lease e lease db =
    (let lease_acquired_at = lease_datetime_from_ms (lj_leased_at_ms lease);
         fresh_after = sv_now e - seconds (lease_timeout_seconds lease)
     in case get_analysis_job db (ap_job_id (lj_payload lease)) of
          None \<Rightarrow> (db, Inr ''drop'')
        | Some j \<Rightarrow>
            if jw_status j \<in> set ANALYSIS_JOB_FINAL_STATUSES then (db, Inr ''drop'')
            else if jw_lease_token j \<noteq> Some (lj_token lease) \<or> jw_worker_id j \<noteq> Some (lj_worker_id lease)
            then (db, Inr ''drop'')
            else if (case jw_leased_at j of None \<Rightarrow> False | Some t \<Rightarrow> t > lease_acquired_at) then (db, Inr ''drop'')
            else if (case jw_heartbeat_at j of None \<Rightarrow> False | Some t \<Rightarrow> t \<ge> fresh_after) then (db, Inr ''drop'')
            else if jw_status j = ANALYSIS_JOB_STATUS_RUNNING then
              (case reset_job_to_queued (sv_ok e 0) j db of
                 Inl (InvalidAnalysisJobStatusTransition a b) \<Rightarrow> (db, Inr ''drop'')
               | Inl err \<Rightarrow> (db, Inl (ServiceJob err))
               | Inr (db', j') \<Rightarrow> (db', Inr ''requeue''))
            else if jw_status j = ANALYSIS_JOB_STATUS_QUEUED then (db, Inr ''requeue'')
            else (db, Inr ''drop''))"

subsection \<open>Guards\<close>

definition retry_metadata :: "string \<Rightarrow> analysis_error" where
  "retry_metadata what = ServiceHTTP 409 (''Analysis job has invalid '' @ what @ '' metadata and cannot be retried.'')"

definition authoritative_job_status :: "job_row \<Rightarrow> analysis_error + string" where
  "authoritative_job_status j =
    (case normalize_analysis_job_status (jw_status j) of Inl err \<Rightarrow> Inl (retry_metadata ''status'') | Inr s \<Rightarrow> Inr s)"

definition authoritative_retry_count :: "job_row \<Rightarrow> int" where
  "authoritative_retry_count j = max 0 (jw_retry_count j)"

definition authoritative_project_id :: "job_row \<Rightarrow> analysis_error + string" where
  "authoritative_project_id j = (if jw_project_id j = [] then Inl (retry_metadata ''project'') else Inr (jw_project_id j))"

definition enforce_tenant_active_job_limit :: "service_env \<Rightarrow> string option \<Rightarrow> string \<Rightarrow> job_db \<Rightarrow> analysis_error + unit" where
  "enforce_tenant_active_job_limit e organization_id job_type db =
    (case organization_id of
       None \<Rightarrow> Inr ()
     | Some org \<Rightarrow>
         if org = [] then Inr ()
         else if count_active_jobs_for_organization db org (Some job_type) \<ge> setting_of e ''analysis_jobs_per_tenant_limit''
         then Inl (ServiceHTTP 429 ''Too many active analysis jobs for this tenant. Please wait for queued or running jobs to finish.'')
         else Inr ())"

text \<open>The daily quota counts in Redis; each of the three calls may raise, \<open>INCR\<close> also after it was carried out.\<close>

type_synonym quota_counters = "string \<Rightarrow> (int \<times> time option) option"

record quota_client =
  qc_get_ok :: bool
  qc_incr_ok :: bool
  qc_incr_applied :: bool
  qc_expire_ok :: bool

definition quota_value :: "time \<Rightarrow> string \<Rightarrow> quota_counters \<Rightarrow> (int \<times> time option) option" where
  "quota_value now k st =
    (case st k of Some (n, Some until) \<Rightarrow> if now < until then Some (n, Some until) else None | v \<Rightarrow> v)"

definition quota_incr :: "time \<Rightarrow> string \<Rightarrow> quota_counters \<Rightarrow> quota_counters" where
  "quota_incr now k st =
     st(k \<mapsto> (case quota_value now k st of None \<Rightarrow> (1, None) | Some (n, ttl) \<Rightarrow> (n + 1, ttl)))"

definition quota_backend_error :: "bool \<Rightarrow> analysis_error + unit" where
  "quota_backend_error strict =
    (if strict then Inl (ServiceHTTP 503 ''AI analysis quota service temporarily unavailable. Retry later.'') else Inr ())"

definition enforce_daily_ai_quota ::
  "service_env \<Rightarrow> bool \<Rightarrow> string \<Rightarrow> quota_client option \<Rightarrow> string option \<Rightarrow> quota_counters \<Rightarrow> quota_counters \<times> (analysis_error + unit)" where
  "enforce_daily_ai_quota e strict today client organization_id st =
    (let quota = setting_of e ''ai_analysis_daily_quota_per_tenant'' in
     case (if given organization_id then organization_id else None) of
       None \<Rightarrow> (st, Inr ())
     | Some org \<Rightarrow>
         if quota = 0 then (st, Inr ())
         else case client of
           None \<Rightarrow> (st, quota_backend_error strict)
         | Some r \<Rightarrow>
             let key = ''ai-daily-quota:'' @ org @ '':'' @ today;
                 count = (case quota_value (sv_now e) key st of None \<Rightarrow> 0 | Some (n, ttl) \<Rightarrow> n);
                 st1 = quota_incr (sv_now e) key st
             in if \<not> qc_get_ok r then (st, quota_backend_error strict)
                else if count \<ge> quota
                then (st, Inl (ServiceHTTP 429 (''Daily AI analysis quota ('' @ str_int quota @
                        '') reached for this tenant. Quota resets at midnight UTC.'')))
                else if \<not> qc_incr_ok r then (if qc_incr_applied r then st1 else st, quota_backend_error strict)
                else case st1 key of
                  Some (n, ttl) \<Rightarrow>
                    if n \<noteq> 1 then (st1, Inr ())
                    else if qc_expire_ok r then (st1(key \<mapsto> (n, Some (sv_now e + seconds (25 * 3600)))), Inr ())
                    else (st1, quota_backend_error strict)
                | None \<Rightarrow> (st1, Inr ()))"

definition enforce_queue_precheck :: "service_env \<Rightarrow> redis option \<Rightarrow> analysis_error + unit" where
  "enforce_queue_precheck e job_queue =
    (case job_queue of
       None \<Rightarrow> Inr ()
     | Some r \<Rightarrow> of_guard (ensure_analysis_intake_capacity
         (collect_backpressure_snapshot (sv_settings e) (sv_probe e) (Some r) None) (sv_settings e)))"

definition enforce_retryable_job_state :: "string \<Rightarrow> analysis_error + unit" where
  "enforce_retryable_job_state job_status =
    (if job_status \<notin> {ANALYSIS_JOB_STATUS_FAILED, ANALYSIS_JOB_STATUS_CANCELED}
     then Inl (ServiceHTTP 409 (''Cannot retry a job in '' @ [CHR 0x27] @ job_status @ [CHR 0x27] @
       '' state. Only failed or canceled jobs can be retried.''))
     else Inr ())"

definition enforce_retry_count_limit :: "string \<Rightarrow> int \<Rightarrow> analysis_error + unit" where
  "enforce_retry_count_limit job_id retry_count =
    (if retry_count \<ge> MAX_JOB_RETRY_COUNT
     then Inl (ServiceHTTP 409 (''Maximum retry count ('' @ str_int MAX_JOB_RETRY_COUNT @ '') reached for job '' @ job_id @
       ''. Contact an administrator to force-reset the job.''))
     else Inr ())"

definition enforce_dead_letter_reprocess_state :: "string \<Rightarrow> analysis_error + unit" where
  "enforce_dead_letter_reprocess_state job_status =
    (if job_status \<noteq> ANALYSIS_JOB_STATUS_DEAD_LETTER
     then Inl (ServiceHTTP 409 (''Cannot reprocess a job in '' @ [CHR 0x27] @ job_status @ [CHR 0x27] @
       '' state. Only dead-letter jobs can be reprocessed.''))
     else Inr ())"

definition resolve_retry_project_scope :: "job_db \<Rightarrow> string \<Rightarrow> string option \<Rightarrow> analysis_error + job_project" where
  "resolve_retry_project_scope db project_id organization_id =
    (case organization_id of
       Some org \<Rightarrow>
         (case get_project_in_org db project_id org of
            None \<Rightarrow> Inl (ServiceHTTP 403 ''Analysis job does not belong to the requested organization.'')
          | Some p \<Rightarrow> Inr p)
     | None \<Rightarrow>
         (case project_of db project_id of
            None \<Rightarrow> Inl (ServiceHTTP 404 ''Analysis job not found.'') | Some p \<Rightarrow> Inr p))"

text \<open>The job a request names: within its organization, or any job for a superadmin.\<close>

definition scoped_job :: "job_db \<Rightarrow> string \<Rightarrow> string option \<Rightarrow> analysis_error + job_row" where
  "scoped_job db job_id organization_id =
    (case (case organization_id of Some org \<Rightarrow> get_analysis_job_in_org db job_id org | None \<Rightarrow> get_analysis_job db job_id) of
       None \<Rightarrow> Inl (ServiceHTTP 404 ''Analysis job not found.'') | Some j \<Rightarrow> Inr j)"

definition require_scope :: "string option \<Rightarrow> bool \<Rightarrow> analysis_error + unit" where
  "require_scope organization_id is_superadmin_context =
    (if organization_id = None \<and> \<not> is_superadmin_context
     then Inl (ServiceHTTP 403 ''organization_id is required for non-superadmin context.'') else Inr ())"

subsection \<open>Queueing a job\<close>

definition put_job ::
  "service_env \<Rightarrow> job_row \<Rightarrow> string option \<Rightarrow> bool \<Rightarrow> int option \<Rightarrow> redis \<Rightarrow> redis \<times> (queue_error + unit)" where
  "put_job e j organization_id is_superadmin_context max_depth r =
     enqueue_analysis_job (sv_codec e) r (jw_id j) (jw_project_id j) organization_id is_superadmin_context max_depth
       (Some (setting_of e ''effective_backpressure_max_queued_jobs'')) (analysis_job_priority_for_type (Some (jw_job_type j)))"

definition fallback_enqueue_job ::
  "service_env \<Rightarrow> job_row \<Rightarrow> string option \<Rightarrow> int option \<Rightarrow> bool \<Rightarrow> redis \<Rightarrow> redis \<times> (queue_error + unit)" where
  "fallback_enqueue_job e j organization_id max_depth is_superadmin_context r =
     put_job e j organization_id is_superadmin_context max_depth r"

definition requeue_job_if_missing_transport ::
  "service_env \<Rightarrow> job_row \<Rightarrow> string option \<Rightarrow> analysis_snapshot option \<Rightarrow> redis option \<Rightarrow> redis option \<times> (queue_error + unit)" where
  "requeue_job_if_missing_transport e j organization_id transport_snapshot job_queue =
    (case (job_queue, transport_snapshot) of
       (Some r, Some t) \<Rightarrow>
         if has_any_entry t (jw_id j) then (job_queue, Inr ())
         else (case put_job e j organization_id False (Some (setting_of e ''analysis_queue_max_depth'')) r of
                 (r', reply) \<Rightarrow> (Some r', reply))
     | _ \<Rightarrow> (job_queue, Inr ()))"

subsection \<open>Reading a job\<close>

definition WORKER_HEARTBEAT_FRESHNESS_SECONDS :: int where
  [simp, constant_simps]: "WORKER_HEARTBEAT_FRESHNESS_SECONDS = 90"

definition is_worker_instance_alive :: "service_env \<Rightarrow> string option \<Rightarrow> heartbeat_read + bool option" where
  "is_worker_instance_alive e instance_id =
    (case instance_id of
       None \<Rightarrow> Inr None
     | Some i \<Rightarrow>
         if i = [] then Inr None
         else case sv_heartbeat e i of
           HeartbeatError \<Rightarrow> Inl HeartbeatError
         | HeartbeatSeen None \<Rightarrow> Inr (Some False)
         | HeartbeatSeen (Some seen_at) \<Rightarrow>
             Inr (Some (sv_now e - seen_at < seconds (max 1 WORKER_HEARTBEAT_FRESHNESS_SECONDS))))"

definition job_running_is_stale :: "service_env \<Rightarrow> job_row \<Rightarrow> job_error + bool" where
  "job_running_is_stale e j =
     bind_res (normalize_analysis_job_status (jw_status j)) (\<lambda>status. Inr (
       status = ANALYSIS_JOB_STATUS_RUNNING \<and>
       (\<not> given (jw_lease_token j) \<or> \<not> given (jw_worker_id j) \<or>
        (case jw_heartbeat_at j of
           None \<Rightarrow> True
         | Some heartbeat_at \<Rightarrow> sv_now e - heartbeat_at \<ge> seconds (max 60 (setting_of e ''worker_job_lease_timeout_seconds''))))))"

definition lease_mismatch :: "job_row \<Rightarrow> leased_analysis_job \<Rightarrow> bool" where
  "lease_mismatch j lease \<longleftrightarrow>
     lj_token lease \<noteq> (case jw_lease_token j of None \<Rightarrow> [] | Some t \<Rightarrow> t) \<or>
     lj_worker_id lease \<noteq> (case jw_worker_id j of None \<Rightarrow> [] | Some w \<Rightarrow> w)"

definition running_is_stale ::
  "service_env \<Rightarrow> job_row \<Rightarrow> redis option \<Rightarrow> analysis_snapshot option \<Rightarrow> bool" where
  "running_is_stale e j job_queue transport_snapshot =
    ((case transport_snapshot of
        None \<Rightarrow> False
      | Some t \<Rightarrow> (case get_processing_lease t (jw_id j) of None \<Rightarrow> True | Some lease \<Rightarrow> lease_mismatch j lease)) \<or>
     job_running_is_stale e j = Inr True \<or>
     (job_queue \<noteq> None \<and> given (jw_worker_id j) \<and> is_worker_instance_alive e (jw_worker_id j) = Inr (Some False)))"

text \<open>A capacity error of the queue is swallowed; the job then stays without an entry.\<close>

fun ignore_capacity :: "queue_error + unit \<Rightarrow> analysis_error + unit" where
  "ignore_capacity (Inl (CapacityExceeded a b c d f g)) = Inr ()"
| "ignore_capacity (Inl err) = Inl (ServiceQueue err)"
| "ignore_capacity (Inr u) = Inr u"

definition requeue_for_read ::
  "service_env \<Rightarrow> job_row \<Rightarrow> analysis_snapshot option \<Rightarrow> service_state \<Rightarrow> service_state \<times> (analysis_error + job_row)" where
  "requeue_for_read e j transport_snapshot w =
    (case requeue_job_if_missing_transport e j (job_organization (fst w) j) transport_snapshot (snd w) of
       (job_queue', reply) \<Rightarrow> ((fst w, job_queue'), bind_res (ignore_capacity reply) (\<lambda>_. Inr j)))"

definition reconcile_job_for_read ::
  "service_env \<Rightarrow> nat \<Rightarrow> analysis_snapshot option \<Rightarrow> job_row \<Rightarrow> service_state \<Rightarrow> service_state \<times> (analysis_error + job_row)" where
  "reconcile_job_for_read e k transport_snapshot j w =
    (case normalize_analysis_job_status (jw_status j) of
       Inl err \<Rightarrow> (w, Inl (ServiceJob err))
     | Inr status \<Rightarrow>
         if status \<notin> {ANALYSIS_JOB_STATUS_QUEUED, ANALYSIS_JOB_STATUS_RUNNING} then (w, Inr j)
         else if status = ANALYSIS_JOB_STATUS_QUEUED then requeue_for_read e j transport_snapshot w
         else if \<not> running_is_stale e j (snd w) transport_snapshot then (w, Inr j)
         else case reset_job_to_queued (sv_ok e k) j (fst w) of
           Inl err \<Rightarrow> (w, Inl (ServiceJob err))
         | Inr (db', j') \<Rightarrow> requeue_for_read e j' transport_snapshot (db', snd w))"

text \<open>The snapshot of a read; a missing queue gives an empty one, a failing one gives none.\<close>

definition read_snapshot :: "service_env \<Rightarrow> redis option \<Rightarrow> analysis_snapshot option" where
  "read_snapshot e job_queue =
    (if job_queue = None \<or> sv_inspect_ok e then Some (inspect_analysis_job_transport (sv_codec e) job_queue) else None)"

definition get_job ::
  "service_env \<Rightarrow> string \<Rightarrow> string option \<Rightarrow> bool \<Rightarrow> service_state \<Rightarrow> service_state \<times> (analysis_error + job_row option)" where
  "get_job e job_id organization_id is_superadmin_context w =
    (case (case organization_id of
             Some org \<Rightarrow> get_analysis_job_in_org (fst w) job_id org
           | None \<Rightarrow> if is_superadmin_context then get_analysis_job (fst w) job_id else None) of
       None \<Rightarrow> (w, Inr None)
     | Some j \<Rightarrow>
         (case reconcile_job_for_read e 0 (read_snapshot e (snd w)) j w of
            (w', res) \<Rightarrow> (w', bind_res res (\<lambda>j'. Inr (Some j')))))"

fun reconcile_jobs_for_read ::
  "service_env \<Rightarrow> nat \<Rightarrow> analysis_snapshot option \<Rightarrow> job_row list \<Rightarrow> service_state
    \<Rightarrow> service_state \<times> (analysis_error + job_row list)" where
  "reconcile_jobs_for_read e k t [] w = (w, Inr [])"
| "reconcile_jobs_for_read e k t (j # js) w =
    (case reconcile_job_for_read e k t j w of
       (w', Inl err) \<Rightarrow> (w', Inl err)
     | (w', Inr j') \<Rightarrow>
         (case reconcile_jobs_for_read e (k + 1) t js w' of
            (w'', res) \<Rightarrow> (w'', bind_res res (\<lambda>rest. Inr (j' # rest)))))"

definition list_analysis_jobs_by_project_id :: "job_db \<Rightarrow> string \<Rightarrow> job_row list" where
  "list_analysis_jobs_by_project_id db project_id =
     rev (sort_key (\<lambda>j. (jw_created_at j, jw_id j)) (filter (\<lambda>j. jw_project_id j = project_id) (jd_jobs db)))"

definition list_jobs ::
  "service_env \<Rightarrow> string \<Rightarrow> service_state \<Rightarrow> service_state \<times> (analysis_error + job_row list)" where
  "list_jobs e project_id w =
    (let jobs = list_analysis_jobs_by_project_id (fst w) project_id in
     if list_ex active_job jobs then reconcile_jobs_for_read e 0 (read_snapshot e (snd w)) jobs w else (w, Inr jobs))"

subsection \<open>Creating a job\<close>

text \<open>The profile a work type code resolves to is an argument, or the text of its error; it is asked only after the
  guards and only reads. A service without a profile service has none.\<close>

definition resolve_profile ::
  "string option \<Rightarrow> string option \<Rightarrow> (string + job_profile) option \<Rightarrow> analysis_error + job_profile" where
  "resolve_profile work_type_code organization_id resolution =
    (if \<not> given work_type_code
     then Inr \<lparr>jf_work_type_code = None, jf_profile_id = None, jf_profile_code = None, jf_profile_version = None\<rparr>
     else if \<not> given organization_id then Inl (ServiceHTTP 400 ''workTypeCode requires a tenant-scoped project.'')
     else case resolution of
       None \<Rightarrow> Inl (ServiceHTTP 503 ''Analysis profile resolution is unavailable in this context.'')
     | Some (Inl detail) \<Rightarrow> Inl (ServiceHTTP 422 detail)
     | Some (Inr pf) \<Rightarrow> Inr pf)"

record create_request =
  cq_user_id :: "string option"
  cq_parent_job_id :: "string option"
  cq_retry_count :: int
  cq_work_type_code :: "string option"
  cq_resolution :: "(string + job_profile) option"
  cq_strict :: bool
  cq_today :: string
  cq_quota_client :: "quota_client option"

definition create_job ::
  "service_env \<Rightarrow> job_project \<Rightarrow> create_request \<Rightarrow> quota_counters \<Rightarrow> service_state
    \<Rightarrow> quota_counters \<times> service_state \<times> (analysis_error + (job_row \<times> bool))" where
  "create_job e p q st w =
    (let project_id = pr_id (jp_project p); org = Some (pr_organization_id (jp_project p)) in
     case get_active_job_for_project_by_type (fst w) project_id (Some ANALYSIS_JOB_TYPE_MANUAL_TRIGGER) of
       Some existing \<Rightarrow> (st, w, Inr (existing, False))
     | None \<Rightarrow>
         (case enforce_tenant_active_job_limit e org ANALYSIS_JOB_TYPE_MANUAL_TRIGGER (fst w) of
            Inl err \<Rightarrow> (st, w, Inl err)
          | Inr _ \<Rightarrow>
              (case enforce_daily_ai_quota e (cq_strict q) (cq_today q) (cq_quota_client q) org st of
                 (st', Inl err) \<Rightarrow> (st', w, Inl err)
               | (st', Inr _) \<Rightarrow>
                   (case bind_res (enforce_queue_precheck e (snd w)) (\<lambda>_.
                           bind_res (resolve_profile (cq_work_type_code q) org (cq_resolution q)) (\<lambda>pf.
                           of_job (create_queued_job (sv_ok e 0) (sv_now e) (sv_uuid e) p (cq_user_id q) (cq_parent_job_id q)
                             (cq_retry_count q) ANALYSIS_JOB_TYPE_MANUAL_TRIGGER None pf (fst w)))) of
                      Inl err \<Rightarrow> (st', w, Inl err)
                    | Inr (db', j) \<Rightarrow> (st', (db', snd w), Inr (j, True))))))"

text \<open>\<open>enqueue_quote_recalculation_job\<close>: the outbox event it adds comes after the commit of the job and the session is
  closed without another one, so it is never written; the message it publishes live is left out.\<close>

definition recalculation_payload :: "json_codec \<Rightarrow> string \<Rightarrow> string option \<Rightarrow> string" where
  "recalculation_payload c project_id parent_job_id = dumps c (JObj
     [(''jobType'', JStr ANALYSIS_JOB_TYPE_QUOTE_RECALCULATION), (''projectId'', JStr project_id),
      (''parentJobId'', opt_json parent_job_id)])"

definition failed_before ::
  "service_env \<Rightarrow> job_row \<Rightarrow> string \<Rightarrow> service_state \<Rightarrow> service_state \<times> (analysis_error + (job_row \<times> bool))" where
  "failed_before e j message w =
    (case fail_job_before_processing (e\<lparr>sv_ok := (\<lambda>n. sv_ok e (n + 1))\<rparr>) (jw_id j) message None (fst w) of
       (db', Inl err) \<Rightarrow> ((db', snd w), Inl err)
     | (db', Inr _) \<Rightarrow>
         ((db', snd w), Inr (j\<lparr>jw_status := ANALYSIS_JOB_STATUS_FAILED, jw_error_message := Some message\<rparr>, True)))"

definition enqueue_quote_recalculation_job ::
  "service_env \<Rightarrow> string \<Rightarrow> string option \<Rightarrow> string option \<Rightarrow> string option \<Rightarrow> bool \<Rightarrow> service_state
    \<Rightarrow> service_state \<times> (analysis_error + (job_row \<times> bool))" where
  "enqueue_quote_recalculation_job e project_id organization_id requested_by_user_id parent_job_id is_superadmin w =
    (case (case organization_id of Some org \<Rightarrow> get_project_in_org (fst w) project_id org | None \<Rightarrow> project_of (fst w) project_id) of
       None \<Rightarrow> (w, Inl (ServiceHTTP 404 ''Case not found.''))
     | Some p \<Rightarrow>
         (case get_active_job_for_project_by_type (fst w) project_id (Some ANALYSIS_JOB_TYPE_QUOTE_RECALCULATION) of
            Some existing \<Rightarrow> (w, Inr (existing, False))
          | None \<Rightarrow>
              (case create_queued_job (sv_ok e 0) (sv_now e) (sv_uuid e) p requested_by_user_id parent_job_id 0
                      ANALYSIS_JOB_TYPE_QUOTE_RECALCULATION (Some (recalculation_payload (sv_codec e) project_id parent_job_id))
                      \<lparr>jf_work_type_code = None, jf_profile_id = None, jf_profile_code = None, jf_profile_version = None\<rparr> (fst w) of
                 Inl err \<Rightarrow> (w, Inl (ServiceJob err))
               | Inr (db', j) \<Rightarrow>
                   (case snd w of
                      None \<Rightarrow> failed_before e j ''Quote recalculation queue is unavailable.'' (db', None)
                    | Some r \<Rightarrow>
                        (case put_job e j organization_id is_superadmin (Some (setting_of e ''analysis_queue_max_depth'')) r of
                           (r', Inr _) \<Rightarrow> ((db', Some r'), Inr (j, True))
                         | (r', Inl (CapacityExceeded a b c d f g)) \<Rightarrow>
                             failed_before e j ''Quote recalculation queue is full. Please retry later.'' (db', Some r')
                         | (r', Inl err) \<Rightarrow> ((db', Some r'), Inl (ServiceQueue err)))))))"

subsection \<open>Retrying, reprocessing and cancelling\<close>

definition retry_job ::
  "service_env \<Rightarrow> string \<Rightarrow> string option \<Rightarrow> bool \<Rightarrow> service_state \<Rightarrow> service_state \<times> (analysis_error + job_row)" where
  "retry_job e job_id organization_id is_superadmin_context w =
    (let db = fst w in
     case bind_res (require_scope organization_id is_superadmin_context) (\<lambda>_.
          bind_res (scoped_job db job_id organization_id) (\<lambda>original.
          bind_res (authoritative_job_status original) (\<lambda>status.
          bind_res (authoritative_project_id original) (\<lambda>project_id.
          bind_res (enforce_retryable_job_state status) (\<lambda>_.
          bind_res (resolve_retry_project_scope db project_id organization_id) (\<lambda>p.
          bind_res (enforce_retry_count_limit job_id (authoritative_retry_count original)) (\<lambda>_.
          bind_res (enforce_tenant_active_job_limit e (Some (pr_organization_id (jp_project p))) ANALYSIS_JOB_TYPE_MANUAL_TRIGGER db) (\<lambda>_.
          bind_res (enforce_queue_precheck e (snd w)) (\<lambda>_.
          bind_res (of_guard (ensure_retry_budget (Some (max 0 (count_retry_inflight_jobs db))) (sv_settings e))) (\<lambda>_.
            of_job (create_queued_job (sv_ok e 0) (sv_now e) (sv_uuid e) p (jw_requested_by_user_id original)
              (Some (jw_id original)) (authoritative_retry_count original + 1) ANALYSIS_JOB_TYPE_MANUAL_TRIGGER None
              \<lparr>jf_work_type_code = jw_work_type_code original, jf_profile_id = jw_profile_id original,
               jf_profile_code = jw_profile_code original, jf_profile_version = jw_profile_version original\<rparr> db))))))))))) of
       Inl err \<Rightarrow> (w, Inl err)
     | Inr (db', j) \<Rightarrow> ((db', snd w), Inr j))"

text \<open>The job goes back to the dead-letter status when the queue is missing or full.\<close>

definition back_to_dead_letter ::
  "service_env \<Rightarrow> job_row \<Rightarrow> string option \<Rightarrow> string \<Rightarrow> analysis_error \<Rightarrow> service_state \<Rightarrow> service_state \<times> (analysis_error + job_row)" where
  "back_to_dead_letter e j prior_error_message default_message err w =
    (case mark_job_dead_letter (sv_ok e 1) (sv_now e)
            (if given prior_error_message then the prior_error_message else default_message) (jw_error_traceback j) j (fst w) of
       Inl err' \<Rightarrow> (w, Inl (ServiceJob err'))
     | Inr (db', j') \<Rightarrow> ((db', snd w), Inl err))"

definition reprocess_transport ::
  "service_env \<Rightarrow> string \<Rightarrow> string \<Rightarrow> bool \<Rightarrow> job_row \<Rightarrow> redis \<Rightarrow> redis \<times> (queue_error + unit)" where
  "reprocess_transport e job_id project_org is_superadmin_context j r =
    (case requeue_dlq_job (sv_codec e) r job_id (Some (setting_of e ''analysis_queue_max_depth''))
            (Some (effective_max_queued_jobs (sv_settings e))) of
       (r', Inl err) \<Rightarrow> (r', Inl err)
     | (r', Inr (Some d)) \<Rightarrow> (r', Inr ())
     | (r', Inr None) \<Rightarrow>
         fallback_enqueue_job e j (Some project_org) (Some (setting_of e ''analysis_queue_max_depth'')) is_superadmin_context r')"

text \<open>An error of the Redis client is none of the queue's own errors and is not handled.\<close>

definition with_delivery_fault :: "delivery_fault \<Rightarrow> redis \<Rightarrow> redis \<times> (queue_error + unit) \<Rightarrow> redis \<times> (analysis_error + unit)" where
  "with_delivery_fault f r d =
    (case f of
       DeliveryWorks \<Rightarrow> (fst d, map_sum ServiceQueue id (snd d))
     | FailsBeforePush \<Rightarrow> (r, Inl ServiceRedis)
     | FailsAfterPush \<Rightarrow>
         ((fst d)\<lparr>rd_analysis := (rd_analysis (fst d))\<lparr>ln_dlq_active := ln_dlq_active (rd_analysis r),
                                             ln_dlq_legacy := ln_dlq_legacy (rd_analysis r)\<rparr>\<rparr>,
          bind_res (map_sum ServiceQueue id (snd d)) (\<lambda>_. Inl ServiceRedis))
     | ReplyLost \<Rightarrow> (fst d, Inl ServiceRedis))"

definition reprocess_claim ::
  "service_env \<Rightarrow> string \<Rightarrow> string option \<Rightarrow> bool \<Rightarrow> service_state
    \<Rightarrow> analysis_error + (job_project \<times> string option \<times> job_db \<times> job_row)" where
  "reprocess_claim e job_id organization_id is_superadmin_context w =
    (let db = fst w in
     bind_res (require_scope organization_id is_superadmin_context) (\<lambda>_.
     bind_res (scoped_job db job_id organization_id) (\<lambda>original.
     bind_res (authoritative_job_status original) (\<lambda>status.
     bind_res (authoritative_project_id original) (\<lambda>project_id.
     bind_res (enforce_dead_letter_reprocess_state status) (\<lambda>_.
     bind_res (resolve_retry_project_scope db project_id organization_id) (\<lambda>p.
     bind_res (enforce_tenant_active_job_limit e (Some (pr_organization_id (jp_project p))) ANALYSIS_JOB_TYPE_MANUAL_TRIGGER db) (\<lambda>_.
     bind_res (enforce_queue_precheck e (snd w)) (\<lambda>_.
     bind_res (of_guard (ensure_retry_budget (Some (max 0 (count_retry_inflight_jobs db))) (sv_settings e))) (\<lambda>_.
     bind_res (scoped_job db job_id organization_id) (\<lambda>job_inner.
     bind_res (authoritative_job_status job_inner) (\<lambda>status_inner.
     bind_res (enforce_dead_letter_reprocess_state status_inner) (\<lambda>_.
     bind_res (of_job (requeue_dead_letter_job (sv_ok e 0) job_inner db)) (\<lambda>(db', j).
       Inr (p, jw_error_message job_inner, db', j)))))))))))))))"

definition reprocess_deliver ::
  "service_env \<Rightarrow> string \<Rightarrow> bool \<Rightarrow> job_project \<Rightarrow> string option \<Rightarrow> job_row \<Rightarrow> service_state \<Rightarrow> service_state \<times> (analysis_error + job_row)" where
  "reprocess_deliver e job_id is_superadmin_context p prior_error_message j w =
    (case snd w of
       None \<Rightarrow> back_to_dead_letter e j prior_error_message
                 ''Dead-letter job cannot be reprocessed because the queue is unavailable.''
                 (ServiceHTTP 503 ''Analysis queue is unavailable.'') w
     | Some r \<Rightarrow>
         (case with_delivery_fault (sv_delivery e) r
                 (reprocess_transport e job_id (pr_organization_id (jp_project p)) is_superadmin_context j r) of
            (r', Inr _) \<Rightarrow> ((fst w, Some r'), if sv_ok e 2 then Inr j else Inl (ServiceJob JobDbError))
          | (r', Inl (ServiceQueue (CapacityExceeded a b c d f g))) \<Rightarrow>
              back_to_dead_letter e j prior_error_message
                ''Dead-letter reprocess requeued to DLQ because the queue is full.''
                (ServiceQueue (CapacityExceeded a b c d f g)) (fst w, Some r')
          | (r', Inl err) \<Rightarrow> ((fst w, Some r'), Inl err)))"

definition reprocess_dead_letter_job ::
  "service_env \<Rightarrow> string \<Rightarrow> string option \<Rightarrow> bool \<Rightarrow> service_state \<Rightarrow> service_state \<times> (analysis_error + job_row)" where
  "reprocess_dead_letter_job e job_id organization_id is_superadmin_context w =
    (case reprocess_claim e job_id organization_id is_superadmin_context w of
       Inl err \<Rightarrow> (w, Inl err)
     | Inr (p, prior_error_message, db', j) \<Rightarrow>
         reprocess_deliver e job_id is_superadmin_context p prior_error_message j (db', snd w))"

definition cancel_analysis_job ::
  "service_env \<Rightarrow> string \<Rightarrow> string option \<Rightarrow> bool \<Rightarrow> job_db \<Rightarrow> job_db \<times> (analysis_error + job_row option)" where
  "cancel_analysis_job e job_id organization_id is_superadmin_context db =
    (case (case organization_id of
             Some org \<Rightarrow> get_analysis_job_in_org db job_id org
           | None \<Rightarrow> if is_superadmin_context then get_analysis_job db job_id else None) of
       None \<Rightarrow> (db, Inr None)
     | Some j \<Rightarrow>
         if jw_status j \<in> set ANALYSIS_JOB_FINAL_STATUSES then (db, Inr (Some j))
         else (case update_analysis_job_status (sv_ok e 0) (sv_now e) ANALYSIS_JOB_STATUS_CANCELED j db of
                 Inl err \<Rightarrow> (db, Inl (ServiceJob err))
               | Inr (db', j') \<Rightarrow> (db', Inr (Some j'))))"

subsection \<open>The row after a write\<close>

lemma get_write_jobs:
  assumes "\<And>x. jw_id (f x) = jw_id x"
  shows "get_analysis_job (write_jobs (update_where p f) db) i =
    map_option (\<lambda>x. if p x then f x else x) (get_analysis_job db i)"
  unfolding get_analysis_job_def write_jobs_def using assms
  by (simp add: select_one_update_where [where k = jw_id])

lemma update_job_row:
  assumes "update_job ok cond f t j db = Inr (db', r)" "\<And>x. jw_id (f x) = jw_id x"
  shows "\<exists>x. get_analysis_job db (jw_id j) = Some x \<and> cond x \<and> r = f x \<and> get_analysis_job db' (jw_id j) = Some r"
  using assms(1) get_analysis_job_Some [of db "jw_id j"]
  by (auto simp: update_job_def get_write_jobs assms(2) split: option.splits if_splits)

lemma merge_columns_id [simp]: "jw_id (merge_columns old new r) = jw_id r"
  by (simp add: merge_columns_def Let_def)

lemma flush_job_row:
  assumes "flush_job ok old new db = Inr (db', r)"
  shows "\<exists>x. get_analysis_job db (jw_id old) = Some x \<and> r = merge_columns old new x \<and>
    get_analysis_job db' (jw_id old) = Some r"
  using assms get_analysis_job_Some [of db "jw_id old"]
  by (auto simp: flush_job_def get_write_jobs split: option.splits if_splits)

lemma mark_running_row:
  assumes "mark_analysis_job_running ok now tok w la hb j db = Inr (db', r)"
  shows "\<exists>x. get_analysis_job db (jw_id j) = Some x \<and> jw_status x = ''queued'' \<and> jw_status r = ''running'' \<and>
    jw_attempt_count r = jw_attempt_count x + 1 \<and> jw_id r = jw_id x \<and> jw_lease_token r = tok \<and> jw_worker_id r = w \<and>
    get_analysis_job db' (jw_id j) = Some r"
  using assms unfolding mark_analysis_job_running_def Let_def by (auto dest!: update_job_row)

lemma schedule_retry_row:
  assumes "schedule_job_retry ok m tb j db = Inr (db', r)"
  shows "\<exists>x. get_analysis_job db (jw_id j) = Some x \<and> jw_status x = ''running'' \<and> jw_status r = ''queued'' \<and>
    jw_attempt_count r = jw_attempt_count x \<and> jw_id r = jw_id x \<and> no_lease r \<and> get_analysis_job db' (jw_id j) = Some r"
  using assms unfolding schedule_job_retry_def by (auto simp: released_def no_lease_def dest!: update_job_row)

lemma reset_row:
  assumes "reset_job_to_queued ok j db = Inr (db', r)" "jw_status j = ''running''"
  shows "\<exists>x. get_analysis_job db (jw_id j) = Some x \<and> jw_status x = ''running'' \<and> jw_status r = ''queued'' \<and>
    jw_attempt_count r = jw_attempt_count x \<and> jw_id r = jw_id x \<and> no_lease r \<and> get_analysis_job db' (jw_id j) = Some r"
  using assms unfolding reset_job_to_queued_def
  by (auto simp: bind_res_eq_Inr normalize_known ANALYSIS_JOB_STATUSES_def released_def no_lease_def dest!: update_job_row)

text \<open>A fresh object that is ended is flushed whole.\<close>

lemma end_job_row:
  assumes "end_job ok now s m tb j db = Inr (db', r)" "jobs_ok db" "get_analysis_job db i = Some j"
    and "s \<in> set ANALYSIS_JOB_FINAL_STATUSES"
  shows "jw_status r = s \<and> fixed_columns r = fixed_columns j \<and> get_analysis_job db' i = Some r"
proof -
  from assms(1) obtain j' where j': "set_job_status now s m tb j = Inr j'" "flush_job ok j j' db = Inr (db', r)"
    by (auto simp: end_job_def bind_res_eq_Inr)
  have ok: "job_ok j" using jobs_ok_get [OF assms(2,3)] .
  have fixed: "fixed_columns j' = fixed_columns j" using set_job_status_fixed [OF j'(1)] .
  have "jw_id j = i" using get_analysis_job_Some [OF assms(3)] by simp
  with flush_job_row [OF j'(2)] assms(3) fixed have "r = j'" "get_analysis_job db' i = Some r"
    by (auto simp: merge_columns_fresh)
  moreover have "jw_status j' = s" using set_job_status_ended [OF j'(1) ok assms(4)] by auto
  ultimately show ?thesis using fixed by simp
qed

lemma end_job_succeeds:
  assumes "jobs_ok db" "get_analysis_job db i = Some j" "jw_status j \<in> {''queued'', ''running''}"
    and "s \<in> {''failed'', ''canceled'', ''dead_letter''}"
  shows "\<exists>db' r. end_job True now s m tb j db = Inr (db', r)"
proof -
  have id: "jw_id j = i" using get_analysis_job_Some [OF assms(2)] by simp
  have "s \<in> set ANALYSIS_JOB_STATUSES" "jw_status j \<in> set ANALYSIS_JOB_STATUSES" "jw_status j \<noteq> s"
    "s \<in> set (job_targets (jw_status j))"
    using assms(3,4) by (auto simp: ANALYSIS_JOB_STATUSES_def job_targets_cases)
  then have "is_ok (set_job_status now s m tb j)"
    by (simp add: set_job_status_def normalize_known validate_analysis_job_transition_def Let_def)
  then obtain j' where "set_job_status now s m tb j = Inr j'" by (cases "set_job_status now s m tb j") auto
  with id assms(2) show ?thesis by (simp add: end_job_def flush_job_def)
qed

subsection \<open>Properties\<close>

lemma jitter_bounds:
  "0 \<le> retry_backoff_jitter_seconds e job_id n window \<and> (0 \<le> window \<longrightarrow> retry_backoff_jitter_seconds e job_id n window \<le> window)"
proof (cases "0 < window")
  case True
  let ?h = "int (sv_digest e (job_id @ '':'' @ str_int n)) mod (window + 1)"
  have "retry_backoff_jitter_seconds e job_id n window = ?h" using True by (simp add: retry_backoff_jitter_seconds_def)
  moreover have "?h < window + 1" using True by (intro pos_mod_bound) simp
  moreover have "0 \<le> ?h" using True by (intro pos_mod_sign) simp
  ultimately show ?thesis by simp
qed (simp add: retry_backoff_jitter_seconds_def)

lemma jitter_window_bounds:
  "0 \<le> retry_backoff_jitter_window_seconds e b \<and> retry_backoff_jitter_window_seconds e b \<le> max 1 (min 30 (b div 4))"
  by (auto simp: retry_backoff_jitter_window_seconds_def Let_def)

text \<open>The delay before the next attempt doubles with every attempt until it meets the configured maximum, and the
  jitter only adds to it: at most a quarter of it, at most 30 seconds (at least one second may be added), and never
  beyond the maximum. This holds for whatever hash the jitter is drawn from.\<close>

theorem retry_backoff_is_bounded:
  assumes "1 \<le> setting_of e ''analysis_retry_backoff_base_seconds''"
    and "setting_of e ''analysis_retry_backoff_base_seconds'' \<le> setting_of e ''analysis_retry_backoff_max_seconds''"
  shows "1 \<le> retry_base_delay e n \<and> retry_base_delay e n \<le> retry_backoff_seconds e job_id n \<and>
    retry_backoff_seconds e job_id n \<le> setting_of e ''analysis_retry_backoff_max_seconds'' \<and>
    retry_backoff_seconds e job_id n \<le> retry_base_delay e n + max 1 (min 30 (retry_base_delay e n div 4)) \<and>
    (1 \<le> n \<longrightarrow> retry_base_delay e (n + 1) =
      min (2 * retry_base_delay e n) (setting_of e ''analysis_retry_backoff_max_seconds''))"
proof -
  let ?M = "setting_of e ''analysis_retry_backoff_max_seconds''" and ?B = "setting_of e ''analysis_retry_backoff_base_seconds''"
  let ?b = "retry_base_delay e n"
  let ?w = "retry_backoff_jitter_window_seconds e ?b"
  let ?j = "retry_backoff_jitter_seconds e job_id n ?w"
  have pow: "1 \<le> ?B * 2 ^ k" for k
    using assms(1) by (smt (verit) mult_le_cancel_left1 one_le_power)
  then have b: "1 \<le> ?b" "?b \<le> ?M" using assms by (simp_all add: retry_base_delay_def)
  have j: "0 \<le> ?j" "?j \<le> max 1 (min 30 (?b div 4))"
    using jitter_bounds [of e job_id n ?w] jitter_window_bounds [of e ?b] by linarith+
  have double: "retry_base_delay e (n + 1) = min (2 * ?b) ?M" if "1 \<le> n"
  proof -
    let ?c = "?B * 2 ^ nat (max 0 (n - 1))"
    have "nat (max 0 (n + 1 - 1)) = Suc (nat (max 0 (n - 1)))" using that by simp
    then have "retry_base_delay e (n + 1) = min (2 * ?c) ?M"
      unfolding retry_base_delay_def by (simp only: power_Suc) (simp add: algebra_simps)
    moreover have "1 \<le> ?c" by (rule pow)
    moreover have "?b = min ?c ?M" by (simp add: retry_base_delay_def)
    ultimately show ?thesis using assms by linarith
  qed
  show ?thesis
    using b j double unfolding retry_backoff_seconds_def Let_def by (intro conjI impI) auto
qed

text \<open>What the reaper does with an expired lease.\<close>

definition lease_holds :: "service_env \<Rightarrow> leased_analysis_job \<Rightarrow> job_row \<Rightarrow> bool" where
  "lease_holds e lease j \<longleftrightarrow>
     jw_status j = ''running'' \<and> jw_lease_token j = Some (lj_token lease) \<and> jw_worker_id j = Some (lj_worker_id lease) \<and>
     (\<forall>t. jw_leased_at j = Some t \<longrightarrow> t \<le> lease_datetime_from_ms (lj_leased_at_ms lease)) \<and>
     (\<forall>t. jw_heartbeat_at j = Some t \<longrightarrow> t < sv_now e - seconds (lease_timeout_seconds lease))"

text \<open>The reply of the reconciliation, and the row it leaves.\<close>

lemma reconcile_expired_lease_exact:
  assumes "jobs_ok db" "get_analysis_job db (ap_job_id (lj_payload lease)) = Some j" "lease_holds e lease j \<longrightarrow> sv_ok e 0"
    and "reconcile_expired_lease e lease db = (db', reply)"
  shows "reply = Inr (if lease_holds e lease j then ''requeue'' else ''drop'') \<and>
    (\<not> lease_holds e lease j \<longrightarrow> db' = db) \<and>
    (lease_holds e lease j \<longrightarrow> (\<exists>j'. get_analysis_job db' (jw_id j) = Some j' \<and> jw_status j' = ''queued'' \<and> no_lease j' \<and>
      jw_attempt_count j' = jw_attempt_count j)) \<and>
    (jw_status j = ''queued'' \<longrightarrow> reply = Inr ''drop'')"
proof -
  have ok: "job_ok j" using jobs_ok_get [OF assms(1,2)] .
  have id: "jw_id j = ap_job_id (lj_payload lease)" using get_analysis_job_Some [OF assms(2)] by simp
  have queued: "jw_status j = ''queued'' \<Longrightarrow> jw_lease_token j = None" using ok by (simp add: job_ok_def no_lease_def)
  show ?thesis
  proof (cases "lease_holds e lease j")
    case True
    then have run: "jw_status j = ''running''" by (simp add: lease_holds_def)
    obtain db1 r where reset: "reset_job_to_queued (sv_ok e 0) j db = Inr (db1, r)"
      using assms(2,3) id run True
      by (simp add: reset_job_to_queued_def update_job_def normalize_known ANALYSIS_JOB_STATUSES_def)
    have not_final: "''running'' \<notin> set ANALYSIS_JOB_FINAL_STATUSES" by (simp add: ANALYSIS_JOB_FINAL_STATUSES_def)
    have "reconcile_expired_lease e lease db = (db1, Inr ''requeue'')"
      using True run reset not_final assms(2) unfolding reconcile_expired_lease_def lease_holds_def Let_def
      by (auto split: option.splits)
    with reset_row [OF reset run] assms(2,4) id True run show ?thesis by (auto simp: id)
  next
    case False
    have "jw_status j \<in> set ANALYSIS_JOB_FINAL_STATUSES \<or> jw_status j = ''running'' \<or> jw_status j = ''queued''"
      using ok by (auto simp: job_ok_def job_status_sets)
    then have "reconcile_expired_lease e lease db = (db, Inr ''drop'')"
      using False queued assms(2) unfolding reconcile_expired_lease_def lease_holds_def Let_def
      by (auto split: option.splits simp: not_less not_le)
    with assms(4) False show ?thesis by simp
  qed
qed

lemma reconcile_expired_lease_unwritten:
  assumes "get_analysis_job db (ap_job_id (lj_payload lease)) = Some j" "lease_holds e lease j" "\<not> sv_ok e 0"
  shows "reconcile_expired_lease e lease db = (db, Inl (ServiceJob JobDbError))"
proof -
  have run: "jw_status j = ''running''" "jw_id j = ap_job_id (lj_payload lease)"
    using assms(2) get_analysis_job_Some [OF assms(1)] by (simp_all add: lease_holds_def)
  then have "reset_job_to_queued False j db = Inl JobDbError"
    using assms(1) by (simp add: reset_job_to_queued_def update_job_def normalize_known ANALYSIS_JOB_STATUSES_def)
  then show ?thesis
    using assms run unfolding reconcile_expired_lease_def lease_holds_def Let_def
    by (auto simp: ANALYSIS_JOB_FINAL_STATUSES_def split: option.splits)
qed

text \<open>How a failed attempt of a running job leaves its row.\<close>

definition failure_outcome :: "service_env \<Rightarrow> bool \<Rightarrow> job_row \<Rightarrow> job_row \<Rightarrow> execution_result \<Rightarrow> bool" where
  "failure_outcome e retryable j j' res \<longleftrightarrow>
     jw_id j' = jw_id j \<and> jw_attempt_count j' = jw_attempt_count j \<and> no_lease j' \<and>
     ((ex_disposition res = ''retry_scheduled'' \<and> jw_status j' = ''queued'' \<and> retryable \<and>
       job_attempt_count j < max_attempts e \<and>
       ex_retry_at res = Some (sv_now e + seconds (retry_backoff_seconds e (jw_id j) (job_attempt_count j)))) \<or>
      (ex_disposition res = ''dead_lettered'' \<and> jw_status j' = ''dead_letter'' \<and> ex_retry_at res = None))"

lemma end_dead_letter:
  assumes "jobs_ok db" "get_analysis_job db i = Some j" "jw_status j \<in> {''queued'', ''running''}"
  shows "\<exists>db' r. mark_job_dead_letter True now m tb j db = Inr (db', r) \<and> jobs_ok db' \<and>
    get_analysis_job db' i = Some r \<and> jw_status r = ''dead_letter'' \<and> jw_id r = jw_id j \<and>
    jw_attempt_count r = jw_attempt_count j \<and> no_lease r"
proof -
  obtain db' r where r: "end_job True now ''dead_letter'' (Some (Some m)) (Some tb) j db = Inr (db', r)"
    using end_job_succeeds [OF assms, of "''dead_letter''"] by blast
  have final: "''dead_letter'' \<in> set ANALYSIS_JOB_FINAL_STATUSES" by (simp add: ANALYSIS_JOB_FINAL_STATUSES_def)
  have row: "jw_status r = ''dead_letter''" "fixed_columns r = fixed_columns j" "get_analysis_job db' i = Some r"
    using end_job_row [OF r assms(1,2) final] by simp_all
  have "jobs_ok db'"
    using job_step_follows [OF job_step.End [OF assms(2) final r] assms(1)] by (simp add: jobs_follow_def)
  with row jobs_ok_get [of db' i r] final r show ?thesis
    by (auto simp: mark_job_dead_letter_def fixed_columns_def job_ok_def)
qed

lemma schedule_retry_ok:
  assumes "jobs_ok db" "get_analysis_job db i = Some j" "jw_status j = ''running''"
  shows "\<exists>db' r. schedule_job_retry True m tb j db = Inr (db', r) \<and> jobs_ok db' \<and> get_analysis_job db' i = Some r \<and>
    jw_status r = ''queued'' \<and> jw_id r = jw_id j \<and> jw_attempt_count r = jw_attempt_count j \<and> no_lease r"
proof -
  have id: "jw_id j = i" using get_analysis_job_Some [OF assms(2)] by simp
  obtain db' r where r: "schedule_job_retry True m tb j db = Inr (db', r)"
    using assms(2,3) id by (simp add: schedule_job_retry_def update_job_def)
  have "jobs_ok db'"
    using job_step_follows [OF job_step.Retry [OF r] assms(1)] by (simp add: jobs_follow_def)
  with r schedule_retry_row [OF r] assms(2) id show ?thesis by auto
qed

lemma handle_attempt_failure_outcome:
  assumes "jobs_ok db" "get_analysis_job db i = Some j" "jw_status j = ''running''" "sv_ok e 0"
  shows "\<exists>db' res j'. handle_attempt_failure e m tb retryable j db = Inr (db', res) \<and> jobs_ok db' \<and>
    get_analysis_job db' i = Some j' \<and> failure_outcome e retryable j j' res"
proof (cases "retryable \<and> job_attempt_count j < max_attempts e \<and>
    \<not> max 0 (count_retry_inflight_jobs db) \<ge> effective_max_retry_inflight (sv_settings e)")
  case True
  with schedule_retry_ok [OF assms(1-3), of m tb] assms(4) show ?thesis
    by (auto simp: handle_attempt_failure_def Let_def failure_outcome_def)
next
  case False
  have "\<exists>db' res j'. bind_res (mark_job_dead_letter (sv_ok e 0) (sv_now e) msg tb j db)
      (\<lambda>(db', j'). Inr (db', dead_lettered (job_attempt_count j) m)) = Inr (db', res) \<and> jobs_ok db' \<and>
    get_analysis_job db' i = Some j' \<and> failure_outcome e retryable j j' res" for msg
    using end_dead_letter [OF assms(1,2), of "sv_now e" msg tb] assms(3,4)
    by (auto simp: failure_outcome_def dead_lettered_def)
  with False show ?thesis by (auto simp: handle_attempt_failure_def Let_def)
qed

text \<open>A worker claims the job and its attempt fails with an error that may be retried.\<close>

definition failing_attempt :: "string \<Rightarrow> service_env \<times> string \<times> string \<Rightarrow> job_db \<Rightarrow> job_db" where
  "failing_attempt i x db =
    (case x of (e, tok, message) \<Rightarrow>
     case get_analysis_job db i of
       None \<Rightarrow> db
     | Some j \<Rightarrow>
         (case mark_analysis_job_running True (sv_now e) (Some tok) (Some tok) None None j db of
            Inl err \<Rightarrow> db
          | Inr (db1, j1) \<Rightarrow>
              (case handle_attempt_failure e message None True j1 db1 of Inl err \<Rightarrow> db1 | Inr (db2, res) \<Rightarrow> db2)))"

lemma failing_attempt_queued:
  assumes "jobs_ok db" "get_analysis_job db i = Some j" "jw_status j = ''queued''" "sv_ok (fst x) 0"
  shows "jobs_ok (failing_attempt i x db) \<and> (\<exists>j'. get_analysis_job (failing_attempt i x db) i = Some j' \<and>
    jw_attempt_count j' = jw_attempt_count j + 1 \<and>
    (jw_status j' = ''dead_letter'' \<or> (jw_status j' = ''queued'' \<and> jw_attempt_count j + 1 < max_attempts (fst x))))"
proof -
  obtain e tok message where x: "x = (e, tok, message)" by (cases x)
  have id: "jw_id j = i" using get_analysis_job_Some [OF assms(2)] by simp
  obtain db1 j1 where run: "mark_analysis_job_running True (sv_now e) (Some tok) (Some tok) None None j db = Inr (db1, j1)"
    using assms(2,3) id by (simp add: mark_analysis_job_running_def update_job_def Let_def)
  have ok1: "jobs_ok db1"
    using job_step_follows [OF job_step.Claim [OF run] assms(1)] by (simp add: jobs_follow_def)
  from mark_running_row [OF run] assms(2) id
  have j1: "get_analysis_job db1 i = Some j1" "jw_status j1 = ''running''" "jw_attempt_count j1 = jw_attempt_count j + 1"
    by auto
  have pos: "job_attempt_count j1 = jw_attempt_count j + 1"
    using jobs_ok_get [OF ok1 j1(1)] j1(3) by (simp add: job_attempt_count_def job_ok_def)
  from handle_attempt_failure_outcome [OF ok1 j1(1,2), of e message None True] assms(4) x pos j1(3)
  show ?thesis by (auto simp: x failing_attempt_def assms(2) run failure_outcome_def)
qed

lemma failing_attempt_not_queued:
  "get_analysis_job db i = Some j \<Longrightarrow> jw_status j \<noteq> ''queued'' \<Longrightarrow> failing_attempt i x db = db"
  using get_analysis_job_Some [of db i j]
  by (cases x) (auto simp: failing_attempt_def mark_analysis_job_running_def update_job_def Let_def)

text \<open>C11: Retries end. A queued job whose attempts keep failing with errors that may be retried is dead-lettered after as
  many attempts as the settings allow, or earlier when the retry budget is used up: a run of failing attempts as long as
  the attempts left never leaves it queued or running, and it is not attempted more often than allowed.\<close>

theorem failing_job_is_dead_lettered:
  assumes "jobs_ok db" "get_analysis_job db i = Some j" "jw_status j = ''queued''"
    and "\<forall>x \<in> set xs. sv_ok (fst x) 0 \<and> max_attempts (fst x) = M"
    and "xs \<noteq> []" "M \<le> jw_attempt_count j + int (length xs)"
  shows "\<exists>j'. get_analysis_job (fold (failing_attempt i) xs db) i = Some j' \<and> jw_status j' = ''dead_letter'' \<and>
    jw_attempt_count j' \<le> max M (jw_attempt_count j + 1)"
  using assms
proof (induction xs arbitrary: db j)
  case (Cons x xs)
  from Cons.prems failing_attempt_queued [OF Cons.prems(1-3), of x]
  obtain j' where j': "jobs_ok (failing_attempt i x db)" "get_analysis_job (failing_attempt i x db) i = Some j'"
    "jw_attempt_count j' = jw_attempt_count j + 1"
    "jw_status j' = ''dead_letter'' \<or> (jw_status j' = ''queued'' \<and> jw_attempt_count j + 1 < M)"
    by auto
  show ?case
  proof (cases "jw_status j' = ''dead_letter''")
    case True
    have "fold (failing_attempt i) ys (failing_attempt i x db) = failing_attempt i x db" for ys
      using failing_attempt_not_queued [OF j'(2)] True by (induction ys) simp_all
    with j' True show ?thesis by simp
  next
    case False
    with j'(4) have q: "jw_status j' = ''queued''" "jw_attempt_count j + 1 < M" by auto
    then have "xs \<noteq> []" using Cons.prems(6) by auto
    with Cons.IH [OF j'(1,2) q(1)] Cons.prems j'(3) q(2) show ?thesis by auto
  qed
qed simp

subsection \<open>Reprocessing and tenants\<close>

fun is_capacity_error :: "queue_error \<Rightarrow> bool" where
  "is_capacity_error (CapacityExceeded a b c d f g) = True"
| "is_capacity_error err = False"

definition queued_texts :: "redis \<Rightarrow> string multiset" where
  "queued_texts r = mset (ln_queue (rd_analysis r))"

lemma enqueue_raw_payload_cases:
  assumes "enqueue_raw_payload r raw d g prio = (r', res)"
  shows "(\<exists>err. res = Inl err \<and> is_capacity_error err \<and> r' = r) \<or>
    (res = Inr () \<and> queued_texts r' = add_mset raw (queued_texts r))"
  using assms
  by (auto simp: enqueue_raw_payload_def enqueue_with_limit_script_def guarded_push_def check_queue_capacity_def
      push_queue_def queued_texts_def capacity_error_def Let_def split: option.splits if_splits prod.splits)

lemma reprocess_transport_cases:
  assumes "reprocess_transport e i org admin j r = (r', res)"
  shows "(\<exists>err. res = Inl err \<and> r' = r) \<or> (res = Inr () \<and> (\<exists>raw. queued_texts r' = add_mset raw (queued_texts r)))"
proof (cases "requeue_dlq_job (sv_codec e) r i (Some (setting_of e ''analysis_queue_max_depth''))
    (Some (effective_max_queued_jobs (sv_settings e)))")
  case (Pair r1 res1)
  have dlq: "(\<exists>err. res1 = Inl err \<and> r1 = r) \<or> (res1 = Inr None \<and> r1 = r) \<or>
    (\<exists>d raw. res1 = Inr (Some d) \<and> queued_texts r1 = add_mset raw (queued_texts r))"
    using Pair
    by (auto simp: requeue_dlq_job_def queued_texts_def Let_def
        split: option.splits sum.splits prod.splits if_splits dest!: enqueue_raw_payload_cases)
  show ?thesis
  proof (cases "res1 = Inr None")
    case True
    with dlq have "r1 = r" by auto
    with True Pair assms have "put_job e j (Some org) admin (Some (setting_of e ''analysis_queue_max_depth'')) r = (r', res)"
      by (simp add: reprocess_transport_def fallback_enqueue_job_def)
    then show ?thesis
      by (auto simp: put_job_def enqueue_analysis_job_def split: sum.splits dest!: enqueue_raw_payload_cases)
  next
    case False
    with dlq Pair assms show ?thesis by (auto simp: reprocess_transport_def)
  qed
qed

lemma scoped_job_row:
  assumes "scoped_job db i org = Inr j" "jobs_ok db"
  shows "get_analysis_job db i = Some j \<and> (\<forall>x. org = Some x \<longrightarrow> job_organization db j = Some x)"
proof -
  have j: "j \<in> set (jd_jobs db)" "jw_id j = i" "\<forall>x. org = Some x \<longrightarrow> job_organization db j = Some x"
    using assms(1) by (auto simp: scoped_job_def get_analysis_job_in_org_def get_analysis_job_def
        split: option.splits dest!: select_one_Some)
  then show ?thesis
    using keyed_select_one [of jw_id "jd_jobs db" j] assms(2) by (simp add: get_analysis_job_def jobs_ok_def)
qed

lemma requeue_dead_letter_row:
  assumes "requeue_dead_letter_job ok j db = Inr (db', r)" "get_analysis_job db i = Some j" "jobs_ok db"
  shows "jobs_ok db' \<and> get_analysis_job db' i = Some r \<and> jw_status r = ''queued'' \<and> jw_attempt_count r = 0 \<and>
    jw_id r = i \<and> jw_status j = ''dead_letter''"
proof -
  have id: "jw_id j = i" using get_analysis_job_Some [OF assms(2)] by simp
  have "jobs_ok db'"
    using job_step_follows [OF job_step.Reprocess [OF assms(1)] assms(3)] by (simp add: jobs_follow_def)
  moreover from assms(1) obtain f where f: "update_job ok (\<lambda>r. jw_status r = ''dead_letter'') f ''queued'' j db = Inr (db', r)"
    "f = (\<lambda>r. (released r)\<lparr>jw_status := ''queued'', jw_attempt_count := 0, jw_started_at := None,
            jw_finished_at := None, jw_error_message := None, jw_error_traceback := None, jw_output_summary := None\<rparr>)"
    by (auto simp: requeue_dead_letter_job_def bind_res_eq_Inr split: if_splits)
  moreover have "\<And>x. jw_id (f x) = jw_id x" by (simp add: f(2) released_def)
  ultimately show ?thesis
    using update_job_row [OF f(1)] assms(2) id by (auto simp: f(2) released_def)
qed

lemma back_to_dead_letter_row:
  assumes "jobs_ok db" "get_analysis_job db i = Some j" "jw_status j = ''queued''"
    and "back_to_dead_letter e j prior dflt err (db, q) = (w', res)"
  shows "snd w' = q \<and> (if sv_ok e 1
    then res = Inl err \<and> (\<exists>j'. get_analysis_job (fst w') i = Some j' \<and> jw_status j' = ''dead_letter'')
    else fst w' = db \<and> (\<exists>err'. res = Inl err'))"
proof (cases "sv_ok e 1")
  case True
  with end_dead_letter [OF assms(1,2), of "sv_now e" "if given prior then the prior else dflt" "jw_error_traceback j"] assms(3,4)
  show ?thesis by (auto simp: back_to_dead_letter_def)
next
  case False
  have "mark_job_dead_letter False (sv_now e) m t j db \<noteq> Inr x" for m t x
    by (auto simp: mark_job_dead_letter_def end_job_def flush_job_def bind_res_eq_Inr split: option.splits)
  with False assms(4) show ?thesis
    by (auto simp: back_to_dead_letter_def split: sum.splits prod.splits)
qed

lemma delivery_cases:
  assumes "with_delivery_fault f r (reprocess_transport e i org admin j r) = (r', t)"
  shows "(r' = r \<and> (\<exists>err. t = Inl err) \<and> (f = DeliveryWorks \<longrightarrow> (\<exists>q. t = Inl (ServiceQueue q)))) \<or>
    ((\<exists>raw. queued_texts r' = add_mset raw (queued_texts r)) \<and> (if f = DeliveryWorks then t = Inr () else t = Inl ServiceRedis))"
proof -
  obtain r1 t1 where "reprocess_transport e i org admin j r = (r1, t1)" by (cases rule: prod.exhaust)
  from reprocess_transport_cases [OF this] this assms show ?thesis
    by (cases f) (auto simp: with_delivery_fault_def queued_texts_def)
qed

text \<open>C12: Reprocessing a dead-letter job is all or nothing but for failures after its commit. When it returns, the
  job is queued in the database with no attempt counted and one more text stands in the Redis queue. When it raises,
  either nothing changed at all, or the queue is as it was and the job is a dead-letter job again (the queue is missing or
  full), or the job stays queued in the database, with at most one text more in Redis. The last happens only when the
  stored dead-letter text cannot be read, when Redis fails while the job is delivered, when the statement that would put
  the job back fails, or when the row cannot be refreshed at the end: the requeue of the row has been committed before
  Redis is asked.\<close>

theorem reprocess_is_all_or_nothing:
  assumes "jobs_ok (fst w)" "reprocess_dead_letter_job e i org admin w = (w', res)"
  shows "case res of
      Inr j \<Rightarrow> get_analysis_job (fst w') i = Some j \<and> jw_status j = ''queued'' \<and> jw_attempt_count j = 0 \<and>
        (\<exists>r r' raw. snd w = Some r \<and> snd w' = Some r' \<and> queued_texts r' = add_mset raw (queued_texts r))
    | Inl err \<Rightarrow> w' = w \<or>
        (snd w' = snd w \<and> (\<exists>j. get_analysis_job (fst w') i = Some j \<and> jw_status j = ''dead_letter'')) \<or>
        ((\<not> sv_ok e 1 \<or> \<not> sv_ok e 2 \<or> sv_delivery e \<noteq> DeliveryWorks \<or> (\<exists>q. err = ServiceQueue q \<and> \<not> is_capacity_error q)) \<and>
         (\<exists>j. get_analysis_job (fst w') i = Some j \<and> jw_status j = ''queued'' \<and> jw_attempt_count j = 0) \<and>
         (snd w' = snd w \<or>
          (\<exists>r r' raw. snd w = Some r \<and> snd w' = Some r' \<and> queued_texts r' = add_mset raw (queued_texts r))))"
proof (cases "reprocess_claim e i org admin w")
  case (Inl err)
  with assms(2) show ?thesis by (auto simp: reprocess_dead_letter_job_def)
next
  case (Inr claim)
  obtain p prior db' j where claim: "claim = (p, prior, db', j)" by (cases claim)
  with Inr obtain j0 where j0: "scoped_job (fst w) i org = Inr j0" "requeue_dead_letter_job (sv_ok e 0) j0 (fst w) = Inr (db', j)"
    unfolding reprocess_claim_def Let_def by (auto simp: bind_res_eq_Inr map_sum_eq_Inr)
  note row = requeue_dead_letter_row [OF j0(2) conjunct1 [OF scoped_job_row [OF j0(1) assms(1)]] assms(1)]
  have dlq: "back_to_dead_letter e j prior dflt err (db', q) = (w', res) \<Longrightarrow>
      snd w' = q \<and> (\<exists>err'. res = Inl err') \<and>
      (if sv_ok e 1 then \<exists>j'. get_analysis_job (fst w') i = Some j' \<and> jw_status j' = ''dead_letter''
       else get_analysis_job (fst w') i = Some j)" for dflt err q
    using back_to_dead_letter_row [of db' i j e prior dflt err q w' res] row by (auto split: if_splits)
  have run: "reprocess_deliver e i admin p prior j (db', snd w) = (w', res)"
    using assms(2) Inr claim by (simp add: reprocess_dead_letter_job_def)
  show ?thesis
  proof (cases "snd w")
    case None
    with run have "back_to_dead_letter e j prior ''Dead-letter job cannot be reprocessed because the queue is unavailable.''
        (ServiceHTTP 503 ''Analysis queue is unavailable.'') (db', None) = (w', res)"
      by (simp add: reprocess_deliver_def)
    from dlq [OF this] None row show ?thesis by (auto split: if_splits)
  next
    case (Some r)
    obtain r' t where t: "with_delivery_fault (sv_delivery e) r
        (reprocess_transport e i (pr_organization_id (jp_project p)) admin j r) = (r', t)"
      by (cases rule: prod.exhaust)
    note cases = delivery_cases [OF t]
    show ?thesis
    proof (cases "\<exists>q. t = Inl (ServiceQueue q) \<and> is_capacity_error q")
      case True
      then obtain q where q: "t = Inl (ServiceQueue q)" "is_capacity_error q" by blast
      with cases have "r' = r" by (auto split: if_splits)
      with q run Some t have "back_to_dead_letter e j prior ''Dead-letter reprocess requeued to DLQ because the queue is full.''
          (ServiceQueue q) (db', Some r) = (w', res)"
        by (cases q) (simp_all add: reprocess_deliver_def)
      from dlq [OF this] Some row show ?thesis by (auto split: if_splits)
    next
      case False
      have w': "w' = (db', Some r')" "res = (case t of Inl err \<Rightarrow> Inl err | Inr u \<Rightarrow> if sv_ok e 2 then Inr j else Inl (ServiceJob JobDbError))"
        using run Some t False
        by (auto simp: reprocess_deliver_def split: sum.splits analysis_error.splits queue_error.splits)
      from cases w' row Some False show ?thesis
        by (cases t) (auto split: if_splits)
    qed
  qed
qed

text \<open>C14: A request made for one organization does not reach the job of another: it is not read, reconciled, canceled,
  retried or reprocessed, the answer is the one for a job that does not exist, and neither the database nor Redis
  changes, whatever the caller says of being a superadmin.\<close>

theorem foreign_jobs_are_out_of_reach:
  assumes "jobs_ok db" "get_analysis_job db i = Some j" "job_organization db j \<noteq> Some org"
  shows "get_job e i (Some org) admin (db, q) = ((db, q), Inr None) \<and>
    cancel_analysis_job e i (Some org) admin db = (db, Inr None) \<and>
    retry_job e i (Some org) admin (db, q) = ((db, q), Inl (ServiceHTTP 404 ''Analysis job not found.'')) \<and>
    reprocess_dead_letter_job e i (Some org) admin (db, q) = ((db, q), Inl (ServiceHTTP 404 ''Analysis job not found.''))"
proof -
  have "x = j" if "x \<in> set (jd_jobs db)" "jw_id x = i" for x
    using keyed_unique [of jw_id "jd_jobs db"] that assms(1) get_analysis_job_Some [OF assms(2)] by (auto simp: jobs_ok_def)
  with assms(3) have "get_analysis_job_in_org db i org = None"
    by (auto simp: get_analysis_job_in_org_def select_one_None)
  then show ?thesis
    by (simp add: get_job_def cancel_analysis_job_def retry_job_def reprocess_dead_letter_job_def reprocess_claim_def
        require_scope_def scoped_job_def Let_def)
qed

lemma guards_pass:
  "authoritative_job_status j = Inr s \<longleftrightarrow> normalize_analysis_job_status (jw_status j) = Inr s"
  "authoritative_project_id j = Inr project_id \<longleftrightarrow> project_id = jw_project_id j \<and> project_id \<noteq> []"
  "enforce_retryable_job_state s = Inr u \<longleftrightarrow> s \<in> {''failed'', ''canceled''}"
  "enforce_retry_count_limit i n = Inr u \<longleftrightarrow> n < 10"
  by (auto simp: authoritative_job_status_def authoritative_project_id_def enforce_retryable_job_state_def
      enforce_retry_count_limit_def split: sum.splits)

text \<open>C13: A retry that succeeds adds exactly one queued job: a child of the named one, for the same project, with its
  retry count raised by one and never above ten, and only for a failed or canceled job; Redis is left to the caller. The
  child is always a manual analysis, also when the job it retries was a quote recalculation.\<close>

theorem retry_makes_one_child:
  assumes "jobs_ok (fst w)" "retry_job e i org admin w = (w', Inr child)"
  shows "\<exists>original. get_analysis_job (fst w) i = Some original \<and> jw_status original \<in> {''failed'', ''canceled''} \<and>
    (\<forall>x. org = Some x \<longrightarrow> job_organization (fst w) original = Some x) \<and>
    jd_jobs (fst w') = jd_jobs (fst w) @ [child] \<and> snd w' = snd w \<and>
    jw_parent_job_id child = Some i \<and> jw_project_id child = jw_project_id original \<and>
    jw_retry_count child = max 0 (jw_retry_count original) + 1 \<and> jw_retry_count child \<le> 10 \<and>
    jw_status child = ''queued'' \<and> jw_attempt_count child = 0 \<and> jw_job_type child = ''manual_trigger''"
proof -
  from assms(2) obtain original status p db' where
    o: "scoped_job (fst w) i org = Inr original" "normalize_analysis_job_status (jw_status original) = Inr status"
      "status \<in> {''failed'', ''canceled''}" "authoritative_retry_count original < 10"
      "resolve_retry_project_scope (fst w) (jw_project_id original) org = Inr p"
    and c: "create_queued_job (sv_ok e 0) (sv_now e) (sv_uuid e) p (jw_requested_by_user_id original)
              (Some (jw_id original)) (authoritative_retry_count original + 1) ''manual_trigger'' None
              \<lparr>jf_work_type_code = jw_work_type_code original, jf_profile_id = jw_profile_id original,
               jf_profile_code = jw_profile_code original, jf_profile_version = jw_profile_version original\<rparr> (fst w) =
              Inr (db', child)"
    and w': "w' = (db', snd w)"
    unfolding retry_job_def Let_def
    by (auto simp: bind_res_eq_Inr map_sum_eq_Inr guards_pass split: sum.splits)
  note row = scoped_job_row [OF o(1) assms(1)]
  then have "job_ok original" using jobs_ok_get [OF assms(1)] by blast
  with o(2) have status: "jw_status original = status" by (simp add: job_ok_def normalize_known)
  have project: "pr_id (jp_project p) = jw_project_id original"
    using o(5) by (auto simp: resolve_retry_project_scope_def get_project_in_org_def project_of_def
        split: option.splits dest!: select_one_Some)
  from c have "jd_jobs db' = jd_jobs (fst w) @ [child]" "jw_parent_job_id child = Some (jw_id original)"
    "jw_retry_count child = authoritative_retry_count original + 1" "jw_status child = ''queued''"
    "jw_attempt_count child = 0" "jw_job_type child = ''manual_trigger''" "jw_project_id child = pr_id (jp_project p)"
    by (auto simp: create_queued_job_def new_job_def write_jobs_def Let_def split: option.splits if_splits)
  with o(3,4) row status project get_analysis_job_Some [of "fst w" i original] show ?thesis
    by (auto simp: w' authoritative_retry_count_def)
qed

subsection \<open>Witnesses\<close>

definition sample_service :: service_env where
  "sample_service = \<lparr>sv_settings = [(''analysis_retry_backoff_base_seconds'', SInt 30), (''analysis_retry_backoff_max_seconds'', SInt 900),
       (''analysis_job_max_attempts'', SInt 3), (''analysis_queue_max_depth'', SInt 100), (''analysis_jobs_per_tenant_limit'', SInt 5),
       (''effective_backpressure_max_queued_jobs'', SInt 200), (''effective_backpressure_max_retry_inflight'', SInt 10),
       (''worker_job_lease_timeout_seconds'', SInt 300)],
     sv_codec = sample_codec, sv_digest = length, sv_probe = NoRuntimeStatus, sv_inspect_ok = True, sv_delivery = DeliveryWorks,
     sv_heartbeat = (\<lambda>_. HeartbeatSeen None), sv_now = seconds 100, sv_uuid = ''fedcba9876543210'', sv_ok = (\<lambda>_. True)\<rparr>"

definition sample_job_lease :: leased_analysis_job where
  "sample_job_lease = \<lparr>lj_token = ''1'', lj_payload = sample_payload\<lparr>ap_job_id := ''job_01234567''\<rparr>, lj_raw_payload = ''raw'',
     lj_worker_id = ''w1'', lj_leased_at_ms = 1000, lj_lease_timeout_ms = 30000, lj_expires_at_ms = 31000\<rparr>"

definition sample_running :: job_row where
  "sample_running = snd sample_claimed"

definition sample_dead :: "job_db \<times> job_row" where
  "sample_dead = (case mark_job_dead_letter True 20 ''broken'' None sample_running (fst sample_claimed) of Inr x \<Rightarrow> x)"

definition sample_failed :: "job_db \<times> job_row" where
  "sample_failed = (case fail_analysis_job True 20 ''broken'' None sample_running (fst sample_claimed) of Inr x \<Rightarrow> x)"

theorem retry_backoff_is_bounded_witness:
  "retry_base_delay sample_service 4 \<le> retry_backoff_seconds sample_service ''job'' 4 \<and>
    retry_backoff_seconds sample_service ''job'' 4 \<le> 900 \<and>
    retry_base_delay sample_service (4 + 1) = min (2 * retry_base_delay sample_service 4) 900"
proof -
  have "1 \<le> setting_of sample_service ''analysis_retry_backoff_base_seconds''"
    "setting_of sample_service ''analysis_retry_backoff_base_seconds'' \<le> setting_of sample_service ''analysis_retry_backoff_max_seconds''"
    "setting_of sample_service ''analysis_retry_backoff_max_seconds'' = 900"
    by code_simp+
  with retry_backoff_is_bounded [of sample_service 4 "''job''"] show ?thesis by simp
qed

theorem failing_job_is_dead_lettered_witness:
  "\<exists>j'. get_analysis_job (fold (failing_attempt ''job_01234567'')
       [(sample_service, ''1'', ''a''), (sample_service, ''2'', ''b''), (sample_service, ''3'', ''c'')] (fst sample_queued)) ''job_01234567'' =
     Some j' \<and> jw_status j' = ''dead_letter'' \<and> jw_attempt_count j' \<le> max 3 (jw_attempt_count (snd sample_queued) + 1)"
  by (rule failing_job_is_dead_lettered) code_simp+

theorem reprocess_is_all_or_nothing_witness:
  "map jw_status (jd_jobs (fst (fst (reprocess_dead_letter_job sample_service ''job_01234567'' (Some ''o1'') False
     (fst sample_dead, Some empty_redis))))) = [''queued''] \<and>
   (case snd (reprocess_dead_letter_job sample_service ''job_01234567'' (Some ''o1'') False (fst sample_dead, None)) of
      Inl err \<Rightarrow> True | Inr j \<Rightarrow> False)"
proof -
  have ok: "jobs_ok (fst (fst sample_dead, None :: redis option))"
    by code_simp
  note none = reprocess_is_all_or_nothing [OF ok prod.collapse [symmetric], of sample_service "''job_01234567''" "Some ''o1''" False]
  have "snd (reprocess_dead_letter_job sample_service ''job_01234567'' (Some ''o1'') False (fst sample_dead, None)) \<noteq> Inr j" for j
    using none by (auto split: sum.splits)
  moreover have "map jw_status (jd_jobs (fst (fst (reprocess_dead_letter_job sample_service ''job_01234567'' (Some ''o1'') False
     (fst sample_dead, Some empty_redis))))) = [''queued'']"
    by code_simp
  ultimately show ?thesis
    by (cases "snd (reprocess_dead_letter_job sample_service ''job_01234567'' (Some ''o1'') False (fst sample_dead, None))") auto
qed

theorem foreign_jobs_are_out_of_reach_witness:
  "get_job sample_service ''job_01234567'' (Some ''o2'') True (fst sample_claimed, None) = ((fst sample_claimed, None), Inr None) \<and>
    cancel_analysis_job sample_service ''job_01234567'' (Some ''o2'') True (fst sample_claimed) = (fst sample_claimed, Inr None) \<and>
    retry_job sample_service ''job_01234567'' (Some ''o2'') True (fst sample_claimed, None) =
      ((fst sample_claimed, None), Inl (ServiceHTTP 404 ''Analysis job not found.'')) \<and>
    reprocess_dead_letter_job sample_service ''job_01234567'' (Some ''o2'') True (fst sample_claimed, None) =
      ((fst sample_claimed, None), Inl (ServiceHTTP 404 ''Analysis job not found.''))"
  by (rule foreign_jobs_are_out_of_reach [where j = sample_running]) code_simp+

theorem retry_makes_one_child_witness:
  "map jw_retry_count (jd_jobs (fst (fst (retry_job sample_service ''job_01234567'' (Some ''o1'') False (fst sample_failed, None))))) = [0, 1]"
proof -
  let ?r = "retry_job sample_service ''job_01234567'' (Some ''o1'') False (fst sample_failed, None)"
  have ok: "jobs_ok (fst (fst sample_failed, None :: redis option))" by code_simp
  have "is_ok (snd ?r)" by code_simp
  then obtain child where child: "snd ?r = Inr child" by (cases "snd ?r") auto
  have "?r = (fst ?r, Inr child)" using child by (metis prod.collapse)
  from retry_makes_one_child [OF ok this] obtain original where
    "get_analysis_job (fst sample_failed) ''job_01234567'' = Some original"
    "jd_jobs (fst (fst ?r)) = jd_jobs (fst sample_failed) @ [child]"
    "jw_retry_count child = max 0 (jw_retry_count original) + 1"
    by auto
  moreover have "get_analysis_job (fst sample_failed) ''job_01234567'' = Some (snd sample_failed)" "jw_retry_count (snd sample_failed) = 0"
    "map jw_retry_count (jd_jobs (fst sample_failed)) = [0]"
    by code_simp+
  ultimately show ?thesis by simp
qed

end
