(* ===== verification/Analysis_Worker.thy ===== *)
theory Analysis_Worker
  imports Analysis_Service
begin

section \<open>The analysis worker\<close>

text \<open>
  Models the analysis part of \<open>app/worker/runner.py\<close> over the analysis service and the Redis lane: the renewal of a
  lease, the end of a task (what becomes of the lease after each outcome of the execution), one run of the lease reaper
  and the reconciliation at start-up. The outcome of the execution is an argument of the task: whatever the execution
  returned or raised. A task keeps the lease record it was started with: the renewal loop renews a copy of its
  own. Redis calls of the end of a task either work or raise without effect (\<open>redis_ok\<close>). Log lines, metrics, the
  concurrency limiter and the heavy lane are left out.
\<close>

type_synonym worker_state = "job_db \<times> redis"

subsection \<open>Renewing a lease\<close>

text \<open>One turn of the loop: the new state, and the lease it goes on with, or none when the loop ends.\<close>

definition renew_job_lease ::
  "service_env \<Rightarrow> int \<Rightarrow> int \<Rightarrow> leased_analysis_job \<Rightarrow> worker_state \<Rightarrow> worker_state \<times> leased_analysis_job option" where
  "renew_job_lease e job_lease_timeout_seconds now_ms current_lease w =
    (case renew_analysis_job_lease (snd w) current_lease job_lease_timeout_seconds now_ms of
       (r', Inl err) \<Rightarrow> ((fst w, r'), None)
     | (r', Inr lease) \<Rightarrow>
         (case refresh_job_lease_heartbeat e (ap_job_id (lj_payload lease)) (lj_token lease) (lj_worker_id lease)
                 (lj_leased_at_ms lease) (fst w) of
            Inl err \<Rightarrow> ((fst w, r'), Some lease)
          | Inr (db', refreshed) \<Rightarrow> ((db', r'), if refreshed then Some lease else None)))"

subsection \<open>The end of a task\<close>

datatype task_outcome =
    TaskReturned "execution_result option"
  | TaskCancelled
  | TaskLostLease
  | TaskInvalidPayload
  | TaskRaised failure_cause string string

definition FINALIZE_STATE_SUCCESS :: string where
  [simp, constant_simps]: "FINALIZE_STATE_SUCCESS = ''success''"
definition FINALIZE_STATE_FAILED :: string where
  [simp, constant_simps]: "FINALIZE_STATE_FAILED = ''failed''"
definition FINALIZE_STATE_RETRY :: string where
  [simp, constant_simps]: "FINALIZE_STATE_RETRY = ''retry''"

record finalization =
  fz_state :: string
  fz_retry_at :: "time option"
  fz_attempt_count :: int
  fz_dlq_reason :: "string option"
  fz_move_to_dlq :: bool
  fz_unknown :: "string option"

definition release_only :: finalization where
  "release_only = \<lparr>fz_state = FINALIZE_STATE_SUCCESS, fz_retry_at = None, fz_attempt_count = 0, fz_dlq_reason = None,
     fz_move_to_dlq = False, fz_unknown = None\<rparr>"

definition finalize_result :: "execution_result option \<Rightarrow> finalization" where
  "finalize_result result =
    (case result of
       None \<Rightarrow> release_only
     | Some res \<Rightarrow>
         let z = release_only\<lparr>fz_retry_at := ex_retry_at res, fz_attempt_count := ex_attempt_count res,
                   fz_dlq_reason := ex_failure_reason res\<rparr>
         in if ex_disposition res \<in> {''completed'', ''skipped''} then z
            else if ex_disposition res = ''retry_scheduled'' \<and> ex_retry_at res \<noteq> None
            then z\<lparr>fz_state := FINALIZE_STATE_RETRY\<rparr>
            else if ex_disposition res = ''dead_lettered''
            then z\<lparr>fz_state := FINALIZE_STATE_FAILED, fz_move_to_dlq := True\<rparr>
            else z\<lparr>fz_state := FINALIZE_STATE_FAILED,
                   fz_unknown := Some (if ex_disposition res = [] then ''<empty>'' else ex_disposition res)\<rparr>)"

definition resolve_job_failure_finalization ::
  "service_env \<Rightarrow> leased_analysis_job \<Rightarrow> failure_cause \<Rightarrow> string \<Rightarrow> string \<Rightarrow> job_db
    \<Rightarrow> job_db \<times> string \<times> time option \<times> int \<times> string option" where
  "resolve_job_failure_finalization e lease cause message tb db =
    (case recover_job_after_worker_error e lease cause message tb db of
       (db', Inl (ServiceJob (AnalysisJobLeaseOwnershipError i))) \<Rightarrow> (db', ''ack'', None, 0, None)
     | (db', Inl err) \<Rightarrow> (db', ''dlq'', None, 0, Some message)
     | (db', Inr res) \<Rightarrow>
         if ex_disposition res = ''retry_scheduled'' \<and> ex_retry_at res \<noteq> None
         then (db', ''retry'', ex_retry_at res, ex_attempt_count res, ex_failure_reason res)
         else if ex_disposition res = ''dead_lettered''
         then (db', ''dlq'', None, ex_attempt_count res, ex_failure_reason res)
         else (db', ''ack'', None, ex_attempt_count res, ex_failure_reason res))"

definition finalize_action :: "string \<times> time option \<times> int \<times> string option \<Rightarrow> finalization" where
  "finalize_action action =
    (case action of (act, retry_at, attempt_count, dlq_reason) \<Rightarrow>
     let z = release_only\<lparr>fz_retry_at := retry_at, fz_attempt_count := attempt_count, fz_dlq_reason := dlq_reason\<rparr>
     in if act = ''ack'' then z
        else if act = ''retry'' \<and> retry_at \<noteq> None then z\<lparr>fz_state := FINALIZE_STATE_RETRY\<rparr>
        else if act = ''dlq'' then z\<lparr>fz_state := FINALIZE_STATE_FAILED, fz_move_to_dlq := True\<rparr>
        else z\<lparr>fz_state := FINALIZE_STATE_FAILED, fz_unknown := Some (if act = [] then ''<empty>'' else act)\<rparr>)"

definition mark_job_failed_for_unknown_finalize_state ::
  "service_env \<Rightarrow> leased_analysis_job \<Rightarrow> string \<Rightarrow> job_db \<Rightarrow> job_db \<times> string" where
  "mark_job_failed_for_unknown_finalize_state e lease unknown_state db =
    (let error_message = ''Worker finalize rejected unknown state: '' @ [CHR 0x27] @ unknown_state @ [CHR 0x27] @
           ''. Lease released fail-safe.''
     in (fst (fail_job_before_processing e (ap_job_id (lj_payload lease)) error_message None db), error_message))"

definition resolve_outcome ::
  "service_env \<Rightarrow> leased_analysis_job \<Rightarrow> task_outcome \<Rightarrow> job_db \<Rightarrow> job_db \<times> finalization option" where
  "resolve_outcome e lease out db =
    (case out of
       TaskCancelled \<Rightarrow> (db, None)
     | TaskReturned result \<Rightarrow> (db, Some (finalize_result result))
     | TaskLostLease \<Rightarrow> (db, Some release_only)
     | TaskInvalidPayload \<Rightarrow> (db, Some release_only)
     | TaskRaised cause message tb \<Rightarrow>
         (case resolve_job_failure_finalization e lease cause message tb db of
            (db', action) \<Rightarrow> (db', Some (finalize_action action))))"

text \<open>The \<open>finally\<close> block. A datetime is rounded down to the millisecond.\<close>

definition resolve_unknown ::
  "service_env \<Rightarrow> leased_analysis_job \<Rightarrow> finalization \<Rightarrow> job_db \<Rightarrow> job_db \<times> finalization" where
  "resolve_unknown e lease z db =
    (let z1 = (if fz_state z \<notin> {FINALIZE_STATE_SUCCESS, FINALIZE_STATE_FAILED, FINALIZE_STATE_RETRY}
               then z\<lparr>fz_unknown := Some (fz_state z), fz_state := FINALIZE_STATE_FAILED, fz_move_to_dlq := False\<rparr> else z)
     in case fz_unknown z1 of
          None \<Rightarrow> (db, z1)
        | Some unknown \<Rightarrow>
            (case mark_job_failed_for_unknown_finalize_state e lease unknown db of
               (db', reason) \<Rightarrow> (db', z1\<lparr>fz_dlq_reason := Some reason, fz_state := FINALIZE_STATE_FAILED,
                  fz_move_to_dlq := False, fz_retry_at := None, fz_attempt_count := 0\<rparr>)))"

definition release_lease_of_task ::
  "service_env \<Rightarrow> bool \<Rightarrow> leased_analysis_job \<Rightarrow> finalization \<Rightarrow> redis \<Rightarrow> redis" where
  "release_lease_of_task e redis_ok lease z r =
    (if \<not> redis_ok then r
     else if fz_state z = FINALIZE_STATE_SUCCESS then fst (ack_analysis_job r lease)
     else case (fz_state z = FINALIZE_STATE_RETRY, fz_retry_at z) of
       (True, Some retry_at) \<Rightarrow> fst (schedule_analysis_job_retry r lease (retry_at div 1000))
     | _ \<Rightarrow>
         if fz_state z = FINALIZE_STATE_FAILED \<and> fz_move_to_dlq z
         then fst (move_analysis_job_to_dlq (sv_codec e) r lease (fz_attempt_count z) (fz_dlq_reason z) (sv_now e div 1000))
         else if fz_state z = FINALIZE_STATE_FAILED then fst (ack_analysis_job r lease)
         else r)"

definition run_job_task ::
  "service_env \<Rightarrow> bool \<Rightarrow> leased_analysis_job \<Rightarrow> task_outcome \<Rightarrow> worker_state \<Rightarrow> worker_state" where
  "run_job_task e redis_ok lease out w =
    (case resolve_outcome e lease out (fst w) of
       (db1, None) \<Rightarrow> (db1, snd w)
     | (db1, Some z) \<Rightarrow>
         (case resolve_unknown e lease z db1 of
            (db2, z') \<Rightarrow> (db2, release_lease_of_task e redis_ok lease z' (snd w))))"

subsection \<open>Reaping expired leases\<close>

definition queue_max_depth :: "service_env \<Rightarrow> int" where
  "queue_max_depth e = setting_of e ''analysis_queue_max_depth''"

definition reap_lease :: "service_env \<Rightarrow> leased_analysis_job \<Rightarrow> worker_state \<Rightarrow> worker_state" where
  "reap_lease e lease w =
    (case reconcile_expired_lease e lease (fst w) of
       (db', Inl err) \<Rightarrow> (db', snd w)
     | (db', Inr disposition) \<Rightarrow>
         (db', if disposition = ''requeue''
               then fst (requeue_expired_analysis_job (snd w) lease (queue_max_depth e)
                      (Some (setting_of e ''effective_backpressure_max_queued_jobs'')))
               else fst (drop_expired_analysis_job (snd w) lease)))"

definition LEASE_REAPER_BATCH_SIZE :: nat where
  [simp, constant_simps]: "LEASE_REAPER_BATCH_SIZE = 100"

text \<open>One run: \<open>es\<close> is the environment of each reconciliation; an unreadable record raises out of the run.\<close>

definition run_lease_reaper ::
  "service_env \<Rightarrow> (nat \<Rightarrow> service_env) \<Rightarrow> nat \<Rightarrow> worker_state \<Rightarrow> queue_error + worker_state" where
  "run_lease_reaper e es worker_concurrency w =
     bind_res (get_expired_analysis_job_leases (sv_codec e) (snd w) (sv_now e div 1000)
         (max LEASE_REAPER_BATCH_SIZE (worker_concurrency * 4)))
       (\<lambda>leases. Inr (foldl (\<lambda>w' (k, lease). reap_lease (es k) lease w') w (enumerate 0 leases)))"

subsection \<open>Reconciliation at start-up\<close>

definition purge_all :: "service_env \<Rightarrow> analysis_snapshot \<Rightarrow> string list \<Rightarrow> redis \<Rightarrow> redis" where
  "purge_all e snapshot job_ids r =
     foldl (\<lambda>r' i. purge_analysis_job_transport (sv_codec e) r' i (Some snapshot)) r job_ids"

text \<open>The transport entries of jobs that are neither queued nor running are purged, kind by kind; the sets Python
  iterates over are taken in the order of the snapshot.\<close>

definition purge_inactive :: "service_env \<Rightarrow> analysis_snapshot \<Rightarrow> string set \<Rightarrow> redis \<Rightarrow> redis" where
  "purge_inactive e snapshot active_job_ids r =
    (let gone = filter (\<lambda>i. i \<notin> active_job_ids)
     in purge_all e snapshot (gone (ts_dlq_job_ids snapshot))
          (purge_all e snapshot (gone (remdups (map fst (ts_scheduled_retry snapshot))))
            (purge_all e snapshot (gone (remdups (map (\<lambda>j. ap_job_id (lj_payload j)) (ts_processing snapshot))))
              (purge_all e snapshot (gone (remdups (map fst (ts_queued snapshot)))) r))))"

definition running_is_invalid :: "service_env \<Rightarrow> analysis_snapshot \<Rightarrow> job_row \<Rightarrow> bool" where
  "running_is_invalid e snapshot j =
    (\<not> given (jw_lease_token j) \<or> \<not> given (jw_worker_id j) \<or> job_running_is_stale e j = Inr True \<or>
     (case get_processing_lease snapshot (jw_id j) of None \<Rightarrow> True | Some lease \<Rightarrow> lease_mismatch j lease) \<or>
     (given (jw_worker_id j) \<and> is_worker_instance_alive e (jw_worker_id j) = Inr (Some False)))"

definition enqueue_at_startup ::
  "service_env \<Rightarrow> analysis_snapshot \<Rightarrow> job_row \<Rightarrow> string \<Rightarrow> bool \<Rightarrow> redis \<Rightarrow> redis \<times> (analysis_error + unit)" where
  "enqueue_at_startup e snapshot j organization_id transport_has_entry r =
    (let dead = jw_id j \<in> set (ts_dlq_job_ids snapshot);
         r1 = (if dead then purge_analysis_job_transport (sv_codec e) r (jw_id j) (Some snapshot) else r)
     in if transport_has_entry \<and> \<not> dead then (r1, Inr ())
        else (case put_job e j (Some organization_id) False (Some (queue_max_depth e)) r1 of
                (r2, reply) \<Rightarrow> (r2, ignore_capacity reply)))"

definition reconcile_startup_job ::
  "service_env \<Rightarrow> nat \<Rightarrow> analysis_snapshot \<Rightarrow> job_row \<times> string \<Rightarrow> worker_state \<Rightarrow> worker_state \<times> (analysis_error + unit)" where
  "reconcile_startup_job e k snapshot x w =
    (case x of (j, organization_id) \<Rightarrow>
       if jw_status j = ANALYSIS_JOB_STATUS_RUNNING then
         if \<not> running_is_invalid e snapshot j then (w, Inr ())
         else let r1 = purge_analysis_job_transport (sv_codec e) (snd w) (jw_id j) (Some snapshot)
           in (case reset_job_to_queued (sv_ok e k) j (fst w) of
                 Inl err \<Rightarrow> ((fst w, r1), Inl (ServiceJob err))
               | Inr (db', j') \<Rightarrow>
                   (case enqueue_at_startup e snapshot j organization_id False r1 of (r2, res) \<Rightarrow> ((db', r2), res)))
       else if jw_status j \<noteq> ANALYSIS_JOB_STATUS_QUEUED then (w, Inr ())
       else (case enqueue_at_startup e snapshot j organization_id (has_any_entry snapshot (jw_id j)) (snd w) of
               (r2, res) \<Rightarrow> ((fst w, r2), res)))"

fun reconcile_startup_jobs ::
  "service_env \<Rightarrow> nat \<Rightarrow> analysis_snapshot \<Rightarrow> (job_row \<times> string) list \<Rightarrow> worker_state \<Rightarrow> worker_state \<times> (analysis_error + unit)" where
  "reconcile_startup_jobs e k snapshot [] w = (w, Inr ())"
| "reconcile_startup_jobs e k snapshot (x # xs) w =
    (case reconcile_startup_job e k snapshot x w of
       (w', Inl err) \<Rightarrow> (w', Inl err)
     | (w', Inr _) \<Rightarrow> reconcile_startup_jobs e (k + 1) snapshot xs w')"

definition reconcile_startup_analysis_jobs :: "service_env \<Rightarrow> worker_state \<Rightarrow> worker_state \<times> (analysis_error + unit)" where
  "reconcile_startup_analysis_jobs e w =
    (let snapshot = inspect_analysis_job_transport (sv_codec e) (Some (snd w));
         active_jobs = list_active_jobs_with_organization_id (fst w);
         active_job_ids = (\<lambda>(j, org). jw_id j) ` set active_jobs
     in reconcile_startup_jobs e 0 snapshot active_jobs (fst w, purge_inactive e snapshot active_job_ids (snd w)))"

subsection \<open>What a task leaves in Redis\<close>

text \<open>The lease as Redis knows it: held by the worker, and with the time the record carries unless it was renewed.\<close>

definition lease_live :: "redis \<Rightarrow> leased_analysis_job \<Rightarrow> lease_hash \<Rightarrow> bool" where
  "lease_live r lease h \<longleftrightarrow> map_of (ln_leases (rd_analysis r)) (lj_token lease) = Some h \<and>
     lh_worker_id h = lj_worker_id lease"

definition renewed_since :: "leased_analysis_job \<Rightarrow> lease_hash \<Rightarrow> bool" where
  "renewed_since lease h \<longleftrightarrow> lh_leased_at_ms h \<noteq> lj_leased_at_ms lease"

lemma ack_settles:
  assumes "redis_inv r" "lease_live r lease h"
  shows "dead_token (lj_token lease) (rd_analysis (fst (ack_analysis_job r lease)))"
  using assms release_lease_dead [of "rd_analysis r" "lj_token lease" h "rd_analysis r"]
  by (simp add: ack_analysis_job_def ack_job_script_def lease_live_def redis_inv_def)

lemma retry_settles:
  assumes "redis_inv r" "lease_live r lease h" "\<not> renewed_since lease h"
  shows "dead_token (lj_token lease) (rd_analysis (fst (schedule_analysis_job_retry r lease t))) \<and>
    map_of (ln_retry (rd_analysis (fst (schedule_analysis_job_retry r lease t)))) (lh_raw h) = Some t"
  using assms release_lease_dead [of "rd_analysis r" "lj_token lease" h "(rd_analysis r)\<lparr>ln_retry := AList.update (lh_raw h) t (ln_retry (rd_analysis r))\<rparr>"]
  by (simp add: schedule_analysis_job_retry_def schedule_retry_script_def lease_live_def renewed_since_def redis_inv_def
      release_lease_def update_conv')

lemma dlq_settles:
  assumes "redis_inv r" "lease_live r lease h" "\<not> renewed_since lease h"
  shows "dead_token (lj_token lease) (rd_analysis (fst (move_analysis_job_to_dlq c r lease n reason t))) \<and>
    ap_job_id (lj_payload lease) \<in> set (ln_dlq_active (rd_analysis (fst (move_analysis_job_to_dlq c r lease n reason t))))"
proof -
  let ?m = "(rd_analysis r)\<lparr>ln_dlq_history := push_history (ap_job_id (lj_payload lease))
       (serialize_dlq_payload c lease n reason t) (ln_dlq_history (rd_analysis r)),
     ln_dlq_active := List.insert (ap_job_id (lj_payload lease)) (ln_dlq_active (rd_analysis r))\<rparr>"
  show ?thesis
    using assms release_lease_dead [of "rd_analysis r" "lj_token lease" h ?m]
    by (simp add: move_analysis_job_to_dlq_def move_to_dlq_script_def lease_live_def renewed_since_def redis_inv_def
        release_lease_def)
qed

lemma renewed_refused:
  assumes "lease_live r lease h" "renewed_since lease h"
  shows "fst (schedule_analysis_job_retry r lease t) = r" "fst (move_analysis_job_to_dlq c r lease n reason t) = r"
  using assms
  by (simp_all add: schedule_analysis_job_retry_def schedule_retry_script_def move_analysis_job_to_dlq_def
      move_to_dlq_script_def lease_live_def renewed_since_def)

text \<open>The row of the job is the lease's own.\<close>

definition lease_owns :: "leased_analysis_job \<Rightarrow> job_row \<Rightarrow> bool" where
  "lease_owns lease j \<longleftrightarrow> jw_status j = ''running'' \<and> jw_lease_token j = Some (lj_token lease) \<and>
     jw_worker_id j = Some (lj_worker_id lease)"

lemma recover_owned:
  assumes "jobs_ok db" "get_analysis_job db (ap_job_id (lj_payload lease)) = Some j" "lease_owns lease j" "sv_ok e 0"
  shows "\<exists>db' res j' retryable. recover_job_after_worker_error e lease cause m tb db = (db', Inr res) \<and> jobs_ok db' \<and>
    get_analysis_job db' (ap_job_id (lj_payload lease)) = Some j' \<and> failure_outcome e retryable j j' res"
proof -
  have id: "jw_id j = ap_job_id (lj_payload lease)" using get_analysis_job_Some [OF assms(2)] by simp
  have own: "assert_job_lease_owned (lj_token lease) (lj_worker_id lease) j db = Inr j"
    using assms(2,3) id by (simp add: assert_job_lease_owned_def lease_owns_def normalize_known ANALYSIS_JOB_STATUSES_def)
  let ?r = "fp_retryable (classify_analysis_failure (Some cause) None)"
  from handle_attempt_failure_outcome [OF assms(1,2) _ assms(4), of m "Some tb" ?r] assms(3)
  obtain db' res j' where out: "handle_attempt_failure e m (Some tb) ?r j db = Inr (db', res)" "jobs_ok db'"
    "get_analysis_job db' (ap_job_id (lj_payload lease)) = Some j'" "failure_outcome e ?r j j' res"
    by (auto simp: lease_owns_def)
  then have "recover_job_after_worker_error e lease cause m tb db = (db', Inr res)"
    using assms(2) own by (simp add: recover_job_after_worker_error_def)
  with out show ?thesis by blast
qed

lemma recover_foreign:
  assumes "jobs_ok db" "get_analysis_job db (ap_job_id (lj_payload lease)) = Some j" "\<not> lease_owns lease j"
  shows "recover_job_after_worker_error e lease cause m tb db = (db, Inl (ServiceJob (AnalysisJobLeaseOwnershipError (jw_id j))))"
proof -
  have "normalize_analysis_job_status (jw_status j) = Inr (jw_status j)"
    using jobs_ok_get [OF assms(1,2)] by (simp add: job_ok_def normalize_known)
  then show ?thesis
    using assms(2,3) get_analysis_job_Some [OF assms(2)]
    by (auto simp: recover_job_after_worker_error_def assert_job_lease_owned_def lease_owns_def)
qed

lemma recover_unwritten:
  assumes "get_analysis_job db (ap_job_id (lj_payload lease)) = Some j" "lease_owns lease j" "\<not> sv_ok e 0"
  shows "recover_job_after_worker_error e lease cause m tb db = (db, Inl (ServiceJob JobDbError))"
proof -
  have id: "jw_id j = ap_job_id (lj_payload lease)" using get_analysis_job_Some [OF assms(1)] by simp
  have own: "assert_job_lease_owned (lj_token lease) (lj_worker_id lease) j db = Inr j"
    using assms(1,2) id by (simp add: assert_job_lease_owned_def lease_owns_def normalize_known ANALYSIS_JOB_STATUSES_def)
  have dead: "mark_job_dead_letter False now x t j db = Inl JobDbError" for now x t
    using assms(1,2) id
    by (simp add: mark_job_dead_letter_def end_job_def flush_job_def set_job_status_def lease_owns_def normalize_known
        validate_analysis_job_transition_def job_status_sets Let_def)
  have retry: "schedule_job_retry False x t j db = Inl JobDbError" for x t
    using assms(1) id by (simp add: schedule_job_retry_def update_job_def)
  have "handle_attempt_failure e m (Some tb) retryable j db = Inl JobDbError" for retryable
    using assms(3) by (simp add: handle_attempt_failure_def Let_def dead retry)
  then show ?thesis using assms(1) own by (simp add: recover_job_after_worker_error_def)
qed

lemma run_raised:
  assumes "jobs_ok db" "get_analysis_job db (ap_job_id (lj_payload lease)) = Some j" "lease_owns lease j" "sv_ok e 0"
  shows "\<exists>db' j' (res :: execution_result). get_analysis_job db' (ap_job_id (lj_payload lease)) = Some j' \<and> jobs_ok db' \<and> no_lease j' \<and>
    jw_attempt_count j' = jw_attempt_count j \<and>
    ((\<exists>t. jw_status j' = ''queued'' \<and> job_attempt_count j < max_attempts e \<and>
       t = sv_now e + seconds (retry_backoff_seconds e (jw_id j) (job_attempt_count j)) \<and>
       run_job_task e redis_ok lease (TaskRaised cause m tb) (db, r) =
         (db', if redis_ok then fst (schedule_analysis_job_retry r lease (t div 1000)) else r)) \<or>
     (jw_status j' = ''dead_letter'' \<and> run_job_task e redis_ok lease (TaskRaised cause m tb) (db, r) =
         (db', if redis_ok then fst (move_analysis_job_to_dlq (sv_codec e) r lease (ex_attempt_count res) (ex_failure_reason res)
            (sv_now e div 1000)) else r)))"
proof -
  from recover_owned [OF assms, of cause m tb] obtain db' res j' retryable where
    rec: "recover_job_after_worker_error e lease cause m tb db = (db', Inr res)" "jobs_ok db'"
      "get_analysis_job db' (ap_job_id (lj_payload lease)) = Some j'" "failure_outcome e retryable j j' res"
    by blast
  note defs = run_job_task_def resolve_outcome_def resolve_job_failure_finalization_def finalize_action_def release_only_def
    resolve_unknown_def release_lease_of_task_def Let_def
  from rec(4) have common: "no_lease j'" "jw_attempt_count j' = jw_attempt_count j" by (simp_all add: failure_outcome_def)
  from rec(4) consider
    (retry) t where "ex_disposition res = ''retry_scheduled''" "jw_status j' = ''queued''" "job_attempt_count j < max_attempts e"
      "ex_retry_at res = Some t" "t = sv_now e + seconds (retry_backoff_seconds e (jw_id j) (job_attempt_count j))"
  | (dead) "ex_disposition res = ''dead_lettered''" "jw_status j' = ''dead_letter''" "ex_retry_at res = None"
    by (auto simp: failure_outcome_def)
  then show ?thesis
  proof cases
    case retry
    then have "run_job_task e redis_ok lease (TaskRaised cause m tb) (db, r) =
        (db', if redis_ok then fst (schedule_analysis_job_retry r lease (t div 1000)) else r)"
      using rec(1) by (simp add: defs)
    with retry rec common show ?thesis by (intro exI [of _ db'] exI [of _ j'] exI [of _ res]) simp
  next
    case dead
    then have "run_job_task e redis_ok lease (TaskRaised cause m tb) (db, r) =
        (db', if redis_ok then fst (move_analysis_job_to_dlq (sv_codec e) r lease (ex_attempt_count res) (ex_failure_reason res)
            (sv_now e div 1000)) else r)"
      using rec(1) by (simp add: defs)
    with dead rec common show ?thesis by (intro exI [of _ db'] exI [of _ j'] exI [of _ res]) simp
  qed
qed

lemma run_raised_unwritten:
  assumes "get_analysis_job db (ap_job_id (lj_payload lease)) = Some j" "lease_owns lease j" "\<not> sv_ok e 0"
  shows "run_job_task e redis_ok lease (TaskRaised cause m tb) (db, r) =
    (db, if redis_ok then fst (move_analysis_job_to_dlq (sv_codec e) r lease 0 (Some m) (sv_now e div 1000)) else r)"
  using recover_unwritten [OF assms, of cause m tb]
  by (simp add: run_job_task_def resolve_outcome_def resolve_job_failure_finalization_def finalize_action_def
      release_only_def resolve_unknown_def release_lease_of_task_def Let_def)

subsection \<open>Properties\<close>

text \<open>C6: What a task leaves whose execution raised, when its lease was never renewed and the row is still its own. If
  the write to the database and the call to Redis both succeed, they are settled together: either the row is queued again
  with its attempts and its text stands in the retry set for the time of the backoff, or the row is dead-lettered and the
  job is in the dead-letter set; the lease is gone for good, from the row and from Redis. If the call to Redis fails, the
  row is settled just so and Redis keeps the lease until it expires. If the write fails, the row stays running under the
  dead lease while Redis dead-letters the job.\<close>

theorem failed_task_settles_db_and_redis:
  assumes "jobs_ok db" "redis_inv r"
    and "get_analysis_job db (ap_job_id (lj_payload lease)) = Some j" "lease_owns lease j"
    and "lease_live r lease h" "\<not> renewed_since lease h"
    and "run_job_task e redis_ok lease (TaskRaised cause m tb) (db, r) = (db', r')"
  shows "(if redis_ok then dead_token (lj_token lease) (rd_analysis r') else r' = r) \<and>
    (if sv_ok e 0 then
       \<exists>j'. get_analysis_job db' (ap_job_id (lj_payload lease)) = Some j' \<and> no_lease j' \<and>
         jw_attempt_count j' = jw_attempt_count j \<and>
         ((jw_status j' = ''queued'' \<and> (redis_ok \<longrightarrow> map_of (ln_retry (rd_analysis r')) (lh_raw h) =
             Some ((sv_now e + seconds (retry_backoff_seconds e (jw_id j) (job_attempt_count j))) div 1000))) \<or>
          (jw_status j' = ''dead_letter'' \<and>
             (redis_ok \<longrightarrow> ap_job_id (lj_payload lease) \<in> set (ln_dlq_active (rd_analysis r')))))
     else db' = db \<and> (redis_ok \<longrightarrow> ap_job_id (lj_payload lease) \<in> set (ln_dlq_active (rd_analysis r'))))"
proof (cases "sv_ok e 0")
  case True
  from run_raised [OF assms(1,3,4) True, of redis_ok cause m tb r] assms(7) show ?thesis
    by (auto simp: True retry_settles [OF assms(2,5,6)] dlq_settles [OF assms(2,5,6)])
next
  case False
  with run_raised_unwritten [OF assms(3,4) False, of redis_ok cause m tb r] assms(7) show ?thesis
    by (auto simp: dlq_settles [OF assms(2,5,6)])
qed

text \<open>C10: What the reaper makes of an expired lease that Redis still has as it was read. If the row is missing, or is
  not running under that very lease, or has a claim or heartbeat later than the lease was written, or a heartbeat within
  the lease timeout, the row is left alone and the lease and its text leave Redis; so a job that is still queued in the
  database is dropped, where the docstring says it is returned to Redis. Otherwise, if the write succeeds, the row goes back to
  queued, without a lease and with its attempts, and when the queue has room the text goes back to the queue and the lease
  is gone; when it has none, Redis keeps the lease, and the next run, finding the row queued, will drop it. If the write
  fails nothing changes.\<close>

theorem expired_lease_requeued_exactly:
  assumes "jobs_ok db" "map_of (ln_leases (rd_analysis r)) (lj_token lease) = Some h" "lh_leased_at_ms h = lj_leased_at_ms lease"
    and "reap_lease e lease (db, r) = (db', r')"
  shows "case get_analysis_job db (ap_job_id (lj_payload lease)) of
      None \<Rightarrow> db' = db \<and> rd_analysis r' = release_lease (lj_token lease) h (rd_analysis r)
    | Some j \<Rightarrow>
        if \<not> lease_holds e lease j then db' = db \<and> rd_analysis r' = release_lease (lj_token lease) h (rd_analysis r)
        else if \<not> sv_ok e 0 then db' = db \<and> r' = r
        else (\<exists>j'. get_analysis_job db' (jw_id j) = Some j' \<and> jw_status j' = ''queued'' \<and> no_lease j' \<and>
                jw_attempt_count j' = jw_attempt_count j) \<and>
          rd_analysis r' =
            (if lane_total (rd_analysis r) \<le> max 1 (queue_max_depth e) \<and>
                int (length (ln_queue (rd_analysis r)) + length (ln_queue (rd_heavy r))) <
                  cap_or_million (Some (setting_of e ''effective_backpressure_max_queued_jobs''))
             then release_lease (lj_token lease) h (push_queue (ap_priority (lj_payload lease)) (lh_raw h) (rd_analysis r))
             else rd_analysis r)"
proof -
  have dropped: "rd_analysis (fst (drop_expired_analysis_job r lease)) = release_lease (lj_token lease) h (rd_analysis r)"
    using assms(2,3) by (simp add: drop_expired_analysis_job_def finalize_expired_lease_script_def Let_def)
  show ?thesis
  proof (cases "get_analysis_job db (ap_job_id (lj_payload lease))")
    case None
    then have "reconcile_expired_lease e lease db = (db, Inr ''drop'')" by (simp add: reconcile_expired_lease_def)
    with None assms(4) dropped show ?thesis by (auto simp: reap_lease_def)
  next
    case (Some j)
    show ?thesis
    proof (cases "lease_holds e lease j \<longrightarrow> sv_ok e 0")
      case ok: True
      obtain db1 reply where rec: "reconcile_expired_lease e lease db = (db1, reply)" by (cases rule: prod.exhaust)
      note row = reconcile_expired_lease_exact [OF assms(1) Some ok rec]
      show ?thesis
      proof (cases "lease_holds e lease j")
        case False
        with row Some rec assms(4) dropped show ?thesis by (auto simp: reap_lease_def)
      next
        case True
        with row have "reply = Inr ''requeue''" by simp
        with rec assms(4) have "db' = db1" "r' = fst (requeue_expired_analysis_job r lease (queue_max_depth e)
            (Some (setting_of e ''effective_backpressure_max_queued_jobs'')))"
          by (auto simp: reap_lease_def)
        with row True ok Some assms(2,3) show ?thesis
          by (auto simp: requeue_expired_analysis_job_def finalize_expired_lease_script_def Let_def lane_total_def
              split: if_splits)
      qed
    next
      case False
      then have "reconcile_expired_lease e lease db = (db, Inl (ServiceJob JobDbError))"
        using reconcile_expired_lease_unwritten [OF Some] by simp
      with False Some assms(4) show ?thesis by (simp add: reap_lease_def)
    qed
  qed
qed

text \<open>C7: A task whose lease was renewed while it ran cannot settle a failure: the worker gives Redis the record it was
  started with, whose time no longer matches, so neither the retry nor the dead letter is carried out. The row is queued
  again or dead-lettered, Redis is exactly as before, and when the lease runs out the reaper finds a row without a token
  and drops the payload: a job that was to be retried is queued in the database and has left Redis.\<close>

theorem renewed_task_loses_its_retry:
  assumes "jobs_ok db" "sv_ok e 0" "sv_ok e' 0"
    and "get_analysis_job db (ap_job_id (lj_payload lease)) = Some j" "lease_owns lease j"
    and "lease_live r lease h" "renewed_since lease h"
    and "run_job_task e True lease (TaskRaised cause m tb) (db, r) = (db', r')"
    and "expired = lease\<lparr>lj_leased_at_ms := lh_leased_at_ms h\<rparr>" "reap_lease e' expired (db', r') = (db'', r'')"
  shows "r' = r \<and> db'' = db' \<and> rd_analysis r'' = release_lease (lj_token lease) h (rd_analysis r) \<and>
    (\<exists>j'. get_analysis_job db' (ap_job_id (lj_payload lease)) = Some j' \<and> jw_status j' \<in> {''queued'', ''dead_letter''} \<and> no_lease j')"
proof -
  from run_raised [OF assms(1,4,5,2), of True cause m tb r] assms(8) renewed_refused [OF assms(6,7)]
  obtain j' where j': "get_analysis_job db' (ap_job_id (lj_payload lease)) = Some j'" "jobs_ok db'" "no_lease j'"
    "jw_status j' \<in> {''queued'', ''dead_letter''}" and r': "r' = r"
    by auto
  have lease: "lj_payload expired = lj_payload lease" "lj_token expired = lj_token lease" "lj_leased_at_ms expired = lh_leased_at_ms h"
    by (simp_all add: assms(9))
  have "\<not> lease_holds e' expired j'" using j'(3) by (simp add: lease_holds_def no_lease_def)
  then have "reconcile_expired_lease e' expired db' = (db', Inr ''drop'')"
    using reconcile_expired_lease_exact [of db' expired j' e'] j' lease
    by (cases "reconcile_expired_lease e' expired db'") simp
  moreover have "rd_analysis (fst (drop_expired_analysis_job r expired)) = release_lease (lj_token lease) h (rd_analysis r)"
    using assms(6) lease by (simp add: drop_expired_analysis_job_def finalize_expired_lease_script_def lease_live_def Let_def)
  ultimately show ?thesis
    using assms(10) j' r' by (auto simp: reap_lease_def)
qed

text \<open>C8: A worker that has lost the row writes nothing. When the row is no longer running under the worker's lease - it
  was reset, canceled, finished or claimed by another worker - the end of a failed task leaves the database as it is and
  only acknowledges the worker's own lease, if Redis still has it.\<close>

theorem lost_row_is_left_alone:
  assumes "jobs_ok db" "get_analysis_job db (ap_job_id (lj_payload lease)) = Some j" "\<not> lease_owns lease j"
  shows "run_job_task e redis_ok lease (TaskRaised cause m tb) (db, r) =
    (db, if redis_ok then fst (ack_analysis_job r lease) else r)"
  using recover_foreign [OF assms, of e cause m tb]
  by (simp add: run_job_task_def resolve_outcome_def resolve_job_failure_finalization_def
      finalize_action_def release_only_def resolve_unknown_def release_lease_of_task_def Let_def)

subsection \<open>Witnesses\<close>

text \<open>A job, leased from Redis and claimed in the database by the same worker.\<close>

definition sample_task :: "job_db \<times> job_row" where
  "sample_task =
    (case create_queued_job True 5 ''1'' (hd (jd_projects sample_job_db)) None None 0 ANALYSIS_JOB_TYPE_MANUAL_TRIGGER None
            no_profile sample_job_db of
       Inr (db, j) \<Rightarrow>
         (case mark_analysis_job_running True 9 (Some (lj_token (snd leased_sample))) (Some ''w'') None None j db of Inr x \<Rightarrow> x))"

definition sample_hash :: lease_hash where
  "sample_hash = the (map_of (ln_leases (rd_analysis (fst leased_sample))) (lj_token (snd leased_sample)))"

definition sample_renewed :: redis where
  "sample_renewed = fst (renew_analysis_job_lease (fst leased_sample) (snd leased_sample) 30 2000)"

definition renewed_hash :: lease_hash where
  "renewed_hash = the (map_of (ln_leases (rd_analysis sample_renewed)) (lj_token (snd leased_sample)))"

lemma sample_task_facts:
  "jobs_ok (fst sample_task)" "sv_ok sample_service 0"
  "get_analysis_job (fst sample_task) (ap_job_id (lj_payload (snd leased_sample))) = Some (snd sample_task)"
  "lease_owns (snd leased_sample) (snd sample_task)"
  "lease_live (fst leased_sample) (snd leased_sample) sample_hash" "\<not> renewed_since (snd leased_sample) sample_hash"
  "lease_live sample_renewed (snd leased_sample) renewed_hash" "renewed_since (snd leased_sample) renewed_hash"
  by code_simp+

theorem failed_task_settles_db_and_redis_witness:
  "dead_token (lj_token (snd leased_sample))
     (rd_analysis (snd (run_job_task sample_service True (snd leased_sample) (TaskRaised TimeoutError ''slow'' [])
       (fst sample_task, fst leased_sample))))"
  using failed_task_settles_db_and_redis [OF sample_task_facts(1) leased_sample_inv sample_task_facts(3-6) prod.collapse [symmetric],
      where e = sample_service and redis_ok = True and cause = TimeoutError and m = "''slow''" and tb = "[]"]
  by simp

text \<open>The worker died with its first heartbeat; the reaper comes when it is older than the lease.\<close>

definition dead_worker_db :: job_db where
  "dead_worker_db = fst sample_task"

theorem expired_lease_requeued_exactly_witness:
  "let w = reap_lease (sample_service\<lparr>sv_now := seconds 1000\<rparr>) (snd leased_sample) (dead_worker_db, fst leased_sample) in
     map jw_status (jd_jobs (fst w)) = [''queued''] \<and> ln_queue (rd_analysis (snd w)) = [''{job_1}'']"
proof -
  let ?e = "sample_service\<lparr>sv_now := seconds 1000\<rparr>"
  have facts: "jobs_ok dead_worker_db"
    "map_of (ln_leases (rd_analysis (fst leased_sample))) (lj_token (snd leased_sample)) = Some sample_hash"
    "lh_leased_at_ms sample_hash = lj_leased_at_ms (snd leased_sample)"
    "get_analysis_job dead_worker_db (ap_job_id (lj_payload (snd leased_sample))) = Some (snd sample_task)"
    "sv_ok ?e 0" "map jw_id (jd_jobs (fst (reap_lease ?e (snd leased_sample) (dead_worker_db, fst leased_sample)))) = [''job_1'']"
    "jw_id (snd sample_task) = ''job_1''" "jw_leased_at (snd sample_task) = Some 9" "jw_heartbeat_at (snd sample_task) = Some 9"
    "9 \<le> lease_datetime_from_ms (lj_leased_at_ms (snd leased_sample))"
    "9 < sv_now ?e - seconds (lease_timeout_seconds (snd leased_sample))"
    "jw_status (snd sample_task) = ''running''" "jw_lease_token (snd sample_task) = Some (lj_token (snd leased_sample))"
    "jw_worker_id (snd sample_task) = Some (lj_worker_id (snd leased_sample))"
    "lane_total (rd_analysis (fst leased_sample)) \<le> max 1 (queue_max_depth ?e)"
    "int (length (ln_queue (rd_analysis (fst leased_sample))) + length (ln_queue (rd_heavy (fst leased_sample)))) <
       cap_or_million (Some (setting_of ?e ''effective_backpressure_max_queued_jobs''))"
    "ln_queue (release_lease (lj_token (snd leased_sample)) sample_hash
       (push_queue (ap_priority (lj_payload (snd leased_sample))) (lh_raw sample_hash) (rd_analysis (fst leased_sample)))) = [''{job_1}'']"
    by code_simp+
  have "lease_holds ?e (snd leased_sample) (snd sample_task)" using facts by (simp add: lease_holds_def)
  with expired_lease_requeued_exactly [OF facts(1-3) prod.collapse [symmetric], of ?e] facts
  have "(\<exists>j'. get_analysis_job (fst (reap_lease ?e (snd leased_sample) (dead_worker_db, fst leased_sample))) ''job_1'' = Some j' \<and>
      jw_status j' = ''queued'') \<and>
    ln_queue (rd_analysis (snd (reap_lease ?e (snd leased_sample) (dead_worker_db, fst leased_sample)))) = [''{job_1}'']"
    by auto
  with facts(6) show ?thesis
    by (auto simp: Let_def get_analysis_job_def select_one_def)
qed

theorem renewed_task_loses_its_retry_witness:
  "snd (run_job_task sample_service True (snd leased_sample) (TaskRaised TimeoutError ''slow'' []) (fst sample_task, sample_renewed)) =
    sample_renewed"
  using renewed_task_loses_its_retry [OF sample_task_facts(1,2,2,3,4,7,8) prod.collapse [symmetric] refl prod.collapse [symmetric]]
  by blast

theorem lost_row_is_left_alone_witness:
  "run_job_task sample_service True ((snd leased_sample)\<lparr>lj_token := ''9''\<rparr>) (TaskRaised TimeoutError ''slow'' [])
     (fst sample_task, fst leased_sample) =
   (fst sample_task, if True then fst (ack_analysis_job (fst leased_sample) ((snd leased_sample)\<lparr>lj_token := ''9''\<rparr>)) else fst leased_sample)"
  by (rule lost_row_is_left_alone [where j = "snd sample_task"]) code_simp+

end
