(* ===== verification/Analysis_Startup.thy ===== *)
theory Analysis_Startup
  imports Analysis_Worker
begin

section \<open>What the start-up reconciliation guarantees\<close>

text \<open>
  The definitions are those of theory \<open>Analysis_Worker\<close>. A text of a job is an entry of the queue or the retry set, and
  for \<open>has_text True\<close> also of the processing list, that reads as a payload of the job. The lemmas follow one purge, one
  enqueue and one job of the loop;
  the snapshot they use is the one taken at the start, while Redis changes.
\<close>

definition has_text :: "bool \<Rightarrow> json_codec \<Rightarrow> redis \<Rightarrow> string \<Rightarrow> bool" where
  "has_text all c r i \<longleftrightarrow> (\<exists>raw \<in> set (ln_queue (rd_analysis r)) \<union> fst ` set (ln_retry (rd_analysis r)) \<union>
     (if all then set (ln_processing (rd_analysis r)) else {}). job_of c raw = Some i)"

lemma has_text_split: "has_text True c r i \<longleftrightarrow> has_text False c r i \<or> (\<exists>raw \<in> set (ln_processing (rd_analysis r)). job_of c raw = Some i)"
  by (auto simp: has_text_def)

definition snapshot_reads :: "json_codec \<Rightarrow> analysis_snapshot \<Rightarrow> bool" where
  "snapshot_reads c s \<longleftrightarrow> (\<forall>x \<in> set (ts_queued s) \<union> set (ts_scheduled_retry s). job_of c (snd x) = Some (fst x)) \<and>
     (\<forall>j \<in> set (ts_processing s). job_of c (lj_raw_payload j) = Some (ap_job_id (lj_payload j)))"

lemma zrange_set: "set (zrange z) = fst ` set z"
  by (auto simp: zrange_def)

lemma inspected_entry:
  "has_any_entry (inspect_analysis_job_transport c (Some r)) i \<longleftrightarrow> has_text True c r i \<or> i \<in> set (ln_dlq_active (rd_analysis r))"
proof -
  let ?s = "inspect_analysis_job_transport c (Some r)"
  have keys: "i \<in> fst ` set (readable_entries c raws) \<longleftrightarrow> (\<exists>raw \<in> set raws. job_of c raw = Some i)" for raws
  proof -
    have "i \<in> fst ` set (readable_entries c raws) \<longleftrightarrow> (\<exists>raw. (i, raw) \<in> set (readable_entries c raws))"
      by force
    then show ?thesis by (auto simp: readable_entries_set)
  qed
  have "i \<in> (\<lambda>j. ap_job_id (lj_payload j)) ` set (ts_processing ?s) \<longleftrightarrow>
      {j \<in> set (ts_processing ?s). ap_job_id (lj_payload j) = i} \<noteq> {}"
    by auto
  also have "\<dots> \<longleftrightarrow> (\<exists>raw \<in> set (ln_processing (rd_analysis r)). job_of c raw = Some i)"
    using inspected_processing_raws [of c r i] by auto
  finally have proc: "i \<in> (\<lambda>j. ap_job_id (lj_payload j)) ` set (ts_processing ?s) \<longleftrightarrow>
      (\<exists>raw \<in> set (ln_processing (rd_analysis r)). job_of c raw = Some i)" .
  have "ts_queued ?s = readable_entries c (ln_queue (rd_analysis r))"
    "ts_scheduled_retry ?s = readable_entries c (zrange (ln_retry (rd_analysis r)))" "ts_dlq_job_ids ?s = ln_dlq_active (rd_analysis r)"
    by (simp_all add: inspect_analysis_job_transport_def Let_def)
  then show ?thesis
    unfolding has_any_entry_def proc by (auto simp: keys has_text_def zrange_set)
qed

lemma inspected_reads: "snapshot_reads c (inspect_analysis_job_transport c (Some r))"
  by (auto simp: snapshot_reads_def inspect_analysis_job_transport_def Let_def readable_entries_set
      List.map_filter_def dest: processing_entry_Some)

text \<open>A purge of another job keeps every text of this one, and no lane grows.\<close>

lemma purge_keeps:
  assumes "snapshot_reads c s" "i \<noteq> k" "has_text b c r i"
  shows "has_text b c (purge_analysis_job_transport c r k (Some s)) i"
proof -
  let ?r = "purge_analysis_job_transport c r k (Some s)"
  obtain raw where raw: "raw \<in> set (ln_queue (rd_analysis r)) \<union> fst ` set (ln_retry (rd_analysis r)) \<union>
     (if b then set (ln_processing (rd_analysis r)) else {})" "job_of c raw = Some i"
    using assms(3) by (auto simp: has_text_def)
  have apart: "raw \<notin> snd ` {x \<in> set (ts_queued s). fst x = k}" "raw \<notin> snd ` {x \<in> set (ts_scheduled_retry s). fst x = k}"
    "raw \<notin> lj_raw_payload ` {j \<in> set (ts_processing s). ap_job_id (lj_payload j) = k}"
  proof -
    have "(x, raw) \<in> set (ts_queued s) \<union> set (ts_scheduled_retry s) \<Longrightarrow> x = i" for x
      using assms(1) raw(2) by (auto simp: snapshot_reads_def dest!: bspec [where x = "(x, raw)"])
    moreover have "j \<in> set (ts_processing s) \<Longrightarrow> lj_raw_payload j = raw \<Longrightarrow> ap_job_id (lj_payload j) = i" for j
      using assms(1) raw(2) unfolding snapshot_reads_def by fastforce
    ultimately show "raw \<notin> snd ` {x \<in> set (ts_queued s). fst x = k}"
      "raw \<notin> snd ` {x \<in> set (ts_scheduled_retry s). fst x = k}"
      "raw \<notin> lj_raw_payload ` {j \<in> set (ts_processing s). ap_job_id (lj_payload j) = k}"
      using assms(2) by ((auto; blast)+)
  qed
  note defs = purge_analysis_job_transport_def Let_def fold_purge_processing fold_removeAll fold_delete case_prod_beta
  have "raw \<in> set (ln_queue (rd_analysis r)) \<Longrightarrow> raw \<in> set (ln_queue (rd_analysis ?r))"
    using apart(1) by (simp add: defs)
  moreover have "raw \<in> set (ln_processing (rd_analysis r)) \<Longrightarrow> raw \<in> set (ln_processing (rd_analysis ?r))"
    using apart(3) by (simp add: defs)
  moreover have "raw \<in> fst ` set (ln_retry (rd_analysis r)) \<Longrightarrow> raw \<in> fst ` set (ln_retry (rd_analysis ?r))"
    using apart(2) by (force simp: defs)
  ultimately show ?thesis using raw by (auto simp: has_text_def)
qed

definition room :: "service_env \<Rightarrow> redis \<Rightarrow> nat \<Rightarrow> bool" where
  "room e r n \<longleftrightarrow> lane_total (rd_analysis r) + int n \<le> max 1 (queue_max_depth e) \<and>
     int (length (ln_queue (rd_analysis r)) + length (ln_queue (rd_heavy r)) + n) \<le>
       cap_or_million (Some (setting_of e ''effective_backpressure_max_queued_jobs''))"

lemma purge_room: "room e r n \<Longrightarrow> room e (purge_analysis_job_transport c r k s) n"
proof -
  let ?r = "purge_analysis_job_transport c r k s"
  note defs = purge_analysis_job_transport_def Let_def fold_purge_processing fold_removeAll fold_delete case_prod_beta
  have "length (ln_queue (rd_analysis ?r)) \<le> length (ln_queue (rd_analysis r))"
    "length (ln_processing (rd_analysis ?r)) \<le> length (ln_processing (rd_analysis r))" "rd_heavy ?r = rd_heavy r"
    by (simp_all add: defs)
  then show "room e r n \<Longrightarrow> room e ?r n" by (auto simp: room_def lane_total_def)
qed

lemma purge_all_keeps:
  assumes "snapshot_reads (sv_codec e) s" "i \<notin> set ks"
  shows "has_text b (sv_codec e) r i \<longrightarrow> has_text b (sv_codec e) (purge_all e s ks r) i"
  using assms(2) unfolding purge_all_def
  by (induction ks arbitrary: r) (auto intro: purge_keeps [OF assms(1)])

lemma purge_all_room: "room e r n \<Longrightarrow> room e (purge_all e s ks r) n"
  unfolding purge_all_def by (induction ks arbitrary: r) (auto intro: purge_room)

definition keeps_texts :: "service_env \<Rightarrow> redis \<Rightarrow> redis \<Rightarrow> string \<Rightarrow> bool" where
  "keeps_texts e r r' i \<longleftrightarrow> (\<forall>b. has_text b (sv_codec e) r i \<longrightarrow> has_text b (sv_codec e) r' i)"

lemma keeps_texts_refl: "keeps_texts e r r i"
  by (simp add: keeps_texts_def)

lemma keeps_texts_trans: "keeps_texts e r r1 i \<Longrightarrow> keeps_texts e r1 r2 i \<Longrightarrow> keeps_texts e r r2 i"
  by (simp add: keeps_texts_def)

subsection \<open>One job\<close>

definition startup_payload :: "job_row \<Rightarrow> string \<Rightarrow> analysis_payload" where
  "startup_payload j org = \<lparr>ap_job_id = jw_id j, ap_project_id = jw_project_id j, ap_organization_id = Some org,
     ap_is_superadmin_context = False, ap_priority = analysis_job_priority_for_type (Some (jw_job_type j))\<rparr>"

text \<open>The identifiers are in the normal form of the payload schema and the JSON text of the payload reads back.\<close>

definition queueable :: "service_env \<Rightarrow> job_row \<Rightarrow> string \<Rightarrow> bool" where
  "queueable e j org \<longleftrightarrow> trimmed (jw_id j) \<and> trimmed (jw_project_id j) \<and> trimmed org \<and>
     loads (sv_codec e) (dumps (sv_codec e) (analysis_payload_json (startup_payload j org))) =
       Some (analysis_payload_json (startup_payload j org))"

lemma put_job_lands:
  assumes "queueable e j org" "room e r (Suc n)"
  shows "\<exists>r'. put_job e j (Some org) False (Some (queue_max_depth e)) r = (r', Inr ()) \<and>
    has_text False (sv_codec e) r' (jw_id j) \<and> (\<forall>i. keeps_texts e r r' i) \<and> room e r' n"
proof -
  let ?p = "startup_payload j org" and ?c = "sv_codec e"
  let ?put = "put_job e j (Some org) False (Some (queue_max_depth e)) r"
  have json: "analysis_payload_json ?p = JObj [(''job_id'', JStr (jw_id j)), (''project_id'', JStr (jw_project_id j)),
      (''organization_id'', opt_json (Some org)), (''is_superadmin_context'', JBool False),
      (''priority'', JStr (analysis_job_priority_for_type (Some (jw_job_type j))))]"
    by (simp add: analysis_payload_json_def startup_payload_def)
  have "analysis_job_priority_for_type t \<in> {''standard'', ''critical''}" for t
    by (simp add: analysis_job_priority_for_type_def)
  then have valid: "validate_analysis_job_payload (analysis_payload_json ?p) = Inr ?p"
    using assms(1) by (intro validate_analysis_json) (simp_all add: startup_payload_def queueable_def trimmed_opt_def)
  then have "is_ok (snd ?put)"
    using assms(2) unfolding put_job_def enqueue_analysis_job_def json
    by (simp add: enqueue_raw_payload_accepts room_def)
  then obtain r' where put: "?put = (r', Inr ())" by (cases ?put; cases "snd ?put") auto
  from enqueue_analysis_job_Inr [OF put [unfolded put_job_def]] obtain p where
    p: "validate_analysis_job_payload (analysis_payload_json ?p) = Inr p"
      "r' = r\<lparr>rd_analysis := push_queue (ap_priority p) (dumps ?c (analysis_payload_json p)) (rd_analysis r)\<rparr>"
    unfolding json by metis
  with valid have r': "r' = r\<lparr>rd_analysis := push_queue (ap_priority ?p) (dumps ?c (analysis_payload_json ?p)) (rd_analysis r)\<rparr>"
    by simp
  have "job_of ?c (dumps ?c (analysis_payload_json ?p)) = Some (jw_id j)"
    using parse_dumped_payload [OF valid] assms(1) by (simp add: job_of_def queueable_def startup_payload_def)
  then have "has_text False ?c r' (jw_id j)" by (auto simp: r' has_text_def push_queue_def)
  moreover have "\<forall>i. keeps_texts e r r' i" by (auto simp: r' keeps_texts_def has_text_def push_queue_def)
  moreover have "room e r' n" using assms(2) by (auto simp: r' room_def lane_total_def push_queue_def)
  ultimately show ?thesis using put by blast
qed

lemma enqueue_at_startup_lands:
  assumes "queueable e j org" "room e r (Suc n)" "snapshot_reads (sv_codec e) s"
    and "has_entry \<and> jw_id j \<notin> set (ts_dlq_job_ids s) \<Longrightarrow> has_text True (sv_codec e) r (jw_id j)"
  shows "\<exists>r'. enqueue_at_startup e s j org has_entry r = (r', Inr ()) \<and>
    (has_text False (sv_codec e) r' (jw_id j) \<or> (has_entry \<and> has_text True (sv_codec e) r' (jw_id j))) \<and>
    (\<forall>i. i \<noteq> jw_id j \<longrightarrow> keeps_texts e r r' i) \<and> room e r' n"
proof (cases "has_entry \<and> jw_id j \<notin> set (ts_dlq_job_ids s)")
  case True
  with assms(2,4) show ?thesis by (auto simp: enqueue_at_startup_def room_def keeps_texts_refl)
next
  case False
  let ?r1 = "if jw_id j \<in> set (ts_dlq_job_ids s) then purge_analysis_job_transport (sv_codec e) r (jw_id j) (Some s) else r"
  have "room e ?r1 (Suc n)" using assms(2) purge_room by simp
  from put_job_lands [OF assms(1) this] obtain r' where
    r': "put_job e j (Some org) False (Some (queue_max_depth e)) ?r1 = (r', Inr ())" "has_text False (sv_codec e) r' (jw_id j)"
      "\<forall>i. keeps_texts e ?r1 r' i" "room e r' n"
    by blast
  have "keeps_texts e r ?r1 i" if "i \<noteq> jw_id j" for i
    using purge_keeps [OF assms(3) that] by (simp add: keeps_texts_def)
  then have "\<forall>i. i \<noteq> jw_id j \<longrightarrow> keeps_texts e r r' i" using r'(3) keeps_texts_trans by blast
  moreover have "enqueue_at_startup e s j org has_entry r = (r', Inr ())"
    using False r'(1) by (auto simp: enqueue_at_startup_def Let_def)
  ultimately show ?thesis using r' by blast
qed

lemma reset_running:
  assumes "jobs_ok db" "get_analysis_job db (jw_id j) = Some j" "jw_status j = ''running''"
  shows "\<exists>db' r. reset_job_to_queued True j db = Inr (db', r) \<and> jobs_ok db' \<and> jw_status r = ''queued'' \<and>
    get_analysis_job db' (jw_id j) = Some r \<and> (\<forall>i. i \<noteq> jw_id j \<longrightarrow> get_analysis_job db' i = get_analysis_job db i)"
proof -
  obtain db' r where r: "reset_job_to_queued True j db = Inr (db', r)"
    using assms(2,3) by (simp add: reset_job_to_queued_def update_job_def normalize_known ANALYSIS_JOB_STATUSES_def)
  have "jobs_ok db'"
    using job_step_follows [OF job_step.Reset [OF r] assms(1)] by (simp add: jobs_follow_def)
  moreover have "get_analysis_job db' i = get_analysis_job db i" if "i \<noteq> jw_id j" for i
  proof -
    obtain f where "db' = write_jobs (update_where (\<lambda>x. jw_id x = jw_id j \<and> jw_status x = ''running'') f) db"
      "\<And>x. jw_id (f x) = jw_id x"
      using r assms(2,3)
      by (auto simp: reset_job_to_queued_def update_job_def normalize_known ANALYSIS_JOB_STATUSES_def released_def)
    with that show ?thesis
      by (cases "get_analysis_job db i") (auto simp: get_write_jobs dest: get_analysis_job_Some)
  qed
  ultimately show ?thesis using r reset_row [OF r assms(3)] by auto
qed

definition settled :: "service_env \<Rightarrow> analysis_snapshot \<Rightarrow> redis \<Rightarrow> job_row \<Rightarrow> job_row \<Rightarrow> bool" where
  "settled e s r j j' \<longleftrightarrow> (j' = j \<and> jw_status j = ''running'' \<and> \<not> running_is_invalid e s j) \<or>
     (jw_status j' = ''queued'' \<and>
       (has_text False (sv_codec e) r (jw_id j) \<or>
        (j' = j \<and> has_any_entry s (jw_id j) \<and> has_text True (sv_codec e) r (jw_id j))))"

definition entry_held :: "service_env \<Rightarrow> analysis_snapshot \<Rightarrow> redis \<Rightarrow> string \<Rightarrow> bool" where
  "entry_held e s r i \<longleftrightarrow> (has_any_entry s i \<and> i \<notin> set (ts_dlq_job_ids s) \<longrightarrow> has_text True (sv_codec e) r i)"

lemma reconcile_startup_job_settles:
  assumes "jobs_ok db" "get_analysis_job db (jw_id j) = Some j" "active_job j" "queueable e j org"
    and "room e r (Suc n)" "sv_ok e k" "snapshot_reads (sv_codec e) s" "entry_held e s r (jw_id j)"
  shows "\<exists>db' r' j'. reconcile_startup_job e k s (j, org) (db, r) = ((db', r'), Inr ()) \<and> jobs_ok db' \<and>
    get_analysis_job db' (jw_id j) = Some j' \<and> settled e s r' j j' \<and> room e r' n \<and>
    (\<forall>i. i \<noteq> jw_id j \<longrightarrow> get_analysis_job db' i = get_analysis_job db i \<and> keeps_texts e r r' i)"
proof (cases "jw_status j = ''running''")
  case run: True
  show ?thesis
  proof (cases "running_is_invalid e s j")
    case False
    with run assms(1,2,5) show ?thesis by (auto simp: reconcile_startup_job_def settled_def room_def keeps_texts_refl)
  next
    case True
    let ?r1 = "purge_analysis_job_transport (sv_codec e) r (jw_id j) (Some s)"
    from reset_running [OF assms(1,2) run] obtain db' j' where
      j': "reset_job_to_queued True j db = Inr (db', j')" "jobs_ok db'" "jw_status j' = ''queued''"
        "get_analysis_job db' (jw_id j) = Some j'" "\<forall>i. i \<noteq> jw_id j \<longrightarrow> get_analysis_job db' i = get_analysis_job db i"
      by blast
    from enqueue_at_startup_lands [OF assms(4) purge_room [OF assms(5)] assms(7), of False] obtain r' where
      r': "enqueue_at_startup e s j org False ?r1 = (r', Inr ())" "has_text False (sv_codec e) r' (jw_id j)"
        "\<forall>i. i \<noteq> jw_id j \<longrightarrow> keeps_texts e ?r1 r' i" "room e r' n"
      by blast
    have "reconcile_startup_job e k s (j, org) (db, r) = ((db', r'), Inr ())"
      using run True j'(1) r'(1) assms(6) by (simp add: reconcile_startup_job_def Let_def)
    moreover have "\<forall>i. i \<noteq> jw_id j \<longrightarrow> keeps_texts e r r' i"
      using r'(3) purge_keeps [OF assms(7)] by (simp add: keeps_texts_def)
    ultimately show ?thesis using j' r'
      by (intro exI [of _ db'] exI [of _ r'] exI [of _ j']) (auto simp: settled_def)
  qed
next
  case False
  with assms(3) have q: "jw_status j = ''queued''" by (simp add: active_job_def)
  from enqueue_at_startup_lands [OF assms(4,5,7), of "has_any_entry s (jw_id j)"] assms(8) obtain r' where
    r': "enqueue_at_startup e s j org (has_any_entry s (jw_id j)) r = (r', Inr ())"
      "has_text False (sv_codec e) r' (jw_id j) \<or> (has_any_entry s (jw_id j) \<and> has_text True (sv_codec e) r' (jw_id j))"
      "\<forall>i. i \<noteq> jw_id j \<longrightarrow> keeps_texts e r r' i" "room e r' n"
    unfolding entry_held_def by blast
  with q assms(1,2) show ?thesis
    by (intro exI [of _ db] exI [of _ r'] exI [of _ j]) (simp add: reconcile_startup_job_def settled_def)
qed

subsection \<open>The loop over the active jobs\<close>

lemma reconcile_startup_jobs_settle:
  assumes "distinct (map (\<lambda>x. jw_id (fst x)) xs)" "jobs_ok db" "room e r (length xs)" "\<forall>n. sv_ok e n"
    and "snapshot_reads (sv_codec e) s"
    and "\<forall>(j, org) \<in> set xs. get_analysis_job db (jw_id j) = Some j \<and> active_job j \<and> queueable e j org \<and> entry_held e s r (jw_id j)"
  shows "\<exists>db' r'. reconcile_startup_jobs e k s xs (db, r) = ((db', r'), Inr ()) \<and>
    (\<forall>(j, org) \<in> set xs. \<exists>j'. get_analysis_job db' (jw_id j) = Some j' \<and> settled e s r' j j') \<and>
    (\<forall>i. i \<notin> (\<lambda>x. jw_id (fst x)) ` set xs \<longrightarrow> get_analysis_job db' i = get_analysis_job db i \<and> keeps_texts e r r' i)"
  using assms
proof (induction xs arbitrary: k db r)
  case Nil
  then show ?case by (simp add: keeps_texts_refl)
next
  case (Cons x xs)
  obtain j org where x: "x = (j, org)" by (cases x)
  let ?ids = "(\<lambda>x. jw_id (fst x)) ` set xs"
  have fresh: "jw_id j \<notin> ?ids" using Cons.prems(1) by (simp add: x)
  have hyps: "get_analysis_job db (jw_id j) = Some j" "active_job j" "queueable e j org" "entry_held e s r (jw_id j)"
    "room e r (Suc (length xs))" "sv_ok e k"
    using Cons.prems(3,4,6) by (auto simp: x)
  from reconcile_startup_job_settles [OF Cons.prems(2) hyps(1-3,5,6) Cons.prems(5) hyps(4)] obtain db1 r1 j1 where
    one: "reconcile_startup_job e k s (j, org) (db, r) = ((db1, r1), Inr ())" "jobs_ok db1" "room e r1 (length xs)"
      "get_analysis_job db1 (jw_id j) = Some j1" "settled e s r1 j j1"
    and rest: "\<And>i. i \<noteq> jw_id j \<Longrightarrow> get_analysis_job db1 i = get_analysis_job db i"
      "\<And>i. i \<noteq> jw_id j \<Longrightarrow> keeps_texts e r r1 i"
    by blast
  have "get_analysis_job db1 (jw_id i) = Some i \<and> active_job i \<and> queueable e i o' \<and> entry_held e s r1 (jw_id i)"
    if "(i, o') \<in> set xs" for i o'
  proof -
    have "jw_id i \<noteq> jw_id j" using that fresh by force
    moreover have "get_analysis_job db (jw_id i) = Some i \<and> active_job i \<and> queueable e i o' \<and> entry_held e s r (jw_id i)"
      using Cons.prems(6) that by auto
    ultimately show ?thesis using rest by (auto simp: entry_held_def keeps_texts_def)
  qed
  then have each: "\<forall>(i, o') \<in> set xs. get_analysis_job db1 (jw_id i) = Some i \<and> active_job i \<and> queueable e i o' \<and>
      entry_held e s r1 (jw_id i)"
    by blast
  have "distinct (map (\<lambda>x. jw_id (fst x)) xs)" using Cons.prems(1) by simp
  from Cons.IH [OF this one(2,3) Cons.prems(4,5) each, of "k + 1"] obtain db' r' where
    loop: "reconcile_startup_jobs e (k + 1) s xs (db1, r1) = ((db', r'), Inr ())"
      "\<forall>(j, org) \<in> set xs. \<exists>j'. get_analysis_job db' (jw_id j) = Some j' \<and> settled e s r' j j'"
    and others: "\<And>i. i \<notin> ?ids \<Longrightarrow> get_analysis_job db' i = get_analysis_job db1 i"
      "\<And>i. i \<notin> ?ids \<Longrightarrow> keeps_texts e r1 r' i"
    by blast
  have "settled e s r' j j1" using one(5) others(2) [OF fresh] by (auto simp: settled_def keeps_texts_def)
  moreover have "get_analysis_job db' (jw_id j) = Some j1" using others(1) [OF fresh] one(4) by simp
  moreover have "reconcile_startup_jobs e k s (x # xs) (db, r) = ((db', r'), Inr ())"
    using one(1) loop(1) by (simp add: x)
  moreover have "keeps_texts e r r' i" if "i \<noteq> jw_id j" "i \<notin> ?ids" for i
    using rest(2) [OF that(1)] others(2) [OF that(2)] by (rule keeps_texts_trans)
  ultimately show ?case using loop(2) rest(1) others(1)
    by (intro exI [of _ db'] exI [of _ r']) (auto simp: x)
qed

lemma listed_jobs:
  assumes "jobs_ok db"
  shows "distinct (map (\<lambda>x. jw_id (fst x)) (list_active_jobs_with_organization_id db))"
    and "(j, org) \<in> set (list_active_jobs_with_organization_id db) \<Longrightarrow> get_analysis_job db (jw_id j) = Some j \<and> active_job j"
proof -
  let ?jobs = "sort_key (\<lambda>j. (jw_created_at j, jw_id j)) (filter active_job (jd_jobs db))"
  have keyed: "keyed jw_id (jd_jobs db)" using assms by (simp add: jobs_ok_def)
  then have "distinct (map jw_id (filter active_job (jd_jobs db)))" by (simp add: keyed_def distinct_map_filter)
  then have "distinct (map jw_id ?jobs)" by (simp add: distinct_map)
  then have "distinct (map (\<lambda>x. jw_id (fst x)) (List.map_filter (\<lambda>j. map_option (Pair j) (f j)) ?jobs))"
    for f :: "job_row \<Rightarrow> string option"
    by (auto simp: List.map_filter_def distinct_map inj_on_def)
  then show "distinct (map (\<lambda>x. jw_id (fst x)) (list_active_jobs_with_organization_id db))"
    by (simp add: list_active_jobs_with_organization_id_def)
  assume "(j, org) \<in> set (list_active_jobs_with_organization_id db)"
  then have "j \<in> set (jd_jobs db)" "active_job j"
    by (auto simp: list_active_jobs_with_organization_id_def List.map_filter_def)
  then show "get_analysis_job db (jw_id j) = Some j \<and> active_job j"
    using keyed_select_one [OF keyed] by (simp add: get_analysis_job_def)
qed

lemma purge_inactive_holds:
  assumes "s = inspect_analysis_job_transport (sv_codec e) (Some r)" "i \<in> ids"
  shows "entry_held e s (purge_inactive e s ids r) i"
proof -
  have reads: "snapshot_reads (sv_codec e) s" by (simp add: assms(1) inspected_reads)
  have "has_text True (sv_codec e) r i \<longrightarrow> has_text True (sv_codec e) (purge_inactive e s ids r) i"
    using assms(2) unfolding purge_inactive_def Let_def by (auto intro!: purge_all_keeps [OF reads, THEN mp])
  moreover have "ts_dlq_job_ids s = ln_dlq_active (rd_analysis r)"
    by (simp add: assms(1) inspect_analysis_job_transport_def Let_def)
  ultimately show ?thesis by (auto simp: entry_held_def assms(1) inspected_entry)
qed

lemma purge_inactive_room: "room e r n \<Longrightarrow> room e (purge_inactive e s ids r) n"
  by (simp add: purge_inactive_def Let_def purge_all_room)

text \<open>C9: What the reconciliation at the start of a worker makes of the active jobs. If every write and Redis call
  succeeds, the queue has room for one text for each active job, and their identifiers and payload texts are readable, it
  ends without an error and leaves every active job in one of three ways: as it was, running under a lease the snapshot
  confirms; queued in the database with a readable text in the queue or the retry set; or, if it was queued before and the
  snapshot had an entry of it, as it was with a readable text that may be on the processing list only. Such a text is taken
  for a way to run, but the reaper drops it with its lease, so the job of the last kind may be left without one.\<close>

theorem startup_settles_active_jobs:
  assumes "jobs_ok db" "\<forall>n. sv_ok e n"
    and "room e r (length (list_active_jobs_with_organization_id db))"
    and "\<forall>(j, org) \<in> set (list_active_jobs_with_organization_id db). queueable e j org"
  shows "\<exists>db' r'. reconcile_startup_analysis_jobs e (db, r) = ((db', r'), Inr ()) \<and>
    (\<forall>(j, org) \<in> set (list_active_jobs_with_organization_id db).
      (get_analysis_job db' (jw_id j) = Some j \<and> jw_status j = ''running'' \<and>
        \<not> running_is_invalid e (inspect_analysis_job_transport (sv_codec e) (Some r)) j) \<or>
      (\<exists>j'. get_analysis_job db' (jw_id j) = Some j' \<and> jw_status j' = ''queued'' \<and> has_text False (sv_codec e) r' (jw_id j)) \<or>
      (get_analysis_job db' (jw_id j) = Some j \<and> jw_status j = ''queued'' \<and>
        has_any_entry (inspect_analysis_job_transport (sv_codec e) (Some r)) (jw_id j) \<and>
        (\<exists>raw \<in> set (ln_processing (rd_analysis r')). job_of (sv_codec e) raw = Some (jw_id j))))"
proof -
  let ?s = "inspect_analysis_job_transport (sv_codec e) (Some r)" and ?xs = "list_active_jobs_with_organization_id db"
  let ?ids = "(\<lambda>(j, org). jw_id j) ` set ?xs"
  have "\<forall>(j, org) \<in> set ?xs. get_analysis_job db (jw_id j) = Some j \<and> active_job j \<and> queueable e j org \<and>
      entry_held e ?s (purge_inactive e ?s ?ids r) (jw_id j)"
    using assms(4) listed_jobs(2) [OF assms(1)] purge_inactive_holds [OF refl, of _ ?ids e r] by fastforce
  from reconcile_startup_jobs_settle [OF listed_jobs(1) [OF assms(1)] assms(1) purge_inactive_room [OF assms(3)]
      assms(2) inspected_reads this, of 0]
  obtain db' r' where "reconcile_startup_analysis_jobs e (db, r) = ((db', r'), Inr ())"
    and each: "\<forall>(j, org) \<in> set ?xs. \<exists>j'. get_analysis_job db' (jw_id j) = Some j' \<and> settled e ?s r' j j'"
    by (auto simp: reconcile_startup_analysis_jobs_def Let_def)
  moreover have "(get_analysis_job db' (jw_id j) = Some j \<and> jw_status j = ''running'' \<and> \<not> running_is_invalid e ?s j) \<or>
      (\<exists>j'. get_analysis_job db' (jw_id j) = Some j' \<and> jw_status j' = ''queued'' \<and> has_text False (sv_codec e) r' (jw_id j)) \<or>
      (get_analysis_job db' (jw_id j) = Some j \<and> jw_status j = ''queued'' \<and>
        has_any_entry (inspect_analysis_job_transport (sv_codec e) (Some r)) (jw_id j) \<and>
        (\<exists>raw \<in> set (ln_processing (rd_analysis r')). job_of (sv_codec e) raw = Some (jw_id j)))"
    if "(j, org) \<in> set ?xs" for j org
    using bspec [OF each that] by (auto simp: settled_def has_text_split)
  ultimately show ?thesis by blast
qed

text \<open>Redis has lost everything; the job that ran is queued again, in the database and in Redis.\<close>

definition startup_codec :: json_codec where
  "startup_codec = table_codec [(analysis_payload_json (startup_payload (snd sample_task) ''o1''), ''{job_1}'')]"

definition startup_service :: service_env where
  "startup_service = sample_service\<lparr>sv_codec := startup_codec\<rparr>"

theorem startup_settles_active_jobs_witness:
  "\<exists>db' r'. reconcile_startup_analysis_jobs startup_service (fst sample_task, empty_redis) = ((db', r'), Inr ()) \<and>
    (\<exists>j'. get_analysis_job db' ''job_1'' = Some j' \<and> jw_status j' = ''queued'' \<and> has_text False startup_codec r' ''job_1'')"
proof -
  have facts: "jobs_ok (fst sample_task)" "list_active_jobs_with_organization_id (fst sample_task) = [(snd sample_task, ''o1'')]"
    "jw_id (snd sample_task) = ''job_1''"
    by code_simp+
  have ok: "\<forall>n. sv_ok startup_service n" "sv_codec startup_service = startup_codec"
    by (simp_all add: startup_service_def sample_service_def)
  have "room startup_service empty_redis (length (list_active_jobs_with_organization_id (fst sample_task)))"
    "\<forall>(j, org) \<in> set (list_active_jobs_with_organization_id (fst sample_task)). queueable startup_service j org"
    by code_simp+
  from startup_settles_active_jobs [OF facts(1) ok(1) this] facts ok(2)
  obtain db' r' where run: "reconcile_startup_analysis_jobs startup_service (fst sample_task, empty_redis) = ((db', r'), Inr ())"
    "(get_analysis_job db' ''job_1'' = Some (snd sample_task) \<and> jw_status (snd sample_task) = ''running'' \<and>
        \<not> running_is_invalid startup_service (inspect_analysis_job_transport startup_codec (Some empty_redis)) (snd sample_task)) \<or>
      (\<exists>j'. get_analysis_job db' ''job_1'' = Some j' \<and> jw_status j' = ''queued'' \<and> has_text False startup_codec r' ''job_1'') \<or>
      jw_status (snd sample_task) = ''queued''"
    by auto
  have "running_is_invalid startup_service (inspect_analysis_job_transport startup_codec (Some empty_redis)) (snd sample_task)"
    "jw_status (snd sample_task) \<noteq> ''queued''"
    by code_simp+
  with run show ?thesis by blast
qed

end
