(* ===== verification/Binary64.thy ===== *)
theory Binary64
  imports Complex_Main
begin

section \<open>Binary floating point and money\<close>

text \<open>
  The Python \<open>float\<close> arithmetic the pricing code computes with. A finite float is the rational number it
  denotes; \<open>fl x\<close> is the binary64 number nearest to \<open>x\<close> (53 significant bits, ties to even), and every
  float operation is the exact operation followed by \<open>fl\<close>. Infinities, not-a-number, the sign of zero
  and the exponent range are left out: amounts come from \<open>NUMERIC(14, 4)\<close> columns.
  \<open>py_round p\<close> is \<open>round(x, p)\<close> (correctly rounded from the exact value, ties to even) and \<open>py_sum\<close> is
  \<open>sum\<close> over floats as CPython 3.12 computes it (Neumaier's compensated summation).

  A float of the form \<open>cents i\<close> is the float nearest to \<open>i / 100\<close>: an amount of money as the code holds
  it. The lemmas at the end say that sums, differences and comparisons of such amounts followed by
  \<open>round(.. + 1e-9, 2)\<close> are exact on the integers \<open>i\<close>, within stated bounds.
\<close>

subsection \<open>The arithmetic\<close>

type_synonym flt = rat

definition round_ne :: "rat \<Rightarrow> int" where
  "round_ne x = (let f = \<lfloor>x\<rfloor>; d = x - of_int f in
     if d < 1 / 2 then f else if 1 / 2 < d then f + 1 else if even f then f else f + 1)"

fun bit_length :: "int \<Rightarrow> int" where
  "bit_length n = (if n \<le> 0 then 0 else 1 + bit_length (n div 2))"

declare bit_length.simps [simp del]

definition pow2 :: "int \<Rightarrow> rat" where
  "pow2 k = (if 0 \<le> k then 2 ^ nat k else 1 / 2 ^ nat (- k))"

definition floor_log2 :: "rat \<Rightarrow> int" where
  "floor_log2 y = (case quotient_of y of (p, q) \<Rightarrow>
     let k = bit_length p - bit_length q in if pow2 k \<le> y then k else k - 1)"

definition fl :: "rat \<Rightarrow> flt" where
  "fl x = (if x = 0 then 0 else
     let e = floor_log2 \<bar>x\<bar> - 52 in of_int (round_ne (x / pow2 e)) * pow2 e)"

definition fadd :: "flt \<Rightarrow> flt \<Rightarrow> flt" where
  "fadd x y = fl (x + y)"

definition fsub :: "flt \<Rightarrow> flt \<Rightarrow> flt" where
  "fsub x y = fl (x - y)"

definition fmul :: "flt \<Rightarrow> flt \<Rightarrow> flt" where
  "fmul x y = fl (x * y)"

definition fdiv :: "flt \<Rightarrow> flt \<Rightarrow> flt" where
  "fdiv x y = fl (x / y)"

definition py_round :: "nat \<Rightarrow> flt \<Rightarrow> flt" where
  "py_round p x = fl (of_int (round_ne (x * 10 ^ p)) / 10 ^ p)"

fun sum_step :: "flt \<times> flt \<Rightarrow> flt \<Rightarrow> flt \<times> flt" where
  "sum_step (s, c) x =
    (let t = fadd s x
     in (t, fadd c (if \<bar>x\<bar> \<le> \<bar>s\<bar> then fadd (fsub s t) x else fadd (fsub x t) s)))"

definition py_sum :: "flt list \<Rightarrow> flt" where
  "py_sum xs = (case xs of [] \<Rightarrow> 0
    | x # ys \<Rightarrow> (case foldl sum_step (x, 0) ys of (s, c) \<Rightarrow> if c = 0 then s else fadd s c))"

text \<open>The literal \<open>1e-9\<close>.\<close>

definition nano :: flt where
  "nano = fl (1 / 10 ^ 9)"

lemma nano_code [code]: "nano = 4835703278458517 / 4835703278458516698824704"
  unfolding nano_def by code_simp

definition cents :: "int \<Rightarrow> flt" where
  "cents i = fl (of_int i / 100)"

subsection \<open>Error bounds\<close>

lemma fl_0 [simp]: "fl 0 = 0"
  by (simp add: fl_def)

lemma cents_0 [simp]: "cents 0 = 0"
  by (simp add: cents_def)

lemma round_ne_near: "\<bar>of_int (round_ne x) - x\<bar> \<le> 1 / 2"
proof -
  let ?d = "x - of_int \<lfloor>x\<rfloor>"
  have "0 \<le> ?d" "?d < 1" by linarith+
  then show ?thesis by (auto simp: round_ne_def Let_def)
qed

lemma round_ne_eq: "\<bar>x - of_int i\<bar> < 1 / 2 \<Longrightarrow> round_ne x = i"
proof -
  assume near: "\<bar>x - of_int i\<bar> < 1 / 2"
  with round_ne_near [of x] have "of_int (round_ne x) < (of_int (i + 1) :: rat)" "(of_int (i - 1) :: rat) < of_int (round_ne x)"
    by (simp_all add: abs_if split: if_splits)
  then show ?thesis by (simp only: of_int_less_iff)
qed

lemma pow2_pos [simp]: "0 < pow2 k"
  by (simp add: pow2_def)

lemma pow2_add: "pow2 (j + k) = pow2 j * pow2 k"
proof -
  have *: "pow2 (k + 1) = 2 * pow2 k" for k
  proof (cases "0 \<le> k")
    case True
    then show ?thesis by (simp add: pow2_def nat_add_distrib)
  next
    case False
    then have "nat (- k) = Suc (nat (- (k + 1)))" by simp
    with False show ?thesis by (auto simp: pow2_def)
  qed
  show ?thesis
  proof (induction j rule: int_induct [where k = 0])
    case base
    show ?case by (simp add: pow2_def)
  next
    case (step1 i)
    have "pow2 (i + 1 + k) = 2 * pow2 (i + k)" using * [of "i + k"] by (simp add: algebra_simps)
    with step1 * [of i] show ?case by simp
  next
    case (step2 i)
    have "2 * pow2 (i - 1 + k) = pow2 (i + k)" "2 * pow2 (i - 1) = pow2 i"
      using * [of "i - 1 + k"] * [of "i - 1"] by simp_all
    with step2 have "2 * pow2 (i - 1 + k) = 2 * (pow2 (i - 1) * pow2 k)" by (simp add: mult.assoc [symmetric])
    then show ?case by simp
  qed
qed

lemma bit_length_bounds:
  "0 < n \<Longrightarrow> 0 < bit_length n \<and> pow2 (bit_length n - 1) \<le> of_int n \<and> of_int n < pow2 (bit_length n)"
proof (induction n rule: bit_length.induct)
  case (1 n)
  show ?case
  proof (cases "n = 1")
    case True
    then show ?thesis by (simp add: bit_length.simps [of 1] bit_length.simps [of 0] pow2_def)
  next
    case False
    with 1 have half: "0 < bit_length (n div 2)" "pow2 (bit_length (n div 2) - 1) \<le> of_int (n div 2)"
      "of_int (n div 2) < pow2 (bit_length (n div 2))" by auto
    have len: "bit_length n = 1 + bit_length (n div 2)" using 1 by (simp add: bit_length.simps [of n])
    have "2 * (n div 2) \<le> n" "n \<le> 2 * (n div 2) + 1" by linarith+
    then have "(of_int (2 * (n div 2)) :: rat) \<le> of_int n" "(of_int n :: rat) \<le> of_int (2 * (n div 2) + 1)"
      by (simp_all only: of_int_le_iff)
    then have lo: "2 * of_int (n div 2) \<le> (of_int n :: rat)" and hi: "of_int n \<le> (2 * of_int (n div 2) + 1 :: rat)"
      by simp_all
    have "pow2 (bit_length n - 1) = 2 * pow2 (bit_length (n div 2) - 1)"
      "pow2 (bit_length n) = 2 * pow2 (bit_length (n div 2))"
      using pow2_add [of 1 "bit_length (n div 2) - 1"] pow2_add [of 1 "bit_length (n div 2)"]
      by (simp_all add: len pow2_def [of 1])
    moreover have "of_int (n div 2) + 1 \<le> (of_int (2 ^ nat (bit_length (n div 2))) :: rat)"
    proof -
      have "(of_int (n div 2) :: rat) < of_int (2 ^ nat (bit_length (n div 2)))"
        using half by (simp add: pow2_def)
      then have "n div 2 < 2 ^ nat (bit_length (n div 2))" by (simp only: of_int_less_iff)
      then have "n div 2 + 1 \<le> 2 ^ nat (bit_length (n div 2))" by simp
      then show ?thesis by (metis of_int_1 of_int_add of_int_le_iff)
    qed
    then have "of_int (n div 2) + 1 \<le> pow2 (bit_length (n div 2))" using half by (simp add: pow2_def)
    ultimately show ?thesis using half lo hi len by linarith
  qed
qed

lemma floor_log2_lower: "0 < y \<Longrightarrow> pow2 (floor_log2 y) \<le> y"
proof -
  assume pos: "0 < y"
  obtain p q where pq: "quotient_of y = (p, q)" by (cases "quotient_of y")
  then have q: "0 < q" and y: "y = of_int p / of_int q"
    by (auto intro: quotient_of_denom_pos quotient_of_div)
  with pos have p: "0 < p" by (simp add: zero_less_divide_iff)
  let ?k = "bit_length p - bit_length q"
  have "pow2 (?k - 1) * pow2 (bit_length q) = pow2 (bit_length p - 1)"
    by (simp add: pow2_add [symmetric])
  also have "\<dots> \<le> of_int p" using bit_length_bounds [OF p] by blast
  finally have "pow2 (?k - 1) * pow2 (bit_length q) \<le> of_int p" .
  moreover have "pow2 (?k - 1) * of_int q \<le> pow2 (?k - 1) * pow2 (bit_length q)"
    using bit_length_bounds [OF q] by (simp add: less_imp_le)
  ultimately have "pow2 (?k - 1) * of_int q \<le> of_int p" by linarith
  then have "pow2 (?k - 1) \<le> y" using q by (simp add: y pos_le_divide_eq)
  then show ?thesis using pq by (simp add: floor_log2_def Let_def)
qed

lemma fl_error: "\<bar>fl x - x\<bar> \<le> \<bar>x\<bar> / 2 ^ 53"
proof (cases "x = 0")
  case False
  let ?e = "floor_log2 \<bar>x\<bar> - 52"
  have "fl x - x = (of_int (round_ne (x / pow2 ?e)) - x / pow2 ?e) * pow2 ?e"
    using False by (simp add: fl_def Let_def left_diff_distrib less_imp_neq [symmetric])
  then have "\<bar>fl x - x\<bar> = \<bar>of_int (round_ne (x / pow2 ?e)) - x / pow2 ?e\<bar> * pow2 ?e"
    by (simp add: abs_mult abs_of_pos)
  also have "\<dots> \<le> 1 / 2 * pow2 ?e"
    using round_ne_near [of "x / pow2 ?e"] by (intro mult_right_mono) (simp_all add: less_imp_le)
  also have "\<dots> = pow2 (floor_log2 \<bar>x\<bar>) / 2 ^ 53"
    using pow2_add [of "floor_log2 \<bar>x\<bar>" "- 52"] by (simp add: pow2_def [of "- 52"])
  also have "\<dots> \<le> \<bar>x\<bar> / 2 ^ 53"
    using floor_log2_lower [of "\<bar>x\<bar>"] False by (simp add: divide_right_mono)
  finally show ?thesis .
qed simp

lemma fadd_error: "\<bar>fadd x y - (x + y)\<bar> \<le> \<bar>x + y\<bar> / 2 ^ 53"
  unfolding fadd_def by (rule fl_error)

lemma fsub_error: "\<bar>fsub x y - (x - y)\<bar> \<le> \<bar>x - y\<bar> / 2 ^ 53"
  unfolding fsub_def by (rule fl_error)

subsection \<open>Rounding is monotone\<close>

lemma round_ne_bounds: "\<lfloor>x\<rfloor> \<le> round_ne x" "round_ne x \<le> \<lfloor>x\<rfloor> + 1"
  by (simp_all add: round_ne_def Let_def)

lemma round_ne_int [simp]: "round_ne (of_int i) = i"
  by (rule round_ne_eq) simp

lemma round_ne_mono: "x \<le> y \<Longrightarrow> round_ne x \<le> round_ne y"
proof (cases "\<lfloor>x\<rfloor> = \<lfloor>y\<rfloor>")
  case True
  assume "x \<le> y"
  with True show ?thesis by (auto simp: round_ne_def Let_def)
next
  case False
  assume "x \<le> y"
  with False have "\<lfloor>x\<rfloor> + 1 \<le> \<lfloor>y\<rfloor>" using floor_mono [of x y] by simp
  then show ?thesis using round_ne_bounds(2) [of x] round_ne_bounds(1) [of y] by linarith
qed

lemma round_ne_minus: "round_ne (- x) = - round_ne x"
proof (cases "of_int \<lfloor>x\<rfloor> = x")
  case True
  then show ?thesis by (metis of_int_minus round_ne_int)
next
  case False
  define f where "f = \<lfloor>x\<rfloor>"
  have x: "of_int f < x" "x < of_int f + 1" using False of_int_floor_le [of x] unfolding f_def by linarith+
  then have minus: "\<lfloor>- x\<rfloor> = - f - 1" by (intro floor_unique) simp_all
  consider "x - of_int f < 1 / 2" | "x - of_int f = 1 / 2" | "1 / 2 < x - of_int f" by linarith
  then show ?thesis
    by cases (simp_all add: round_ne_def Let_def minus f_def [symmetric])
qed

lemma pow2_mono: "j \<le> k \<Longrightarrow> pow2 j \<le> pow2 k"
proof -
  assume "j \<le> k"
  then have "1 \<le> pow2 (k - j)" by (simp add: pow2_def)
  then have "1 * pow2 j \<le> pow2 (k - j) * pow2 j" by (rule mult_right_mono) (simp add: less_imp_le)
  then show ?thesis by (simp add: pow2_add [symmetric])
qed

lemma floor_log2_upper: "0 < y \<Longrightarrow> y < pow2 (floor_log2 y + 1)"
proof -
  assume pos: "0 < y"
  obtain p q where pq: "quotient_of y = (p, q)" by (cases "quotient_of y")
  then have q: "0 < q" and y: "y = of_int p / of_int q"
    by (auto intro: quotient_of_denom_pos quotient_of_div)
  with pos have p: "0 < p" by (simp add: zero_less_divide_iff)
  let ?k = "bit_length p - bit_length q"
  have "pow2 (?k + 1) * pow2 (bit_length q - 1) \<le> pow2 (?k + 1) * of_int q"
    using bit_length_bounds [OF q] by (intro mult_left_mono) (simp_all add: less_imp_le)
  then have "pow2 (bit_length p) \<le> pow2 (?k + 1) * of_int q" by (simp add: pow2_add [symmetric])
  then have "of_int p < pow2 (?k + 1) * of_int q" using bit_length_bounds [OF p] by linarith
  then have "y < pow2 (?k + 1)" using q by (simp add: y pos_divide_less_eq)
  then show ?thesis using pq by (auto simp: floor_log2_def Let_def not_le)
qed

lemma floor_log2_mono: "0 < x \<Longrightarrow> x \<le> y \<Longrightarrow> floor_log2 x \<le> floor_log2 y"
proof (rule ccontr)
  assume x: "0 < x" "x \<le> y" and "\<not> floor_log2 x \<le> floor_log2 y"
  then have "pow2 (floor_log2 y + 1) \<le> pow2 (floor_log2 x)" by (intro pow2_mono) simp
  then show False using floor_log2_upper [of y] floor_log2_lower [of x] x by linarith
qed

lemma fl_pos_mono:
  assumes "0 < x" "x \<le> y"
  shows "fl x \<le> fl y"
proof -
  let ?a = "floor_log2 x" and ?b = "floor_log2 y"
  have y: "0 < y" using assms by simp
  have scale: "fl z = of_int (round_ne (z / pow2 (floor_log2 z - 52))) * pow2 (floor_log2 z - 52)" if "0 < z" for z
    using that by (simp add: fl_def Let_def)
  have "?a \<le> ?b" using assms by (rule floor_log2_mono)
  then consider "?a = ?b" | "?a + 1 \<le> ?b" by linarith
  then show ?thesis
  proof cases
    case 1
    have "x / pow2 (?b - 52) \<le> y / pow2 (?b - 52)" using assms by (simp add: divide_right_mono less_imp_le)
    then show ?thesis
      using 1 scale [OF assms(1)] scale [OF y] by (simp add: round_ne_mono mult_right_mono less_imp_le)
  next
    case 2
    have "x \<le> pow2 53 * pow2 (?a - 52)"
      using floor_log2_upper [OF assms(1)] by (simp add: pow2_add [symmetric] add.commute [of 1] less_imp_le)
    then have "x / pow2 (?a - 52) \<le> of_int (2 ^ 53)" by (simp add: pos_divide_le_eq pow2_def [of 53])
    then have "round_ne (x / pow2 (?a - 52)) \<le> 2 ^ 53" using round_ne_mono round_ne_int by metis
    then have "of_int (round_ne (x / pow2 (?a - 52))) \<le> (of_int (2 ^ 53) :: rat)" by (simp only: of_int_le_iff)
    then have "fl x \<le> 2 ^ 53 * pow2 (?a - 52)"
      unfolding scale [OF assms(1)] by (intro mult_right_mono) (simp_all add: less_imp_le)
    also have "\<dots> = pow2 (?a + 1)" using pow2_add [of 53 "?a - 52"] by (simp add: pow2_def [of 53] add.commute)
    also have "\<dots> \<le> pow2 ?b" using 2 by (rule pow2_mono)
    also have "\<dots> = 2 ^ 52 * pow2 (?b - 52)" using pow2_add [of 52 "?b - 52"] by (simp add: pow2_def [of 52])
    also have "\<dots> \<le> fl y"
    proof -
      have "pow2 52 * pow2 (?b - 52) \<le> y" using floor_log2_lower [OF y] by (simp add: pow2_add [symmetric])
      then have "of_int (2 ^ 52) \<le> y / pow2 (?b - 52)" by (simp add: pos_le_divide_eq pow2_def [of 52])
      then have "2 ^ 52 \<le> round_ne (y / pow2 (?b - 52))" using round_ne_mono round_ne_int by metis
      then have "of_int (2 ^ 52) \<le> (of_int (round_ne (y / pow2 (?b - 52))) :: rat)" by (simp only: of_int_le_iff)
      then show ?thesis unfolding scale [OF y] by (intro mult_right_mono) (simp_all add: less_imp_le)
    qed
    finally show ?thesis .
  qed
qed

lemma fl_minus: "fl (- x) = - fl x"
  by (simp add: fl_def Let_def round_ne_minus)

lemma fl_nonneg: "0 \<le> x \<Longrightarrow> 0 \<le> fl x"
  using fl_error [of x] by (simp add: abs_if split: if_splits)

lemma fl_mono: "x \<le> y \<Longrightarrow> fl x \<le> fl y"
proof -
  assume xy: "x \<le> y"
  consider "0 < x" | "x \<le> 0" "0 \<le> y" | "y < 0" by linarith
  then show ?thesis
  proof cases
    case 1
    then show ?thesis using xy by (rule fl_pos_mono)
  next
    case 2
    then have "0 \<le> fl (- x)" "0 \<le> fl y" by (simp_all add: fl_nonneg)
    then show ?thesis by (simp add: fl_minus)
  next
    case 3
    then have "fl (- y) \<le> fl (- x)" using xy by (intro fl_pos_mono) simp_all
    then show ?thesis by (simp add: fl_minus)
  qed
qed

lemma py_round_mono: "x \<le> y \<Longrightarrow> py_round p x \<le> py_round p y"
  unfolding py_round_def by (intro fl_mono divide_right_mono) (simp_all add: round_ne_mono)

subsection \<open>The error of a compensated sum\<close>

lemma sum_step_bounds:
  assumes "\<bar>s - e\<bar> \<le> K" "\<bar>c\<bar> \<le> 4 * K" "0 \<le> K" "K \<le> A / 2" "d = 4 * A / 2 ^ 53"
    and "\<bar>e\<bar> \<le> A" "\<bar>e + x\<bar> \<le> A" "\<bar>x\<bar> \<le> A"
  shows "\<bar>fst (sum_step (s, c) x) - (e + x)\<bar> \<le> K + d \<and> \<bar>snd (sum_step (s, c) x)\<bar> \<le> 4 * (K + d)"
proof -
  define t where "t = fadd s x"
  define w where "w = (if \<bar>x\<bar> \<le> \<bar>s\<bar> then fadd (fsub s t) x else fadd (fsub x t) s)"
  have step: "sum_step (s, c) x = (t, fadd c w)" by (simp add: t_def w_def Let_def)
  have A: "0 \<le> A" and d: "0 \<le> d" using assms by (simp_all add: abs_le_iff)
  have s2: "\<bar>s\<bar> \<le> 3 / 2 * A" and sx: "\<bar>s + x\<bar> \<le> 3 / 2 * A"
    using assms(1,4,6,7) by linarith+
  have t: "\<bar>t - (s + x)\<bar> \<le> d / 2" using fadd_error [of s x] sx assms(5) A by (simp add: t_def)
  have "d \<le> A / 8" using assms(5) A by simp
  then have big: "\<bar>s - t\<bar> \<le> 2 * A" "\<bar>x - t\<bar> \<le> 2 * A"
    using t s2 assms(8) A by linarith+
  have "\<bar>fsub s t - (s - t)\<bar> \<le> d / 2" "\<bar>fsub x t - (x - t)\<bar> \<le> d / 2"
    using fsub_error [of s t] fsub_error [of x t] big assms(5) by simp_all
  then have w0: "\<bar>fsub s t + x\<bar> \<le> d" "\<bar>fsub x t + s\<bar> \<le> d"
    using t by linarith+
  have "\<bar>fadd (fsub s t) x - (fsub s t + x)\<bar> \<le> d" "\<bar>fadd (fsub x t) s - (fsub x t + s)\<bar> \<le> d"
    using fadd_error [of "fsub s t" x] fadd_error [of "fsub x t" s] w0 d by simp_all
  then have w: "\<bar>w\<bar> \<le> 2 * d" using w0 by (auto simp: w_def abs_le_iff)
  have "\<bar>c + w\<bar> \<le> 4 * K + 2 * d" using w assms(2) by (simp add: abs_le_iff)
  moreover have "4 * K + 2 * d \<le> 3 * A" using assms(4,5) A by simp
  ultimately have "\<bar>c + w\<bar> / 2 ^ 53 \<le> 3 * A / 2 ^ 53" by (intro divide_right_mono) simp_all
  also have "\<dots> \<le> d" using assms(5) A by simp
  finally have "\<bar>fadd c w - (c + w)\<bar> \<le> d"
    using fadd_error [of c w] by (rule order_trans [rotated])
  with \<open>\<bar>c + w\<bar> \<le> 4 * K + 2 * d\<close> have "\<bar>fadd c w\<bar> \<le> 4 * (K + d)" using d by (simp add: abs_le_iff)
  moreover have "\<bar>t - (e + x)\<bar> \<le> K + d" using t assms(1) d by linarith
  ultimately show ?thesis by (simp only: step fst_conv snd_conv)
qed

lemma sum_loop_bounds:
  assumes "\<bar>s - e\<bar> \<le> K" "\<bar>c\<bar> \<le> 4 * K" "0 \<le> K" "K + of_nat (length xs) * d \<le> A / 2" "d = 4 * A / 2 ^ 53"
    and "\<bar>e\<bar> + sum_list (map abs xs) \<le> A" "0 \<le> A"
  shows "\<bar>fst (foldl sum_step (s, c) xs) - (e + sum_list xs)\<bar> \<le> K + of_nat (length xs) * d \<and>
    \<bar>snd (foldl sum_step (s, c) xs)\<bar> \<le> 4 * (K + of_nat (length xs) * d)"
  using assms
proof (induction xs arbitrary: s c e K)
  case (Cons x xs)
  have d: "0 \<le> d" using Cons.prems(5,7) by simp
  then have dl: "0 \<le> of_nat (length xs) * d" by simp
  have rest: "0 \<le> sum_list (map abs xs)" by (rule sum_list_nonneg) auto
  have len: "K + of_nat (length (x # xs)) * d = (K + d) + of_nat (length xs) * d"
    by (simp add: algebra_simps)
  obtain s' c' where stp: "sum_step (s, c) x = (s', c')" by (cases "sum_step (s, c) x")
  have K: "K \<le> A / 2" using Cons.prems(4) dl d unfolding len by linarith
  have e: "\<bar>e\<bar> \<le> A" "\<bar>e + x\<bar> \<le> A" "\<bar>x\<bar> \<le> A" using Cons.prems(6) rest by simp_all
  have "\<bar>s' - (e + x)\<bar> \<le> K + d \<and> \<bar>c'\<bar> \<le> 4 * (K + d)"
    using sum_step_bounds [OF Cons.prems(1-3) K Cons.prems(5) e] by (simp only: stp fst_conv snd_conv)
  moreover have "\<bar>e + x\<bar> + sum_list (map abs xs) \<le> A" using Cons.prems(6) by (simp add: abs_le_iff)
  ultimately have "\<bar>fst (foldl sum_step (s', c') xs) - ((e + x) + sum_list xs)\<bar> \<le> (K + d) + of_nat (length xs) * d \<and>
    \<bar>snd (foldl sum_step (s', c') xs)\<bar> \<le> 4 * ((K + d) + of_nat (length xs) * d)"
    using Cons.prems(3,5,7) Cons.prems(4) [unfolded len] d by (intro Cons.IH) simp_all
  then show ?case by (simp only: len foldl_Cons stp sum_list.Cons add.assoc)
qed simp

lemma py_sum_error:
  assumes "sum_list (map abs xs) \<le> A" "length xs \<le> 2 ^ 50" "xs \<noteq> []"
  shows "\<bar>py_sum xs - sum_list xs\<bar> \<le> of_nat (length xs) * (32 * A / 2 ^ 53)"
proof -
  define d where "d = 4 * A / 2 ^ 53"
  define n where "n = (of_nat (length xs) :: rat)"
  from assms(3) obtain x ys where xs: "xs = x # ys" by (cases xs) auto
  have "0 \<le> sum_list (map abs xs)" by (rule sum_list_nonneg) auto
  then have A: "0 \<le> A" using assms(1) by simp
  then have d: "0 \<le> d" by (simp add: d_def)
  have n: "n = of_nat (length ys) + 1" "1 \<le> n" by (simp_all add: n_def xs)
  have "of_nat (length xs) \<le> (of_nat (2 ^ 50) :: rat)" using assms(2) by (simp only: of_nat_le_iff)
  then have "n \<le> 2 ^ 50" by (simp add: n_def)
  then have "n * d \<le> 2 ^ 50 * d" using d by (rule mult_right_mono)
  then have nd: "n * d \<le> A / 2" using A by (simp add: d_def)
  have dn: "d \<le> n * d" using mult_right_mono [OF n(2) d] by simp
  have "of_nat (length ys) * d \<le> n * d" using n d by (intro mult_right_mono) simp_all
  obtain s c where sc: "foldl sum_step (x, 0) ys = (s, c)" by (cases "foldl sum_step (x, 0) ys")
  have "\<bar>x\<bar> + sum_list (map abs ys) \<le> A" using assms(1) by (simp add: xs)
  moreover have "0 + of_nat (length ys) * d \<le> A / 2" using nd \<open>of_nat (length ys) * d \<le> n * d\<close> by simp
  ultimately have "\<bar>s - (x + sum_list ys)\<bar> \<le> of_nat (length ys) * d \<and> \<bar>c\<bar> \<le> 4 * (of_nat (length ys) * d)"
    using sum_loop_bounds [of x x 0 0 ys d A] A by (simp add: sc d_def)
  then have s: "\<bar>s - sum_list xs\<bar> \<le> n * d" and c: "\<bar>c\<bar> \<le> 4 * (n * d)"
    using \<open>of_nat (length ys) * d \<le> n * d\<close> by (simp_all add: xs)
  have "\<bar>sum_list xs\<bar> \<le> A" using sum_list_abs [of xs] assms(1) by (rule order_trans)
  then have "\<bar>s + c\<bar> \<le> 4 * A" using s c nd A by linarith
  then have "\<bar>fadd s c - (s + c)\<bar> \<le> d" using fadd_error [of s c] by (simp add: d_def)
  then have "\<bar>fadd s c - sum_list xs\<bar> \<le> 8 * (n * d)" using s c dn by linarith
  moreover have "\<bar>s - sum_list xs\<bar> \<le> 8 * (n * d)" using s d n(2) dn by linarith
  ultimately have "\<bar>py_sum xs - sum_list xs\<bar> \<le> 8 * (n * d)" by (simp add: py_sum_def xs sc)
  then show ?thesis by (simp add: n_def d_def mult.commute)
qed

subsection \<open>Money is exact\<close>

text \<open>\<open>round_currency\<close> and \<open>round_measure\<close> of \<open>quote_variant_service.py\<close>; the pricing service writes
  the same expressions out.\<close>

definition round_currency :: "flt \<Rightarrow> flt" where
  "round_currency x = py_round 2 (fadd x nano)"

definition round_measure :: "flt \<Rightarrow> flt" where
  "round_measure x = py_round 3 (fadd x nano)"

lemma nano_bounds: "0 \<le> nano" "nano \<le> 2 / 10 ^ 9"
proof -
  have "\<bar>1 / 10 ^ 9 :: rat\<bar> / 2 ^ 53 \<le> 1 / 10 ^ 9" by simp
  then have "\<bar>nano - 1 / 10 ^ 9\<bar> \<le> 1 / 10 ^ 9"
    using fl_error [of "1 / 10 ^ 9"] unfolding nano_def by (rule order_trans [rotated])
  then show "0 \<le> nano" "nano \<le> 2 / 10 ^ 9" unfolding abs_le_iff by simp_all
qed

lemma round_currency_mono: "x \<le> y \<Longrightarrow> round_currency x \<le> round_currency y"
  unfolding round_currency_def fadd_def by (intro py_round_mono fl_mono) simp

lemma py_round_cents: "\<exists>i. py_round 2 x = cents i"
  by (simp add: py_round_def cents_def) blast

lemma round_currency_cents: "\<exists>i. round_currency x = cents i"
  unfolding round_currency_def by (rule py_round_cents)

lemma cents_near: "\<bar>cents i - of_int i / 100\<bar> \<le> \<bar>of_int i\<bar> / (100 * 2 ^ 53)"
  using fl_error [of "of_int i / 100"] by (simp add: cents_def)

lemma round_currency_near:
  assumes "\<bar>x - of_int i / 100\<bar> \<le> 1 / 250" "\<bar>i\<bar> \<le> 10 ^ 13"
  shows "round_currency x = cents i"
proof -
  have "(of_int \<bar>i\<bar> :: rat) \<le> of_int (10 ^ 13)" using assms(2) by (simp only: of_int_le_iff)
  then have i: "\<bar>of_int i / 100\<bar> \<le> (10 ^ 11 :: rat)" by (simp add: abs_le_iff)
  have "\<bar>x + nano\<bar> \<le> 2 * 10 ^ 11" using i assms(1) nano_bounds unfolding abs_le_iff by simp
  then have "\<bar>fadd x nano - (x + nano)\<bar> \<le> 2 * 10 ^ 11 / 2 ^ 53"
    by (rule order_trans [OF fadd_error divide_right_mono]) simp
  then have "\<bar>fadd x nano - of_int i / 100\<bar> < 1 / 200"
    using assms(1) nano_bounds unfolding abs_le_iff abs_less_iff by simp
  then have "\<bar>fadd x nano * 10 ^ 2 - of_int i\<bar> < 1 / 2" unfolding abs_less_iff by simp
  then have "round_ne (fadd x nano * 10 ^ 2) = i" by (rule round_ne_eq)
  then show ?thesis by (simp add: round_currency_def py_round_def cents_def)
qed

text \<open>The amounts the lemmas speak of: at most ten billion units.\<close>

definition is_money :: "int \<Rightarrow> bool" where
  "is_money i \<longleftrightarrow> \<bar>i\<bar> \<le> 10 ^ 12"

lemma amount_near: "is_money i \<Longrightarrow> \<bar>cents i - of_int i / 100\<bar> \<le> 1 / 10 ^ 5"
proof -
  assume "is_money i"
  then have "(of_int \<bar>i\<bar> :: rat) \<le> of_int (10 ^ 12)" unfolding is_money_def by (simp only: of_int_le_iff)
  then have "\<bar>of_int i\<bar> / (100 * 2 ^ 53) \<le> (1 / 10 ^ 5 :: rat)" by simp
  then show ?thesis using cents_near [of i] by (rule order_trans [rotated])
qed

lemma amount_size: "is_money i \<Longrightarrow> \<bar>of_int i / 100 :: rat\<bar> \<le> 10 ^ 10"
proof -
  assume "is_money i"
  then have "(of_int \<bar>i\<bar> :: rat) \<le> of_int (10 ^ 12)" unfolding is_money_def by (simp only: of_int_le_iff)
  then show ?thesis by (simp add: abs_le_iff)
qed

lemma sum_near:
  assumes "\<bar>x - of_int i / 100\<bar> \<le> e" "e \<le> 1 / 10 ^ 3" "is_money i" "is_money j"
  shows "\<bar>fadd x (cents j) - of_int (i + j) / 100\<bar> \<le> e + 2 / 10 ^ 5"
    and "\<bar>fsub x (cents j) - of_int (i - j) / 100\<bar> \<le> e + 2 / 10 ^ 5"
proof -
  have "\<bar>x + cents j\<bar> \<le> 3 * 10 ^ 10" "\<bar>x - cents j\<bar> \<le> 3 * 10 ^ 10"
    using amount_size [OF assms(3)] amount_size [OF assms(4)] amount_near [OF assms(4)] assms(1,2)
    unfolding abs_le_iff by simp_all
  then have "\<bar>x + cents j\<bar> / 2 ^ 53 \<le> 1 / 10 ^ 5" "\<bar>x - cents j\<bar> / 2 ^ 53 \<le> 1 / 10 ^ 5" by simp_all
  then have "\<bar>fadd x (cents j) - (x + cents j)\<bar> \<le> 1 / 10 ^ 5" "\<bar>fsub x (cents j) - (x - cents j)\<bar> \<le> 1 / 10 ^ 5"
    using fadd_error [of x "cents j"] fsub_error [of x "cents j"] by linarith+
  moreover have "of_int (i + j) / 100 = (of_int i / 100 + of_int j / 100 :: rat)"
    "of_int (i - j) / 100 = (of_int i / 100 - of_int j / 100 :: rat)"
    by (simp_all add: add_divide_distrib diff_divide_distrib)
  ultimately show "\<bar>fadd x (cents j) - of_int (i + j) / 100\<bar> \<le> e + 2 / 10 ^ 5"
    "\<bar>fsub x (cents j) - of_int (i - j) / 100\<bar> \<le> e + 2 / 10 ^ 5"
    using assms(1) amount_near [OF assms(4)] unfolding abs_le_iff
    by (auto simp: algebra_simps add_divide_distrib diff_divide_distrib)
qed

lemma amount_small: "is_money i \<Longrightarrow> \<bar>i\<bar> \<le> 10 ^ 13"
  by (simp add: is_money_def)

lemma cents_add:
  assumes "is_money i" "is_money j"
  shows "round_currency (fadd (cents i) (cents j)) = cents (i + j)"
    and "round_currency (fsub (cents i) (cents j)) = cents (i - j)"
proof -
  have "\<bar>fadd (cents i) (cents j) - of_int (i + j) / 100\<bar> \<le> 1 / 250"
    "\<bar>fsub (cents i) (cents j) - of_int (i - j) / 100\<bar> \<le> 1 / 250"
    by (rule order_trans [OF sum_near(1) [OF amount_near [OF assms(1)] _ assms]], simp, simp,
        rule order_trans [OF sum_near(2) [OF amount_near [OF assms(1)] _ assms]], simp, simp)
  moreover have "\<bar>i + j\<bar> \<le> 10 ^ 13" "\<bar>i - j\<bar> \<le> 10 ^ 13" using assms by (auto simp: is_money_def)
  ultimately show "round_currency (fadd (cents i) (cents j)) = cents (i + j)"
    "round_currency (fsub (cents i) (cents j)) = cents (i - j)" by (blast intro: round_currency_near)+
qed

lemma cents_add3:
  assumes "is_money i" "is_money j" "is_money k" "is_money (i + j)"
  shows "round_currency (fadd (fadd (cents i) (cents j)) (cents k)) = cents (i + j + k)"
proof -
  have "\<bar>fadd (cents i) (cents j) - of_int (i + j) / 100\<bar> \<le> 1 / 10 ^ 5 + 2 / 10 ^ 5"
    by (rule sum_near(1) [OF amount_near [OF assms(1)] _ assms(1,2)]) simp
  then have "\<bar>fadd (fadd (cents i) (cents j)) (cents k) - of_int (i + j + k) / 100\<bar> \<le>
      1 / 10 ^ 5 + 2 / 10 ^ 5 + 2 / 10 ^ 5"
    by (rule sum_near(1) [OF _ _ assms(4,3)]) simp
  then have "\<bar>fadd (fadd (cents i) (cents j)) (cents k) - of_int (i + j + k) / 100\<bar> \<le> 1 / 250"
    by (rule order_trans) simp
  moreover have "\<bar>i + j + k\<bar> \<le> 10 ^ 13" using assms by (auto simp: is_money_def)
  ultimately show ?thesis by (rule round_currency_near)
qed

lemma round_currency_id [simp]: "is_money i \<Longrightarrow> round_currency (cents i) = cents i"
proof -
  assume i: "is_money i"
  have "\<bar>cents i - of_int i / 100\<bar> \<le> 1 / 250" by (rule order_trans [OF amount_near [OF i]]) simp
  then show ?thesis using amount_small [OF i] by (rule round_currency_near)
qed

lemma cents_less [simp]: "is_money i \<Longrightarrow> is_money j \<Longrightarrow> cents i < cents j \<longleftrightarrow> i < j"
proof -
  assume amounts: "is_money i" "is_money j"
  have mono: "cents a < cents b" if "is_money a" "is_money b" "a < b" for a b
  proof -
    have "of_int (a + 1) \<le> (of_int b :: rat)" using that(3) by (simp only: of_int_le_iff)
    then show ?thesis using amount_near [OF that(1)] amount_near [OF that(2)] unfolding abs_le_iff by auto
  qed
  show ?thesis using mono [OF amounts] mono [OF amounts(2,1)] by (cases i j rule: linorder_cases) auto
qed

lemma cents_le [simp]: "is_money i \<Longrightarrow> is_money j \<Longrightarrow> cents i \<le> cents j \<longleftrightarrow> i \<le> j"
  using cents_less [of j i] by (simp add: not_less [symmetric])

lemma cents_eq [simp]: "is_money i \<Longrightarrow> is_money j \<Longrightarrow> cents i = cents j \<longleftrightarrow> i = j"
  by (metis antisym cents_le order_refl)

lemma amount_0 [simp]: "is_money 0"
  by (simp add: is_money_def)

lemma cents_sum:
  assumes "length ks \<le> 1000" "sum_list (map abs ks) \<le> 10 ^ 10"
  shows "round_currency (py_sum (map cents ks)) = cents (sum_list ks)"
proof -
  let ?S = "sum_list (map abs ks)"
  have each: "\<bar>cents i - of_int i / 100\<bar> \<le> \<bar>of_int i\<bar> / (100 * 2 ^ 53)" for i by (rule cents_near)
  have sums: "\<bar>sum_list (map cents ks) - of_int (sum_list ks) / 100\<bar> \<le> of_int (sum_list (map abs ks)) / (100 * 2 ^ 53) \<and>
      sum_list (map abs (map cents ks)) \<le> of_int (sum_list (map abs ks)) / 50" for ks :: "int list"
  proof (induction ks)
    case (Cons i ks)
    have "\<bar>cents i\<bar> \<le> \<bar>of_int i\<bar> / 50" using each [of i] unfolding abs_le_iff by (auto simp: abs_if split: if_splits)
    with Cons show ?case
      using each [of i] unfolding abs_le_iff by (auto simp: add_divide_distrib)
  qed simp
  have "(of_int ?S :: rat) \<le> of_int (10 ^ 10)" using assms(2) by (simp only: of_int_le_iff)
  then have S: "(of_int ?S :: rat) \<le> 10 ^ 10" by simp
  have "sum_list (map abs (map cents ks)) \<le> 2 * 10 ^ 8" using sums [of ks] S by auto
  then have "\<bar>py_sum (map cents ks) - sum_list (map cents ks)\<bar> \<le> 1 / 1000"
  proof (cases "ks = []")
    case False
    have "(of_nat (length ks) :: rat) \<le> of_nat 1000" using assms(1) by (simp only: of_nat_le_iff)
    then have "of_nat (length ks) * (32 * (2 * 10 ^ 8) / 2 ^ 53) \<le> (1 / 1000 :: rat)" by simp
    moreover have "\<bar>py_sum (map cents ks) - sum_list (map cents ks)\<bar> \<le>
        of_nat (length (map cents ks)) * (32 * (2 * 10 ^ 8) / 2 ^ 53)"
      using assms(1) False \<open>sum_list (map abs (map cents ks)) \<le> 2 * 10 ^ 8\<close>
      by (intro py_sum_error) simp_all
    ultimately show ?thesis unfolding length_map by (rule order_trans [rotated])
  qed (simp add: py_sum_def)
  then have "\<bar>py_sum (map cents ks) - of_int (sum_list ks) / 100\<bar> \<le> 1 / 250"
    using sums [of ks] S unfolding abs_le_iff by auto
  moreover have "\<bar>sum_list ks\<bar> \<le> 10 ^ 13" using sum_list_abs [of ks] assms(2) by simp
  ultimately show ?thesis by (rule round_currency_near)
qed

end
