(* ===== verification/Catalog_Domain.thy ===== *)
theory Catalog_Domain
  imports Novu_Prelude
begin

section \<open>The rules of the work catalogue\<close>

text \<open>
  Models \<open>app/work_catalog/domain.py\<close>: codes and names in normal form, decimals, parameter definitions,
  the resolved parameter contract, analysis and pricing profiles, and the coercion of typed values.

  \<^item> A Python object is a value of \<open>pyv\<close>: a float is the decimal its \<open>str\<close> prints, a container is only
    its truth value. A dictionary is an association list; \<open>d[k]\<close> is \<open>field\<close> and \<open>d.get(k)\<close> is \<open>get_field\<close>.
  \<^item> A \<open>Decimal\<close> is a finite number, an infinity or a not-a-number; comparing with the latter raises
    \<open>InvalidOperation\<close>. Exponents beyond the range of the decimal library are not treated apart.
  \<^item> A Python set is the list of its elements in iteration order.
  \<^item> A \<open>CatalogValidationError\<close> carries its message; the two messages that print a decimal are
    constructors of their own.
\<close>

subsection \<open>Python values and decimals\<close>

datatype decimal = Finite dec | Infinite bool | NaN

datatype pyv = PNone | PBool bool | PInt int | PFloat decimal | PDec decimal | PStr string | POther bool

datatype catalog_error =
    CatalogValidationError string
  | BelowMinimum string decimal decimal
  | AboveMaximum string decimal decimal
  | InvalidOperation
  | AttributeError
  | KeyError string

type_synonym pydict = "(string \<times> pyv) list"

definition field :: "pydict \<Rightarrow> string \<Rightarrow> catalog_error + pyv" where
  "field d k = (case map_of d k of None \<Rightarrow> Inl (KeyError k) | Some v \<Rightarrow> Inr v)"

definition get_field :: "pydict \<Rightarrow> string \<Rightarrow> pyv" where
  "get_field d k = (case map_of d k of None \<Rightarrow> PNone | Some v \<Rightarrow> v)"

fun truthy :: "pyv \<Rightarrow> bool" where
  "truthy PNone = False"
| "truthy (PBool b) = b"
| "truthy (PInt i) = (i \<noteq> 0)"
| "truthy (PFloat d) = (case d of Finite (Dec m k) \<Rightarrow> m \<noteq> 0 | _ \<Rightarrow> True)"
| "truthy (PDec d) = (case d of Finite (Dec m k) \<Rightarrow> m \<noteq> 0 | _ \<Rightarrow> True)"
| "truthy (PStr s) = (s \<noteq> [])"
| "truthy (POther b) = b"

fun is_bool :: "pyv \<Rightarrow> bool" where
  "is_bool (PBool b) = True"
| "is_bool v = False"

text \<open>\<open>isinstance(v, str) and v.strip()\<close>, and \<open>str(v).strip()\<close> as a truth value.\<close>

fun nonblank_str :: "pyv \<Rightarrow> bool" where
  "nonblank_str (PStr s) = (py_strip s \<noteq> [])"
| "nonblank_str v = False"

fun nonblank_text :: "pyv \<Rightarrow> bool" where
  "nonblank_text (PStr s) = (py_strip s \<noteq> [])"
| "nonblank_text v = True"

fun join_with :: "string \<Rightarrow> string list \<Rightarrow> string" where
  "join_with sep [] = []"
| "join_with sep [x] = x"
| "join_with sep (x # xs) = x @ sep @ join_with sep xs"

definition fail :: "string \<Rightarrow> catalog_error + 'a" where
  "fail message = Inl (CatalogValidationError message)"

text \<open>The text an f-string prints of an object; those of floats, decimals and containers are not spelled out.\<close>

fun str_text :: "pyv \<Rightarrow> string" where
  "str_text PNone = ''None''"
| "str_text (PBool b) = (if b then ''True'' else ''False'')"
| "str_text (PInt i) = str_int i"
| "str_text (PStr s) = s"
| "str_text v = ''<object>''"

definition quoted :: "string \<Rightarrow> string" where
  "quoted s = CHR 0x27 # s @ [CHR 0x27]"

text \<open>A \<open>for\<close> loop whose body may raise.\<close>

fun fold_res :: "('a \<Rightarrow> 's \<Rightarrow> 'e + 's) \<Rightarrow> 'a list \<Rightarrow> 's \<Rightarrow> 'e + 's" where
  "fold_res f [] s = Inr s"
| "fold_res f (x # xs) s = bind_res (f x s) (fold_res f xs)"

lemma fold_res_invariant:
  assumes "fold_res f xs s = Inr s'" "P s" "\<And>x a b. x \<in> set xs \<Longrightarrow> P a \<Longrightarrow> f x a = Inr b \<Longrightarrow> P b"
  shows "P s'"
  using assms by (induction xs arbitrary: s) (auto simp: bind_res_eq_Inr)

lemma fold_res_each: "fold_res f xs s = Inr s' \<Longrightarrow> x \<in> set xs \<Longrightarrow> \<exists>a b. f x a = Inr b"
  by (induction xs arbitrary: s) (auto simp: bind_res_eq_Inr)

lemma fold_res_total:
  assumes "\<And>x a. x \<in> set xs \<Longrightarrow> \<exists>b. f x a = Inr b"
  shows "\<exists>s'. fold_res f xs s = Inr s'"
  using assms
proof (induction xs arbitrary: s)
  case (Cons x xs)
  obtain b where "f x s = Inr b" using Cons.prems [of x s] by auto
  with Cons show ?case by auto
qed simp

subsubsection \<open>\<open>Decimal(str(v))\<close>\<close>

definition is_digit :: "char \<Rightarrow> bool" where
  "is_digit c = (let n = (of_char c :: nat) in 48 \<le> n \<and> n \<le> 57)"

definition split_sign :: "string \<Rightarrow> bool \<times> string" where
  "split_sign s = (case s of c # r \<Rightarrow>
       if c = CHR ''-'' then (True, r) else if c = CHR ''+'' then (False, r) else (False, s)
     | [] \<Rightarrow> (False, []))"

definition scaled :: "int \<Rightarrow> nat \<Rightarrow> int \<Rightarrow> dec" where
  "scaled m k e = (if int k \<le> e then Dec (m * 10 ^ nat (e - int k)) 0 else Dec m (nat (int k - e)))"

definition exponent_of :: "string \<Rightarrow> int option" where
  "exponent_of s = (case split_sign s of (neg, ds) \<Rightarrow>
     if ds \<noteq> [] \<and> list_all is_digit ds then Some (if neg then - int (digits_value ds) else int (digits_value ds))
     else None)"

definition fraction_of :: "string \<Rightarrow> string \<times> string" where
  "fraction_of s = (case s of [] \<Rightarrow> ([], [])
     | c # r \<Rightarrow> if c = CHR ''.'' then (takeWhile is_digit r, dropWhile is_digit r) else ([], s))"

definition finite_of_text :: "string \<Rightarrow> dec option" where
  "finite_of_text s =
    (let ip = takeWhile is_digit s; (fp, rest) = fraction_of (dropWhile is_digit s);
         m = int (digits_value (ip @ fp))
     in if ip @ fp = [] then None
        else case rest of [] \<Rightarrow> Some (scaled m (length fp) 0)
          | c # r \<Rightarrow> if py_lower_char c = CHR ''e'' then map_option (scaled m (length fp)) (exponent_of r) else None)"

fun negate :: "dec \<Rightarrow> dec" where
  "negate (Dec m k) = Dec (- m) k"

definition decimal_of_text :: "string \<Rightarrow> decimal option" where
  "decimal_of_text text =
    (case split_sign (filter (\<lambda>c. c \<noteq> CHR ''_'') (py_strip text)) of (neg, s) \<Rightarrow>
       let l = py_lower s; tail = dropWhile is_digit (rev l)
       in if l = ''inf'' \<or> l = ''infinity'' then Some (Infinite neg)
          else if rev tail = ''nan'' \<or> rev tail = ''snan'' then Some NaN
          else map_option (\<lambda>d. Finite (if neg then negate d else d)) (finite_of_text s))"

fun decimal_of_object :: "pyv \<Rightarrow> decimal option" where
  "decimal_of_object (PInt i) = Some (Finite (Dec i 0))"
| "decimal_of_object (PFloat d) = Some d"
| "decimal_of_object (PDec d) = Some d"
| "decimal_of_object (PStr s) = decimal_of_text s"
| "decimal_of_object v = None"

fun decimal_less :: "decimal \<Rightarrow> decimal \<Rightarrow> bool" where
  "decimal_less (Finite a) (Finite b) = (\<not> dec_le b a)"
| "decimal_less (Finite a) (Infinite neg) = (\<not> neg)"
| "decimal_less (Infinite neg) (Finite b) = neg"
| "decimal_less (Infinite a) (Infinite b) = (a \<and> \<not> b)"
| "decimal_less _ _ = False"

text \<open>\<open>a < b\<close> and \<open>a <= b\<close> on decimals: an ordering with a not-a-number raises.\<close>

definition less_res :: "decimal \<Rightarrow> decimal \<Rightarrow> catalog_error + bool" where
  "less_res a b = (if a = NaN \<or> b = NaN then Inl InvalidOperation else Inr (decimal_less a b))"

definition le_res :: "decimal \<Rightarrow> decimal \<Rightarrow> catalog_error + bool" where
  "le_res a b = (if a = NaN \<or> b = NaN then Inl InvalidOperation else Inr (\<not> decimal_less b a))"

definition decimal_int :: "int \<Rightarrow> decimal" where
  "decimal_int i = Finite (Dec i 0)"

subsection \<open>Codes, names and enumerations\<close>

text \<open>\<open>CODE_PATTERN\<close>, \<open>[a-z0-9]+(?:[._-][a-z0-9]+)*\<close>, as the two-state automaton of the expression.\<close>

definition code_char :: "char \<Rightarrow> bool" where
  "code_char c = (let n = (of_char c :: nat) in (97 \<le> n \<and> n \<le> 122) \<or> (48 \<le> n \<and> n \<le> 57))"

definition code_separator :: "char \<Rightarrow> bool" where
  "code_separator c = (c \<in> set ''._-'')"

fun segment_start :: "string \<Rightarrow> bool" and in_segment :: "string \<Rightarrow> bool" where
  "segment_start [] = False"
| "segment_start (c # s) = (code_char c \<and> in_segment s)"
| "in_segment [] = True"
| "in_segment (c # s) = (if code_char c then in_segment s else code_separator c \<and> segment_start s)"

definition CODE_PATTERN :: "string \<Rightarrow> bool" where
  "CODE_PATTERN s = segment_start s"

definition normalize_machine_code :: "string \<Rightarrow> pyv \<Rightarrow> catalog_error + string" where
  "normalize_machine_code field_name value =
    (case value of
       PStr s \<Rightarrow>
         let normalized = py_lower (py_strip s)
         in if normalized = [] then fail (field_name @ '' is required.'')
            else if \<not> CODE_PATTERN normalized
              then fail (field_name @ '' must use lowercase machine-readable code format.'')
            else Inr normalized
     | _ \<Rightarrow> fail (field_name @ '' must be a string.''))"

definition normalize_slug :: "string \<Rightarrow> pyv \<Rightarrow> catalog_error + string" where
  "normalize_slug field_name value = normalize_machine_code field_name value"

definition normalize_optional_name :: "pyv \<Rightarrow> catalog_error + string option" where
  "normalize_optional_name value =
    (case value of
       PNone \<Rightarrow> Inr None
     | PStr s \<Rightarrow> Inr (let normalized = py_strip s in if normalized = [] then None else Some normalized)
     | _ \<Rightarrow> Inl AttributeError)"

definition normalize_enum :: "string \<Rightarrow> string list \<Rightarrow> pyv \<Rightarrow> catalog_error + string" where
  "normalize_enum field_name allowed value =
     bind_res (normalize_machine_code field_name value) (\<lambda>normalized.
       if normalized \<notin> set allowed
       then fail (field_name @ '' must be one of: '' @ join_with '', '' (sort allowed) @ ''.'')
       else Inr normalized)"

definition parse_decimal :: "string \<Rightarrow> pyv \<Rightarrow> catalog_error + decimal option" where
  "parse_decimal field_name value =
    (case value of
       PNone \<Rightarrow> Inr None
     | _ \<Rightarrow> (case decimal_of_object value of
         None \<Rightarrow> fail (field_name @ '' must be numeric.'')
       | Some d \<Rightarrow> Inr (Some d)))"

subsection \<open>The enumerations\<close>

definition WORK_TYPE_PARAMETER_DATA_TYPES :: "string list" where
  "WORK_TYPE_PARAMETER_DATA_TYPES = [''number'', ''text'', ''boolean'', ''option'']"

definition TENANT_PARAMETER_OVERRIDE_STATUSES :: "string list" where
  "TENANT_PARAMETER_OVERRIDE_STATUSES = [''inherited'', ''required'', ''optional'', ''hidden'']"

definition TENANT_EXTRA_PARAMETER_STATUSES :: "string list" where
  "TENANT_EXTRA_PARAMETER_STATUSES = [''active'', ''disabled'']"

definition PARAMETER_DEFINITION_SCOPES :: "string list" where
  "PARAMETER_DEFINITION_SCOPES = [''global'', ''tenant_extra'']"

definition PROJECT_WORK_ITEM_SOURCE_TYPES :: "string list" where
  "PROJECT_WORK_ITEM_SOURCE_TYPES =
    [''manual'', ''vision'', ''import'', ''imported'',
     ''system'', ''default'']"

definition ANALYSIS_PROFILE_TASK_TYPES :: "string list" where
  "ANALYSIS_PROFILE_TASK_TYPES = [''classification'', ''detection'', ''measurement'', ''hybrid'']"

definition ANALYSIS_PROFILE_STATUSES :: "string list" where
  "ANALYSIS_PROFILE_STATUSES = [''draft'', ''active'', ''deprecated'', ''archived'']"

definition ANALYSIS_PROFILE_OBJECT_ROLES :: "string list" where
  "ANALYSIS_PROFILE_OBJECT_ROLES = [''primary'', ''secondary'', ''context'']"

definition ANALYSIS_PROFILE_VALIDATION_RULE_TYPES :: "string list" where
  "ANALYSIS_PROFILE_VALIDATION_RULE_TYPES =
    [''min_photos'', ''required_attribute'', ''numeric_range'',
     ''confidence_gate'']"

definition ANALYSIS_PROFILE_VALIDATION_SEVERITIES :: "string list" where
  "ANALYSIS_PROFILE_VALIDATION_SEVERITIES = [''warning'', ''blocking'']"

definition ANALYSIS_PROFILE_FALLBACK_MODES :: "string list" where
  "ANALYSIS_PROFILE_FALLBACK_MODES = [''manual_review'', ''request_more_photos'', ''return_partial'']"

definition ANALYSIS_PROFILE_CONFIDENCE_ACTIONS :: "string list" where
  "ANALYSIS_PROFILE_CONFIDENCE_ACTIONS = [''manual_review'', ''drop_attribute'', ''fail_analysis'']"

definition ANALYSIS_PROFILE_MAPPING_TARGET_ENTITIES :: "string list" where
  "ANALYSIS_PROFILE_MAPPING_TARGET_ENTITIES =
    [''analysis_result'', ''project_work_item'', ''project_work_item_value'',
     ''vision_detection'']"

definition CATALOG_PRICING_PROFILE_STATUSES :: "string list" where
  "CATALOG_PRICING_PROFILE_STATUSES = [''draft'', ''active'', ''deprecated'', ''archived'']"

definition CATALOG_PRICING_BASES :: "string list" where
  "CATALOG_PRICING_BASES =
    [''area'', ''length'', ''count'', ''volume'', ''scope'',
     ''inspection'', ''service'', ''incident'']"

definition CATALOG_PRICING_STRATEGIES :: "string list" where
  "CATALOG_PRICING_STRATEGIES =
    [''tenant_pricebook'', ''catalog_formula'', ''fixed_formula'',
     ''manual_review'']"

definition LABOR_RATE_SOURCES :: "string list" where
  "LABOR_RATE_SOURCES = [''tenant_default'', ''catalog_default'', ''manual'']"

definition MATERIAL_PRICING_SOURCES :: "string list" where
  "MATERIAL_PRICING_SOURCES = [''tenant_pricebook'', ''catalog_default'', ''manual'']"

definition CATALOG_PRICING_REQUIRED_INPUT_SOURCES :: "string list" where
  "CATALOG_PRICING_REQUIRED_INPUT_SOURCES = [''parameter'', ''work_item_field'']"

definition CATALOG_PRICING_RULE_LINE_TYPES :: "string list" where
  "CATALOG_PRICING_RULE_LINE_TYPES = [''labor'', ''material'', ''other'']"

definition CATALOG_PRICING_RULE_CALCULATION_METHODS :: "string list" where
  "CATALOG_PRICING_RULE_CALCULATION_METHODS = [''per_unit'', ''fixed'']"

definition CATALOG_PRICING_RULE_QUANTITY_SOURCES :: "string list" where
  "CATALOG_PRICING_RULE_QUANTITY_SOURCES = [''parameter'', ''work_item_field'', ''constant'']"

definition CATALOG_PRICING_RULE_RATE_SOURCES :: "string list" where
  "CATALOG_PRICING_RULE_RATE_SOURCES =
    [''tenant_hourly_rate'', ''tenant_daily_rate'', ''catalog_unit_rate'',
     ''catalog_flat_rate'']"

definition CATALOG_PRICING_ADJUSTMENT_TARGET_SCOPES :: "string list" where
  "CATALOG_PRICING_ADJUSTMENT_TARGET_SCOPES = [''profile_total'', ''line_type'', ''base_rule'']"

definition CATALOG_PRICING_ADJUSTMENT_OPERATIONS :: "string list" where
  "CATALOG_PRICING_ADJUSTMENT_OPERATIONS = [''multiply'', ''add_flat'']"

definition CATALOG_PRICING_ADJUSTMENT_CONDITION_OPERATORS :: "string list" where
  "CATALOG_PRICING_ADJUSTMENT_CONDITION_OPERATORS = [''eq'', ''gte'', ''lte'', ''true'']"

definition CATALOG_PRICING_WORK_ITEM_FIELDS :: "string list" where
  "CATALOG_PRICING_WORK_ITEM_FIELDS = [''measured_quantity'', ''measured_unit'', ''item_sequence'']"

definition PARAMETER_SECTIONS :: "string list" where
  "PARAMETER_SECTIONS =
    [''dimensions'', ''materials'', ''condition_or_damage'', ''access_and_complexity'',
     ''quantity_scope'', ''optional_notes'']"

definition PARAMETER_SECTION_ORDER :: "(string \<times> int) list" where
  "PARAMETER_SECTION_ORDER =
    [(''dimensions'', 10), (''materials'', 20), (''condition_or_damage'', 30), (''access_and_complexity'', 40),
     (''quantity_scope'', 50), (''optional_notes'', 60)]"

definition PARAMETER_SECTION_LABELS :: "(string \<times> string) list" where
  "PARAMETER_SECTION_LABELS =
    [(''dimensions'', ''Dimensions''), (''materials'', ''Materials''), (''condition_or_damage'', ''Condition Or Damage''),
     (''access_and_complexity'', ''Access And Complexity''), (''quantity_scope'', ''Quantity And Scope''),
     (''optional_notes'', ''Optional Notes'')]"

definition TENANT_EXTRA_PARAMETER_CODE_PREFIX :: string where
  "TENANT_EXTRA_PARAMETER_CODE_PREFIX = ''tenant.''"

definition normalize_runtime_source_type :: "string \<Rightarrow> pyv \<Rightarrow> catalog_error + string" where
  "normalize_runtime_source_type field_name value =
     bind_res (normalize_enum field_name PROJECT_WORK_ITEM_SOURCE_TYPES value) (\<lambda>normalized.
       Inr (if normalized = ''import'' then ''imported''
            else if normalized = ''system'' then ''default''
            else normalized))"

definition section_sort_order :: "string option \<Rightarrow> int" where
  "section_sort_order section =
    (case map_of PARAMETER_SECTION_ORDER (case section of None \<Rightarrow> [] | Some s \<Rightarrow> s) of
       None \<Rightarrow> 9999 | Some n \<Rightarrow> n)"

subsection \<open>Typed values\<close>

text \<open>A bound that is not a number ends the check, the upper bound with it.\<close>

definition check_upper :: "string \<Rightarrow> decimal \<Rightarrow> pyv \<Rightarrow> catalog_error + unit" where
  "check_upper field_name value max_value =
    (if max_value = PNone then Inr ()
     else case decimal_of_object max_value of
       None \<Rightarrow> Inr ()
     | Some upper \<Rightarrow> bind_res (less_res upper value) (\<lambda>above.
         if above then Inl (AboveMaximum field_name upper value) else Inr ()))"

definition validate_number_bounds :: "string \<Rightarrow> pyv \<Rightarrow> pyv \<Rightarrow> decimal \<Rightarrow> catalog_error + unit" where
  "validate_number_bounds field_name min_value max_value value =
    (if min_value = PNone then check_upper field_name value max_value
     else case decimal_of_object min_value of
       None \<Rightarrow> Inr ()
     | Some lower \<Rightarrow> bind_res (less_res value lower) (\<lambda>below.
         if below then Inl (BelowMinimum field_name lower value) else check_upper field_name value max_value))"

definition validate_option_code :: "string \<Rightarrow> string list \<Rightarrow> string \<Rightarrow> catalog_error + unit" where
  "validate_option_code field_name allowed_codes option_code =
    (if option_code \<notin> set allowed_codes
     then fail (''Option '' @ quoted option_code @ '' is not valid for '' @ field_name @ ''. Allowed: '' @
       (if allowed_codes \<noteq> [] then join_with '', '' (sort allowed_codes) else ''<none defined>'') @ ''.'')
     else Inr ())"

record typed_value =
  value_text :: "string option"
  value_number :: "decimal option"
  value_boolean :: pyv
  value_option_code :: "string option"

record value_input =
  in_text :: pyv
  in_number :: pyv
  in_boolean :: pyv
  in_option :: pyv

text \<open>The type rules of \<open>coerce_parameter_value\<close>, in its order.\<close>

definition typed_value_error :: "string \<Rightarrow> typed_value \<Rightarrow> string option" where
  "typed_value_error t v =
    (let has_text = value_text v \<noteq> None; has_number = value_number v \<noteq> None;
         has_boolean = value_boolean v \<noteq> PNone; has_option = value_option_code v \<noteq> None
     in if length (filter id [has_text, has_number, has_boolean, has_option]) \<noteq> 1
          then Some ''Exactly one typed parameter value must be provided.''
        else if t = ''text'' \<and> \<not> has_text then Some ''textValue is required for text parameters.''
        else if t = ''number'' \<and> \<not> has_number then Some ''numberValue is required for number parameters.''
        else if t = ''boolean'' \<and> \<not> has_boolean then Some ''booleanValue is required for boolean parameters.''
        else if t = ''option'' \<and> \<not> has_option then Some ''optionValue is required for option parameters.''
        else if t \<noteq> ''text'' \<and> has_text then Some ''textValue can only be used for text parameters.''
        else if t \<noteq> ''number'' \<and> has_number then Some ''numberValue can only be used for number parameters.''
        else if t \<noteq> ''boolean'' \<and> has_boolean then Some ''booleanValue can only be used for boolean parameters.''
        else if t \<noteq> ''option'' \<and> has_option then Some ''optionValue can only be used for option parameters.''
        else None)"

definition option_input :: "pyv \<Rightarrow> catalog_error + string option" where
  "option_input v =
    (if v \<noteq> PNone then map_sum id Some (normalize_machine_code ''optionValue'' v) else Inr None)"

text \<open>The bounds of a number and the whitelist of an option, its last two checks.\<close>

definition check_typed_value ::
  "string \<Rightarrow> string \<Rightarrow> pyv \<Rightarrow> pyv \<Rightarrow> string list option \<Rightarrow> typed_value \<Rightarrow> catalog_error + unit" where
  "check_typed_value parameter_code t min_number_value max_number_value allowed_option_codes v =
     bind_res (if t = ''number'' then
                 (case value_number v of None \<Rightarrow> Inr ()
                  | Some n \<Rightarrow> validate_number_bounds parameter_code min_number_value max_number_value n)
               else Inr ()) (\<lambda>_.
       if t = ''option'' then
         (case (value_option_code v, allowed_option_codes) of
            (Some c, Some codes) \<Rightarrow> validate_option_code parameter_code codes c
          | _ \<Rightarrow> Inr ())
       else Inr ())"

definition coerce_parameter_value ::
  "string \<Rightarrow> pyv \<Rightarrow> value_input \<Rightarrow> pyv \<Rightarrow> pyv \<Rightarrow> string list option \<Rightarrow> catalog_error + typed_value" where
  "coerce_parameter_value parameter_code data_type inp min_number_value max_number_value allowed_option_codes =
     bind_res (normalize_enum ''data_type'' WORK_TYPE_PARAMETER_DATA_TYPES data_type) (\<lambda>t.
     bind_res (normalize_optional_name (in_text inp)) (\<lambda>text.
     bind_res (parse_decimal ''numberValue'' (in_number inp)) (\<lambda>number.
     bind_res (option_input (in_option inp)) (\<lambda>option.
       let v = \<lparr>value_text = text, value_number = number, value_boolean = in_boolean inp, value_option_code = option\<rparr>
       in case typed_value_error t v of
            Some message \<Rightarrow> fail message
          | None \<Rightarrow> bind_res
              (check_typed_value parameter_code t min_number_value max_number_value allowed_option_codes v) (\<lambda>_. Inr v)))))"

subsection \<open>Parameter definitions\<close>

record parameter_definition =
  pd_code :: pyv
  pd_slug :: pyv
  pd_label :: pyv
  pd_data_type :: pyv
  pd_unit :: pyv
  pd_section :: pyv
  pd_min :: pyv
  pd_max :: pyv
  pd_vision_extractable :: pyv
  pd_manual_override_allowed :: pyv
  pd_defaults :: value_input
  pd_option_codes :: "pyv list"

fun map_res :: "('a \<Rightarrow> 'e + 'b) \<Rightarrow> 'a list \<Rightarrow> 'e + 'b list" where
  "map_res f [] = Inr []"
| "map_res f (x # xs) = bind_res (f x) (\<lambda>y. bind_res (map_res f xs) (\<lambda>ys. Inr (y # ys)))"

definition decimal_object :: "decimal option \<Rightarrow> pyv" where
  "decimal_object d = (case d of None \<Rightarrow> PNone | Some x \<Rightarrow> PDec x)"

definition check_label_and_flags :: "string \<Rightarrow> parameter_definition \<Rightarrow> catalog_error + string" where
  "check_label_and_flags code p =
    (if \<not> nonblank_str (pd_label p) then fail (''label is required for parameter '' @ quoted code @ ''.'')
     else bind_res (normalize_enum ''dataType'' WORK_TYPE_PARAMETER_DATA_TYPES (pd_data_type p)) (\<lambda>t.
       if pd_section p = PNone then fail (''section is required for parameter '' @ quoted code @ ''.'')
       else bind_res (normalize_enum ''section'' PARAMETER_SECTIONS (pd_section p)) (\<lambda>_.
         if \<not> is_bool (pd_vision_extractable p)
           then fail (''visionExtractable must be boolean for parameter '' @ quoted code @ ''.'')
         else if \<not> is_bool (pd_manual_override_allowed p)
           then fail (''manualOverrideAllowed must be boolean for parameter '' @ quoted code @ ''.'')
         else Inr t)))"

definition bounds_crossed :: "decimal option \<Rightarrow> decimal option \<Rightarrow> catalog_error + bool" where
  "bounds_crossed lower upper = (case (lower, upper) of (Some a, Some b) \<Rightarrow> less_res b a | _ \<Rightarrow> Inr False)"

definition unit_error :: "string \<Rightarrow> string \<Rightarrow> pyv \<Rightarrow> bool \<Rightarrow> string option" where
  "unit_error code t unit bounded =
    (if t = ''number'' then
       if \<not> truthy unit then Some (''unit is required for number parameter '' @ quoted code @ ''.'') else None
     else if unit \<noteq> PNone then Some (''unit must be null for non-number parameter '' @ quoted code @ ''.'')
     else if bounded then Some (''min/max bounds can only be used on number parameter '' @ quoted code @ ''.'')
     else None)"

definition options_error :: "string \<Rightarrow> string \<Rightarrow> string list \<Rightarrow> string option" where
  "options_error code t options =
    (if t = ''option'' \<and> options = [] then Some (''Option parameter '' @ quoted code @ '' must define enum options.'')
     else if t \<noteq> ''option'' \<and> options \<noteq> [] then Some (''Only option parameters can define enum options: '' @ quoted code @ ''.'')
     else None)"

definition check_defaults ::
  "string \<Rightarrow> string \<Rightarrow> value_input \<Rightarrow> decimal option \<Rightarrow> decimal option \<Rightarrow> string list \<Rightarrow> catalog_error + unit" where
  "check_defaults code t d lower upper options =
    (if in_text d \<noteq> PNone \<or> in_number d \<noteq> PNone \<or> in_boolean d \<noteq> PNone \<or> in_option d \<noteq> PNone
     then map_sum id (\<lambda>_. ()) (coerce_parameter_value code (PStr t) d (decimal_object lower) (decimal_object upper)
            (if options = [] then None else Some options))
     else Inr ())"

definition validate_parameter_definition :: "parameter_definition \<Rightarrow> catalog_error + unit" where
  "validate_parameter_definition p =
     bind_res (normalize_machine_code ''parameterCode'' (pd_code p)) (\<lambda>code.
     bind_res (normalize_slug ''slug'' (pd_slug p)) (\<lambda>_.
     bind_res (check_label_and_flags code p) (\<lambda>t.
     bind_res (parse_decimal ''minNumberValue'' (pd_min p)) (\<lambda>lower.
     bind_res (parse_decimal ''maxNumberValue'' (pd_max p)) (\<lambda>upper.
     bind_res (bounds_crossed lower upper) (\<lambda>crossed.
       if crossed then fail (''minNumberValue cannot be greater than maxNumberValue for parameter '' @ quoted code @ ''.'')
       else case unit_error code t (pd_unit p) (lower \<noteq> None \<or> upper \<noteq> None) of
         Some message \<Rightarrow> fail message
       | None \<Rightarrow>
           bind_res (map_res (normalize_machine_code ''optionCode'') (pd_option_codes p)) (\<lambda>options.
             case options_error code t options of
               Some message \<Rightarrow> fail message
             | None \<Rightarrow> check_defaults code t (pd_defaults p) lower upper options)))))))"

definition starts_with :: "string \<Rightarrow> string \<Rightarrow> bool" where
  "starts_with prefix s = (take (length prefix) s = prefix)"

definition validate_tenant_extra_parameter_definition ::
  "parameter_definition \<Rightarrow> pyv \<Rightarrow> pyv \<Rightarrow> catalog_error + unit" where
  "validate_tenant_extra_parameter_definition p is_required status =
     bind_res (normalize_machine_code ''parameterCode'' (pd_code p)) (\<lambda>code.
     bind_res (normalize_slug ''slug'' (pd_slug p)) (\<lambda>slug.
     bind_res (normalize_enum ''status'' TENANT_EXTRA_PARAMETER_STATUSES status) (\<lambda>st.
       if \<not> starts_with TENANT_EXTRA_PARAMETER_CODE_PREFIX code
         then fail (''Tenant extra parameter '' @ quoted code @ '' must start with '' @ quoted TENANT_EXTRA_PARAMETER_CODE_PREFIX @ ''.'')
       else if \<not> starts_with TENANT_EXTRA_PARAMETER_CODE_PREFIX slug
         then fail (''Tenant extra parameter slug '' @ quoted slug @ '' must start with '' @ quoted TENANT_EXTRA_PARAMETER_CODE_PREFIX @ ''.'')
       else if \<not> is_bool is_required then fail (''isRequired must be boolean for parameter '' @ quoted code @ ''.'')
       else if st = ''disabled'' \<and> truthy (pd_vision_extractable p)
         then fail (''Disabled tenant extra parameter '' @ quoted code @ '' cannot be vision extractable.'')
       else if truthy (pd_vision_extractable p)
         then fail (''Tenant extra parameter '' @ quoted code @
                '' cannot be vision extractable until tenant analysis mappings are versioned.'')
       else validate_parameter_definition (p\<lparr>pd_code := PStr code, pd_slug := PStr slug\<rparr>))))"

record resolved_contract =
  rc_scope :: pyv
  rc_effective_label :: pyv
  rc_required :: pyv
  rc_enabled :: pyv
  rc_override_status :: pyv
  rc_definition :: parameter_definition

definition override_error :: "string \<Rightarrow> string option \<Rightarrow> bool \<Rightarrow> bool \<Rightarrow> string option" where
  "override_error code status required enabled =
    (if status = Some ''hidden'' \<and> enabled then Some (''Hidden parameter '' @ quoted code @ '' cannot resolve as enabled.'')
     else if status \<noteq> Some ''hidden'' \<and> \<not> enabled then Some (''Visible parameter '' @ quoted code @ '' cannot resolve as disabled.'')
     else if status = Some ''required'' \<and> \<not> required then Some (''Required override for parameter '' @ quoted code @ '' must resolve as required.'')
     else if status = Some ''optional'' \<and> required then Some (''Optional override for parameter '' @ quoted code @ '' must resolve as optional.'')
     else None)"

definition check_global_contract :: "resolved_contract \<Rightarrow> catalog_error + unit" where
  "check_global_contract c =
     bind_res (if rc_override_status c \<noteq> PNone
               then map_sum id Some (normalize_enum ''overrideStatus'' TENANT_PARAMETER_OVERRIDE_STATUSES (rc_override_status c))
               else Inr None) (\<lambda>status.
     bind_res (validate_parameter_definition (rc_definition c)) (\<lambda>_.
       case override_error (str_text (pd_code (rc_definition c))) status (truthy (rc_required c)) (truthy (rc_enabled c)) of
         Some message \<Rightarrow> fail message
       | None \<Rightarrow> Inr ()))"

definition check_tenant_contract :: "resolved_contract \<Rightarrow> catalog_error + unit" where
  "check_tenant_contract c =
     bind_res (normalize_enum ''status'' TENANT_EXTRA_PARAMETER_STATUSES
                 (if truthy (rc_override_status c) then rc_override_status c else PStr ''active'')) (\<lambda>status.
     bind_res (validate_tenant_extra_parameter_definition (rc_definition c) (rc_required c) (PStr status)) (\<lambda>_.
       if truthy (rc_enabled c) \<noteq> (status = ''active'')
       then fail (''Tenant extra parameter '' @ quoted (str_text (pd_code (rc_definition c))) @
              '' resolved enabled state does not match status '' @ quoted status @ ''.'')
       else Inr ()))"

definition validate_resolved_parameter_contract :: "resolved_contract \<Rightarrow> catalog_error + unit" where
  "validate_resolved_parameter_contract c =
     bind_res (normalize_enum ''parameterScope'' PARAMETER_DEFINITION_SCOPES (rc_scope c)) (\<lambda>scope.
     bind_res (normalize_optional_name (rc_effective_label c)) (\<lambda>label.
       let code = quoted (str_text (pd_code (rc_definition c)))
       in if label = None then fail (''effectiveLabel is required for parameter '' @ code @ ''.'')
       else if \<not> is_bool (rc_required c) then fail (''required must be boolean for parameter '' @ code @ ''.'')
       else if \<not> is_bool (rc_enabled c) then fail (''enabled must be boolean for parameter '' @ code @ ''.'')
       else if scope = ''global'' then check_global_contract c
       else check_tenant_contract c))"

definition coerce_analysis_attribute_value :: "string \<Rightarrow> pyv \<Rightarrow> pyv \<Rightarrow> catalog_error + pyv" where
  "coerce_analysis_attribute_value field_name data_type value =
     bind_res (normalize_enum ''dataType'' WORK_TYPE_PARAMETER_DATA_TYPES data_type) (\<lambda>t.
       if value = PNone then fail (field_name @ '' is required.'')
       else if t = ''number'' then map_sum id decimal_object (parse_decimal field_name value)
       else if t = ''boolean'' then
         if is_bool value then Inr value else fail (field_name @ '' must be boolean.'')
       else if t = ''text'' then
         bind_res (normalize_optional_name value) (\<lambda>name.
           case name of None \<Rightarrow> fail (field_name @ '' must be a non-empty string.'') | Some n \<Rightarrow> Inr (PStr n))
       else map_sum id PStr (normalize_machine_code field_name value))"

subsection \<open>The codes are a regular language\<close>

text \<open>The language of the expression: segments of letters and digits joined by single separators.\<close>

inductive code_text :: "string \<Rightarrow> bool" where
  segment: "t \<noteq> [] \<Longrightarrow> list_all code_char t \<Longrightarrow> code_text t"
| joined: "t \<noteq> [] \<Longrightarrow> list_all code_char t \<Longrightarrow> code_separator c \<Longrightarrow> code_text s \<Longrightarrow> code_text (t @ c # s)"

lemma separator_not_code: "code_separator c \<Longrightarrow> \<not> code_char c"
  by (auto simp: code_separator_def code_char_def)

lemma automaton_accepts_only_codes:
  "segment_start s \<Longrightarrow> code_text s"
  "in_segment s \<Longrightarrow> t \<noteq> [] \<Longrightarrow> list_all code_char t \<Longrightarrow> code_text (t @ s)"
proof (induction s and s arbitrary: and t rule: segment_start_in_segment.induct)
  case (2 c s)
  then show ?case using "2.IH" [of "[c]"] by simp
next
  case (3 t)
  then show ?case by (simp add: segment)
next
  case (4 c s t)
  show ?case
  proof (cases "code_char c")
    case True
    with 4 show ?thesis using "4.IH"(1) [of "t @ [c]"] by simp
  next
    case False
    with 4 show ?thesis by (simp add: joined)
  qed
qed simp

lemma in_segment_append: "list_all code_char t \<Longrightarrow> in_segment (t @ s) = in_segment s"
  by (induction t) simp_all

lemma CODE_PATTERN_language: "CODE_PATTERN s \<longleftrightarrow> code_text s"
proof
  show "code_text s" if "CODE_PATTERN s" using that automaton_accepts_only_codes(1) by (simp add: CODE_PATTERN_def)
  show "CODE_PATTERN s" if "code_text s"
    using that unfolding CODE_PATTERN_def
  proof induction
    case (segment t)
    then show ?case using in_segment_append [of "tl t" "[]"] by (cases t) simp_all
  next
    case (joined t c s)
    then show ?case using in_segment_append [of "tl t" "c # s"] by (cases t) (simp_all add: separator_not_code)
  qed
qed

definition code_letter :: "char \<Rightarrow> bool" where
  "code_letter c \<longleftrightarrow> code_char c \<or> code_separator c"

lemma code_text_letters: "code_text s \<Longrightarrow> s \<noteq> [] \<and> list_all code_letter s"
  by (induction rule: code_text.induct) (auto simp: list_all_iff code_letter_def)

lemma code_letter_plain: "code_letter c \<Longrightarrow> \<not> py_isspace c \<and> py_lower_char c = c"
  by (auto simp: code_letter_def code_char_def code_separator_def py_isspace_def py_lower_char_def Let_def)

lemma code_text_normal:
  assumes "code_text s"
  shows "py_strip s = s" "py_lower s = s"
proof -
  have letters: "list_all code_letter s" using code_text_letters [OF assms] by blast
  then have "dropWhile py_isspace s = s" "dropWhile py_isspace (rev s) = rev s"
    by (auto simp: list_all_iff dropWhile_eq_self_iff code_letter_plain hd_rev)
  then show "py_strip s = s" by (simp add: py_strip_def py_lstrip_def)
  show "py_lower s = s" using letters by (simp add: py_lower_def list_all_iff code_letter_plain map_idI)
qed

subsection \<open>Normal forms\<close>

lemma fail_not_Inr [simp]: "fail m \<noteq> Inr x" "Inr x \<noteq> fail m"
  by (simp_all add: fail_def)

lemma normalize_machine_code_Inr:
  "normalize_machine_code f v = Inr c \<longleftrightarrow> (\<exists>s. v = PStr s \<and> c = py_lower (py_strip s) \<and> code_text c)"
  using code_text_letters
  by (auto simp: normalize_machine_code_def Let_def CODE_PATTERN_language split: pyv.splits)

lemma normalize_machine_code_stable: "code_text c \<Longrightarrow> normalize_machine_code f (PStr c) = Inr c"
  by (simp add: normalize_machine_code_Inr code_text_normal)

lemma normalize_machine_code_code: "normalize_machine_code f v = Inr c \<Longrightarrow> code_text c"
  by (auto simp add: normalize_machine_code_Inr)

lemma normalize_enum_Inr:
  "normalize_enum f allowed v = Inr c \<longleftrightarrow> normalize_machine_code f v = Inr c \<and> c \<in> set allowed"
  by (auto simp: normalize_enum_def bind_res_eq_Inr)

lemma normalize_optional_name_Inr:
  "normalize_optional_name v = Inr x \<longleftrightarrow>
     (v = PNone \<and> x = None) \<or> (\<exists>s. v = PStr s \<and> x = (if py_strip s = [] then None else Some (py_strip s)))"
  by (auto simp: normalize_optional_name_def Let_def split: pyv.splits)

lemma parse_decimal_Inr:
  "parse_decimal f v = Inr x \<longleftrightarrow> (v = PNone \<and> x = None) \<or> (\<exists>d. v \<noteq> PNone \<and> decimal_of_object v = Some d \<and> x = Some d)"
  by (cases v) (auto simp: parse_decimal_def split: option.splits)

text \<open>The accepted codes are exactly the strings of the pattern: normalising a text succeeds with a code
  if and only if that code is the text stripped and lowered and is a word of the language of segments joined by
  single separators. A code is its own normal form, so normalising again, in any field, changes nothing.\<close>

theorem machine_codes_are_the_language:
  "(normalize_machine_code f (PStr s) = Inr c \<longleftrightarrow> c = py_lower (py_strip s) \<and> code_text c) \<and>
   (normalize_machine_code f v = Inr c \<longrightarrow> normalize_machine_code g (PStr c) = Inr c)"
  using normalize_machine_code_stable normalize_machine_code_code
  by (auto simp: normalize_machine_code_Inr)

lemma machine_codes_are_the_language_witness:
  "normalize_machine_code ''code'' (PStr '' Roof-Repair '') = Inr ''roof-repair'' \<and>
   normalize_machine_code ''slug'' (PStr ''roof-repair'') = Inr ''roof-repair''"
proof -
  have "normalize_machine_code ''code'' (PStr '' Roof-Repair '') = Inr ''roof-repair''" by code_simp
  then show ?thesis
    using machine_codes_are_the_language [of "''code''" "[]" "''roof-repair''" "PStr '' Roof-Repair ''" "''slug''"] by blast
qed

subsection \<open>Coerced values\<close>

definition within_bounds :: "pyv \<Rightarrow> pyv \<Rightarrow> decimal \<Rightarrow> bool" where
  "within_bounds mn mx n \<longleftrightarrow>
     (\<forall>lo. mn \<noteq> PNone \<longrightarrow> decimal_of_object mn = Some lo \<longrightarrow> n \<noteq> NaN \<and> \<not> decimal_less n lo) \<and>
     (\<forall>hi. mx \<noteq> PNone \<longrightarrow> (mn = PNone \<or> decimal_of_object mn \<noteq> None) \<longrightarrow> decimal_of_object mx = Some hi \<longrightarrow>
        n \<noteq> NaN \<and> \<not> decimal_less hi n)"

lemma validate_number_bounds_Inr: "validate_number_bounds f mn mx n = Inr u \<longleftrightarrow>
   within_bounds mn mx n \<and>
   (mn \<noteq> PNone \<longrightarrow> decimal_of_object mn \<noteq> Some NaN) \<and>
   (mx \<noteq> PNone \<longrightarrow> (mn = PNone \<or> decimal_of_object mn \<noteq> None) \<longrightarrow> decimal_of_object mx \<noteq> Some NaN)"
  by (auto simp: validate_number_bounds_def check_upper_def within_bounds_def less_res_def bind_res_eq_Inr
      split: option.splits if_splits)

lemma typed_value_error_None:
  "typed_value_error t v = None \<longleftrightarrow>
     (value_text v \<noteq> None \<longleftrightarrow> t = ''text'') \<and> (value_number v \<noteq> None \<longleftrightarrow> t = ''number'') \<and>
     (value_boolean v \<noteq> PNone \<longleftrightarrow> t = ''boolean'') \<and> (value_option_code v \<noteq> None \<longleftrightarrow> t = ''option'') \<and>
     (t = ''text'' \<or> t = ''number'' \<or> t = ''boolean'' \<or> t = ''option'')"
  by (auto simp: typed_value_error_def Let_def split: if_splits)

lemma option_input_Inr: "option_input v = Inr x \<longleftrightarrow>
   (v = PNone \<and> x = None) \<or> (\<exists>c. v \<noteq> PNone \<and> normalize_machine_code ''optionValue'' v = Inr c \<and> x = Some c)"
  by (auto simp: option_input_def map_sum_eq_Inr)

lemma check_typed_value_Inr: "check_typed_value p t mn mx codes v = Inr u \<longleftrightarrow>
   (\<forall>n. t = ''number'' \<longrightarrow> value_number v = Some n \<longrightarrow> validate_number_bounds p mn mx n = Inr ()) \<and>
   (\<forall>c cs. t = ''option'' \<longrightarrow> value_option_code v = Some c \<longrightarrow> codes = Some cs \<longrightarrow> c \<in> set cs)"
  by (cases "value_number v"; cases "value_option_code v"; cases codes)
     (auto simp: check_typed_value_def validate_option_code_def bind_res_eq_Inr)

lemma coerce_parameter_value_Inr:
  "coerce_parameter_value p dt inp mn mx codes = Inr v \<longleftrightarrow>
     (\<exists>t. normalize_enum ''data_type'' WORK_TYPE_PARAMETER_DATA_TYPES dt = Inr t \<and>
        normalize_optional_name (in_text inp) = Inr (value_text v) \<and>
        parse_decimal ''numberValue'' (in_number inp) = Inr (value_number v) \<and>
        value_boolean v = in_boolean inp \<and> option_input (in_option inp) = Inr (value_option_code v) \<and>
        typed_value_error t v = None \<and> check_typed_value p t mn mx codes v = Inr ())"
  (is "?lhs \<longleftrightarrow> ?rhs")
proof
  assume ?lhs
  then show ?rhs
    by (auto simp: coerce_parameter_value_def bind_res_eq_Inr Let_def split: option.splits)
next
  assume ?rhs
  then obtain t where checks: "normalize_enum ''data_type'' WORK_TYPE_PARAMETER_DATA_TYPES dt = Inr t"
    "normalize_optional_name (in_text inp) = Inr (value_text v)"
    "parse_decimal ''numberValue'' (in_number inp) = Inr (value_number v)"
    "option_input (in_option inp) = Inr (value_option_code v)"
    "typed_value_error t v = None" "check_typed_value p t mn mx codes v = Inr ()"
    and boolean: "value_boolean v = in_boolean inp" by blast
  have "\<lparr>value_text = value_text v, value_number = value_number v,
      value_boolean = in_boolean inp, value_option_code = value_option_code v\<rparr> = v" using boolean by simp
  then show ?lhs by (simp add: coerce_parameter_value_def Let_def checks)
qed

text \<open>The columns of a parameter value: \<open>Numeric(18, 4)\<close> rounds a number to four decimals and refuses one with more
  than fourteen digits before the point or an infinite one, \<open>String(64)\<close> refuses a longer code, a text column the
  character zero, and the driver anything but a boolean in a boolean column. \<open>None\<close> is a refused statement.\<close>

fun numeric_18_4 :: "decimal \<Rightarrow> decimal option" where
  "numeric_18_4 (Finite x) =
     (case dec_quantize 4 x of Dec q k \<Rightarrow> if \<bar>q\<bar> < 10 ^ 18 then Some (Finite (Dec q k)) else None)"
| "numeric_18_4 (Infinite neg) = None"
| "numeric_18_4 NaN = Some NaN"

definition store_value :: "typed_value \<Rightarrow> typed_value option" where
  "store_value v =
    (if (case value_text v of None \<Rightarrow> False | Some s \<Rightarrow> CHR 0x00 \<in> set s) \<or> (value_boolean v \<noteq> PNone \<and> \<not> is_bool (value_boolean v)) \<or>
        (case value_option_code v of None \<Rightarrow> False | Some c \<Rightarrow> length c > 64) then None
     else (case value_number v of
             None \<Rightarrow> Some v
           | Some n \<Rightarrow> map_option (\<lambda>x. v\<lparr>value_number := Some x\<rparr>) (numeric_18_4 n)))"

text \<open>The columns as the input of the next coercion.\<close>

definition stored_input :: "typed_value \<Rightarrow> value_input" where
  "stored_input v =
     \<lparr>in_text = (case value_text v of None \<Rightarrow> PNone | Some s \<Rightarrow> PStr s), in_number = decimal_object (value_number v),
      in_boolean = value_boolean v, in_option = (case value_option_code v of None \<Rightarrow> PNone | Some c \<Rightarrow> PStr c)\<rparr>"

text \<open>A bound as its own \<open>Numeric(18, 4)\<close> column gives it.\<close>

definition column_bound :: "pyv \<Rightarrow> bool" where
  "column_bound b \<longleftrightarrow> b = PNone \<or> (\<exists>d. b = PDec d \<and> numeric_18_4 d = Some d)"

lemma dec_quantize_near:
  assumes "dec_quantize p (Dec m k) = Dec q l"
  shows "l = p" "if k \<le> p then q * 10 ^ k = m * 10 ^ p else 2 * \<bar>q * 10 ^ k - m * 10 ^ p\<bar> \<le> 10 ^ k"
proof -
  show "l = p" using assms by (simp split: if_splits)
  show "if k \<le> p then q * 10 ^ k = m * 10 ^ p else 2 * \<bar>q * 10 ^ k - m * 10 ^ p\<bar> \<le> 10 ^ k"
  proof (cases "k \<le> p")
    case True
    then have "(10::int) ^ p = 10 ^ (p - k) * 10 ^ k" by (simp flip: power_add)
    with True assms show ?thesis by auto
  next
    case False
    then have k: "(10::int) ^ k = 10 ^ (k - p) * 10 ^ p" by (simp flip: power_add)
    have q: "q = round_half_up m (10 ^ (k - p))" using False assms by auto
    have "2 * \<bar>q * 10 ^ (k - p) - m\<bar> \<le> 10 ^ (k - p)" unfolding q by (rule round_half_up_near) simp
    then have "2 * \<bar>q * 10 ^ (k - p) - m\<bar> * 10 ^ p \<le> 10 ^ (k - p) * 10 ^ p" by simp
    moreover have "\<bar>q * 10 ^ (k - p) - m\<bar> * 10 ^ p = \<bar>q * 10 ^ k - m * 10 ^ p\<bar>"
    proof -
      have "q * 10 ^ k - m * 10 ^ p = (q * 10 ^ (k - p) - m) * 10 ^ p" by (simp add: k left_diff_distrib)
      then show ?thesis by (simp add: abs_mult)
    qed
    ultimately have "2 * \<bar>q * 10 ^ k - m * 10 ^ p\<bar> \<le> 10 ^ (k - p) * 10 ^ p" by (simp only: mult.assoc)
    with False show ?thesis unfolding k [symmetric] by simp
  qed
qed

lemma half_abs: "0 < (b::int) \<Longrightarrow> 2 * \<bar>x - y\<bar> \<le> b \<Longrightarrow> y - x < b \<and> x - y < b"
  by (cases "x \<le> y") auto

text \<open>Rounding does not cross a bound that has the precision of the column.\<close>

lemma dec_quantize_bound:
  assumes "dec_quantize 4 (Dec m k) = Dec q l"
  shows "dec_le (Dec a 4) (Dec m k) \<Longrightarrow> dec_le (Dec a 4) (Dec q l)" "dec_le (Dec m k) (Dec a 4) \<Longrightarrow> dec_le (Dec q l) (Dec a 4)"
proof -
  note near = dec_quantize_near [OF assms]
  have "0 < (10::int) ^ k" "2 * \<bar>q * 10 ^ k - m * 10 ^ 4\<bar> \<le> 10 ^ k" using near(2) by (simp_all split: if_splits)
  then have close: "m * 10 ^ 4 - q * 10 ^ k < 10 ^ k" "q * 10 ^ k - m * 10 ^ 4 < 10 ^ k" 
    using half_abs by blast+
  have up: "a \<le> q" if "a * 10 ^ k \<le> m * 10 ^ 4"
  proof (rule ccontr)
    assume "\<not> a \<le> q"
    then have "(q + 1) * 10 ^ k \<le> a * 10 ^ k" by simp
    with that close show False by (simp add: distrib_right)
  qed
  have down: "q \<le> a" if "m * 10 ^ 4 \<le> a * 10 ^ k"
  proof (rule ccontr)
    assume "\<not> q \<le> a"
    then have "(a + 1) * 10 ^ k \<le> q * 10 ^ k" by simp
    with that close show False by (simp add: distrib_right)
  qed
  show "dec_le (Dec a 4) (Dec m k) \<Longrightarrow> dec_le (Dec a 4) (Dec q l)" "dec_le (Dec m k) (Dec a 4) \<Longrightarrow> dec_le (Dec q l) (Dec a 4)"
    using up down by (simp_all add: near(1))
qed

lemma coerced_value_text:
  "coerce_parameter_value p dt inp mn mx codes = Inr v \<Longrightarrow> value_text v = Some s \<Longrightarrow> s \<noteq> [] \<and> py_strip s = s"
  by (auto simp: coerce_parameter_value_Inr normalize_optional_name_Inr split: if_splits)

lemma coerced_value_option:
  "coerce_parameter_value p dt inp mn mx codes = Inr v \<Longrightarrow> value_option_code v = Some c \<Longrightarrow> code_text c"
  by (auto simp: coerce_parameter_value_Inr option_input_Inr normalize_machine_code_Inr)

text \<open>C22: A coerced value has exactly the one column of its data type filled: a text that is not blank and is
  stripped, a number, a boolean column that is not null, or an option code in normal form that the whitelist, where there
  is one, contains. The number is at least the lower bound, where that reads as a number, and at most the upper bound,
  where that does and the lower bound is absent or reads as a number too: a lower bound that is given but is no number
  switches the check of the upper bound off.\<close>

theorem coerced_value_is_typed:
  assumes "coerce_parameter_value p dt inp mn mx codes = Inr v"
  shows "\<exists>t \<in> set WORK_TYPE_PARAMETER_DATA_TYPES. normalize_enum ''data_type'' WORK_TYPE_PARAMETER_DATA_TYPES dt = Inr t \<and>
    (value_text v \<noteq> None \<longleftrightarrow> t = ''text'') \<and> (value_number v \<noteq> None \<longleftrightarrow> t = ''number'') \<and>
    (value_boolean v \<noteq> PNone \<longleftrightarrow> t = ''boolean'') \<and> (value_option_code v \<noteq> None \<longleftrightarrow> t = ''option'') \<and>
    (\<forall>s. value_text v = Some s \<longrightarrow> s \<noteq> [] \<and> py_strip s = s) \<and>
    (\<forall>n. value_number v = Some n \<longrightarrow> within_bounds mn mx n) \<and>
    (\<forall>c. value_option_code v = Some c \<longrightarrow> code_text c \<and> (\<forall>cs. codes = Some cs \<longrightarrow> c \<in> set cs))"
proof -
  from assms obtain t where t: "normalize_enum ''data_type'' WORK_TYPE_PARAMETER_DATA_TYPES dt = Inr t"
    and typed: "typed_value_error t v = None" and checked: "check_typed_value p t mn mx codes v = Inr ()"
    by (auto simp: coerce_parameter_value_Inr)
  have "t \<in> set WORK_TYPE_PARAMETER_DATA_TYPES" using t by (simp add: normalize_enum_Inr)
  note columns = typed [unfolded typed_value_error_None]
  have number: "value_number v \<noteq> None \<longleftrightarrow> t = ''number''" using columns by (elim conjE)
  have opt: "value_option_code v \<noteq> None \<longleftrightarrow> t = ''option''" using columns by (elim conjE)
  have "\<forall>n. value_number v = Some n \<longrightarrow> within_bounds mn mx n"
  proof (intro allI impI)
    fix n assume n: "value_number v = Some n"
    then have "t = ''number''" using number by simp
    then have "validate_number_bounds p mn mx n = Inr ()" using checked n by (simp add: check_typed_value_Inr)
    then show "within_bounds mn mx n" by (simp only: validate_number_bounds_Inr)
  qed
  moreover have "\<forall>c. value_option_code v = Some c \<longrightarrow> code_text c \<and> (\<forall>cs. codes = Some cs \<longrightarrow> c \<in> set cs)"
  proof (intro allI impI)
    fix c assume c: "value_option_code v = Some c"
    then have "t = ''option''" using opt by simp
    then show "code_text c \<and> (\<forall>cs. codes = Some cs \<longrightarrow> c \<in> set cs)"
      using checked c coerced_value_option [OF assms c] by (simp add: check_typed_value_Inr)
  qed
  moreover have "\<forall>s. value_text v = Some s \<longrightarrow> s \<noteq> [] \<and> py_strip s = s"
    using coerced_value_text [OF assms] by blast
  moreover have "value_text v \<noteq> None \<longleftrightarrow> t = ''text''" using columns by (elim conjE)
  moreover have "value_boolean v \<noteq> PNone \<longleftrightarrow> t = ''boolean''" using columns by (elim conjE)
  ultimately show ?thesis
    using t number opt \<open>t \<in> set WORK_TYPE_PARAMETER_DATA_TYPES\<close> by (intro bexI [where x = t] conjI)
qed

lemma number_of_column: "numeric_18_4 d = Some d \<Longrightarrow> d = NaN \<or> (\<exists>a. d = Finite (Dec a 4))"
proof (cases d)
  case (Finite x)
  moreover obtain m k where "x = Dec m k" by (cases x)
  moreover obtain q l where "dec_quantize 4 (Dec m k) = Dec q l" by (cases "dec_quantize 4 (Dec m k)")
  ultimately show "numeric_18_4 d = Some d \<Longrightarrow> d = NaN \<or> (\<exists>a. d = Finite (Dec a 4))"
    using dec_quantize_near(1) [of 4 m k q l] by (auto split: if_splits)
qed simp_all

lemma stored_within_bounds:
  assumes "within_bounds mn mx n" "numeric_18_4 n = Some n'" "column_bound mn" "column_bound mx"
  shows "within_bounds mn mx n'"
proof (cases n)
  case (Finite x)
  then obtain m k where n: "n = Finite (Dec m k)" by (cases x) simp
  obtain q l where q: "dec_quantize 4 (Dec m k) = Dec q l" by (cases "dec_quantize 4 (Dec m k)")
  with assms(2) n have n': "n' = Finite (Dec q l)" by (simp split: if_splits)
  note bound = dec_quantize_bound [OF q]
  have "\<not> decimal_less n' lo" if "mn \<noteq> PNone" "decimal_of_object mn = Some lo" for lo
    using that assms(1,3) number_of_column [of lo] bound(1)
    by (auto simp: column_bound_def within_bounds_def n n' simp del: dec_le.simps)
  moreover have "\<not> decimal_less hi n'"
    if "mx \<noteq> PNone" "mn = PNone \<or> decimal_of_object mn \<noteq> None" "decimal_of_object mx = Some hi" for hi
    using that assms(1,4) number_of_column [of hi] bound(2)
    by (auto simp: column_bound_def within_bounds_def n n' simp del: dec_le.simps)
  ultimately show ?thesis by (auto simp: within_bounds_def n')
qed (use assms in auto)

lemma store_value_Some:
  assumes "store_value v = Some v'"
  shows "value_text v' = value_text v" "value_boolean v' = value_boolean v" "value_option_code v' = value_option_code v"
    "rel_option (\<lambda>n n'. numeric_18_4 n = Some n') (value_number v) (value_number v')"
  using assms by (auto simp: store_value_def split: if_splits option.splits)

text \<open>C25: A value that was coerced and stored is accepted again. If the statement that stores it is accepted and the
  bounds come from their own columns, the coercion of what the columns give back succeeds and returns just that; text,
  boolean and option code are the ones that were coerced, and the number is the coerced one rounded to four decimals, so
  the same one when it has no more. Rounding never carries it over a bound.\<close>

theorem stored_value_coerces_to_itself:
  assumes "coerce_parameter_value p dt inp mn mx codes = Inr v"
    and "store_value v = Some v'" "column_bound mn" "column_bound mx"
  shows "coerce_parameter_value p dt (stored_input v') mn mx codes = Inr v' \<and>
    value_text v' = value_text v \<and> value_boolean v' = value_boolean v \<and> value_option_code v' = value_option_code v \<and>
    (\<forall>m k. value_number v = Some (Finite (Dec m k)) \<longrightarrow>
      (\<exists>q. value_number v' = Some (Finite (Dec q 4)) \<and>
        (if k \<le> 4 then q * 10 ^ k = m * 10 ^ 4 else 2 * \<bar>q * 10 ^ k - m * 10 ^ 4\<bar> \<le> 10 ^ k)))"
proof -
  from assms(1) obtain t where t: "normalize_enum ''data_type'' WORK_TYPE_PARAMETER_DATA_TYPES dt = Inr t"
    and typed: "typed_value_error t v = None" and checked: "check_typed_value p t mn mx codes v = Inr ()"
    by (auto simp: coerce_parameter_value_Inr)
  note same = store_value_Some [OF assms(2)]
  have name: "normalize_optional_name (case value_text v' of None \<Rightarrow> PNone | Some s \<Rightarrow> PStr s) = Inr (value_text v')"
    using coerced_value_text [OF assms(1)] by (auto simp: same normalize_optional_name_def Let_def split: option.splits)
  have number: "parse_decimal ''numberValue'' (decimal_object (value_number v')) = Inr (value_number v')"
    by (auto simp: parse_decimal_Inr decimal_object_def split: option.splits)
  have opt: "option_input (case value_option_code v' of None \<Rightarrow> PNone | Some c \<Rightarrow> PStr c) = Inr (value_option_code v')"
    using coerced_value_option [OF assms(1)] normalize_machine_code_stable
    by (auto simp: same option_input_Inr split: option.splits)
  have "value_number v' = None \<longleftrightarrow> value_number v = None" using same(4) by (auto simp: option.rel_sel)
  then have typed': "typed_value_error t v' = None" using typed by (simp add: typed_value_error_None same)
  have "validate_number_bounds p mn mx n' = Inr ()" if num: "t = ''number''" "value_number v' = Some n'" for n'
  proof -
    obtain n where n: "value_number v = Some n" "numeric_18_4 n = Some n'"
      using same(4) num(2) by (auto simp: option_rel_Some2)
    then have "validate_number_bounds p mn mx n = Inr ()" using checked num(1) by (simp add: check_typed_value_Inr)
    with stored_within_bounds [OF _ n(2) assms(3,4)] show ?thesis unfolding validate_number_bounds_Inr by blast
  qed
  then have checked': "check_typed_value p t mn mx codes v' = Inr ()"
    using checked by (simp add: check_typed_value_Inr same)
  have "\<exists>q. value_number v' = Some (Finite (Dec q 4)) \<and>
      (if k \<le> 4 then q * 10 ^ k = m * 10 ^ 4 else 2 * \<bar>q * 10 ^ k - m * 10 ^ 4\<bar> \<le> 10 ^ k)"
    if n: "value_number v = Some (Finite (Dec m k))" for m k
  proof -
    obtain q l where q: "dec_quantize 4 (Dec m k) = Dec q l" by (cases "dec_quantize 4 (Dec m k)")
    with n same(4) have "value_number v' = Some (Finite (Dec q l))"
      by (auto simp: option_rel_Some1 split: if_splits)
    with dec_quantize_near [OF q] show ?thesis by simp
  qed
  moreover have "coerce_parameter_value p dt (stored_input v') mn mx codes = Inr v'"
    unfolding coerce_parameter_value_Inr stored_input_def using t typed' checked' name number opt by auto
  ultimately show ?thesis by (simp add: same)
qed

definition sample_bounded :: value_input where
  "sample_bounded = \<lparr>in_text = PNone, in_number = PStr '' 12.50 '', in_boolean = PNone, in_option = PNone\<rparr>"

lemma coerced_value_is_typed_witness:
  "coerce_parameter_value ''area'' (PStr ''number'') sample_bounded (PInt 0) (PInt 500) None =
     Inr \<lparr>value_text = None, value_number = Some (Finite (Dec 1250 2)), value_boolean = PNone, value_option_code = None\<rparr> \<and>
   within_bounds (PInt 0) (PInt 500) (Finite (Dec 1250 2))"
proof -
  have ok: "coerce_parameter_value ''area'' (PStr ''number'') sample_bounded (PInt 0) (PInt 500) None =
     Inr \<lparr>value_text = None, value_number = Some (Finite (Dec 1250 2)), value_boolean = PNone, value_option_code = None\<rparr>"
    by code_simp
  from coerced_value_is_typed [OF ok] ok show ?thesis by simp
qed

lemma stored_value_coerces_to_itself_witness:
  "coerce_parameter_value ''area'' (PStr ''number'')
     \<lparr>in_text = PNone, in_number = PDec (Finite (Dec 12346 4)), in_boolean = PNone, in_option = PNone\<rparr>
     PNone (PDec (Finite (Dec 12346 4))) None =
     Inr \<lparr>value_text = None, value_number = Some (Finite (Dec 12346 4)), value_boolean = PNone, value_option_code = None\<rparr>"
proof -
  let ?n = "\<lambda>m k. \<lparr>value_text = None, value_number = Some (Finite (Dec m k)), value_boolean = PNone, value_option_code = None\<rparr>"
  have ok: "coerce_parameter_value ''area'' (PStr ''number'') (sample_bounded\<lparr>in_number := PDec (Finite (Dec 123456 5))\<rparr>)
      PNone (PDec (Finite (Dec 12346 4))) None = Inr (?n 123456 5)"
    unfolding coerce_parameter_value_Inr
    by (intro exI [of _ "''number''"] conjI, code_simp)
       (simp_all add: sample_bounded_def normalize_optional_name_Inr parse_decimal_Inr option_input_Inr typed_value_error_None
          check_typed_value_Inr validate_number_bounds_def check_upper_def less_res_def)
  have stored: "store_value (?n 123456 5) = Some (?n 12346 4)"
    by (simp add: store_value_def round_half_up_def)
  have "column_bound PNone" "column_bound (PDec (Finite (Dec 12346 4)))" by (simp_all add: column_bound_def)
  from stored_value_coerces_to_itself [OF ok stored this] show ?thesis by (simp add: stored_input_def decimal_object_def)
qed

text \<open>A lower bound that is no number switches the check of the upper bound off.\<close>

lemma malformed_minimum_disables_maximum:
  "is_ok (coerce_parameter_value ''area'' (PStr ''number'') (sample_bounded\<lparr>in_number := PInt 10\<rparr>) (PStr ''abc'') (PInt 5) None)"
  by code_simp

text \<open>A number without bounds may be not a number; with a bound the comparison raises, and not a
  \<open>CatalogValidationError\<close>.\<close>

lemma not_a_number_is_coerced:
  "coerce_parameter_value ''area'' (PStr ''number'') (sample_bounded\<lparr>in_number := PStr ''NaN''\<rparr>) PNone PNone None =
     Inr \<lparr>value_text = None, value_number = Some NaN, value_boolean = PNone, value_option_code = None\<rparr>"
  "coerce_parameter_value ''area'' (PStr ''number'') (sample_bounded\<lparr>in_number := PStr ''NaN''\<rparr>) (PInt 0) PNone None =
     Inl InvalidOperation"
  by code_simp+

subsection \<open>Resolved contracts\<close>

text \<open>The override status a contract names, in normal form.\<close>

definition contract_status :: "resolved_contract \<Rightarrow> string option" where
  "contract_status c = (case normalize_machine_code ''status'' (rc_override_status c) of Inl e \<Rightarrow> None | Inr s \<Rightarrow> Some s)"

lemma normalize_machine_code_field: "normalize_machine_code f v = Inr c \<longleftrightarrow> normalize_machine_code g v = Inr c"
  by (simp add: normalize_machine_code_Inr)

lemma contract_status_Some: "contract_status c = Some s \<longleftrightarrow> normalize_machine_code f (rc_override_status c) = Inr s"
  using normalize_machine_code_field [of f "rc_override_status c" s "''status''"]
  by (auto simp: contract_status_def split: sum.splits)

lemma contract_status_falsy: "\<not> truthy (rc_override_status c) \<Longrightarrow> contract_status c = None"
  by (cases "rc_override_status c")
     (auto simp: contract_status_def normalize_machine_code_def Let_def fail_def py_lower_def split: sum.splits)

lemma override_error_None: "override_error code status required enabled = None \<longleftrightarrow>
   (enabled \<longleftrightarrow> status \<noteq> Some ''hidden'') \<and> (status = Some ''required'' \<longrightarrow> required) \<and> (status = Some ''optional'' \<longrightarrow> \<not> required)"
  by (auto simp: override_error_def)

lemma global_contract_Inr:
  assumes "check_global_contract c = Inr u"
  shows "validate_parameter_definition (rc_definition c) = Inr () \<and>
    (truthy (rc_enabled c) \<longleftrightarrow> contract_status c \<noteq> Some ''hidden'') \<and>
    (contract_status c = Some ''required'' \<longrightarrow> truthy (rc_required c)) \<and>
    (contract_status c = Some ''optional'' \<longrightarrow> \<not> truthy (rc_required c))"
proof -
  from assms obtain status where status: "(if rc_override_status c \<noteq> PNone
        then map_sum id Some (normalize_enum ''overrideStatus'' TENANT_PARAMETER_OVERRIDE_STATUSES (rc_override_status c))
        else Inr None) = Inr status"
    and defn: "validate_parameter_definition (rc_definition c) = Inr ()"
    and err: "override_error (str_text (pd_code (rc_definition c))) status (truthy (rc_required c)) (truthy (rc_enabled c)) = None"
    by (auto simp: check_global_contract_def bind_res_eq_Inr split: option.splits)
  have same: "contract_status c = status"
  proof (cases "rc_override_status c = PNone")
    case True
    with status contract_status_falsy [of c] show ?thesis by simp
  next
    case False
    with status contract_status_Some [of c _ "''overrideStatus''"] show ?thesis
      by (auto simp: map_sum_eq_Inr normalize_enum_Inr)
  qed
  show ?thesis
    unfolding same using err [unfolded override_error_None] defn by (elim conjE) (intro conjI; assumption)
qed

lemma tenant_contract_Inr:
  assumes "check_tenant_contract c = Inr u"
  shows "(truthy (rc_enabled c) \<longleftrightarrow> contract_status c \<noteq> Some ''disabled'') \<and>
    \<not> truthy (pd_vision_extractable (rc_definition c)) \<and>
    (\<exists>code. normalize_machine_code ''parameterCode'' (pd_code (rc_definition c)) = Inr code \<and>
       starts_with TENANT_EXTRA_PARAMETER_CODE_PREFIX code)"
proof -
  from assms obtain status where status: "normalize_enum ''status'' TENANT_EXTRA_PARAMETER_STATUSES
        (if truthy (rc_override_status c) then rc_override_status c else PStr ''active'') = Inr status"
    and defn: "validate_tenant_extra_parameter_definition (rc_definition c) (rc_required c) (PStr status) = Inr ()"
    and enabled: "truthy (rc_enabled c) = (status = ''active'')"
    by (auto simp: check_tenant_contract_def bind_res_eq_Inr split: if_splits)
  have "truthy (rc_override_status c) \<Longrightarrow> contract_status c = Some status"
    using status contract_status_Some [of c status "''status''"] by (simp add: normalize_enum_Inr)
  moreover have "\<not> truthy (rc_override_status c) \<Longrightarrow> status = ''active''"
    using status by (auto simp: normalize_enum_Inr normalize_machine_code_Inr) code_simp
  moreover have "status = ''active'' \<or> status = ''disabled''"
    using status by (auto simp: normalize_enum_Inr TENANT_EXTRA_PARAMETER_STATUSES_def)
  ultimately have "truthy (rc_enabled c) \<longleftrightarrow> contract_status c \<noteq> Some ''disabled''"
    using enabled contract_status_falsy [of c] by (cases "truthy (rc_override_status c)") auto
  moreover have "\<not> truthy (pd_vision_extractable (rc_definition c)) \<and>
    (\<exists>code. normalize_machine_code ''parameterCode'' (pd_code (rc_definition c)) = Inr code \<and>
       starts_with TENANT_EXTRA_PARAMETER_CODE_PREFIX code)"
    using defn by (auto simp: validate_tenant_extra_parameter_definition_def bind_res_eq_Inr split: if_splits)
  ultimately show ?thesis by blast
qed

text \<open>C23: A resolved parameter that passes the contract is consistent with its override: a catalogue parameter
  is enabled exactly when it is not hidden, required when its override says required and not required when it says
  optional; a tenant parameter is enabled exactly when it is not disabled, is never extracted by the vision model and has
  a code in the tenant name space. (Nothing keeps the code of a catalogue parameter out of that name space.)\<close>

theorem resolved_contract_is_consistent:
  assumes "validate_resolved_parameter_contract c = Inr u"
  shows "is_bool (rc_required c) \<and> is_bool (rc_enabled c) \<and>
    (\<exists>scope. normalize_enum ''parameterScope'' PARAMETER_DEFINITION_SCOPES (rc_scope c) = Inr scope \<and>
      (if scope = ''global'' then
         validate_parameter_definition (rc_definition c) = Inr () \<and>
         (truthy (rc_enabled c) \<longleftrightarrow> contract_status c \<noteq> Some ''hidden'') \<and>
         (contract_status c = Some ''required'' \<longrightarrow> truthy (rc_required c)) \<and>
         (contract_status c = Some ''optional'' \<longrightarrow> \<not> truthy (rc_required c))
       else
         (truthy (rc_enabled c) \<longleftrightarrow> contract_status c \<noteq> Some ''disabled'') \<and>
         \<not> truthy (pd_vision_extractable (rc_definition c)) \<and>
         (\<exists>code. normalize_machine_code ''parameterCode'' (pd_code (rc_definition c)) = Inr code \<and>
            starts_with TENANT_EXTRA_PARAMETER_CODE_PREFIX code)))"
proof -
  from assms obtain scope where
    "normalize_enum ''parameterScope'' PARAMETER_DEFINITION_SCOPES (rc_scope c) = Inr scope"
    "is_bool (rc_required c)" "is_bool (rc_enabled c)"
    "(if scope = ''global'' then check_global_contract c else check_tenant_contract c) = Inr u"
    by (auto simp: validate_resolved_parameter_contract_def bind_res_eq_Inr Let_def split: if_splits)
  then show ?thesis
    using global_contract_Inr [of c u] tenant_contract_Inr [of c u] by (cases "scope = ''global''") simp_all
qed

definition sample_contract :: resolved_contract where
  "sample_contract = \<lparr>rc_scope = PStr ''global'', rc_effective_label = PStr ''Plocha'', rc_required = PBool True,
     rc_enabled = PBool True, rc_override_status = PStr ''Required'',
     rc_definition = \<lparr>pd_code = PStr ''area'', pd_slug = PStr ''area'', pd_label = PStr ''Area'',
       pd_data_type = PStr ''number'', pd_unit = PStr ''m2'', pd_section = PStr ''dimensions'', pd_min = PInt 0, pd_max = PNone,
       pd_vision_extractable = PBool True, pd_manual_override_allowed = PBool True,
       pd_defaults = \<lparr>in_text = PNone, in_number = PInt 10, in_boolean = PNone, in_option = PNone\<rparr>, pd_option_codes = []\<rparr>\<rparr>"

lemma resolved_contract_is_consistent_witness:
  "validate_resolved_parameter_contract sample_contract = Inr () \<and> is_bool (rc_enabled sample_contract) \<and>
   contract_status sample_contract = Some ''required'' \<and> truthy (rc_enabled sample_contract)"
proof -
  have ok: "validate_resolved_parameter_contract sample_contract = Inr ()" by code_simp
  have "contract_status sample_contract = Some ''required''" "truthy (rc_enabled sample_contract)" by code_simp+
  with resolved_contract_is_consistent [OF ok] ok show ?thesis by blast
qed

end
