(* ===== verification/Catalog_Profiles.thy ===== *)
theory Catalog_Profiles
  imports Catalog_Domain
begin

section \<open>Analysis and pricing profile definitions\<close>

text \<open>
  Models \<open>validate_analysis_profile_definition\<close> and \<open>validate_pricing_profile_definition\<close> of
  \<open>app/work_catalog/domain.py\<close>. Each loop of the code is \<open>fold_res\<close> of a step whose state holds the sets
  the loop collects. The rows are dictionaries, read the way the code reads them: \<open>row[..]\<close> raises
  \<open>KeyError\<close>, \<open>row.get(..)\<close> yields \<open>None\<close>.
\<close>

definition code_field :: "string \<Rightarrow> string \<Rightarrow> pydict \<Rightarrow> catalog_error + string" where
  "code_field field_name k row = bind_res (field row k) (normalize_machine_code field_name)"

definition enum_field :: "string \<Rightarrow> string list \<Rightarrow> string \<Rightarrow> pydict \<Rightarrow> catalog_error + string" where
  "enum_field field_name allowed k row = bind_res (field row k) (normalize_enum field_name allowed)"

definition decimal_field :: "string \<Rightarrow> string \<Rightarrow> pydict \<Rightarrow> catalog_error + decimal option" where
  "decimal_field field_name k row = bind_res (field row k) (parse_decimal field_name)"

text \<open>\<open>isinstance(version, int) and version >= 1\<close>; a \<open>bool\<close> is an \<open>int\<close>.\<close>

fun version_ok :: "pyv \<Rightarrow> bool" where
  "version_ok (PInt i) = (1 \<le> i)"
| "version_ok (PBool b) = b"
| "version_ok v = False"

definition fresh :: "string \<Rightarrow> string \<Rightarrow> string list \<Rightarrow> catalog_error + string list" where
  "fresh what code seen =
     (if code \<in> set seen then fail (''Duplicate '' @ what @ '' '' @ quoted code @ ''.'') else Inr (code # seen))"

subsection \<open>Analysis profiles\<close>

record analysis_profile =
  ap_code :: pyv
  ap_version :: pyv
  ap_status :: pyv
  ap_provider_family :: pyv
  ap_task_type :: pyv
  ap_scope_code :: pyv
  ap_target_objects :: "pydict list"
  ap_ignored_objects :: "pydict list"
  ap_extraction_rules :: "pydict list"
  ap_validation_rules :: "pydict list"
  ap_confidence_thresholds :: "pydict list"
  ap_output_mappings :: "pydict list"
  ap_fallback_mode :: pyv
  ap_fallback_instructions :: pyv

definition check_analysis_head :: "analysis_profile \<Rightarrow> catalog_error + unit" where
  "check_analysis_head p =
     bind_res (normalize_machine_code ''analysisProfileCode'' (ap_code p)) (\<lambda>_.
       if \<not> version_ok (ap_version p) then fail ''analysisProfileVersion must be an integer >= 1.''
       else
     bind_res (normalize_enum ''analysisProfileStatus'' ANALYSIS_PROFILE_STATUSES (ap_status p)) (\<lambda>_.
     bind_res (normalize_machine_code ''providerFamily'' (ap_provider_family p)) (\<lambda>_.
     bind_res (normalize_enum ''taskType'' ANALYSIS_PROFILE_TASK_TYPES (ap_task_type p)) (\<lambda>_.
     bind_res (normalize_machine_code ''scopeCode'' (ap_scope_code p)) (\<lambda>_.
     bind_res (normalize_enum ''fallbackMode'' ANALYSIS_PROFILE_FALLBACK_MODES (ap_fallback_mode p)) (\<lambda>_.
       if ap_fallback_instructions p \<noteq> PNone \<and> \<not> nonblank_text (ap_fallback_instructions p)
         then fail ''fallbackInstructions must be non-empty when provided.''
       else if ap_target_objects p = [] then fail ''Analysis profile must define at least one target object.''
       else if ap_extraction_rules p = [] then fail ''Analysis profile must define at least one extraction rule.''
       else if ap_output_mappings p = [] then fail ''Analysis profile must define at least one output mapping.''
       else Inr ()))))))"

definition target_step :: "pydict \<Rightarrow> string list \<Rightarrow> catalog_error + string list" where
  "target_step row seen =
     bind_res (code_field ''targetObjectCode'' ''code'' row) (\<lambda>code.
     bind_res (fresh ''target object code'' code seen) (\<lambda>seen'.
     bind_res (enum_field ''objectRole'' ANALYSIS_PROFILE_OBJECT_ROLES ''object_role'' row) (\<lambda>_.
       if \<not> nonblank_str (get_field row ''label'')
       then fail (''Target object '' @ quoted code @ '' must define label.'') else Inr seen')))"

definition ignored_step :: "pydict \<Rightarrow> string list \<Rightarrow> catalog_error + string list" where
  "ignored_step row seen =
     bind_res (code_field ''ignoredObjectCode'' ''code'' row) (\<lambda>code. fresh ''ignored object code'' code seen)"

definition extraction_step ::
  "string list \<Rightarrow> string list \<Rightarrow> string list \<Rightarrow> pydict \<Rightarrow> string list \<Rightarrow> catalog_error + string list" where
  "extraction_step targets parameter_codes extractable_codes row seen =
     bind_res (code_field ''attributeCode'' ''attribute_code'' row) (\<lambda>attr.
     bind_res (fresh ''extraction attribute'' attr seen) (\<lambda>seen'.
     bind_res (enum_field ''dataType'' WORK_TYPE_PARAMETER_DATA_TYPES ''data_type'' row) (\<lambda>_.
     bind_res (code_field ''sourceObjectCode'' ''source_object_code'' row) (\<lambda>source.
       if source \<notin> set targets
         then fail (''Extraction rule '' @ quoted attr @ '' references unknown source object '' @ quoted source @ ''.'')
       else
     bind_res (code_field ''targetParameterCode'' ''target_parameter_code'' row) (\<lambda>param.
       if param \<notin> set parameter_codes
         then fail (''Extraction rule '' @ quoted attr @ '' references unknown target parameter '' @ quoted param @ ''.'')
       else if param \<notin> set extractable_codes
         then fail (''Extraction rule '' @ quoted attr @ '' references non-vision-extractable parameter '' @ quoted param @ ''.'')
       else Inr seen')))))"

definition validation_rule_step :: "string list \<Rightarrow> pydict \<Rightarrow> unit \<Rightarrow> catalog_error + unit" where
  "validation_rule_step attributes row u =
     bind_res (code_field ''validationRuleCode'' ''code'' row) (\<lambda>_.
     bind_res (enum_field ''validationRuleType'' ANALYSIS_PROFILE_VALIDATION_RULE_TYPES ''rule_type'' row) (\<lambda>_.
     bind_res (enum_field ''validationSeverity'' ANALYSIS_PROFILE_VALIDATION_SEVERITIES ''severity'' row) (\<lambda>_.
       if get_field row ''target_attribute_code'' = PNone then Inr ()
       else bind_res (normalize_machine_code ''targetAttributeCode'' (get_field row ''target_attribute_code'')) (\<lambda>attr.
         if attr \<notin> set attributes
         then fail (''Validation rule references unknown attribute '' @ quoted attr @ ''.'') else Inr ()))))"

definition thresholds_invalid :: "decimal \<Rightarrow> decimal \<Rightarrow> catalog_error + bool" where
  "thresholds_invalid lo preferred =
     bind_res (less_res lo (decimal_int 0)) (\<lambda>a. if a then Inr True else
     bind_res (less_res (decimal_int 1) preferred) (\<lambda>b. if b then Inr True else less_res preferred lo))"

definition threshold_step :: "string list \<Rightarrow> pydict \<Rightarrow> unit \<Rightarrow> catalog_error + unit" where
  "threshold_step attributes row u =
     bind_res (code_field ''confidenceAttributeCode'' ''attribute_code'' row) (\<lambda>attr.
       if attr \<notin> set attributes
         then fail (''Confidence threshold references unknown attribute '' @ quoted attr @ ''.'')
       else
     bind_res (decimal_field ''minConfidence'' ''min_confidence'' row) (\<lambda>lo.
     bind_res (decimal_field ''preferredConfidence'' ''preferred_confidence'' row) (\<lambda>preferred.
       case (lo, preferred) of
         (Some a, Some b) \<Rightarrow> bind_res (thresholds_invalid a b) (\<lambda>invalid.
           if invalid then fail (''Invalid confidence thresholds for attribute '' @ quoted attr @ ''.'')
           else map_sum id (\<lambda>_. ())
             (enum_field ''actionBelowThreshold'' ANALYSIS_PROFILE_CONFIDENCE_ACTIONS ''action_below_threshold'' row))
       | _ \<Rightarrow> fail ''Confidence thresholds require both min and preferred confidence.'')))"

definition BUILTIN_ATTRIBUTES :: "string list" where
  "BUILTIN_ATTRIBUTES =
    [''object-type'', ''surface-condition'', ''recommended-scope'', ''estimated-quantity'', ''estimated-unit'',
     ''estimated-area-sqm'', ''area-confidence'', ''mask-polygon'', ''materials'', ''workflow-steps'',
     ''estimated-total-days'', ''labor-hours-total'']"

definition mapping_step :: "string list \<Rightarrow> string list \<Rightarrow> pydict \<Rightarrow> unit \<Rightarrow> catalog_error + unit" where
  "mapping_step attributes parameter_codes row u =
     bind_res (code_field ''outputMappingCode'' ''code'' row) (\<lambda>_.
     bind_res (enum_field ''targetEntity'' ANALYSIS_PROFILE_MAPPING_TARGET_ENTITIES ''target_entity'' row) (\<lambda>_.
     bind_res (code_field ''sourceAttributeCode'' ''source_attribute_code'' row) (\<lambda>source.
       if source \<notin> set attributes \<and> source \<notin> set BUILTIN_ATTRIBUTES
         then fail (''Output mapping references unsupported source attribute '' @ quoted source @ ''.'')
       else if get_field row ''target_parameter_code'' = PNone then Inr ()
       else bind_res (normalize_machine_code ''targetParameterCode'' (get_field row ''target_parameter_code'')) (\<lambda>param.
         if param \<notin> set parameter_codes
         then fail (''Output mapping references unknown target parameter '' @ quoted param @ ''.'') else Inr ()))))"

definition validate_analysis_profile_definition ::
  "string list \<Rightarrow> string list \<Rightarrow> analysis_profile \<Rightarrow> catalog_error + unit" where
  "validate_analysis_profile_definition parameter_codes extractable_codes p =
     bind_res (check_analysis_head p) (\<lambda>_.
     bind_res (fold_res target_step (ap_target_objects p) []) (\<lambda>targets.
     bind_res (fold_res ignored_step (ap_ignored_objects p) []) (\<lambda>_.
     bind_res (fold_res (extraction_step targets parameter_codes extractable_codes) (ap_extraction_rules p) []) (\<lambda>attributes.
     bind_res (fold_res (validation_rule_step attributes) (ap_validation_rules p) ()) (\<lambda>_.
     bind_res (fold_res (threshold_step attributes) (ap_confidence_thresholds p) ()) (\<lambda>_.
       fold_res (mapping_step attributes parameter_codes) (ap_output_mappings p) ()))))))"

subsection \<open>Pricing profiles\<close>

record pricing_definition =
  pp_code :: pyv
  pp_version :: pyv
  pp_status :: pyv
  pp_pricing_basis :: pyv
  pp_currency :: pyv
  pp_pricing_strategy :: pyv
  pp_labor_rate_source :: pyv
  pp_material_pricing_source :: pyv
  pp_min_job_price :: pyv
  pp_required_inputs :: "pydict list"
  pp_base_rules :: "pydict list"
  pp_adjustment_rules :: "pydict list"
  pp_labor_assumptions :: "pydict list"
  pp_material_assumptions :: "pydict list"

definition check_pricing_head :: "pricing_definition \<Rightarrow> catalog_error + unit" where
  "check_pricing_head p =
     bind_res (normalize_machine_code ''catalogPricingProfileCode'' (pp_code p)) (\<lambda>_.
       if \<not> version_ok (pp_version p) then fail ''catalogPricingProfileVersion must be an integer >= 1.''
       else
     bind_res (normalize_enum ''catalogPricingProfileStatus'' CATALOG_PRICING_PROFILE_STATUSES (pp_status p)) (\<lambda>_.
     bind_res (normalize_enum ''pricingBasis'' CATALOG_PRICING_BASES (pp_pricing_basis p)) (\<lambda>_.
       if \<not> nonblank_str (pp_currency p) then fail ''currency is required for catalog pricing profiles.''
       else
     bind_res (normalize_enum ''pricingStrategy'' CATALOG_PRICING_STRATEGIES (pp_pricing_strategy p)) (\<lambda>_.
     bind_res (normalize_enum ''laborRateSource'' LABOR_RATE_SOURCES (pp_labor_rate_source p)) (\<lambda>_.
     bind_res (normalize_enum ''materialPricingSource'' MATERIAL_PRICING_SOURCES (pp_material_pricing_source p)) (\<lambda>_.
     bind_res (parse_decimal ''minJobPrice'' (pp_min_job_price p)) (\<lambda>minimum.
     bind_res (case minimum of None \<Rightarrow> Inr False | Some m \<Rightarrow> less_res m (decimal_int 0)) (\<lambda>negative.
       if negative then fail ''minJobPrice cannot be negative.''
       else if pp_required_inputs p = [] then fail ''Catalog pricing profile must declare required inputs.''
       else if pp_base_rules p = [] then fail ''Catalog pricing profile must define at least one base rule.''
       else Inr ()))))))))"

text \<open>Where a rule reads a value from: the branch on the source type that assumptions, base rules and
  required inputs share. \<open>otherwise\<close> is the branch for a constant.\<close>

definition check_source ::
  "string \<Rightarrow> string \<Rightarrow> string \<Rightarrow> string list \<Rightarrow> pyv \<Rightarrow> pyv \<Rightarrow> catalog_error + unit \<Rightarrow> catalog_error + unit" where
  "check_source what code field_name parameter_codes source_type source_key otherwise =
    (if source_type = PStr ''parameter'' then
       bind_res (normalize_machine_code field_name source_key) (\<lambda>s.
         if s \<notin> set parameter_codes
         then fail (what @ '' '' @ quoted code @ '' references unknown parameter '' @ quoted s @ ''.'') else Inr ())
     else if source_type = PStr ''work_item_field'' then
       bind_res (normalize_machine_code field_name source_key) (\<lambda>s.
         if s \<notin> set CATALOG_PRICING_WORK_ITEM_FIELDS
         then fail (what @ '' '' @ quoted code @ '' references unsupported work item field '' @ quoted s @ ''.'')
         else Inr ())
     else otherwise)"

type_synonym input_sources = "(pyv \<times> string) list"

definition required_input_step ::
  "string list \<Rightarrow> pydict \<Rightarrow> string list \<times> input_sources \<Rightarrow> catalog_error + string list \<times> input_sources" where
  "required_input_step parameter_codes row st =
     bind_res (code_field ''requiredInputCode'' ''code'' row) (\<lambda>code.
     bind_res (fresh ''required input code'' code (fst st)) (\<lambda>seen.
     bind_res (enum_field ''requiredInputSourceType'' CATALOG_PRICING_REQUIRED_INPUT_SOURCES ''source_type'' row) (\<lambda>_.
     bind_res (code_field ''requiredInputSourceKey'' ''source_key'' row) (\<lambda>key.
     bind_res (field row ''source_type'') (\<lambda>source_type.
     bind_res (check_source ''Required input'' code ''requiredInputSourceKey'' parameter_codes source_type (PStr key)
                 (Inr ())) (\<lambda>_.
       Inr (seen, (source_type, key) # snd st)))))))"

definition labor_assumption_step :: "string list \<Rightarrow> pydict \<Rightarrow> string list \<Rightarrow> catalog_error + string list" where
  "labor_assumption_step parameter_codes row seen =
     bind_res (code_field ''laborAssumptionCode'' ''code'' row) (\<lambda>code.
     bind_res (fresh ''labor assumption'' code seen) (\<lambda>seen'.
     bind_res (enum_field ''laborAssumptionQuantitySourceType'' CATALOG_PRICING_RULE_QUANTITY_SOURCES
                 ''quantity_source_type'' row) (\<lambda>_.
     bind_res (field row ''quantity_source_type'') (\<lambda>source_type.
     bind_res (check_source ''Labor assumption'' code ''laborAssumptionQuantitySourceKey'' parameter_codes source_type
                 (get_field row ''quantity_source_key'') (Inr ())) (\<lambda>_.
     bind_res (decimal_field ''hoursPerUnit'' ''hours_per_unit'' row) (\<lambda>hours.
       if hours = None then fail (''Labor assumption '' @ quoted code @ '' must define hoursPerUnit.'')
       else Inr seen'))))))"

definition not_positive :: "(decimal \<Rightarrow> catalog_error + bool) \<Rightarrow> decimal option \<Rightarrow> catalog_error + bool" where
  "not_positive test d = (case d of None \<Rightarrow> Inr True | Some x \<Rightarrow> test x)"

definition material_assumption_step :: "string list \<Rightarrow> pydict \<Rightarrow> string list \<Rightarrow> catalog_error + string list" where
  "material_assumption_step parameter_codes row seen =
     bind_res (code_field ''materialAssumptionCode'' ''code'' row) (\<lambda>code.
     bind_res (fresh ''material assumption'' code seen) (\<lambda>seen'.
     bind_res (enum_field ''materialAssumptionQuantitySourceType'' CATALOG_PRICING_RULE_QUANTITY_SOURCES
                 ''quantity_source_type'' row) (\<lambda>_.
     bind_res (field row ''quantity_source_type'') (\<lambda>source_type.
     bind_res (check_source ''Material assumption'' code ''materialAssumptionQuantitySourceKey'' parameter_codes source_type
                 (get_field row ''quantity_source_key'') (Inr ())) (\<lambda>_.
     bind_res (decimal_field ''quantityPerUnit'' ''quantity_per_unit'' row) (\<lambda>quantity.
     bind_res (not_positive (\<lambda>x. less_res x (decimal_int 0)) quantity) (\<lambda>bad.
       if bad then fail (''Material assumption '' @ quoted code @ '' must define non-negative quantityPerUnit.'')
       else if \<not> nonblank_str (get_field row ''unit'')
         then fail (''Material assumption '' @ quoted code @ '' must define unit.'')
       else Inr seen')))))))"

definition check_reference :: "string \<Rightarrow> string \<Rightarrow> string \<Rightarrow> string list \<Rightarrow> pyv \<Rightarrow> catalog_error + unit" where
  "check_reference code field_name what known ref =
    (if ref = PNone then Inr ()
     else bind_res (normalize_machine_code field_name ref) (\<lambda>r.
       if r \<notin> set known
       then fail (''Base rule '' @ quoted code @ '' references unknown '' @ what @ '' '' @ quoted r @ ''.'') else Inr ()))"

definition check_base_rate :: "string \<Rightarrow> string list \<Rightarrow> string list \<Rightarrow> pydict \<Rightarrow> catalog_error + unit" where
  "check_base_rate code labor material row =
     bind_res (decimal_field ''quantityMultiplier'' ''quantity_multiplier'' row) (\<lambda>multiplier.
     bind_res (not_positive (\<lambda>x. le_res x (decimal_int 0)) multiplier) (\<lambda>bad.
       if bad then fail (''Base rule '' @ quoted code @ '' must define quantityMultiplier > 0.'')
       else if \<not> nonblank_str (get_field row ''unit'') then fail (''Base rule '' @ quoted code @ '' must define unit.'')
       else
     bind_res (enum_field ''baseRuleRateSource'' CATALOG_PRICING_RULE_RATE_SOURCES ''rate_source'' row) (\<lambda>rate_source.
     bind_res (parse_decimal ''rateValue'' (get_field row ''rate_value'')) (\<lambda>rate.
       if rate_source \<in> set [''catalog_unit_rate'', ''catalog_flat_rate''] \<and> rate = None
         then fail (''Base rule '' @ quoted code @ '' requires rateValue for rate source '' @ quoted rate_source @ ''.'')
       else
     bind_res (check_reference code ''laborAssumptionCode'' ''labor assumption'' labor
                 (get_field row ''labor_assumption_code'')) (\<lambda>_.
       check_reference code ''materialAssumptionCode'' ''material assumption'' material
         (get_field row ''material_assumption_code''))))))"

definition base_rule_step ::
  "string list \<Rightarrow> string list \<Rightarrow> string list \<Rightarrow> pydict \<Rightarrow> string list \<Rightarrow> catalog_error + string list" where
  "base_rule_step parameter_codes labor material row seen =
     bind_res (code_field ''baseRuleCode'' ''code'' row) (\<lambda>code.
     bind_res (fresh ''base rule'' code seen) (\<lambda>seen'.
     bind_res (enum_field ''baseRuleLineType'' CATALOG_PRICING_RULE_LINE_TYPES ''line_type'' row) (\<lambda>_.
     bind_res (enum_field ''baseRuleCalculationMethod'' CATALOG_PRICING_RULE_CALCULATION_METHODS
                 ''calculation_method'' row) (\<lambda>_.
     bind_res (enum_field ''baseRuleQuantitySourceType'' CATALOG_PRICING_RULE_QUANTITY_SOURCES
                 ''quantity_source_type'' row) (\<lambda>source_type.
     bind_res (let key = get_field row ''quantity_source_key''
               in check_source ''Base rule'' code ''baseRuleQuantitySourceKey'' parameter_codes (PStr source_type) key
                    (if key \<noteq> PNone \<and> nonblank_text key
                     then map_sum id (\<lambda>_. ()) (normalize_machine_code ''baseRuleQuantitySourceKey'' key) else Inr ())) (\<lambda>_.
     bind_res (check_base_rate code labor material row) (\<lambda>_. Inr seen')))))))"

definition check_adjustment_target :: "string \<Rightarrow> string list \<Rightarrow> pydict \<Rightarrow> catalog_error + unit" where
  "check_adjustment_target code base_codes row =
     bind_res (enum_field ''adjustmentTargetScope'' CATALOG_PRICING_ADJUSTMENT_TARGET_SCOPES ''target_scope'' row) (\<lambda>scope.
     bind_res (if get_field row ''target_line_type'' \<noteq> PNone
               then map_sum id (\<lambda>_. ()) (normalize_enum ''adjustmentTargetLineType'' CATALOG_PRICING_RULE_LINE_TYPES
                      (get_field row ''target_line_type'')) else Inr ()) (\<lambda>_.
       if scope = ''base_rule'' then
         if get_field row ''target_base_rule_code'' = PNone
           then fail (''Adjustment rule '' @ quoted code @ '' must declare targetBaseRuleCode.'')
         else bind_res (normalize_machine_code ''targetBaseRuleCode'' (get_field row ''target_base_rule_code'')) (\<lambda>b.
           if b \<notin> set base_codes
           then fail (''Adjustment rule '' @ quoted code @ '' references unknown base rule '' @ quoted b @ ''.'') else Inr ())
       else Inr ()))"

definition condition_values :: "pydict \<Rightarrow> pyv list" where
  "condition_values row = map (get_field row)
     [''condition_text_value'', ''condition_number_value'', ''condition_boolean_value'', ''condition_option_code'']"

definition check_adjustment_condition ::
  "string \<Rightarrow> string list \<Rightarrow> input_sources \<Rightarrow> pydict \<Rightarrow> catalog_error + unit" where
  "check_adjustment_condition code parameter_codes sources row =
     bind_res (enum_field ''adjustmentConditionSourceType'' CATALOG_PRICING_REQUIRED_INPUT_SOURCES
                 ''condition_source_type'' row) (\<lambda>source_type.
     bind_res (code_field ''adjustmentConditionSourceKey'' ''condition_source_key'' row) (\<lambda>key.
     bind_res (check_source ''Adjustment rule'' code ''adjustmentConditionSourceKey'' parameter_codes (PStr source_type)
                 (PStr key) (Inr ())) (\<lambda>_.
     bind_res (enum_field ''adjustmentConditionOperator'' CATALOG_PRICING_ADJUSTMENT_CONDITION_OPERATORS
                 ''condition_operator'' row) (\<lambda>_.
     bind_res (field row ''condition_operator'') (\<lambda>operator.
       if operator \<noteq> PStr ''true'' \<and> filter (\<lambda>v. v \<noteq> PNone) (condition_values row) = []
         then fail (''Adjustment rule '' @ quoted code @ '' must define a typed comparison value.'')
       else if source_type = ''parameter'' \<and> (PStr source_type, key) \<notin> set sources
         then fail (''Adjustment rule '' @ quoted code @ '' depends on parameter '' @ quoted key @
                '' which is not declared as a required input.'')
       else Inr ())))))"

definition adjustment_rule_step ::
  "string list \<Rightarrow> input_sources \<Rightarrow> string list \<Rightarrow> pydict \<Rightarrow> string list \<Rightarrow> catalog_error + string list" where
  "adjustment_rule_step parameter_codes sources base_codes row seen =
     bind_res (code_field ''adjustmentRuleCode'' ''code'' row) (\<lambda>code.
     bind_res (fresh ''adjustment rule'' code seen) (\<lambda>seen'.
     bind_res (check_adjustment_target code base_codes row) (\<lambda>_.
     bind_res (enum_field ''adjustmentOperation'' CATALOG_PRICING_ADJUSTMENT_OPERATIONS ''operation'' row) (\<lambda>_.
     bind_res (decimal_field ''adjustmentValue'' ''adjustment_value'' row) (\<lambda>value.
       if value = None then fail (''Adjustment rule '' @ quoted code @ '' must define adjustmentValue.'')
       else bind_res (check_adjustment_condition code parameter_codes sources row) (\<lambda>_. Inr seen'))))))"

definition validate_pricing_profile_definition :: "string list \<Rightarrow> pricing_definition \<Rightarrow> catalog_error + unit" where
  "validate_pricing_profile_definition parameter_codes p =
     bind_res (check_pricing_head p) (\<lambda>_.
     bind_res (fold_res (required_input_step parameter_codes) (pp_required_inputs p) ([], [])) (\<lambda>(_, sources).
     bind_res (fold_res (labor_assumption_step parameter_codes) (pp_labor_assumptions p) []) (\<lambda>labor.
     bind_res (fold_res (material_assumption_step parameter_codes) (pp_material_assumptions p) []) (\<lambda>material.
     bind_res (fold_res (base_rule_step parameter_codes labor material) (pp_base_rules p) []) (\<lambda>base_codes.
     bind_res (fold_res (adjustment_rule_step parameter_codes sources base_codes) (pp_adjustment_rules p) []) (\<lambda>_.
       Inr ()))))))"

end
