(* ===== verification/Pricing.thy ===== *)
theory Pricing
  imports Binary64 Catalog_Profiles
begin

section \<open>Pricing of project work items\<close>

text \<open>
  Models the calculation of \<open>app/services/pricing_profile_service.py\<close>: the values of a work item, its
  required inputs, the base and adjustment rules, the subtotals with the minimum job charge, and the three
  quote variants. A \<open>NUMERIC\<close> column is a decimal; \<open>float(d)\<close> of it is \<open>float_of_dec\<close>. The resolution of the
  profile (queries, caches, timing floors) is not modelled: the resolved configuration is an argument.
\<close>

subsection \<open>Rows and values\<close>

datatype pval = VNone | VBool bool | VInt int | VFloat flt | VStr string

datatype pricing_error =
    PricingValidation string
  | FloatOfText string
  | FloatOfNone
  | NotFinite string

record value_row =
  vr_code :: string
  vr_data_type :: string
  vr_text :: "string option"
  vr_number :: "dec option"
  vr_boolean :: "bool option"
  vr_option :: "string option"

record work_item =
  wi_id :: string
  wi_work_type_code :: string
  wi_measured_quantity :: "dec option"
  wi_measured_unit :: "string option"
  wi_item_sequence :: int
  wi_values :: "value_row list"

record required_input =
  ri_code :: string
  ri_source_type :: string
  ri_source_key :: "string option"
  ri_is_required :: bool
  ri_sort_order :: int

record base_rule =
  br_code :: string
  br_label :: string
  br_description :: "string option"
  br_line_type :: string
  br_method :: string
  br_source_type :: string
  br_source_key :: "string option"
  br_multiplier :: dec
  br_unit :: string
  br_rate_source :: string
  br_rate_value :: "dec option"
  br_labor_assumption :: "string option"
  br_material_assumption :: "string option"
  br_sort_order :: int

record adjustment_rule =
  ar_code :: string
  ar_label :: string
  ar_description :: "string option"
  ar_target_scope :: string
  ar_target_line_type :: "string option"
  ar_target_base_rule :: "string option"
  ar_operation :: string
  ar_value :: dec
  ar_source_type :: string
  ar_source_key :: "string option"
  ar_operator :: string
  ar_text :: "string option"
  ar_number :: "dec option"
  ar_boolean :: "bool option"
  ar_option :: "string option"
  ar_sort_order :: int

record catalog_profile =
  cp_id :: string
  cp_code :: string
  cp_version :: int
  cp_currency :: string
  cp_min_job_price :: "dec option"
  cp_required_inputs :: "required_input list"
  cp_base_rules :: "base_rule list"
  cp_adjustment_rules :: "adjustment_rule list"

record tenant_profile =
  tp_id :: string
  tp_hourly_rate :: dec
  tp_daily_rate :: dec
  tp_labor_hours_per_sqm :: dec
  tp_margin_economy :: dec
  tp_margin_standard :: dec
  tp_margin_premium :: dec
  tp_vat :: dec
  tp_currency :: string

record resolved_pricing =
  rp_profile :: catalog_profile
  rp_tenant :: "tenant_profile option"

fun dec_value :: "dec \<Rightarrow> rat" where
  "dec_value (Dec m k) = of_int m / 10 ^ k"

definition float_of_dec :: "dec \<Rightarrow> flt" where
  "float_of_dec d = fl (dec_value d)"

definition option_value :: "('a \<Rightarrow> pval) \<Rightarrow> 'a option \<Rightarrow> pval" where
  "option_value f v = (case v of None \<Rightarrow> VNone | Some x \<Rightarrow> f x)"

text \<open>\<open>float\<close> of a text: stripped, underscores only between digits.\<close>

fun underscores_ok :: "bool \<Rightarrow> string \<Rightarrow> bool" where
  "underscores_ok after_digit [] = True"
| "underscores_ok after_digit (c # s) =
    (if c = CHR ''_'' then after_digit \<and> s \<noteq> [] \<and> is_digit (hd s) \<and> underscores_ok False s
     else underscores_ok (is_digit c) s)"

definition float_of_text :: "string \<Rightarrow> pricing_error + flt" where
  "float_of_text text =
    (case split_sign (py_strip text) of (neg, s) \<Rightarrow>
       if py_lower s \<in> set [''inf'', ''infinity'', ''nan''] then Inl (NotFinite text)
       else if \<not> underscores_ok False s then Inl (FloatOfText text)
       else case finite_of_text (filter (\<lambda>c. c \<noteq> CHR ''_'') s) of
         None \<Rightarrow> Inl (FloatOfText text)
       | Some d \<Rightarrow> Inr (float_of_dec (if neg then negate d else d)))"

fun float_of :: "pval \<Rightarrow> pricing_error + flt" where
  "float_of VNone = Inl FloatOfNone"
| "float_of (VBool b) = Inr (if b then 1 else 0)"
| "float_of (VInt i) = Inr (fl (of_int i))"
| "float_of (VFloat x) = Inr x"
| "float_of (VStr s) = float_of_text s"

text \<open>\<open>==\<close> of two values: numbers and booleans compare by value, texts by text.\<close>

fun exact_number :: "pval \<Rightarrow> rat option" where
  "exact_number (VBool b) = Some (if b then 1 else 0)"
| "exact_number (VInt i) = Some (of_int i)"
| "exact_number (VFloat x) = Some x"
| "exact_number v = None"

definition py_eq :: "pval \<Rightarrow> pval \<Rightarrow> bool" where
  "py_eq a b = (case (exact_number a, exact_number b) of (Some x, Some y) \<Rightarrow> x = y | _ \<Rightarrow> a = b)"

fun truth :: "pval \<Rightarrow> bool" where
  "truth VNone = False"
| "truth (VBool b) = b"
| "truth (VInt i) = (i \<noteq> 0)"
| "truth (VFloat x) = (x \<noteq> 0)"
| "truth (VStr s) = (s \<noteq> [])"

subsection \<open>Sources and conditions\<close>

definition value_from_runtime_row :: "value_row \<Rightarrow> pval" where
  "value_from_runtime_row row =
    (if vr_data_type row = ''number'' then option_value (\<lambda>d. VFloat (float_of_dec d)) (vr_number row)
     else if vr_data_type row = ''boolean'' then option_value VBool (vr_boolean row)
     else if vr_data_type row = ''option'' then option_value VStr (vr_option row)
     else option_value VStr (vr_text row))"

text \<open>The dictionary of the values: a later row replaces an earlier one of the same code.\<close>

definition values_by_code :: "work_item \<Rightarrow> string \<Rightarrow> pval option" where
  "values_by_code w = map_of (rev (map (\<lambda>r. (vr_code r, value_from_runtime_row r)) (wi_values w)))"

definition resolve_source_value :: "work_item \<Rightarrow> string \<Rightarrow> string option \<Rightarrow> pricing_error + pval" where
  "resolve_source_value w source_type source_key =
    (if source_type = ''constant'' then Inr (VInt 1)
     else if source_type = ''work_item_field'' then
       if source_key = Some ''measured_quantity'' then Inr (option_value (\<lambda>d. VFloat (float_of_dec d)) (wi_measured_quantity w))
       else if source_key = Some ''measured_unit'' then Inr (option_value VStr (wi_measured_unit w))
       else if source_key = Some ''item_sequence'' then Inr (VInt (wi_item_sequence w))
       else Inl (PricingValidation (''Unsupported work item field source '' @
              quoted (case source_key of None \<Rightarrow> ''None'' | Some k \<Rightarrow> k) @ ''.''))
     else case source_key of
       None \<Rightarrow> Inl (PricingValidation ''Pricing rule sourceKey is required.'')
     | Some k \<Rightarrow> if k = [] then Inl (PricingValidation ''Pricing rule sourceKey is required.'')
         else Inr (case values_by_code w k of None \<Rightarrow> VNone | Some v \<Rightarrow> v))"

definition comparison_value :: "adjustment_rule \<Rightarrow> pval" where
  "comparison_value r =
    (if ar_text r \<noteq> None then option_value VStr (ar_text r)
     else if ar_number r \<noteq> None then option_value (\<lambda>d. VFloat (float_of_dec d)) (ar_number r)
     else if ar_boolean r \<noteq> None then option_value VBool (ar_boolean r)
     else option_value VStr (ar_option r))"

definition condition_matches :: "adjustment_rule \<Rightarrow> pval \<Rightarrow> pricing_error + bool" where
  "condition_matches r value =
    (if value = VNone then Inr False
     else if ar_operator r = ''true'' then Inr (truth value)
     else let expected = comparison_value r
       in if ar_operator r = ''eq'' then Inr (py_eq value expected)
          else if exact_number value = None \<or> expected = VNone then Inr False
          else if ar_operator r = ''gte'' then
            bind_res (float_of value) (\<lambda>a. bind_res (float_of expected) (\<lambda>b. Inr (b \<le> a)))
          else if ar_operator r = ''lte'' then
            bind_res (float_of value) (\<lambda>a. bind_res (float_of expected) (\<lambda>b. Inr (a \<le> b)))
          else Inr False)"

definition unit_price_for_rule :: "tenant_profile option \<Rightarrow> base_rule \<Rightarrow> pricing_error + flt" where
  "unit_price_for_rule tenant r =
    (if br_rate_source r = ''tenant_hourly_rate'' then
       (case tenant of None \<Rightarrow> Inl (PricingValidation ''Tenant pricing profile is required for hourly-rate pricing.'')
        | Some t \<Rightarrow> Inr (float_of_dec (tp_hourly_rate t)))
     else if br_rate_source r = ''tenant_daily_rate'' then
       (case tenant of None \<Rightarrow> Inl (PricingValidation ''Tenant pricing profile is required for daily-rate pricing.'')
        | Some t \<Rightarrow> Inr (float_of_dec (tp_daily_rate t)))
     else case br_rate_value r of
       None \<Rightarrow> Inl (PricingValidation (''Catalog pricing rule '' @ quoted (br_code r) @ '' is missing rateValue.''))
     | Some d \<Rightarrow> Inr (float_of_dec d))"

subsection \<open>The calculation\<close>

record line_item =
  li_item_type :: string
  li_name :: string
  li_description :: "string option"
  li_quantity :: flt
  li_unit :: string
  li_unit_price :: flt
  li_total_price :: flt
  li_rule_code :: string
  li_work_item_id :: string
  li_work_type_code :: string
  li_profile_id :: string
  li_profile_code :: string
  li_profile_version :: int
  li_price_source :: string
  li_sort_order :: int

definition input_step ::
  "work_item \<Rightarrow> required_input \<Rightarrow> (string \<times> pval) list \<Rightarrow> pricing_error + (string \<times> pval) list" where
  "input_step w ri snapshot =
     bind_res (resolve_source_value w (ri_source_type ri) (ri_source_key ri)) (\<lambda>value.
       if ri_is_required ri \<and> (value = VNone \<or> value = VStr [])
       then Inl (PricingValidation (''Missing required pricing input '' @ quoted (ri_code ri) @ '' for work type '' @
              quoted (wi_work_type_code w) @ ''.''))
       else Inr (AList.update (ri_code ri) value snapshot))"

definition base_quantity :: "base_rule \<Rightarrow> pval \<Rightarrow> pricing_error + flt" where
  "base_quantity r source =
    (if br_source_type r = ''constant'' then Inr (float_of_dec (br_multiplier r))
     else map_sum id (\<lambda>x. fmul x (float_of_dec (br_multiplier r))) (float_of source))"

definition base_step ::
  "work_item \<Rightarrow> resolved_pricing \<Rightarrow> base_rule \<Rightarrow> line_item list \<Rightarrow> pricing_error + line_item list" where
  "base_step w rp r ls =
     bind_res (resolve_source_value w (br_source_type r) (br_source_key r)) (\<lambda>source.
       if source = VNone then Inr ls
       else
     bind_res (base_quantity r source) (\<lambda>quantity.
     bind_res (unit_price_for_rule (rp_tenant rp) r) (\<lambda>unit_price.
       Inr (ls @ [\<lparr>li_item_type = br_line_type r, li_name = br_label r, li_description = br_description r,
         li_quantity = round_measure quantity, li_unit = br_unit r, li_unit_price = round_currency unit_price,
         li_total_price = round_currency (fmul quantity unit_price), li_rule_code = br_code r,
         li_work_item_id = wi_id w, li_work_type_code = wi_work_type_code w,
         li_profile_id = cp_id (rp_profile rp), li_profile_code = cp_code (rp_profile rp),
         li_profile_version = cp_version (rp_profile rp), li_price_source = ''catalog_formula'',
         li_sort_order = br_sort_order r\<rparr>]))))"

definition lines_total :: "(line_item \<Rightarrow> bool) \<Rightarrow> line_item list \<Rightarrow> flt" where
  "lines_total p ls = py_sum (map li_total_price (filter p ls))"

definition adjustment_target :: "adjustment_rule \<Rightarrow> line_item list \<Rightarrow> flt \<times> string" where
  "adjustment_target r ls =
    (if ar_target_scope r = ''base_rule'' then
       let mine = (\<lambda>l. Some (li_rule_code l) = ar_target_base_rule r)
       in (lines_total mine ls,
           case ar_target_line_type r of
             Some t \<Rightarrow> if t \<noteq> [] then t else (case find mine ls of None \<Rightarrow> ''other'' | Some l \<Rightarrow> li_item_type l)
           | None \<Rightarrow> (case find mine ls of None \<Rightarrow> ''other'' | Some l \<Rightarrow> li_item_type l))
     else case ar_target_line_type r of
       Some t \<Rightarrow> if t \<noteq> [] then (lines_total (\<lambda>l. li_item_type l = t) ls, t) else (lines_total (\<lambda>l. True) ls, ''other'')
     | None \<Rightarrow> (lines_total (\<lambda>l. True) ls, ''other''))"

text \<open>The amount of an adjustment; \<open>None\<close> where the code skips a multiplication of nothing.\<close>

definition adjustment_amount :: "adjustment_rule \<Rightarrow> flt \<Rightarrow> flt option" where
  "adjustment_amount r target_total =
    (if ar_operation r = ''multiply'' then
       if target_total \<le> 0 then None
       else Some (round_currency (fmul target_total (fsub (float_of_dec (ar_value r)) 1)))
     else Some (round_currency (float_of_dec (ar_value r))))"

definition adjustment_step ::
  "work_item \<Rightarrow> resolved_pricing \<Rightarrow> adjustment_rule \<Rightarrow> line_item list \<Rightarrow> pricing_error + line_item list" where
  "adjustment_step w rp r ls =
     bind_res (resolve_source_value w (ar_source_type r) (ar_source_key r)) (\<lambda>value.
     bind_res (condition_matches r value) (\<lambda>matches.
       if \<not> matches then Inr ls
       else case adjustment_target r ls of (target_total, line_type) \<Rightarrow>
         (case adjustment_amount r target_total of
            None \<Rightarrow> Inr ls
          | Some amount \<Rightarrow>
              if amount = 0 then Inr ls
              else Inr (ls @ [\<lparr>li_item_type = line_type, li_name = ar_label r, li_description = ar_description r,
                li_quantity = 1, li_unit = ''job'', li_unit_price = amount, li_total_price = amount,
                li_rule_code = ar_code r, li_work_item_id = wi_id w, li_work_type_code = wi_work_type_code w,
                li_profile_id = cp_id (rp_profile rp), li_profile_code = cp_code (rp_profile rp),
                li_profile_version = cp_version (rp_profile rp), li_price_source = ''catalog_formula_adjustment'',
                li_sort_order = ar_sort_order r + 500\<rparr>]))))"

record calculation =
  ca_work_item_id :: string
  ca_work_type_code :: string
  ca_profile_id :: string
  ca_profile_code :: string
  ca_profile_version :: int
  ca_tenant_profile_id :: "string option"
  ca_currency :: string
  ca_inputs :: "(string \<times> pval) list"
  ca_lines :: "line_item list"
  ca_labor :: flt
  ca_material :: flt
  ca_other :: flt
  ca_minimum_adjustment :: flt
  ca_total :: flt

definition subtotal :: "string \<Rightarrow> line_item list \<Rightarrow> flt" where
  "subtotal t ls = round_currency (lines_total (\<lambda>l. li_item_type l = t) ls)"

definition sum3 :: "flt \<Rightarrow> flt \<Rightarrow> flt \<Rightarrow> flt" where
  "sum3 a b c = round_currency (fadd (fadd a b) c)"

definition minimum_line :: "work_item \<Rightarrow> catalog_profile \<Rightarrow> flt \<Rightarrow> line_item" where
  "minimum_line w cp amount =
     \<lparr>li_item_type = ''other'', li_name = ''Minimum Job Charge Adjustment'',
      li_description = Some ''Catalog pricing profile minimum charge floor.'',
      li_quantity = 1, li_unit = ''job'', li_unit_price = amount, li_total_price = amount,
      li_rule_code = ''minimum-job-charge'', li_work_item_id = wi_id w, li_work_type_code = wi_work_type_code w,
      li_profile_id = cp_id cp, li_profile_code = cp_code cp, li_profile_version = cp_version cp,
      li_price_source = ''catalog_minimum_charge'', li_sort_order = 9990\<rparr>"

definition finish_calculation ::
  "work_item \<Rightarrow> resolved_pricing \<Rightarrow> (string \<times> pval) list \<Rightarrow> line_item list \<Rightarrow> calculation" where
  "finish_calculation w rp inputs ls =
    (let cp = rp_profile rp; labor = subtotal ''labor'' ls; material = subtotal ''material'' ls; other = subtotal ''other'' ls;
         price = sum3 labor material other;
         (adjustment, other', ls') =
           (case cp_min_job_price cp of
              None \<Rightarrow> (0, other, ls)
            | Some m \<Rightarrow> if price < float_of_dec m
                then let a = round_currency (fsub (float_of_dec m) price)
                     in (a, round_currency (fadd other a), ls @ [minimum_line w cp a])
                else (0, other, ls))
     in \<lparr>ca_work_item_id = wi_id w, ca_work_type_code = wi_work_type_code w, ca_profile_id = cp_id cp,
         ca_profile_code = cp_code cp, ca_profile_version = cp_version cp,
         ca_tenant_profile_id = map_option tp_id (rp_tenant rp), ca_currency = cp_currency cp, ca_inputs = inputs,
         ca_lines = sort_key (\<lambda>l. (li_sort_order l, li_name l)) ls', ca_labor = labor, ca_material = material,
         ca_other = other', ca_minimum_adjustment = adjustment, ca_total = sum3 labor material other'\<rparr>)"

definition calculate_project_work_item :: "work_item \<Rightarrow> resolved_pricing \<Rightarrow> pricing_error + calculation" where
  "calculate_project_work_item w rp =
    (let cp = rp_profile rp
     in bind_res (fold_res (input_step w) (sort_key (\<lambda>r. (ri_sort_order r, ri_code r)) (cp_required_inputs cp)) []) (\<lambda>inputs.
        bind_res (fold_res (base_step w rp) (sort_key (\<lambda>r. (br_sort_order r, br_code r)) (cp_base_rules cp)) []) (\<lambda>base.
        bind_res (fold_res (adjustment_step w rp) (sort_key (\<lambda>r. (ar_sort_order r, ar_code r)) (cp_adjustment_rules cp)) base) (\<lambda>ls.
          Inr (finish_calculation w rp inputs ls)))))"

subsection \<open>Quote variants\<close>

record quote_variant =
  qv_type :: string
  qv_labor_cost :: flt
  qv_material_cost :: flt
  qv_other_cost :: flt
  qv_margin_pct :: flt
  qv_total_ex_vat :: flt
  qv_vat_amount :: flt
  qv_total_inc_vat :: flt
  qv_currency :: string
  qv_vat_pct :: flt
  qv_items :: "line_item list"

record pricing_summary =
  ps_currency :: string
  ps_work_item_count :: nat
  ps_catalog_profiles :: "string list"
  ps_base_subtotal :: flt

definition build_quote_variants ::
  "tenant_profile \<Rightarrow> calculation list \<Rightarrow> quote_variant list \<times> pricing_summary" where
  "build_quote_variants t results =
    (let items = concat (map ca_lines results);
         labor = subtotal ''labor'' items; material = subtotal ''material'' items; other = subtotal ''other'' items;
         base = sum3 labor material other; vat = float_of_dec (tp_vat t)
     in (map (\<lambda>(kind, margin).
           let ex = round_currency (fmul base (fadd 1 (fdiv margin 100)));
               tax = round_currency (fmul ex (fdiv vat 100))
           in \<lparr>qv_type = kind, qv_labor_cost = labor, qv_material_cost = material, qv_other_cost = other,
               qv_margin_pct = margin, qv_total_ex_vat = ex, qv_vat_amount = tax,
               qv_total_inc_vat = round_currency (fadd ex tax), qv_currency = tp_currency t, qv_vat_pct = vat,
               qv_items = items\<rparr>)
         [(''economy'', float_of_dec (tp_margin_economy t)), (''standard'', float_of_dec (tp_margin_standard t)),
          (''premium'', float_of_dec (tp_margin_premium t))],
         \<lparr>ps_currency = tp_currency t, ps_work_item_count = length results,
          ps_catalog_profiles = sort (remdups (map ca_profile_code results)), ps_base_subtotal = base\<rparr>))"

subsection \<open>Every price is an amount of money\<close>

text \<open>What the \<open>CHECK\<close> constraints of the rule tables say of the stored rows.\<close>

definition rows_checked :: "catalog_profile \<Rightarrow> bool" where
  "rows_checked cp \<longleftrightarrow>
     list_all (\<lambda>r. ri_source_type r \<in> set CATALOG_PRICING_REQUIRED_INPUT_SOURCES) (cp_required_inputs cp) \<and>
     list_all (\<lambda>r. br_line_type r \<in> set CATALOG_PRICING_RULE_LINE_TYPES \<and>
                 br_source_type r \<in> set CATALOG_PRICING_RULE_QUANTITY_SOURCES \<and>
                 br_rate_source r \<in> set CATALOG_PRICING_RULE_RATE_SOURCES) (cp_base_rules cp) \<and>
     list_all (\<lambda>r. (\<forall>t. ar_target_line_type r = Some t \<longrightarrow> t \<in> set CATALOG_PRICING_RULE_LINE_TYPES) \<and>
                 ar_source_type r \<in> set CATALOG_PRICING_REQUIRED_INPUT_SOURCES) (cp_adjustment_rules cp)"

text \<open>A line whose price is a whole number of cents and whose type is one of the three.\<close>

definition money_line :: "line_item \<Rightarrow> bool" where
  "money_line l \<longleftrightarrow> (\<exists>c. li_total_price l = cents c) \<and> li_item_type l \<in> set CATALOG_PRICING_RULE_LINE_TYPES \<and>
     li_price_source l \<noteq> ''catalog_minimum_charge''"

lemma other_is_line_type: "''other'' \<in> set CATALOG_PRICING_RULE_LINE_TYPES"
  by (simp add: CATALOG_PRICING_RULE_LINE_TYPES_def)

lemma base_step_money:
  assumes "base_step w rp r ls = Inr ls'" "list_all money_line ls" "br_line_type r \<in> set CATALOG_PRICING_RULE_LINE_TYPES"
  shows "list_all money_line ls'"
  using assms round_currency_cents
  by (auto simp: base_step_def bind_res_eq_Inr money_line_def split: if_splits)

lemma adjustment_target_type:
  assumes "list_all money_line ls" "\<forall>t. ar_target_line_type r = Some t \<longrightarrow> t \<in> set CATALOG_PRICING_RULE_LINE_TYPES"
  shows "snd (adjustment_target r ls) \<in> set CATALOG_PRICING_RULE_LINE_TYPES"
proof -
  have "li_item_type l \<in> set CATALOG_PRICING_RULE_LINE_TYPES" if "find p ls = Some l" for p l
    using assms(1) that nth_mem [of _ ls] by (auto simp: list_all_iff money_line_def find_Some_iff)
  with assms(2) other_is_line_type show ?thesis
    by (auto simp: adjustment_target_def Let_def split: option.splits)
qed

lemma adjustment_amount_money: "adjustment_amount r x = Some a \<Longrightarrow> \<exists>c. a = cents c"
  using round_currency_cents by (auto simp: adjustment_amount_def split: if_splits)

lemma adjustment_step_money:
  assumes "adjustment_step w rp r ls = Inr ls'" "list_all money_line ls"
    "\<forall>t. ar_target_line_type r = Some t \<longrightarrow> t \<in> set CATALOG_PRICING_RULE_LINE_TYPES"
  shows "list_all money_line ls'"
proof -
  obtain x t where target: "adjustment_target r ls = (x, t)" by (cases "adjustment_target r ls")
  with adjustment_target_type [OF assms(2,3)] have "t \<in> set CATALOG_PRICING_RULE_LINE_TYPES" by simp
  then show ?thesis
    using assms(1,2) adjustment_amount_money [of r x]
    by (auto simp: adjustment_step_def bind_res_eq_Inr target money_line_def split: if_splits option.splits)
qed

lemma calculated_lines:
  assumes "calculate_project_work_item w rp = Inr r" "rows_checked (rp_profile rp)"
  obtains inputs ls where "list_all money_line ls" "r = finish_calculation w rp inputs ls"
proof -
  let ?cp = "rp_profile rp"
  from assms(1) obtain inputs base ls where
    base: "fold_res (base_step w rp) (sort_key (\<lambda>r. (br_sort_order r, br_code r)) (cp_base_rules ?cp)) [] = Inr base"
    and ls: "fold_res (adjustment_step w rp) (sort_key (\<lambda>r. (ar_sort_order r, ar_code r)) (cp_adjustment_rules ?cp)) base = Inr ls"
    and r: "r = finish_calculation w rp inputs ls"
    by (auto simp: calculate_project_work_item_def Let_def bind_res_eq_Inr)
  have "list_all money_line base"
  proof (rule fold_res_invariant [OF base])
    show "list_all money_line b" if "x \<in> set (sort_key (\<lambda>r. (br_sort_order r, br_code r)) (cp_base_rules ?cp))"
      "list_all money_line a" "base_step w rp x a = Inr b" for x a b
      using base_step_money [OF that(3,2)] that(1) assms(2) by (simp add: rows_checked_def list_all_iff [of _ "cp_base_rules ?cp"])
  qed simp
  then have "list_all money_line ls"
  proof (rule fold_res_invariant [OF ls])
    show "list_all money_line b" if "x \<in> set (sort_key (\<lambda>r. (ar_sort_order r, ar_code r)) (cp_adjustment_rules ?cp))"
      "list_all money_line a" "adjustment_step w rp x a = Inr b" for x a b
      using adjustment_step_money [OF that(3,2)] that(1) assms(2)
      by (simp add: rows_checked_def list_all_iff [of _ "cp_adjustment_rules ?cp"])
  qed
  then show ?thesis using r that by blast
qed

subsection \<open>The totals are exact\<close>

definition cents_of :: "(line_item \<Rightarrow> int) \<Rightarrow> (line_item \<Rightarrow> bool) \<Rightarrow> line_item list \<Rightarrow> int" where
  "cents_of c p ls = sum_list (map c (filter p ls))"

definition of_type :: "string \<Rightarrow> line_item \<Rightarrow> bool" where
  "of_type t l \<longleftrightarrow> li_item_type l = t"

text \<open>The lines together are small enough for the sums to be exact: at most a thousand lines, and a hundred
  million units without regard to sign.\<close>

definition small_bill :: "(line_item \<Rightarrow> int) \<Rightarrow> line_item list \<Rightarrow> bool" where
  "small_bill c ls \<longleftrightarrow> length ls \<le> 1000 \<and> sum_list (map (\<lambda>l. \<bar>c l\<bar>) ls) \<le> 10 ^ 10"

lemma abs_cents_of: "\<bar>cents_of c p ls\<bar> \<le> sum_list (map (\<lambda>l. \<bar>c l\<bar>) ls)"
  by (induction ls) (auto simp: cents_of_def)

lemma small_bill_money: "small_bill c ls \<Longrightarrow> is_money (cents_of c p ls)"
  using abs_cents_of [of c p ls] by (auto simp: small_bill_def is_money_def)

lemma small_bill_filter: "small_bill c ls \<Longrightarrow> sum_list (map (\<lambda>l. \<bar>c l\<bar>) (filter p ls)) \<le> 10 ^ 10 \<and> length (filter p ls) \<le> 1000"
proof -
  have "sum_list (map (\<lambda>l. \<bar>c l\<bar>) (filter p ls)) \<le> sum_list (map (\<lambda>l. \<bar>c l\<bar>) ls)" by (induction ls) auto
  moreover have "length (filter p ls) \<le> length ls" by simp
  ultimately show "small_bill c ls \<Longrightarrow> ?thesis" unfolding small_bill_def by linarith
qed

lemma subtotal_exact:
  assumes "\<forall>l \<in> set ls. li_total_price l = cents (c l)" "small_bill c ls"
  shows "subtotal t ls = cents (cents_of c (of_type t) ls)"
proof -
  have "map li_total_price (filter (of_type t) ls) = map cents (map c (filter (of_type t) ls))"
    using assms(1) by simp
  then have "subtotal t ls = round_currency (py_sum (map cents (map c (filter (of_type t) ls))))"
    by (simp only: subtotal_def lines_total_def of_type_def [abs_def])
  also have "\<dots> = cents (sum_list (map c (filter (of_type t) ls)))"
    using small_bill_filter [OF assms(2), of "of_type t"] by (intro cents_sum) (simp_all add: o_def)
  finally show ?thesis by (simp only: cents_of_def)
qed

lemma cents_by_type:
  assumes "\<forall>l \<in> set ls. li_item_type l \<in> set CATALOG_PRICING_RULE_LINE_TYPES"
  shows "cents_of c (of_type ''labor'') ls + cents_of c (of_type ''material'') ls + cents_of c (of_type ''other'') ls =
    cents_of c (\<lambda>l. True) ls"
  using assms
  by (induction ls) (auto simp: cents_of_def of_type_def CATALOG_PRICING_RULE_LINE_TYPES_def)

lemma sum_list_sort_key: "sum_list (map f (sort_key k xs)) = (sum_list (map f xs) :: int)"
proof -
  have "sum_mset (mset (map f (sort_key k xs))) = sum_mset (mset (map f xs))" by simp
  then show ?thesis by (simp only: sum_mset_sum_list)
qed

lemma cents_of_sort [simp]: "cents_of c p (sort_key k ls) = cents_of c p ls"
  by (simp add: cents_of_def filter_sort sum_list_sort_key)

lemma small_bill_sort [simp]: "small_bill c (sort_key k ls) \<longleftrightarrow> small_bill c ls"
  by (simp add: small_bill_def sum_list_sort_key)

lemma cents_of_split: "cents_of c p (ls @ [l]) = cents_of c p ls + (if p l then c l else 0)"
  by (simp add: cents_of_def)

lemma total_exact:
  assumes "\<forall>l \<in> set ls. li_total_price l = cents (c l)" "small_bill c ls"
    and "\<forall>l \<in> set ls. li_item_type l \<in> set CATALOG_PRICING_RULE_LINE_TYPES"
  shows "sum3 (subtotal ''labor'' ls) (subtotal ''material'' ls) (subtotal ''other'' ls) = cents (cents_of c (\<lambda>l. True) ls)"
proof -
  let ?s = "\<lambda>t. cents_of c (of_type t) ls"
  have money: "is_money (?s t)" for t using assms(2) by (rule small_bill_money)
  have "\<bar>?s ''labor'' + ?s ''material''\<bar> \<le> 10 ^ 12"
    using abs_cents_of [of c "of_type ''labor''" ls] abs_cents_of [of c "of_type ''material''" ls] assms(2)
    by (auto simp: small_bill_def)
  then have "is_money (?s ''labor'' + ?s ''material'')" by (simp add: is_money_def)
  then show ?thesis
    using cents_add3 [OF money money money] cents_by_type [OF assms(3), of c]
    by (simp add: sum3_def subtotal_exact [OF assms(1,2)])
qed

text \<open>The three ways a calculation ends: without a minimum, above it, or raised to it by a line of its own.\<close>

lemma finish_cases:
  fixes w :: work_item and ls :: "line_item list"
  defines "price \<equiv> sum3 (subtotal ''labor'' ls) (subtotal ''material'' ls) (subtotal ''other'' ls)"
  assumes r: "r = finish_calculation w rp inputs ls"
  obtains (kept) "ca_lines r = sort_key (\<lambda>l. (li_sort_order l, li_name l)) ls"
      "ca_labor r = subtotal ''labor'' ls" "ca_material r = subtotal ''material'' ls" "ca_other r = subtotal ''other'' ls"
      "ca_minimum_adjustment r = 0" "ca_total r = price"
      "\<forall>m. cp_min_job_price (rp_profile rp) = Some m \<longrightarrow> \<not> price < float_of_dec m"
    | (raised) m a where "cp_min_job_price (rp_profile rp) = Some m" "price < float_of_dec m"
      "a = round_currency (fsub (float_of_dec m) price)"
      "ca_lines r = sort_key (\<lambda>l. (li_sort_order l, li_name l)) (ls @ [minimum_line w (rp_profile rp) a])"
      "ca_labor r = subtotal ''labor'' ls" "ca_material r = subtotal ''material'' ls"
      "ca_other r = round_currency (fadd (subtotal ''other'' ls) a)" "ca_minimum_adjustment r = a"
      "ca_total r = sum3 (subtotal ''labor'' ls) (subtotal ''material'' ls) (round_currency (fadd (subtotal ''other'' ls) a))"
proof (cases "\<exists>m. cp_min_job_price (rp_profile rp) = Some m \<and> price < float_of_dec m")
  case True
  then obtain m where m: "cp_min_job_price (rp_profile rp) = Some m" "price < float_of_dec m" by blast
  show ?thesis
    by (rule raised [OF m refl]) (use m in \<open>simp_all add: r finish_calculation_def Let_def price_def\<close>)
next
  case False
  then show ?thesis
    by (intro kept; cases "cp_min_job_price (rp_profile rp)")
       (auto simp: r finish_calculation_def Let_def price_def)
qed

lemma minimum_line_simps [simp]:
  "li_total_price (minimum_line w cp a) = a" "li_item_type (minimum_line w cp a) = ''other''"
  "li_price_source (minimum_line w cp a) = ''catalog_minimum_charge''"
  by (simp_all add: minimum_line_def)

lemma raised_bill_exact:
  assumes r: "ca_lines r = sort_key k (ls @ [minimum_line w cp a])"
      "ca_labor r = subtotal ''labor'' ls" "ca_material r = subtotal ''material'' ls"
      "ca_other r = round_currency (fadd (subtotal ''other'' ls) a)" "ca_minimum_adjustment r = a"
      "ca_total r = sum3 (subtotal ''labor'' ls) (subtotal ''material'' ls) (round_currency (fadd (subtotal ''other'' ls) a))"
    and types: "\<forall>l \<in> set ls. li_item_type l \<in> set CATALOG_PRICING_RULE_LINE_TYPES"
    and c: "\<forall>l \<in> set (ca_lines r). li_total_price l = cents (c l)" and small: "small_bill c (ca_lines r)"
  shows "ca_labor r = cents (cents_of c (of_type ''labor'') (ca_lines r)) \<and>
     ca_material r = cents (cents_of c (of_type ''material'') (ca_lines r)) \<and>
     ca_other r = cents (cents_of c (of_type ''other'') (ca_lines r)) \<and>
     ca_total r = cents (cents_of c (\<lambda>l. True) (ca_lines r))"
proof -
  let ?l = "minimum_line w cp a"
  have all: "small_bill c (ls @ [?l])" using small r(1) by simp
  then have few: "small_bill c ls" unfolding small_bill_def by (simp, linarith)
  have cs: "\<forall>l \<in> set ls. li_total_price l = cents (c l)" and a: "a = cents (c ?l)" using c r(1) by simp_all
  have labor: "ca_labor r = cents (cents_of c (of_type ''labor'') (ca_lines r))"
    and material: "ca_material r = cents (cents_of c (of_type ''material'') (ca_lines r))"
    using subtotal_exact [OF cs few] by (simp_all add: r cents_of_split of_type_def)
  have "0 \<le> sum_list (map (\<lambda>l. \<bar>c l\<bar>) ls)" by (rule sum_list_nonneg) auto
  then have "is_money (c ?l)" using all unfolding small_bill_def is_money_def by simp
  then have other: "ca_other r = cents (cents_of c (of_type ''other'') (ca_lines r))"
    using subtotal_exact [OF cs few] a cents_add(1) [OF small_bill_money [OF few, of "of_type ''other''"], of "c ?l"]
    by (simp add: r cents_of_split of_type_def)
  have "subtotal t (ls @ [?l]) = cents (cents_of c (of_type t) (ls @ [?l]))" for t
    using cs a all by (intro subtotal_exact) auto
  then have "ca_total r = sum3 (subtotal ''labor'' (ls @ [?l])) (subtotal ''material'' (ls @ [?l])) (subtotal ''other'' (ls @ [?l]))"
    using labor material other by (simp add: r)
  also have "\<dots> = cents (cents_of c (\<lambda>l. True) (ls @ [?l]))"
    using cs a all types other_is_line_type by (intro total_exact) auto
  finally show ?thesis using labor material other by (simp add: r(1))
qed

lemma calculated_totals:
  assumes "calculate_project_work_item w rp = Inr r" "rows_checked (rp_profile rp)"
    and c: "\<forall>l \<in> set (ca_lines r). li_total_price l = cents (c l)" and small: "small_bill c (ca_lines r)"
  shows "ca_labor r = cents (cents_of c (of_type ''labor'') (ca_lines r)) \<and>
     ca_material r = cents (cents_of c (of_type ''material'') (ca_lines r)) \<and>
     ca_other r = cents (cents_of c (of_type ''other'') (ca_lines r)) \<and>
     ca_total r = cents (cents_of c (\<lambda>l. True) (ca_lines r))"
proof -
  obtain inputs ls where money: "list_all money_line ls" and r: "r = finish_calculation w rp inputs ls"
    using calculated_lines [OF assms(1,2)] .
  have types: "\<forall>l \<in> set ls. li_item_type l \<in> set CATALOG_PRICING_RULE_LINE_TYPES"
    using money by (auto simp: list_all_iff money_line_def)
  from r show ?thesis
  proof (cases rule: finish_cases)
    case kept
    then show ?thesis using c small types by (simp add: subtotal_exact total_exact)
  next
    case (raised m a)
    then show ?thesis by (intro raised_bill_exact [OF raised(4-9) types c small])
  qed
qed

lemmas calculated_total = calculated_totals [THEN conjunct2, THEN conjunct2, THEN conjunct2]

lemma calculated_line_prices:
  assumes "calculate_project_work_item w rp = Inr r" "rows_checked (rp_profile rp)" "l \<in> set (ca_lines r)"
  shows "\<exists>c. li_total_price l = cents c"
proof -
  obtain inputs ls where money: "list_all money_line ls" and r: "r = finish_calculation w rp inputs ls"
    using calculated_lines [OF assms(1,2)] .
  from r show ?thesis
    by (cases rule: finish_cases)
      (use assms(3) money round_currency_cents in \<open>auto simp: list_all_iff money_line_def\<close>)
qed

text \<open>C16: The pricing arithmetic is exact. Every line of a calculated work item costs a whole number of cents, and
  although the code adds binary floats, with rounding after each sum, the three subtotals are the floats of the exact
  integer sums of their lines and the total is the float of the exact sum of all lines, the minimum charge included, as
  long as the bill has at most a thousand lines and a hundred million units.\<close>

theorem pricing_refines_cents:
  assumes "calculate_project_work_item w rp = Inr r" "rows_checked (rp_profile rp)"
  shows "(\<forall>l \<in> set (ca_lines r). \<exists>c. li_total_price l = cents c) \<and>
    (\<forall>c. (\<forall>l \<in> set (ca_lines r). li_total_price l = cents (c l)) \<longrightarrow> small_bill c (ca_lines r) \<longrightarrow>
       ca_labor r = cents (cents_of c (of_type ''labor'') (ca_lines r)) \<and>
       ca_material r = cents (cents_of c (of_type ''material'') (ca_lines r)) \<and>
       ca_other r = cents (cents_of c (of_type ''other'') (ca_lines r)) \<and>
       ca_total r = cents (cents_of c (\<lambda>l. True) (ca_lines r)))"
  using calculated_line_prices [OF assms] calculated_totals [OF assms] by blast

text \<open>C17: A minimum job price is charged exactly, within bounds: for a profile whose rows pass the database checks, a
  minimum of \<open>k\<close> whole cents with \<open>k\<close> at most ten to the tenth (a hundred million), and a calculated bill of at most a
  thousand lines whose amounts sum up to no more than that, the total of the work item is the larger of \<open>k\<close> cents and the
  exact sum of its formula lines, the difference stands in the result as the minimum adjustment, and a line for it is
  added only when the formula lines fall short. Minima and bills beyond these bounds, which the column would hold, and
  minima with a fraction of a cent are not covered.\<close>

theorem minimum_price_is_charged:
  assumes "calculate_project_work_item w rp = Inr r" "rows_checked (rp_profile rp)"
    and "cp_min_job_price (rp_profile rp) = Some m" "dec_value m = of_int k / 100" "0 \<le> k" "k \<le> 10 ^ 10"
    and c: "\<forall>l \<in> set (ca_lines r). li_total_price l = cents (c l)" and small: "small_bill c (ca_lines r)"
  shows "let formula = cents_of c (\<lambda>l. li_price_source l \<noteq> ''catalog_minimum_charge'') (ca_lines r)
    in ca_total r = cents (max k formula) \<and> ca_minimum_adjustment r = cents (max k formula - formula) \<and>
       (list_ex (\<lambda>l. li_price_source l = ''catalog_minimum_charge'') (ca_lines r) \<longleftrightarrow> formula < k)"
proof -
  let ?p = "\<lambda>l. li_price_source l \<noteq> ''catalog_minimum_charge''"
  obtain inputs ls where money: "list_all money_line ls" and r: "r = finish_calculation w rp inputs ls"
    using calculated_lines [OF assms(1,2)] .
  have types: "\<forall>l \<in> set ls. li_item_type l \<in> set CATALOG_PRICING_RULE_LINE_TYPES" and own: "\<forall>l \<in> set ls. ?p l"
    using money by (auto simp: list_all_iff money_line_def)
  have all: "cents_of c ?p ls = cents_of c (\<lambda>l. True) ls"
    using own by (simp add: cents_of_def filter_id_conv)
  have m: "float_of_dec m = cents k" "is_money k"
    unfolding float_of_dec_def assms(4) cents_def is_money_def using assms(5,6) by simp_all
  from r show ?thesis
  proof (cases rule: finish_cases)
    case kept
    have "small_bill c ls" "\<forall>l \<in> set ls. li_total_price l = cents (c l)" using c small kept(1) by simp_all
    with types have "sum3 (subtotal ''labor'' ls) (subtotal ''material'' ls) (subtotal ''other'' ls) = cents (cents_of c ?p ls)"
      unfolding all by (intro total_exact)
    moreover have "is_money (cents_of c ?p ls)" using \<open>small_bill c ls\<close> by (rule small_bill_money)
    ultimately show ?thesis
      using kept(1,5,6,7) assms(3) m own by (auto simp: Let_def max_def list_ex_iff not_less)
  next
    case (raised m' a)
    then have [simp]: "m' = m" using assms(3) by simp
    let ?l = "minimum_line w (rp_profile rp) a"
    have bill: "small_bill c (ls @ [?l])" using small raised(4) by simp
    then have few: "small_bill c ls" unfolding small_bill_def by (simp, linarith)
    have cs: "\<forall>l \<in> set ls. li_total_price l = cents (c l)" and a: "a = cents (c ?l)" using c raised(4) by simp_all
    have price: "sum3 (subtotal ''labor'' ls) (subtotal ''material'' ls) (subtotal ''other'' ls) = cents (cents_of c ?p ls)"
      unfolding all using cs few types by (rule total_exact)
    have money: "is_money (cents_of c ?p ls)" using few by (rule small_bill_money)
    have short: "cents_of c ?p ls < k" using raised(2) m money by (simp add: price)
    have a': "a = cents (k - cents_of c ?p ls)" using raised(3) m money by (simp add: price cents_add)
    have "0 \<le> sum_list (map (\<lambda>l. \<bar>c l\<bar>) ls)" by (rule sum_list_nonneg) auto
    then have "is_money (c ?l)" using bill unfolding small_bill_def is_money_def by simp
    moreover have "is_money (k - cents_of c ?p ls)"
      using abs_cents_of [of c ?p ls] few assms(5,6) by (auto simp: is_money_def small_bill_def)
    ultimately have last: "c ?l = k - cents_of c ?p ls" using a a' by simp
    have "ca_total r = cents (cents_of c (\<lambda>l. True) (ca_lines r))"
      using raised_bill_exact [OF raised(4-9) types c small] by blast
    also have "cents_of c (\<lambda>l. True) (ca_lines r) = k" using last by (simp add: raised(4) cents_of_split all)
    finally show ?thesis
      using short a' raised(4,8) own by (simp add: Let_def cents_of_split list_ex_iff)
  qed
qed

lemma calculated_line_types:
  assumes "calculate_project_work_item w rp = Inr r" "rows_checked (rp_profile rp)" "l \<in> set (ca_lines r)"
  shows "li_item_type l \<in> set CATALOG_PRICING_RULE_LINE_TYPES"
proof -
  obtain inputs ls where money: "list_all money_line ls" and r: "r = finish_calculation w rp inputs ls"
    using calculated_lines [OF assms(1,2)] .
  from r show ?thesis
    by (cases rule: finish_cases)
      (use assms(3) money other_is_line_type in \<open>auto simp: list_all_iff money_line_def\<close>)
qed

subsection \<open>Quotes\<close>

lemma fadd_mono: "a \<le> b \<Longrightarrow> fadd x a \<le> fadd x b" "a \<le> b \<Longrightarrow> fadd a x \<le> fadd b x"
  by (simp_all add: fadd_def fl_mono)

lemma fmul_mono: "0 \<le> x \<Longrightarrow> a \<le> b \<Longrightarrow> fmul x a \<le> fmul x b" "0 \<le> x \<Longrightarrow> a \<le> b \<Longrightarrow> fmul a x \<le> fmul b x"
  by (simp_all add: fmul_def fl_mono mult_left_mono mult_right_mono)

lemma fdiv_mono: "a \<le> b \<Longrightarrow> fdiv a 100 \<le> fdiv b 100" "0 \<le> a \<Longrightarrow> 0 \<le> fdiv a 100"
  by (simp_all add: fdiv_def fl_mono fl_nonneg divide_right_mono)

definition price_le :: "quote_variant \<Rightarrow> quote_variant \<Rightarrow> bool" where
  "price_le a b \<longleftrightarrow> qv_total_ex_vat a \<le> qv_total_ex_vat b \<and> qv_vat_amount a \<le> qv_vat_amount b \<and>
     qv_total_inc_vat a \<le> qv_total_inc_vat b"

definition marked_up :: "flt \<Rightarrow> flt \<Rightarrow> flt" where
  "marked_up base margin = round_currency (fmul base (fadd 1 (fdiv margin 100)))"

definition tax_on :: "flt \<Rightarrow> flt \<Rightarrow> flt" where
  "tax_on vat ex = round_currency (fmul ex (fdiv vat 100))"

lemma marked_up_mono: "0 \<le> base \<Longrightarrow> a \<le> b \<Longrightarrow> marked_up base a \<le> marked_up base b"
  unfolding marked_up_def by (intro round_currency_mono fmul_mono fadd_mono fdiv_mono)

lemma tax_on_mono: "0 \<le> vat \<Longrightarrow> a \<le> b \<Longrightarrow> tax_on vat a \<le> tax_on vat b"
  unfolding tax_on_def by (intro round_currency_mono fmul_mono fdiv_mono)

lemma build_quote_variants_fields:
  "map (\<lambda>v. (qv_type v, qv_total_ex_vat v, qv_vat_amount v, qv_total_inc_vat v)) (fst (build_quote_variants t results)) =
   map (\<lambda>(kind, margin). let ex = marked_up (ps_base_subtotal (snd (build_quote_variants t results))) margin;
          tax = tax_on (float_of_dec (tp_vat t)) ex in (kind, ex, tax, round_currency (fadd ex tax)))
     [(''economy'', float_of_dec (tp_margin_economy t)), (''standard'', float_of_dec (tp_margin_standard t)),
      (''premium'', float_of_dec (tp_margin_premium t))]"
  by (simp add: build_quote_variants_def Let_def marked_up_def tax_on_def)

text \<open>C24: The three variants of a quote are ordered like their margins: with margins that do not fall from
  economy over standard to premium, a base and a tax rate that are not negative, neither the price without tax nor the
  tax nor the price with tax falls, whatever the rounding. Within a variant the tax adds up exactly: prices are whole
  numbers of cents and the price with tax is the float of the integer sum of the other two.\<close>

theorem quote_variants_are_ordered:
  assumes "dec_value (tp_margin_economy t) \<le> dec_value (tp_margin_standard t)"
    and "dec_value (tp_margin_standard t) \<le> dec_value (tp_margin_premium t)" "0 \<le> dec_value (tp_vat t)"
    and "0 \<le> ps_base_subtotal (snd (build_quote_variants t results))"
  shows "sorted_wrt price_le (fst (build_quote_variants t results)) \<and>
    map qv_type (fst (build_quote_variants t results)) = [''economy'', ''standard'', ''premium''] \<and>
    (\<forall>v \<in> set (fst (build_quote_variants t results)). \<exists>e x. qv_total_ex_vat v = cents e \<and> qv_vat_amount v = cents x \<and>
       (is_money e \<longrightarrow> is_money x \<longrightarrow> qv_total_inc_vat v = cents (e + x)))"
proof -
  let ?base = "ps_base_subtotal (snd (build_quote_variants t results))" and ?vat = "float_of_dec (tp_vat t)"
  obtain e s p where vs: "fst (build_quote_variants t results) = [e, s, p]"
    by (simp add: build_quote_variants_def Let_def)
  note fields = build_quote_variants_fields [of t results, unfolded vs, simplified Let_def]
  have margins: "float_of_dec (tp_margin_economy t) \<le> float_of_dec (tp_margin_standard t)"
    "float_of_dec (tp_margin_standard t) \<le> float_of_dec (tp_margin_premium t)" "0 \<le> ?vat"
    using assms(1-3) by (simp_all add: float_of_dec_def fl_mono fl_nonneg)
  have le: "price_le a b" if "qv_total_ex_vat a = marked_up ?base m" "qv_total_ex_vat b = marked_up ?base n" "m \<le> n"
    "qv_vat_amount a = tax_on ?vat (qv_total_ex_vat a)" "qv_vat_amount b = tax_on ?vat (qv_total_ex_vat b)"
    "qv_total_inc_vat a = round_currency (fadd (qv_total_ex_vat a) (qv_vat_amount a))"
    "qv_total_inc_vat b = round_currency (fadd (qv_total_ex_vat b) (qv_vat_amount b))" for a b m n
  proof -
    have ex: "qv_total_ex_vat a \<le> qv_total_ex_vat b" using that(3) assms(4) by (simp add: that(1,2) marked_up_mono)
    then have tax: "qv_vat_amount a \<le> qv_vat_amount b" using margins(3) by (simp add: that(4,5) tax_on_mono)
    have "fadd (qv_total_ex_vat a) (qv_vat_amount a) \<le> fadd (qv_total_ex_vat b) (qv_vat_amount b)"
      using fadd_mono(2) [OF ex] fadd_mono(1) [OF tax] by (rule order_trans)
    then have "qv_total_inc_vat a \<le> qv_total_inc_vat b" unfolding that(6,7) by (rule round_currency_mono)
    with ex tax show ?thesis by (simp add: price_le_def)
  qed
  have "price_le e s" "price_le s p" "price_le e p"
    using le fields margins(1,2) order_trans [OF margins(1,2)] by simp_all
  moreover have "\<exists>a x. qv_total_ex_vat v = cents a \<and> qv_vat_amount v = cents x \<and>
       (is_money a \<longrightarrow> is_money x \<longrightarrow> qv_total_inc_vat v = cents (a + x))" if "v \<in> {e, s, p}" for v
  proof -
    have "\<exists>m. qv_total_ex_vat v = marked_up ?base m \<and> qv_vat_amount v = tax_on ?vat (qv_total_ex_vat v) \<and>
        qv_total_inc_vat v = round_currency (fadd (qv_total_ex_vat v) (qv_vat_amount v))"
      using that fields by auto
    then obtain a x where "qv_total_ex_vat v = cents a" "qv_vat_amount v = cents x"
      "qv_total_inc_vat v = round_currency (fadd (cents a) (cents x))"
      unfolding marked_up_def tax_on_def by (metis round_currency_cents)
    then show ?thesis using cents_add(1) by auto
  qed
  ultimately show ?thesis using fields by (simp add: vs)
qed

lemma cents_of_concat: "cents_of c p (concat lss) = sum_list (map (cents_of c p) lss)"
  by (induction lss) (simp_all add: cents_of_def)

lemma small_bill_part: "small_bill c (concat lss) \<Longrightarrow> ls \<in> set lss \<Longrightarrow> small_bill c ls"
proof -
  assume small: "small_bill c (concat lss)" and "ls \<in> set lss"
  then obtain xs ys where "lss = xs @ ls # ys" by (meson split_list)
  moreover have nonneg: "0 \<le> sum_list (map (\<lambda>l. \<bar>c l\<bar>) zs)" for zs by (rule sum_list_nonneg) auto
  ultimately have "length ls \<le> length (concat lss)"
    "sum_list (map (\<lambda>l. \<bar>c l\<bar>) ls) \<le> sum_list (map (\<lambda>l. \<bar>c l\<bar>) (concat lss))"
    using nonneg [of "concat xs"] nonneg [of "concat ys"] by simp_all
  then show ?thesis using small unfolding small_bill_def by linarith
qed

text \<open>The base of a quote is exactly the sum of the work items it is made of: if every result is one of the
  calculation, the base subtotal of the summary is the float of the integer sum, in cents, of the totals of the results,
  and each of these totals is the float of its summand.\<close>

theorem quote_base_adds_up:
  assumes "\<forall>r \<in> set results. \<exists>w rp. calculate_project_work_item w rp = Inr r \<and> rows_checked (rp_profile rp)"
    and "\<forall>r \<in> set results. \<forall>l \<in> set (ca_lines r). li_total_price l = cents (c l)"
    and "small_bill c (concat (map ca_lines results))"
  shows "ps_base_subtotal (snd (build_quote_variants t results)) =
      cents (\<Sum>r\<leftarrow>results. cents_of c (\<lambda>l. True) (ca_lines r)) \<and>
    (\<forall>r \<in> set results. ca_total r = cents (cents_of c (\<lambda>l. True) (ca_lines r)))"
proof -
  let ?items = "concat (map ca_lines results)"
  have types: "\<forall>l \<in> set (ca_lines r). li_item_type l \<in> set CATALOG_PRICING_RULE_LINE_TYPES" if "r \<in> set results" for r
    using assms(1) that calculated_line_types by blast
  have "sum3 (subtotal ''labor'' ?items) (subtotal ''material'' ?items) (subtotal ''other'' ?items) =
      cents (cents_of c (\<lambda>l. True) ?items)"
    using assms(2,3) types by (intro total_exact) auto
  moreover have "ca_total r = cents (cents_of c (\<lambda>l. True) (ca_lines r))" if r: "r \<in> set results" for r
  proof -
    have "small_bill c (ca_lines r)" using small_bill_part [OF assms(3), of "ca_lines r"] r by simp
    then show ?thesis using assms(1,2) r calculated_total by blast
  qed
  ultimately show ?thesis
    by (simp add: build_quote_variants_def Let_def cents_of_concat o_def)
qed

subsection \<open>A validated profile prices every complete work item\<close>

text \<open>The dictionaries of a profile's rows, as the seed data and the definition check write them.\<close>

definition str_object :: "string option \<Rightarrow> pyv" where
  "str_object s = (case s of None \<Rightarrow> PNone | Some t \<Rightarrow> PStr t)"

definition numeric_object :: "dec option \<Rightarrow> pyv" where
  "numeric_object d = (case d of None \<Rightarrow> PNone | Some x \<Rightarrow> PDec (Finite x))"

definition required_input_dict :: "required_input \<Rightarrow> pydict" where
  "required_input_dict r = [(''code'', PStr (ri_code r)), (''source_type'', PStr (ri_source_type r)),
     (''source_key'', str_object (ri_source_key r)), (''is_required'', PBool (ri_is_required r)),
     (''sort_order'', PInt (ri_sort_order r))]"

definition base_rule_dict :: "base_rule \<Rightarrow> pydict" where
  "base_rule_dict r = [(''code'', PStr (br_code r)), (''line_type'', PStr (br_line_type r)),
     (''calculation_method'', PStr (br_method r)), (''quantity_source_type'', PStr (br_source_type r)),
     (''quantity_source_key'', str_object (br_source_key r)), (''quantity_multiplier'', PDec (Finite (br_multiplier r))),
     (''unit'', PStr (br_unit r)), (''rate_source'', PStr (br_rate_source r)),
     (''rate_value'', numeric_object (br_rate_value r)), (''labor_assumption_code'', str_object (br_labor_assumption r)),
     (''material_assumption_code'', str_object (br_material_assumption r)), (''sort_order'', PInt (br_sort_order r))]"

definition adjustment_rule_dict :: "adjustment_rule \<Rightarrow> pydict" where
  "adjustment_rule_dict r = [(''code'', PStr (ar_code r)), (''target_scope'', PStr (ar_target_scope r)),
     (''target_line_type'', str_object (ar_target_line_type r)), (''target_base_rule_code'', str_object (ar_target_base_rule r)),
     (''operation'', PStr (ar_operation r)), (''adjustment_value'', PDec (Finite (ar_value r))),
     (''condition_source_type'', PStr (ar_source_type r)), (''condition_source_key'', str_object (ar_source_key r)),
     (''condition_operator'', PStr (ar_operator r)), (''condition_text_value'', str_object (ar_text r)),
     (''condition_number_value'', numeric_object (ar_number r)),
     (''condition_boolean_value'', case ar_boolean r of None \<Rightarrow> PNone | Some b \<Rightarrow> PBool b),
     (''condition_option_code'', str_object (ar_option r)), (''sort_order'', PInt (ar_sort_order r))]"

definition describes :: "pricing_definition \<Rightarrow> catalog_profile \<Rightarrow> bool" where
  "describes p cp \<longleftrightarrow> pp_required_inputs p = map required_input_dict (cp_required_inputs cp) \<and>
     pp_base_rules p = map base_rule_dict (cp_base_rules cp) \<and>
     pp_adjustment_rules p = map adjustment_rule_dict (cp_adjustment_rules cp)"

text \<open>What the calculation needs beyond a valid definition: stored keys in the normal form that the check only
  looks at, the tenant's rates where a rule uses them, the required values, numbers where a rule multiplies, and
  numeric comparison values where a rule compares.\<close>

definition normal_key :: "string option \<Rightarrow> bool" where
  "normal_key key \<longleftrightarrow> (\<forall>k. key = Some k \<longrightarrow> py_lower (py_strip k) = k)"

definition keys_normal :: "catalog_profile \<Rightarrow> bool" where
  "keys_normal cp \<longleftrightarrow> list_all (\<lambda>r. normal_key (ri_source_key r)) (cp_required_inputs cp) \<and>
     list_all (\<lambda>r. normal_key (br_source_key r)) (cp_base_rules cp) \<and>
     list_all (\<lambda>r. normal_key (ar_source_key r)) (cp_adjustment_rules cp)"

definition rates_available :: "resolved_pricing \<Rightarrow> bool" where
  "rates_available rp \<longleftrightarrow>
     list_all (\<lambda>r. br_rate_source r \<in> set [''tenant_hourly_rate'', ''tenant_daily_rate''] \<longrightarrow> rp_tenant rp \<noteq> None)
       (cp_base_rules (rp_profile rp))"

definition source_value_is :: "work_item \<Rightarrow> string \<Rightarrow> string option \<Rightarrow> (pval \<Rightarrow> bool) \<Rightarrow> bool" where
  "source_value_is w t key ok = (case resolve_source_value w t key of Inl e \<Rightarrow> True | Inr v \<Rightarrow> ok v)"

definition inputs_present :: "work_item \<Rightarrow> catalog_profile \<Rightarrow> bool" where
  "inputs_present w cp \<longleftrightarrow> list_all (\<lambda>r. ri_is_required r \<longrightarrow>
     source_value_is w (ri_source_type r) (ri_source_key r) (\<lambda>v. v \<noteq> VNone \<and> v \<noteq> VStr [])) (cp_required_inputs cp)"

definition numeric_sources :: "work_item \<Rightarrow> catalog_profile \<Rightarrow> bool" where
  "numeric_sources w cp \<longleftrightarrow> list_all (\<lambda>r.
     source_value_is w (br_source_type r) (br_source_key r) (\<lambda>v. v = VNone \<or> exact_number v \<noteq> None)) (cp_base_rules cp)"

definition numeric_conditions :: "catalog_profile \<Rightarrow> bool" where
  "numeric_conditions cp \<longleftrightarrow> list_all (\<lambda>r. ar_operator r \<in> set [''gte'', ''lte''] \<longrightarrow>
     comparison_value r = VNone \<or> exact_number (comparison_value r) \<noteq> None) (cp_adjustment_rules cp)"

definition source_ok :: "string \<Rightarrow> string option \<Rightarrow> bool" where
  "source_ok t key \<longleftrightarrow> t = ''constant'' \<or>
     (if t = ''work_item_field'' then \<exists>k \<in> set CATALOG_PRICING_WORK_ITEM_FIELDS. key = Some k
      else \<exists>k. key = Some k \<and> k \<noteq> [])"

lemma source_ok_resolves: "source_ok t key \<Longrightarrow> \<exists>v. resolve_source_value w t key = Inr v"
  by (auto simp: source_ok_def resolve_source_value_def CATALOG_PRICING_WORK_ITEM_FIELDS_def split: if_splits)

lemma float_of_number: "exact_number v \<noteq> None \<Longrightarrow> \<exists>x. float_of v = Inr x"
  by (cases v) auto

lemma normalized_key:
  assumes "normalize_machine_code f (str_object key) = Inr s" "normal_key key"
  shows "key = Some s \<and> s \<noteq> []"
  using assms code_text_letters
  by (cases key) (auto simp: normalize_machine_code_Inr str_object_def normal_key_def)

lemma quantity_source_cases:
  "t \<in> set CATALOG_PRICING_RULE_QUANTITY_SOURCES \<Longrightarrow> t = ''parameter'' \<or> t = ''work_item_field'' \<or> t = ''constant''"
  by (simp add: CATALOG_PRICING_RULE_QUANTITY_SOURCES_def)

lemma check_source_ok:
  assumes "check_source what code f params (PStr t) (str_object key) other = Inr u"
    and "t \<in> set CATALOG_PRICING_RULE_QUANTITY_SOURCES" "normal_key key"
  shows "source_ok t key"
  using assms normalized_key [OF _ assms(3)] quantity_source_cases [OF assms(2)]
  by (auto simp: check_source_def source_ok_def bind_res_eq_Inr split: if_splits)

lemma enum_texts:
  "t \<in> set CATALOG_PRICING_RULE_QUANTITY_SOURCES \<Longrightarrow> py_lower (py_strip t) = t"
  "t \<in> set CATALOG_PRICING_REQUIRED_INPUT_SOURCES \<Longrightarrow> t \<in> set CATALOG_PRICING_RULE_QUANTITY_SOURCES"
  "t \<in> set CATALOG_PRICING_RULE_RATE_SOURCES \<Longrightarrow> py_lower (py_strip t) = t"
proof -
  have "list_all (\<lambda>t. py_lower (py_strip t) = t) CATALOG_PRICING_RULE_QUANTITY_SOURCES"
    "list_all (\<lambda>t. py_lower (py_strip t) = t) CATALOG_PRICING_RULE_RATE_SOURCES"
    "list_all (\<lambda>t. t \<in> set CATALOG_PRICING_RULE_QUANTITY_SOURCES) CATALOG_PRICING_REQUIRED_INPUT_SOURCES"
    by code_simp+
  then show "t \<in> set CATALOG_PRICING_RULE_QUANTITY_SOURCES \<Longrightarrow> py_lower (py_strip t) = t"
    "t \<in> set CATALOG_PRICING_REQUIRED_INPUT_SOURCES \<Longrightarrow> t \<in> set CATALOG_PRICING_RULE_QUANTITY_SOURCES"
    "t \<in> set CATALOG_PRICING_RULE_RATE_SOURCES \<Longrightarrow> py_lower (py_strip t) = t"
    by (simp_all add: list_all_iff)
qed

lemma enum_field_text: "enum_field f allowed k row = Inr c \<Longrightarrow> field row k = Inr (PStr t) \<Longrightarrow> c = py_lower (py_strip t)"
  by (simp add: enum_field_def normalize_enum_Inr normalize_machine_code_Inr)

lemma required_input_sound:
  assumes "required_input_step params (required_input_dict r) st = Inr st'"
    and "ri_source_type r \<in> set CATALOG_PRICING_REQUIRED_INPUT_SOURCES" "normal_key (ri_source_key r)"
  shows "source_ok (ri_source_type r) (ri_source_key r)"
proof -
  from assms(1) obtain code key u where key: "normalize_machine_code ''requiredInputSourceKey'' (str_object (ri_source_key r)) = Inr key"
    and src: "check_source ''Required input'' code ''requiredInputSourceKey'' params (PStr (ri_source_type r)) (PStr key) (Inr ()) = Inr u"
    by (auto simp: required_input_step_def required_input_dict_def bind_res_eq_Inr code_field_def field_def)
  have "ri_source_key r = Some key" using normalized_key [OF key assms(3)] by simp
  then have "PStr key = str_object (ri_source_key r)" by (simp add: str_object_def)
  with src show ?thesis
    using check_source_ok [OF _ enum_texts(2) [OF assms(2)] assms(3)] by simp
qed

lemma base_rule_sound:
  assumes "base_rule_step params labor material (base_rule_dict r) seen = Inr seen'"
    and src: "br_source_type r \<in> set CATALOG_PRICING_RULE_QUANTITY_SOURCES"
    and rate: "br_rate_source r \<in> set CATALOG_PRICING_RULE_RATE_SOURCES" and key: "normal_key (br_source_key r)"
  shows "source_ok (br_source_type r) (br_source_key r)"
    and "br_rate_source r \<notin> set [''tenant_hourly_rate'', ''tenant_daily_rate''] \<Longrightarrow> br_rate_value r \<noteq> None"
proof -
  let ?row = "base_rule_dict r"
  from assms(1) obtain code t other u v where
    t: "enum_field ''baseRuleQuantitySourceType'' CATALOG_PRICING_RULE_QUANTITY_SOURCES ''quantity_source_type'' ?row = Inr t"
    and source: "check_source ''Base rule'' code ''baseRuleQuantitySourceKey'' params (PStr t)
        (get_field ?row ''quantity_source_key'') other = Inr u"
    and rates: "check_base_rate code labor material ?row = Inr v"
    by (auto simp: base_rule_step_def bind_res_eq_Inr Let_def)
  have "t = br_source_type r"
    using enum_field_text [OF t, of "br_source_type r"] enum_texts(1) [OF src] by (simp add: base_rule_dict_def field_def)
  moreover have "get_field ?row ''quantity_source_key'' = str_object (br_source_key r)"
    by (simp add: base_rule_dict_def get_field_def)
  ultimately show "source_ok (br_source_type r) (br_source_key r)"
    using check_source_ok [OF _ src key] source by simp
  from rates obtain rs rv where
    rs: "enum_field ''baseRuleRateSource'' CATALOG_PRICING_RULE_RATE_SOURCES ''rate_source'' ?row = Inr rs"
    and rv: "parse_decimal ''rateValue'' (get_field ?row ''rate_value'') = Inr rv"
    and catalog: "rs \<in> set [''catalog_unit_rate'', ''catalog_flat_rate''] \<Longrightarrow> rv \<noteq> None"
    by (auto simp: check_base_rate_def bind_res_eq_Inr split: if_splits)
  have "rs = br_rate_source r"
    using enum_field_text [OF rs, of "br_rate_source r"] enum_texts(3) [OF rate] by (simp add: base_rule_dict_def field_def)
  moreover have "rv \<noteq> None \<Longrightarrow> br_rate_value r \<noteq> None"
    using rv by (auto simp: base_rule_dict_def get_field_def numeric_object_def parse_decimal_Inr split: option.splits)
  ultimately show "br_rate_source r \<notin> set [''tenant_hourly_rate'', ''tenant_daily_rate''] \<Longrightarrow> br_rate_value r \<noteq> None"
    using rate catalog by (auto simp: CATALOG_PRICING_RULE_RATE_SOURCES_def)
qed

lemma adjustment_rule_sound:
  assumes "adjustment_rule_step params sources base_codes (adjustment_rule_dict r) seen = Inr seen'"
    and src: "ar_source_type r \<in> set CATALOG_PRICING_REQUIRED_INPUT_SOURCES" and key: "normal_key (ar_source_key r)"
  shows "source_ok (ar_source_type r) (ar_source_key r)"
proof -
  let ?row = "adjustment_rule_dict r"
  from assms(1) obtain code u where "check_adjustment_condition code params sources ?row = Inr u"
    by (auto simp: adjustment_rule_step_def bind_res_eq_Inr split: if_splits)
  then obtain t k v where
    t: "enum_field ''adjustmentConditionSourceType'' CATALOG_PRICING_REQUIRED_INPUT_SOURCES ''condition_source_type'' ?row = Inr t"
    and k: "code_field ''adjustmentConditionSourceKey'' ''condition_source_key'' ?row = Inr k"
    and source: "check_source ''Adjustment rule'' code ''adjustmentConditionSourceKey'' params (PStr t) (PStr k) (Inr ()) = Inr v"
    by (auto simp: check_adjustment_condition_def bind_res_eq_Inr)
  have "t = ar_source_type r"
    using enum_field_text [OF t, of "ar_source_type r"] enum_texts(1) [OF enum_texts(2) [OF src]]
    by (simp add: adjustment_rule_dict_def field_def)
  moreover have "normalize_machine_code ''adjustmentConditionSourceKey'' (str_object (ar_source_key r)) = Inr k"
    using k by (simp add: code_field_def adjustment_rule_dict_def field_def)
  then have "ar_source_key r = Some k" using normalized_key [OF _ key] by blast
  then have "PStr k = str_object (ar_source_key r)" by (simp add: str_object_def)
  ultimately show ?thesis
    using check_source_ok [OF _ enum_texts(2) [OF src] key] source by simp
qed

lemma validated_profile_sound:
  assumes "validate_pricing_profile_definition params p = Inr u" "describes p cp" "rows_checked cp" "keys_normal cp"
  shows "r \<in> set (cp_required_inputs cp) \<Longrightarrow> source_ok (ri_source_type r) (ri_source_key r)"
    and "b \<in> set (cp_base_rules cp) \<Longrightarrow> source_ok (br_source_type b) (br_source_key b) \<and>
      (br_rate_source b \<notin> set [''tenant_hourly_rate'', ''tenant_daily_rate''] \<longrightarrow> br_rate_value b \<noteq> None)"
    and "a \<in> set (cp_adjustment_rules cp) \<Longrightarrow> source_ok (ar_source_type a) (ar_source_key a)"
proof -
  from assms(1,2) obtain st sources labor material base_codes x where
    req: "fold_res (required_input_step params) (map required_input_dict (cp_required_inputs cp)) ([], []) = Inr st"
    and base: "fold_res (base_rule_step params labor material) (map base_rule_dict (cp_base_rules cp)) [] = Inr base_codes"
    and adj: "fold_res (adjustment_rule_step params sources base_codes) (map adjustment_rule_dict (cp_adjustment_rules cp)) [] = Inr x"
    by (auto simp: validate_pricing_profile_definition_def describes_def bind_res_eq_Inr split: prod.splits)
  note checked = assms(3) [unfolded rows_checked_def list_all_iff] and keys = assms(4) [unfolded keys_normal_def list_all_iff]
  show "source_ok (ri_source_type r) (ri_source_key r)" if "r \<in> set (cp_required_inputs cp)"
    using fold_res_each [OF req, of "required_input_dict r"] required_input_sound checked keys that by fastforce
  show "source_ok (br_source_type b) (br_source_key b) \<and>
      (br_rate_source b \<notin> set [''tenant_hourly_rate'', ''tenant_daily_rate''] \<longrightarrow> br_rate_value b \<noteq> None)"
    if "b \<in> set (cp_base_rules cp)"
    using fold_res_each [OF base, of "base_rule_dict b"] base_rule_sound [of params labor material b] checked keys that by fastforce
  show "source_ok (ar_source_type a) (ar_source_key a)" if "a \<in> set (cp_adjustment_rules cp)"
    using fold_res_each [OF adj, of "adjustment_rule_dict a"] adjustment_rule_sound checked keys that by fastforce
qed

lemma condition_total:
  assumes "ar_operator r \<in> set [''gte'', ''lte''] \<longrightarrow> comparison_value r = VNone \<or> exact_number (comparison_value r) \<noteq> None"
  shows "\<exists>b. condition_matches r v = Inr b"
proof (cases "exact_number v = None \<or> comparison_value r = VNone")
  case True
  then show ?thesis by (auto simp: condition_matches_def Let_def)
next
  case False
  then obtain x where "float_of v = Inr x" using float_of_number [of v] by blast
  moreover have "\<exists>y. float_of (comparison_value r) = Inr y" if "ar_operator r \<in> set [''gte'', ''lte'']"
    using False assms that by (intro float_of_number) blast
  ultimately show ?thesis by (fastforce simp: condition_matches_def Let_def)
qed

text \<open>C20: A profile that passed its definition check prices every complete work item: with the stored keys in
  normal form, the tenant's rates there, the required inputs present, numbers in the sources of base rules and numeric
  comparison values, the calculation returns a result; no rule reads an unsupported field or misses a rate.\<close>

theorem validated_profile_never_fails:
  assumes "validate_pricing_profile_definition params p = Inr u" "describes p (rp_profile rp)"
    and "rows_checked (rp_profile rp)" "keys_normal (rp_profile rp)" "rates_available rp"
    and "inputs_present w (rp_profile rp)" "numeric_sources w (rp_profile rp)" "numeric_conditions (rp_profile rp)"
  shows "\<exists>r. calculate_project_work_item w rp = Inr r"
proof -
  let ?cp = "rp_profile rp"
  note sound = validated_profile_sound [OF assms(1-4)]
  have input: "\<exists>b. input_step w x a = Inr b" if "x \<in> set (cp_required_inputs ?cp)" for x a
    using source_ok_resolves [OF sound(1) [OF that], of w] assms(6) that
    by (auto simp: input_step_def inputs_present_def list_all_iff source_value_is_def)
  have base: "\<exists>b. base_step w rp x a = Inr b" if x: "x \<in> set (cp_base_rules ?cp)" for x a
  proof -
    obtain v where v: "resolve_source_value w (br_source_type x) (br_source_key x) = Inr v"
      using source_ok_resolves sound(2) [OF x] by blast
    then have "v = VNone \<or> exact_number v \<noteq> None"
      using assms(7) x by (auto simp: numeric_sources_def list_all_iff source_value_is_def)
    then have "v = VNone \<or> (\<exists>q. base_quantity x v = Inr q)"
      using float_of_number [of v] by (auto simp: base_quantity_def)
    moreover have "\<exists>q. unit_price_for_rule (rp_tenant rp) x = Inr q"
      using sound(2) [OF x] assms(5) x
      by (fastforce simp: unit_price_for_rule_def rates_available_def list_all_iff)
    ultimately show ?thesis using v by (auto simp: base_step_def)
  qed
  have adjust: "\<exists>b. adjustment_step w rp x a = Inr b" if x: "x \<in> set (cp_adjustment_rules ?cp)" for x a
  proof -
    obtain v where "resolve_source_value w (ar_source_type x) (ar_source_key x) = Inr v"
      using source_ok_resolves sound(3) [OF x] by blast
    moreover obtain m where "condition_matches x v = Inr m"
      using condition_total [of x v] assms(8) x by (auto simp: numeric_conditions_def list_all_iff)
    ultimately show ?thesis by (auto simp: adjustment_step_def split: prod.splits option.splits)
  qed
  have "\<exists>s'. fold_res (input_step w) (sort_key (\<lambda>r. (ri_sort_order r, ri_code r)) (cp_required_inputs ?cp)) [] = Inr s'"
    by (rule fold_res_total) (simp add: input)
  moreover have "\<exists>s'. fold_res (base_step w rp) (sort_key (\<lambda>r. (br_sort_order r, br_code r)) (cp_base_rules ?cp)) [] = Inr s'"
    by (rule fold_res_total) (simp add: base)
  moreover have "\<exists>s'. fold_res (adjustment_step w rp) (sort_key (\<lambda>r. (ar_sort_order r, ar_code r)) (cp_adjustment_rules ?cp)) ls = Inr s'" for ls
    by (rule fold_res_total) (simp add: adjust)
  ultimately show ?thesis unfolding calculate_project_work_item_def Let_def by (metis bind_res.simps(2))
qed

subsection \<open>A worked example\<close>

definition sample_required :: required_input where
  "sample_required = \<lparr>ri_code = ''area'', ri_source_type = ''work_item_field'', ri_source_key = Some ''measured_quantity'',
     ri_is_required = True, ri_sort_order = 10\<rparr>"

definition sample_base_rule :: base_rule where
  "sample_base_rule = \<lparr>br_code = ''labor'', br_label = ''Labor'', br_description = None, br_line_type = ''labor'',
     br_method = ''per_unit'', br_source_type = ''work_item_field'', br_source_key = Some ''measured_quantity'',
     br_multiplier = Dec 1 0, br_unit = ''m2'', br_rate_source = ''catalog_unit_rate'', br_rate_value = Some (Dec 100 0),
     br_labor_assumption = None, br_material_assumption = None, br_sort_order = 10\<rparr>"

definition sample_rule :: adjustment_rule where
  "sample_rule = \<lparr>ar_code = ''large'', ar_label = ''Large surface'', ar_description = None,
     ar_target_scope = ''line_type'', ar_target_line_type = Some ''labor'', ar_target_base_rule = None,
     ar_operation = ''multiply'', ar_value = Dec 125 2, ar_source_type = ''work_item_field'',
     ar_source_key = Some ''measured_quantity'', ar_operator = ''gte'', ar_text = None, ar_number = Some (Dec 8 0),
     ar_boolean = None, ar_option = None, ar_sort_order = 10\<rparr>"

definition sample_profile :: catalog_profile where
  "sample_profile = \<lparr>cp_id = ''cp1'', cp_code = ''painting-standard'', cp_version = 2, cp_currency = ''CZK'',
     cp_min_job_price = Some (Dec 1500 0), cp_required_inputs = [sample_required], cp_base_rules = [sample_base_rule],
     cp_adjustment_rules = [sample_rule]\<rparr>"

definition sample_pricing :: resolved_pricing where
  "sample_pricing = \<lparr>rp_profile = sample_profile, rp_tenant = None\<rparr>"

definition sample_item :: work_item where
  "sample_item = \<lparr>wi_id = ''wi1'', wi_work_type_code = ''painting'', wi_measured_quantity = Some (Dec 10 0),
     wi_measured_unit = Some ''m2'', wi_item_sequence = 1, wi_values = []\<rparr>"

definition sample_line :: "string \<Rightarrow> string \<Rightarrow> flt \<Rightarrow> string \<Rightarrow> flt \<Rightarrow> flt \<Rightarrow> string \<Rightarrow> string \<Rightarrow> int \<Rightarrow> line_item" where
  "sample_line t n q u up tot code src srt =
     \<lparr>li_item_type = t, li_name = n, li_description = None, li_quantity = q, li_unit = u, li_unit_price = up,
      li_total_price = tot, li_rule_code = code, li_work_item_id = ''wi1'', li_work_type_code = ''painting'',
      li_profile_id = ''cp1'', li_profile_code = ''painting-standard'', li_profile_version = 2, li_price_source = src,
      li_sort_order = srt\<rparr>"

definition sample_base :: line_item where
  "sample_base = sample_line ''labor'' ''Labor'' 10 ''m2'' 100 1000 ''labor'' ''catalog_formula'' 10"

definition sample_adjustment :: line_item where
  "sample_adjustment = sample_line ''labor'' ''Large surface'' 1 ''job'' 250 250 ''large'' ''catalog_formula_adjustment'' 510"

lemma bind_res_cong: "m = m' \<Longrightarrow> bind_res m f = bind_res m' f"
  by simp

lemma sample_floats:
  "float_of_dec (Dec 10 0) = 10" "float_of_dec (Dec 1 0) = 1" "float_of_dec (Dec 100 0) = 100"
  "float_of_dec (Dec 8 0) = 8" "float_of_dec (Dec 125 2) = 5 / 4" "float_of_dec (Dec 1500 0) = 1500"
  "fmul 10 1 = 10" "fmul 10 100 = 1000" "round_currency 1000 = 1000" "round_measure 10 = 10" "round_currency 100 = 100"
  "py_sum [1000] = 1000" "fmul 1000 (fsub (5 / 4) 1) = 250" "round_currency 250 = 250"
  by code_simp+

lemma sample_sums:
  "py_sum [1000, 250] = 1250" "py_sum [] = 0" "round_currency 1250 = 1250" "round_currency 0 = 0"
  "fadd (fadd 1250 0) 0 = 1250" "fsub 1500 1250 = 250" "fadd 0 250 = 250" "fadd (fadd 1250 0) 250 = 1500"
  "round_currency 1500 = 1500"
  by code_simp+

lemma sample_steps:
  "input_step sample_item sample_required [] = Inr [(''area'', VFloat 10)]"
  "base_step sample_item sample_pricing sample_base_rule [] = Inr [sample_base]"
  by (simp_all add: input_step_def base_step_def sample_profile_def sample_pricing_def sample_item_def sample_base_def
      sample_required_def sample_base_rule_def sample_line_def resolve_source_value_def option_value_def base_quantity_def
      unit_price_for_rule_def sample_floats)

lemma sample_adjusted:
  "adjustment_step sample_item sample_pricing sample_rule [sample_base] = Inr [sample_base, sample_adjustment]"
  by (simp add: adjustment_step_def condition_matches_def comparison_value_def adjustment_target_def adjustment_amount_def
      lines_total_def sample_profile_def sample_pricing_def sample_item_def sample_base_def sample_adjustment_def
      sample_rule_def sample_line_def resolve_source_value_def option_value_def sample_floats Let_def)

definition sample_result :: calculation where
  "sample_result = \<lparr>ca_work_item_id = ''wi1'', ca_work_type_code = ''painting'', ca_profile_id = ''cp1'',
     ca_profile_code = ''painting-standard'', ca_profile_version = 2, ca_tenant_profile_id = None, ca_currency = ''CZK'',
     ca_inputs = [(''area'', VFloat 10)],
     ca_lines = [sample_base, sample_adjustment, minimum_line sample_item sample_profile 250],
     ca_labor = 1250, ca_material = 0, ca_other = 250, ca_minimum_adjustment = 250, ca_total = 1500\<rparr>"

lemma sample_calculation: "calculate_project_work_item sample_item sample_pricing = Inr sample_result"
proof -
  have lists: "cp_required_inputs (rp_profile sample_pricing) = [sample_required]"
    "cp_base_rules (rp_profile sample_pricing) = [sample_base_rule]"
    "cp_adjustment_rules (rp_profile sample_pricing) = [sample_rule]" by (simp_all add: sample_pricing_def sample_profile_def)
  have "calculate_project_work_item sample_item sample_pricing =
      Inr (finish_calculation sample_item sample_pricing [(''area'', VFloat 10)] [sample_base, sample_adjustment])"
    by (simp add: calculate_project_work_item_def Let_def lists sample_steps sample_adjusted)
  then show ?thesis
    by (simp add: finish_calculation_def Let_def sample_pricing_def subtotal_def lines_total_def sum3_def sample_sums
        sample_result_def sample_floats sample_base_def sample_adjustment_def sample_line_def sample_profile_def
        sample_item_def minimum_line_def)
qed

definition sample_cents :: "line_item \<Rightarrow> int" where
  "sample_cents l = (if li_rule_code l = ''labor'' then 100000 else 25000)"

lemma sample_cents_exact:
  "\<forall>l \<in> set (ca_lines sample_result). li_total_price l = cents (sample_cents l)"
  "small_bill sample_cents (ca_lines sample_result)" "rows_checked (rp_profile sample_pricing)"
proof -
  have "cents 100000 = 1000" "cents 25000 = 250" by code_simp+
  then show "\<forall>l \<in> set (ca_lines sample_result). li_total_price l = cents (sample_cents l)"
    by (simp add: sample_result_def sample_base_def sample_adjustment_def sample_line_def minimum_line_def sample_cents_def)
  show "small_bill sample_cents (ca_lines sample_result)"
    by (simp add: small_bill_def sample_result_def sample_base_def sample_adjustment_def sample_line_def minimum_line_def sample_cents_def)
  show "rows_checked (rp_profile sample_pricing)"
    by (simp add: rows_checked_def sample_pricing_def sample_profile_def sample_required_def sample_base_rule_def sample_rule_def
        CATALOG_PRICING_REQUIRED_INPUT_SOURCES_def CATALOG_PRICING_RULE_LINE_TYPES_def CATALOG_PRICING_RULE_QUANTITY_SOURCES_def
        CATALOG_PRICING_RULE_RATE_SOURCES_def)
qed

lemma pricing_refines_cents_witness:
  "calculate_project_work_item sample_item sample_pricing = Inr sample_result \<and> rows_checked (rp_profile sample_pricing) \<and>
   ca_total sample_result = cents 150000 \<and> ca_labor sample_result = cents 125000"
proof -
  have "ca_total sample_result = cents (cents_of sample_cents (\<lambda>l. True) (ca_lines sample_result)) \<and>
      ca_labor sample_result = cents (cents_of sample_cents (of_type ''labor'') (ca_lines sample_result))"
    using pricing_refines_cents [OF sample_calculation sample_cents_exact(3)] sample_cents_exact(1,2) by blast
  moreover have "cents_of sample_cents (\<lambda>l. True) (ca_lines sample_result) = 150000"
    "cents_of sample_cents (of_type ''labor'') (ca_lines sample_result) = 125000"
    by (simp_all add: cents_of_def of_type_def sample_result_def sample_base_def sample_adjustment_def sample_line_def
        minimum_line_def sample_cents_def)
  ultimately show ?thesis using sample_calculation sample_cents_exact(3) by simp
qed

lemma minimum_price_is_charged_witness:
  "calculate_project_work_item sample_item sample_pricing = Inr sample_result \<and>
   ca_total sample_result = cents (max 150000 125000) \<and> ca_minimum_adjustment sample_result = cents (150000 - 125000)"
proof -
  have k: "cp_min_job_price (rp_profile sample_pricing) = Some (Dec 1500 0)" "dec_value (Dec 1500 0) = of_int 150000 / 100"
    by (simp_all add: sample_pricing_def sample_profile_def)
  have "cents_of sample_cents (\<lambda>l. li_price_source l \<noteq> ''catalog_minimum_charge'') (ca_lines sample_result) = 125000"
    by (simp add: cents_of_def sample_result_def sample_base_def sample_adjustment_def sample_line_def
        minimum_line_def sample_cents_def)
  then show ?thesis
    using minimum_price_is_charged [OF sample_calculation sample_cents_exact(3) k _ _ sample_cents_exact(1,2)] sample_calculation
    by (simp add: Let_def)
qed

definition sample_definition :: pricing_definition where
  "sample_definition = \<lparr>pp_code = PStr ''painting-standard'', pp_version = PInt 2, pp_status = PStr ''active'',
     pp_pricing_basis = PStr ''area'', pp_currency = PStr ''CZK'', pp_pricing_strategy = PStr ''catalog_formula'',
     pp_labor_rate_source = PStr ''catalog_default'', pp_material_pricing_source = PStr ''catalog_default'',
     pp_min_job_price = PInt 1500, pp_required_inputs = [required_input_dict sample_required],
     pp_base_rules = [base_rule_dict sample_base_rule], pp_adjustment_rules = [adjustment_rule_dict sample_rule],
     pp_labor_assumptions = [], pp_material_assumptions = []\<rparr>"

lemma validated_profile_never_fails_witness:
  "validate_pricing_profile_definition [''damaged''] sample_definition = Inr () \<and>
   (\<exists>r. calculate_project_work_item sample_item sample_pricing = Inr r)"
proof -
  have ok: "validate_pricing_profile_definition [''damaged''] sample_definition = Inr ()" by code_simp
  have "describes sample_definition (rp_profile sample_pricing)"
    by (simp add: describes_def sample_definition_def sample_pricing_def sample_profile_def)
  moreover have "keys_normal (rp_profile sample_pricing)"
    by (simp add: keys_normal_def sample_pricing_def sample_profile_def sample_required_def sample_base_rule_def
        sample_rule_def normal_key_def) code_simp
  moreover have "rates_available sample_pricing" "numeric_conditions (rp_profile sample_pricing)"
    by (simp_all add: rates_available_def numeric_conditions_def comparison_value_def option_value_def sample_pricing_def
        sample_profile_def sample_base_rule_def sample_rule_def)
  moreover have "inputs_present sample_item (rp_profile sample_pricing)" "numeric_sources sample_item (rp_profile sample_pricing)"
    by (simp_all add: inputs_present_def numeric_sources_def source_value_is_def resolve_source_value_def option_value_def
        sample_pricing_def sample_profile_def sample_required_def sample_base_rule_def sample_item_def)
  ultimately show ?thesis
    using validated_profile_never_fails [OF ok _ sample_cents_exact(3)] ok by blast
qed

definition sample_tenant :: tenant_profile where
  "sample_tenant = \<lparr>tp_id = ''price_default'', tp_hourly_rate = Dec 450 0, tp_daily_rate = Dec 3600 0,
     tp_labor_hours_per_sqm = Dec 3 1, tp_margin_economy = Dec 10 0, tp_margin_standard = Dec 20 0,
     tp_margin_premium = Dec 35 0, tp_vat = Dec 21 0, tp_currency = ''CZK''\<rparr>"

lemma sample_base_subtotal: "ps_base_subtotal (snd (build_quote_variants sample_tenant [sample_result])) = 1500"
proof -
  have "py_sum [250] = 250" by code_simp
  then show ?thesis
    by (simp add: build_quote_variants_def Let_def subtotal_def lines_total_def sum3_def sample_sums sample_floats
        sample_result_def sample_base_def sample_adjustment_def sample_line_def minimum_line_def)
qed

lemma quote_variants_are_ordered_witness:
  "ps_base_subtotal (snd (build_quote_variants sample_tenant [sample_result])) = 1500 \<and>
   sorted_wrt price_le (fst (build_quote_variants sample_tenant [sample_result]))"
  using quote_variants_are_ordered [of sample_tenant "[sample_result]"] sample_base_subtotal
  by (simp add: sample_tenant_def)

lemma quote_base_adds_up_witness:
  "ps_base_subtotal (snd (build_quote_variants sample_tenant [sample_result])) = cents 150000 \<and>
   ca_total sample_result = cents 150000"
proof -
  have "cents_of sample_cents (\<lambda>l. True) (ca_lines sample_result) = 150000"
    by (simp add: cents_of_def sample_result_def sample_base_def sample_adjustment_def sample_line_def
        minimum_line_def sample_cents_def)
  then show ?thesis
    using quote_base_adds_up [of "[sample_result]" sample_cents sample_tenant] sample_calculation sample_cents_exact by auto
qed

text \<open>What the definition check does not see: it accepts a rule that multiplies the unit of the work item, a
  text, and a key that is only right once it is lowered; both make the calculation raise.\<close>

definition text_rule :: "string \<Rightarrow> base_rule" where
  "text_rule key = sample_base_rule\<lparr>br_source_key := Some key\<rparr>"

lemma text_source_passes_check:
  "base_rule_step [] [] [] (base_rule_dict (text_rule ''measured_unit'')) [] = Inr [''labor'']"
  "base_rule_step [] [] [] (base_rule_dict (text_rule ''Measured_Quantity'')) [] = Inr [''labor'']"
  "base_step sample_item sample_pricing (text_rule ''measured_unit'') [] = Inl (FloatOfText ''m2'')"
  "base_step sample_item sample_pricing (text_rule ''Measured_Quantity'') [] =
     Inl (PricingValidation (''Unsupported work item field source '' @ quoted ''Measured_Quantity'' @ ''.''))"
proof -
  have "float_of_text ''m2'' = Inl (FloatOfText ''m2'')" by code_simp
  then show "base_step sample_item sample_pricing (text_rule ''measured_unit'') [] = Inl (FloatOfText ''m2'')"
    by (simp add: base_step_def text_rule_def sample_base_rule_def resolve_source_value_def sample_item_def option_value_def
        base_quantity_def)
  show "base_step sample_item sample_pricing (text_rule ''Measured_Quantity'') [] =
     Inl (PricingValidation (''Unsupported work item field source '' @ quoted ''Measured_Quantity'' @ ''.''))"
    by (simp add: base_step_def text_rule_def sample_base_rule_def resolve_source_value_def)
qed code_simp+

end
