(* ===== verification/Quote_Recalculation.thy ===== *)
theory Quote_Recalculation
  imports Pricing Case_Actions "HOL-Library.AList"
begin

section \<open>Recalculation of quote variants\<close>

text \<open>
  Models \<open>app/services/quote_variant_service.py\<close>, the snapshot resolution of
  \<open>pricing_profile_service.py\<close> and \<open>app/repositories/quote_variant_repository.py\<close>: from the work items of a
  project, or from its latest analysis where no work item can be priced, to the three stored variants, the transition of
  the case and its outbox event, which one commit makes permanent.

  \<open>quote_db\<close> is the committed state of the tables. Stored prices are the floats the code computed (they have two
  decimals, which the \<open>NUMERIC(14, 4)\<close> columns keep). Caches, metrics and timing floors of the resolution are left out,
  as are the texts \<open>str\<close> makes of floats and JSON values, which are arguments.
\<close>

record work_type_row =
  wt_id :: string
  wt_code :: string

record profile_row =
  sp_profile :: catalog_profile
  sp_status :: string
  sp_is_active :: bool

record tenant_row =
  tr_profile :: tenant_profile
  tr_organization_id :: string
  tr_is_default :: bool

record item_row =
  ir_item :: work_item
  ir_project_id :: string
  ir_organization_id :: string
  ir_created_at :: time
  ir_catalog_profile_id :: "string option"
  ir_tenant_profile_id :: "string option"

record analysis_row =
  an_id :: string
  an_project_id :: string
  an_created_at :: time
  an_estimated_area_sqm :: "flt option"
  an_manual_area_sqm :: "flt option"
  an_final_area_source :: string
  an_materials_json :: "string option"

record material_row =
  ma_id :: string
  ma_organization_id :: string
  ma_name :: string
  ma_unit :: string
  ma_norm_per_sqm :: dec
  ma_default_unit_price :: dec
  ma_default_supplier_id :: "string option"
  ma_is_active :: bool

record supplier_price_row =
  su_material_id :: string
  su_supplier_id :: string
  su_unit_price :: dec

record catalog_reference =
  cr_work_item_id :: string
  cr_profile_id :: string
  cr_work_type_code :: string
  cr_profile_code :: string
  cr_profile_version :: int
  cr_rule_code :: string

record quote_item =
  qi_id :: string
  qi_reference :: "catalog_reference option"
  qi_item_type :: string
  qi_name :: string
  qi_description :: "string option"
  qi_quantity :: flt
  qi_unit :: string
  qi_unit_price :: flt
  qi_total_price :: flt
  qi_material_id :: "string option"
  qi_supplier_id :: "string option"
  qi_price_source :: string
  qi_ai_unit_price :: "flt option"
  qi_supplier_unit_price :: "dec option"
  qi_company_unit_price :: "flt option"
  qi_sort_order :: int

record variant_row =
  va_id :: string
  va_project_id :: string
  va_analysis_id :: "string option"
  va_pricing_profile_id :: string
  va_type :: string
  va_labor_cost :: flt
  va_material_cost :: flt
  va_other_cost :: flt
  va_margin_pct :: flt
  va_total_ex_vat :: flt
  va_vat_amount :: flt
  va_total_inc_vat :: flt
  va_currency :: string
  va_vat_pct :: flt
  va_items :: "quote_item list"
  va_created_at :: time

record quote_db =
  qd_case :: case_db
  qd_updated_at :: "(string \<times> time) list"
  qd_variants :: "variant_row list"
  qd_work_types :: "work_type_row list"
  qd_profiles :: "profile_row list"
  qd_tenants :: "tenant_row list"
  qd_items :: "item_row list"
  qd_analyses :: "analysis_row list"
  qd_materials :: "material_row list"
  qd_supplier_prices :: "supplier_price_row list"

datatype quote_error =
    Unavailable string
  | NotResolved string
  | CodeInvalid catalog_error
  | PricingRaised pricing_error
  | MultipleResultsFound
  | NotADictionary
  | NotANumber
  | CommitFailed

record text_functions =
  str_json :: "json \<Rightarrow> string"
  str_float :: "flt \<Rightarrow> string"

subsection \<open>Reads\<close>

definition scalar_one_or_none :: "'a list \<Rightarrow> quote_error + 'a option" where
  "scalar_one_or_none rows = (case rows of [] \<Rightarrow> Inr None | [r] \<Rightarrow> Inr (Some r) | _ \<Rightarrow> Inl MultipleResultsFound)"

definition get_project :: "quote_db \<Rightarrow> string \<Rightarrow> project option" where
  "get_project db project_id = select_one (\<lambda>p. pr_id p = project_id) (cd_projects (qd_case db))"

definition get_latest_analysis :: "quote_db \<Rightarrow> string \<Rightarrow> analysis_row option" where
  "get_latest_analysis db project_id =
     latest_by (\<lambda>a. (an_created_at a, an_id a)) (filter (\<lambda>a. an_project_id a = project_id) (qd_analyses db))"

text \<open>The quote repository reads the default profile with \<open>LIMIT 1\<close>, the catalogue repository without.\<close>

definition default_profiles :: "quote_db \<Rightarrow> string \<Rightarrow> tenant_row list" where
  "default_profiles db org = filter (\<lambda>t. tr_organization_id t = org \<and> tr_is_default t) (qd_tenants db)"

definition get_default_pricing_profile :: "quote_db \<Rightarrow> string \<Rightarrow> tenant_profile option" where
  "get_default_pricing_profile db org = map_option tr_profile (select_one (\<lambda>t. True) (default_profiles db org))"

definition catalog_default_profile :: "quote_db \<Rightarrow> string \<Rightarrow> quote_error + tenant_profile option" where
  "catalog_default_profile db org = map_sum id (map_option tr_profile) (scalar_one_or_none (default_profiles db org))"

definition get_tenant_pricing_profile :: "quote_db \<Rightarrow> string \<Rightarrow> string \<Rightarrow> quote_error + tenant_profile option" where
  "get_tenant_pricing_profile db profile_id org = map_sum id (map_option tr_profile) (scalar_one_or_none
     (filter (\<lambda>t. tp_id (tr_profile t) = profile_id \<and> tr_organization_id t = org) (qd_tenants db)))"

definition list_project_work_items :: "quote_db \<Rightarrow> string \<Rightarrow> string \<Rightarrow> item_row list" where
  "list_project_work_items db project_id org =
     sort_key (\<lambda>r. (wi_item_sequence (ir_item r), ir_created_at r, wi_id (ir_item r)))
       (filter (\<lambda>r. ir_project_id r = project_id \<and> ir_organization_id r = org) (qd_items db))"

definition list_materials_by_names :: "quote_db \<Rightarrow> string \<Rightarrow> string list \<Rightarrow> material_row list" where
  "list_materials_by_names db org names =
    (if names = [] then []
     else sort_key ma_name (filter (\<lambda>m. ma_organization_id m = org \<and> ma_is_active m \<and>
            py_lower (ma_name m) \<in> set (map py_lower names)) (qd_materials db)))"

definition get_lowest_supplier_price :: "quote_db \<Rightarrow> string \<Rightarrow> supplier_price_row option" where
  "get_lowest_supplier_price db material_id =
    (case sort_key (\<lambda>s. (dec_value (su_unit_price s), su_supplier_id s))
            (filter (\<lambda>s. su_material_id s = material_id) (qd_supplier_prices db)) of
       [] \<Rightarrow> None | s # _ \<Rightarrow> Some s)"

subsection \<open>Resolution of a snapshot\<close>

definition active_profile :: "quote_db \<Rightarrow> string \<Rightarrow> string \<Rightarrow> quote_error + catalog_profile" where
  "active_profile db code profile_id =
     bind_res (scalar_one_or_none (filter (\<lambda>w. wt_code w = code) (qd_work_types db))) (\<lambda>work_type.
       case work_type of
         None \<Rightarrow> Inl (NotResolved (''Work type '' @ quoted code @ '' was not found.''))
       | Some wt \<Rightarrow>
     bind_res (scalar_one_or_none (filter (\<lambda>p. cp_id (sp_profile p) = profile_id) (qd_profiles db))) (\<lambda>profile.
       case profile of
         None \<Rightarrow> Inl (NotResolved (''Catalog pricing profile '' @ quoted profile_id @ '' was not found.''))
       | Some p \<Rightarrow>
           if \<not> starts_with (wt_code wt @ ''-'') (cp_code (sp_profile p))
             then Inl (NotResolved (''Catalog pricing profile '' @ quoted (cp_code (sp_profile p)) @
                    '' is inconsistent with work type '' @ quoted (wt_code wt) @ ''.''))
           else if \<not> sp_is_active p \<or> sp_status p \<noteq> ''active''
             then Inl (NotResolved (''Catalog pricing profile '' @ quoted (cp_code (sp_profile p)) @ '' is not active.''))
           else Inr (sp_profile p)))"

definition resolve_for_snapshot ::
  "quote_db \<Rightarrow> string \<Rightarrow> string \<Rightarrow> string \<Rightarrow> string option \<Rightarrow> quote_error + resolved_pricing" where
  "resolve_for_snapshot db org work_type_code profile_id tenant_profile_id =
     bind_res (map_sum CodeInvalid id (normalize_machine_code ''workTypeCode'' (PStr work_type_code))) (\<lambda>code.
     bind_res (active_profile db code profile_id) (\<lambda>profile.
     bind_res (case tenant_profile_id of
                 None \<Rightarrow> Inr None
               | Some i \<Rightarrow> if i = [] then Inr None else get_tenant_pricing_profile db i org) (\<lambda>tenant.
     bind_res (case tenant of Some t \<Rightarrow> Inr (Some t) | None \<Rightarrow> catalog_default_profile db org) (\<lambda>tenant'.
       Inr \<lparr>rp_profile = profile, rp_tenant = tenant'\<rparr>))))"

text \<open>One work item of the loop: without a profile, or with one that is not resolved, it is passed over.\<close>

definition priced_item ::
  "quote_db \<Rightarrow> string \<Rightarrow> item_row \<Rightarrow> calculation list \<Rightarrow> quote_error + calculation list" where
  "priced_item db org row results =
    (case ir_catalog_profile_id row of
       None \<Rightarrow> Inr results
     | Some profile_id \<Rightarrow>
         if profile_id = [] then Inr results
         else case resolve_for_snapshot db org (wi_work_type_code (ir_item row)) profile_id (ir_tenant_profile_id row) of
           Inl (NotResolved message) \<Rightarrow> Inr results
         | Inl e \<Rightarrow> Inl e
         | Inr rp \<Rightarrow> map_sum PricingRaised (\<lambda>c. results @ [c]) (calculate_project_work_item (ir_item row) rp))"

subsection \<open>The rows of a quote\<close>

text \<open>\<open>build_id\<close>, with the \<open>n\<close>-th UUID of the request.\<close>

definition build_id :: "env \<Rightarrow> nat \<Rightarrow> string \<Rightarrow> string" where
  "build_id e n prefix = prefix @ ''_'' @ take 10 (en_uuid e n)"

definition catalog_item :: "env \<Rightarrow> nat \<Rightarrow> nat \<Rightarrow> line_item \<Rightarrow> quote_item" where
  "catalog_item e n index l =
     \<lparr>qi_id = build_id e n ''qi'',
      qi_reference = Some \<lparr>cr_work_item_id = li_work_item_id l, cr_profile_id = li_profile_id l,
        cr_work_type_code = li_work_type_code l, cr_profile_code = li_profile_code l,
        cr_profile_version = li_profile_version l, cr_rule_code = li_rule_code l\<rparr>,
      qi_item_type = li_item_type l, qi_name = li_name l, qi_description = li_description l, qi_quantity = li_quantity l,
      qi_unit = li_unit l, qi_unit_price = li_unit_price l, qi_total_price = li_total_price l, qi_material_id = None,
      qi_supplier_id = None, qi_price_source = li_price_source l, qi_ai_unit_price = None, qi_supplier_unit_price = None,
      qi_company_unit_price = Some (li_unit_price l), qi_sort_order = int index\<rparr>"

definition catalog_variant ::
  "env \<Rightarrow> project \<Rightarrow> analysis_row option \<Rightarrow> tenant_profile \<Rightarrow> nat \<Rightarrow> quote_variant \<Rightarrow> variant_row" where
  "catalog_variant e p analysis t j v =
    (let n = j * (1 + length (qv_items v))
     in \<lparr>va_id = build_id e n ''qv'', va_project_id = pr_id p, va_analysis_id = map_option an_id analysis,
         va_pricing_profile_id = tp_id t, va_type = qv_type v, va_labor_cost = qv_labor_cost v,
         va_material_cost = qv_material_cost v, va_other_cost = qv_other_cost v, va_margin_pct = qv_margin_pct v,
         va_total_ex_vat = qv_total_ex_vat v, va_vat_amount = qv_vat_amount v, va_total_inc_vat = qv_total_inc_vat v,
         va_currency = qv_currency v, va_vat_pct = qv_vat_pct v,
         va_items = map (\<lambda>(i, l). catalog_item e (n + i) i l) (zip [1..<Suc (length (qv_items v))] (qv_items v)),
         va_created_at = en_now e\<rparr>)"

definition catalog_variants ::
  "env \<Rightarrow> project \<Rightarrow> analysis_row option \<Rightarrow> tenant_profile \<Rightarrow> calculation list \<Rightarrow> variant_row list" where
  "catalog_variants e p analysis t results =
     map (\<lambda>(j, v). catalog_variant e p analysis t j v) (zip [0..<3] (fst (build_quote_variants t results)))"

subsubsection \<open>From the latest analysis\<close>

record material_line =
  ml_material_id :: string
  ml_supplier_id :: "string option"
  ml_name :: string
  ml_description :: string
  ml_quantity :: flt
  ml_unit :: string
  ml_unit_price :: flt
  ml_total_price :: flt
  ml_ai_unit_price :: "flt option"
  ml_supplier_unit_price :: "dec option"

definition effective_area_sqm :: "analysis_row \<Rightarrow> flt option" where
  "effective_area_sqm a =
    (if an_final_area_source a = ''manual'' \<and> (case an_manual_area_sqm a of None \<Rightarrow> False | Some x \<Rightarrow> 0 < x)
     then an_manual_area_sqm a else an_estimated_area_sqm a)"

fun json_truthy :: "json \<Rightarrow> bool" where
  "json_truthy JNull = False"
| "json_truthy (JBool b) = b"
| "json_truthy (JInt i) = (i \<noteq> 0)"
| "json_truthy (JFloat d) = (dec_value d \<noteq> 0)"
| "json_truthy (JStr s) = (s \<noteq> [])"
| "json_truthy (JList xs) = (xs \<noteq> [])"
| "json_truthy (JObj d) = (d \<noteq> [])"

text \<open>\<open>parse_json_field(..) or []\<close>, and its elements, on which the code calls \<open>get\<close>.\<close>

definition suggested_materials :: "json_codec \<Rightarrow> string option \<Rightarrow> quote_error + json_obj list" where
  "suggested_materials codec raw =
    (case (case raw of None \<Rightarrow> None | Some s \<Rightarrow> if s = [] then None else loads codec s) of
       None \<Rightarrow> Inr []
     | Some j \<Rightarrow>
         if \<not> json_truthy j then Inr []
         else case j of
           JList xs \<Rightarrow> map_res (\<lambda>x. case x of JObj d \<Rightarrow> Inr d | _ \<Rightarrow> Inl NotADictionary) xs
         | _ \<Rightarrow> Inl NotADictionary)"

definition suggested_name :: "text_functions \<Rightarrow> json_obj \<Rightarrow> string" where
  "suggested_name tf d = py_lower (py_strip
    (case map_of d ''name'' of
       None \<Rightarrow> []
     | Some j \<Rightarrow> if json_truthy j then (case j of JStr s \<Rightarrow> s | _ \<Rightarrow> str_json tf j) else []))"

definition suggested_price :: "flt \<Rightarrow> json_obj option \<Rightarrow> quote_error + flt option" where
  "suggested_price price suggestion =
    (case suggestion of
       None \<Rightarrow> Inr None
     | Some d \<Rightarrow>
         (case map_of d ''quantity'' of
            None \<Rightarrow> Inr None
          | Some q \<Rightarrow>
              if d = [] \<or> \<not> json_truthy q then Inr None
              else case q of
                JInt i \<Rightarrow> Inr (Some (round_currency (fdiv price (fl (of_int i)))))
              | JFloat x \<Rightarrow> Inr (Some (round_currency (fdiv price (float_of_dec x))))
              | JBool b \<Rightarrow> Inr (Some (round_currency (fdiv price 1)))
              | _ \<Rightarrow> Inl NotANumber))"

definition material_line_of ::
  "text_functions \<Rightarrow> quote_db \<Rightarrow> flt \<Rightarrow> json_obj list \<Rightarrow> material_row \<Rightarrow> quote_error + material_line" where
  "material_line_of tf db area suggestions m =
    (let raw = fmul area (float_of_dec (ma_norm_per_sqm m)); unit_price = float_of_dec (ma_default_unit_price m);
         price = round_currency (fmul raw unit_price);
         suggestion = find (\<lambda>d. suggested_name tf d = py_lower (py_strip (ma_name m))) suggestions;
         reference = get_lowest_supplier_price db (ma_id m)
     in bind_res (suggested_price price suggestion) (\<lambda>ai_price.
          Inr \<lparr>ml_material_id = ma_id m,
            ml_supplier_id = (case ma_default_supplier_id m of
                Some s \<Rightarrow> if s \<noteq> [] then Some s else map_option su_supplier_id reference
              | None \<Rightarrow> map_option su_supplier_id reference),
            ml_name = ma_name m,
            ml_description = (if suggestion \<noteq> None \<and> suggestion \<noteq> Some [] then ''AI navrhla material '' @ ma_name m
                else ''Material z firemniho katalogu'') @ '' pro opravu o plose '' @ str_float tf area @ '' m2.'',
            ml_quantity = round_measure raw, ml_unit = ma_unit m, ml_unit_price = unit_price, ml_total_price = price,
            ml_ai_unit_price = ai_price, ml_supplier_unit_price = map_option su_unit_price reference\<rparr>))"

record factors =
  fa_type :: string
  fa_labor :: flt
  fa_material :: flt
  fa_other :: flt
  fa_margin :: flt

definition variants_config :: "tenant_profile \<Rightarrow> factors list" where
  "variants_config t =
     [\<lparr>fa_type = ''economy'', fa_labor = 1, fa_material = 1, fa_other = 1, fa_margin = float_of_dec (tp_margin_economy t)\<rparr>,
      \<lparr>fa_type = ''standard'', fa_labor = fl (112 / 100), fa_material = fl (128 / 100), fa_other = fl (108 / 100),
       fa_margin = float_of_dec (tp_margin_standard t)\<rparr>,
      \<lparr>fa_type = ''premium'', fa_labor = fl (122 / 100), fa_material = fl (160 / 100), fa_other = fl (118 / 100),
       fa_margin = float_of_dec (tp_margin_premium t)\<rparr>]"

definition plain_item :: "string \<Rightarrow> string \<Rightarrow> string \<Rightarrow> string \<Rightarrow> flt \<Rightarrow> string \<Rightarrow> flt \<Rightarrow> flt \<Rightarrow> int \<Rightarrow> quote_item" where
  "plain_item i t name description quantity unit unit_price price srt =
     \<lparr>qi_id = i, qi_reference = None, qi_item_type = t, qi_name = name, qi_description = Some description,
      qi_quantity = quantity, qi_unit = unit, qi_unit_price = unit_price, qi_total_price = price, qi_material_id = None,
      qi_supplier_id = None, qi_price_source = ''company_catalog'', qi_ai_unit_price = None, qi_supplier_unit_price = None,
      qi_company_unit_price = Some unit_price, qi_sort_order = srt\<rparr>"

definition material_item :: "env \<Rightarrow> nat \<Rightarrow> flt \<Rightarrow> nat \<Rightarrow> material_line \<Rightarrow> quote_item" where
  "material_item e n factor index m =
     (plain_item (build_id e n ''qi'') ''material'' (ml_name m) (ml_description m) (round_measure (fmul (ml_quantity m) factor))
        (ml_unit m) (ml_unit_price m) (round_currency (fmul (ml_total_price m) factor)) (int index))
     \<lparr>qi_material_id := Some (ml_material_id m), qi_supplier_id := ml_supplier_id m, qi_ai_unit_price := ml_ai_unit_price m,
      qi_supplier_unit_price := ml_supplier_unit_price m\<rparr>"

definition fallback_variant ::
  "text_functions \<Rightarrow> env \<Rightarrow> project \<Rightarrow> analysis_row \<Rightarrow> tenant_profile \<Rightarrow> flt \<Rightarrow> material_line list \<Rightarrow> nat \<Rightarrow> factors \<Rightarrow> variant_row" where
  "fallback_variant tf e p analysis t area mats j f =
    (let hours = fmul area (float_of_dec (tp_labor_hours_per_sqm t)); rate = float_of_dec (tp_hourly_rate t);
         labor = round_currency (fmul (fmul hours rate) (fa_labor f));
         material = round_currency (fmul (round_currency (py_sum (map ml_total_price mats))) (fa_material f));
         other = round_currency (fmul 3500 (fa_other f));
         ex = round_currency (fmul (fadd (fadd labor material) other) (fadd 1 (fdiv (fa_margin f) 100)));
         tax = round_currency (fmul ex (fdiv (float_of_dec (tp_vat t)) 100));
         n = j * (3 + length mats);
         labor_item = plain_item (build_id e (n + 1) ''qi'') ''labor'' ''Prace''
           (''Prace podle plochy opravy '' @ str_float tf area @ '' m2 a firemni normy.'')
           (round_currency (fmul hours (fa_labor f))) ''hod'' rate labor 1;
         other_item = plain_item (build_id e (n + 2) ''qi'') ''other'' ''Vedlejsi naklady''
           ''Doprava, priprava, drobny material'' 1 ''ks'' other other 999
     in \<lparr>va_id = build_id e n ''qv'', va_project_id = pr_id p, va_analysis_id = Some (an_id analysis),
         va_pricing_profile_id = tp_id t, va_type = fa_type f, va_labor_cost = labor, va_material_cost = material,
         va_other_cost = other, va_margin_pct = fa_margin f, va_total_ex_vat = ex, va_vat_amount = tax,
         va_total_inc_vat = round_currency (fadd ex tax), va_currency = tp_currency t, va_vat_pct = float_of_dec (tp_vat t),
         va_items = labor_item #
           map (\<lambda>(i, m). material_item e (n + 1 + i) (fa_material f) i m) (zip [2..<2 + length mats] mats) @ [other_item],
         va_created_at = en_now e\<rparr>)"

definition fallback_variants ::
  "text_functions \<Rightarrow> env \<Rightarrow> quote_db \<Rightarrow> project \<Rightarrow> analysis_row \<Rightarrow> tenant_profile \<Rightarrow> flt \<Rightarrow> quote_error + variant_row list" where
  "fallback_variants tf e db p analysis t area =
     bind_res (suggested_materials (en_codec e) (an_materials_json analysis)) (\<lambda>suggestions.
     bind_res (map_res (material_line_of tf db area suggestions)
         (list_materials_by_names db (pr_organization_id p) (filter (\<lambda>s. s \<noteq> []) (map (suggested_name tf) suggestions)))) (\<lambda>mats.
       Inr (map (\<lambda>(j, f). fallback_variant tf e p analysis t area mats j f) (zip [0..<3] (variants_config t)))))"

subsection \<open>Replacing the variants\<close>

definition list_quote_variants :: "quote_db \<Rightarrow> string \<Rightarrow> variant_row list" where
  "list_quote_variants db project_id =
     sort_key (\<lambda>v. (va_created_at v, va_id v)) (filter (\<lambda>v. va_project_id v = project_id) (qd_variants db))"

text \<open>The commit, with the primary keys of the variants and of their items.\<close>

definition commit_quote :: "env \<Rightarrow> project \<Rightarrow> quote_db \<Rightarrow> quote_error + quote_db" where
  "commit_quote e p tx =
    (if keyed va_id (qd_variants tx) \<and> distinct (map qi_id (concat (map va_items (qd_variants tx))))
     then map_sum (\<lambda>x. CommitFailed) (\<lambda>c. tx\<lparr>qd_case := c\<rparr>) (commit_case e p (qd_case tx))
     else Inl CommitFailed)"

text \<open>\<open>DELETE\<close> of the variants of the project, \<open>INSERT\<close> of the new ones, and the case in the same transaction.\<close>

definition swap_variants :: "quote_db \<Rightarrow> project \<Rightarrow> variant_row list \<Rightarrow> quote_db" where
  "swap_variants db p variants =
    (let existing = map va_id (list_quote_variants db (pr_id p))
     in db\<lparr>qd_variants := filter (\<lambda>v. va_id v \<notin> set existing) (qd_variants db) @ variants\<rparr>)"

definition drawn_uuids :: "variant_row list \<Rightarrow> nat" where
  "drawn_uuids variants = sum_list (map (\<lambda>v. 1 + length (va_items v)) variants)"

definition proposal_event :: "env \<Rightarrow> nat \<Rightarrow> project \<Rightarrow> case_db \<Rightarrow> outbox_event" where
  "proposal_event e n p db =
     build_outbox_event (en_uuid e n) (cd_next_seq db) (en_now e) EVENT_PROPOSAL_READY AGGREGATE_CASE (pr_id p)
       (pr_organization_id p) (JObj [(''status'', JStr ''proposal_ready'')])"

definition advance_case :: "env \<Rightarrow> nat \<Rightarrow> project \<Rightarrow> case_db \<Rightarrow> case_db \<times> string option" where
  "advance_case e n p db =
    (case apply_transition (en_now e) (en_uuid e n) p ''proposal_ready'' None (Some ''Quote variants generated'') of
       Inl err \<Rightarrow> (db, None)
     | Inr (p', h) \<Rightarrow>
         let db' = write_transition p' h db; event = proposal_event e (Suc n) p db'
         in (db'\<lparr>cd_outbox := cd_outbox db' @ [event], cd_next_seq := cd_next_seq db' + 1\<rparr>, Some (ob_id event)))"

text \<open>\<open>project.updated_at = timestamp\<close>, whether or not the status moved. The column is kept beside the case, as no other
  modelled code reads it.\<close>

definition touch_project :: "env \<Rightarrow> project \<Rightarrow> quote_db \<Rightarrow> quote_db" where
  "touch_project e p db = db\<lparr>qd_updated_at := AList.update (pr_id p) (en_now e) (qd_updated_at db)\<rparr>"

definition replace_project_variants ::
  "env \<Rightarrow> quote_db \<Rightarrow> project \<Rightarrow> variant_row list \<Rightarrow> quote_error + (quote_db \<times> variant_row list \<times> string option)" where
  "replace_project_variants e db p variants =
    (let tx = touch_project e p (swap_variants db p variants); (c, event_id) = advance_case e (drawn_uuids variants) p (qd_case db)
     in map_sum id (\<lambda>db'. (db', sort_key (\<lambda>v. (va_created_at v, va_id v))
            (filter (\<lambda>v. va_id v \<in> va_id ` set variants) (qd_variants db')), event_id))
          (commit_quote e p (tx\<lparr>qd_case := c\<rparr>)))"

subsection \<open>The service\<close>

record recalculation =
  rr_variants :: "variant_row list"
  rr_source :: string
  rr_proposal_event_id :: "string option"

definition handle_unavailable :: "quote_db \<Rightarrow> bool \<Rightarrow> string \<Rightarrow> quote_error + (quote_db \<times> recalculation option)" where
  "handle_unavailable db raise_on_unavailable message =
    (if raise_on_unavailable then Inl (Unavailable message) else Inr (db, None))"

definition store_recalculation ::
  "env \<Rightarrow> quote_db \<Rightarrow> project \<Rightarrow> string \<Rightarrow> variant_row list \<Rightarrow> quote_error + (quote_db \<times> recalculation option)" where
  "store_recalculation e db p source variants =
     map_sum id (\<lambda>(db', created, event_id).
         (db', Some \<lparr>rr_variants = created, rr_source = source, rr_proposal_event_id = event_id\<rparr>))
       (replace_project_variants e db p variants)"

definition area_truthy :: "flt option \<Rightarrow> bool" where
  "area_truthy a \<longleftrightarrow> (case a of None \<Rightarrow> False | Some x \<Rightarrow> x \<noteq> 0)"

definition recalculate_from_analysis ::
  "text_functions \<Rightarrow> env \<Rightarrow> quote_db \<Rightarrow> bool \<Rightarrow> project \<Rightarrow> tenant_profile \<Rightarrow> analysis_row option
    \<Rightarrow> quote_error + (quote_db \<times> recalculation option)" where
  "recalculate_from_analysis tf e db raising p t analysis =
    (case analysis of
       None \<Rightarrow> handle_unavailable db raising
         ''Quote variants cannot be recalculated without an analysis result or confirmed project work items.''
     | Some a \<Rightarrow>
         if \<not> area_truthy (effective_area_sqm a) then handle_unavailable db raising
           ''Quote variants cannot be recalculated because the effective repair area is missing.''
         else bind_res (fallback_variants tf e db p a t (the (effective_area_sqm a)))
                (store_recalculation e db p ''analysis_fallback''))"

definition recalculate_quote_variants_with_context ::
  "text_functions \<Rightarrow> env \<Rightarrow> quote_db \<Rightarrow> string \<Rightarrow> bool \<Rightarrow> quote_error + (quote_db \<times> recalculation option)" where
  "recalculate_quote_variants_with_context tf e db project_id raising =
    (case get_project db project_id of
       None \<Rightarrow> handle_unavailable db raising ''Quote variants cannot be recalculated because the case does not exist.''
     | Some p \<Rightarrow>
    (case get_default_pricing_profile db (pr_organization_id p) of
       None \<Rightarrow> handle_unavailable db raising
         ''Quote variants cannot be recalculated because no default pricing profile is configured.''
     | Some t \<Rightarrow>
         let analysis = get_latest_analysis db project_id
         in bind_res (fold_res (priced_item db (pr_organization_id p))
                (list_project_work_items db project_id (pr_organization_id p)) []) (\<lambda>results.
              if results \<noteq> []
              then store_recalculation e db p ''project_work_items'' (catalog_variants e p analysis t results)
              else recalculate_from_analysis tf e db raising p t analysis)))"

definition can_recalculate_quote_variants :: "quote_db \<Rightarrow> string \<Rightarrow> bool" where
  "can_recalculate_quote_variants db project_id \<longleftrightarrow>
    (case get_project db project_id of
       None \<Rightarrow> False
     | Some p \<Rightarrow>
         if get_default_pricing_profile db (pr_organization_id p) = None then False
         else if list_project_work_items db project_id (pr_organization_id p) \<noteq> [] then True
         else case get_latest_analysis db project_id of
                None \<Rightarrow> False | Some a \<Rightarrow> area_truthy (effective_area_sqm a))"

text \<open>The manual change of a variant; an absent field keeps its column.\<close>

record variant_changes =
  vc_labor_cost :: "flt option"
  vc_material_cost :: "flt option"
  vc_other_cost :: "flt option"
  vc_margin_pct :: "flt option"

definition changed_variant :: "variant_changes \<Rightarrow> variant_row \<Rightarrow> variant_row" where
  "changed_variant ch v =
    (let get = (\<lambda>new old. case new of None \<Rightarrow> old | Some x \<Rightarrow> x);
         labor = get (vc_labor_cost ch) (va_labor_cost v); material = get (vc_material_cost ch) (va_material_cost v);
         other = get (vc_other_cost ch) (va_other_cost v); margin = get (vc_margin_pct ch) (va_margin_pct v);
         ex = round_currency (fmul (fadd (fadd labor material) other) (fadd 1 (fdiv margin 100)));
         tax = round_currency (fmul ex (fl (21 / 100)))
     in v\<lparr>va_labor_cost := labor, va_material_cost := material, va_other_cost := other, va_margin_pct := margin,
          va_total_ex_vat := ex, va_vat_amount := tax, va_total_inc_vat := round_currency (fadd ex tax)\<rparr>)"

definition update_quote_variant ::
  "quote_db \<Rightarrow> string \<Rightarrow> variant_changes \<Rightarrow> quote_db \<times> variant_row option" where
  "update_quote_variant db variant_id ch =
    (case select_one (\<lambda>v. va_id v = variant_id) (qd_variants db) of
       None \<Rightarrow> (db, None)
     | Some v \<Rightarrow>
         (db\<lparr>qd_variants := update_where (\<lambda>x. va_id x = variant_id) (changed_variant ch) (qd_variants db)\<rparr>,
          Some (changed_variant ch v)))"

subsection \<open>What a recalculation stores\<close>

definition priced_by :: "env \<Rightarrow> project \<Rightarrow> tenant_profile \<Rightarrow> variant_row \<Rightarrow> bool" where
  "priced_by e p t v \<longleftrightarrow> va_project_id v = pr_id p \<and> va_pricing_profile_id v = tp_id t \<and> va_created_at v = en_now e \<and>
     va_currency v = tp_currency t \<and> va_vat_pct v = float_of_dec (tp_vat t) \<and>
     va_vat_amount v = tax_on (va_vat_pct v) (va_total_ex_vat v) \<and>
     va_total_inc_vat v = round_currency (fadd (va_total_ex_vat v) (va_vat_amount v))"

definition three_priced :: "env \<Rightarrow> project \<Rightarrow> tenant_profile \<Rightarrow> variant_row list \<Rightarrow> bool" where
  "three_priced e p t vs \<longleftrightarrow> map va_type vs = [''economy'', ''standard'', ''premium''] \<and> list_all (priced_by e p t) vs"

lemma three_zip: "zip [0..<3] [a, b, c] = [(0, a), (1, b), (2, c)]"
  by (simp add: upt_conv_Cons numeral_eq_Suc)

lemma catalog_variants_priced: "three_priced e p t (catalog_variants e p analysis t results)"
  by (simp add: three_priced_def catalog_variants_def build_quote_variants_def Let_def three_zip catalog_variant_def
      priced_by_def tax_on_def)

lemma fallback_variants_priced:
  assumes "fallback_variants tf e db p a t area = Inr vs"
  shows "three_priced e p t vs"
  using assms
  by (auto simp: fallback_variants_def bind_res_eq_Inr three_priced_def variants_config_def three_zip
      fallback_variant_def priced_by_def tax_on_def Let_def)

lemma store_recalculation_Inr:
  assumes "store_recalculation e db p source vs = Inr (db', r)"
  obtains c event_id where "advance_case e (drawn_uuids vs) p (qd_case db) = (c, event_id)" "qd_case db' = c"
    "qd_variants db' = qd_variants (swap_variants db p vs)" "keyed va_id (qd_variants db')"
    "map_of (qd_updated_at db') = (map_of (qd_updated_at db))(pr_id p \<mapsto> en_now e)"
    "r = Some \<lparr>rr_variants = sort_key (\<lambda>v. (va_created_at v, va_id v))
           (filter (\<lambda>v. va_id v \<in> va_id ` set vs) (qd_variants db')), rr_source = source, rr_proposal_event_id = event_id\<rparr>"
proof -
  obtain c event_id where c: "advance_case e (drawn_uuids vs) p (qd_case db) = (c, event_id)" by fastforce
  let ?tx = "(touch_project e p (swap_variants db p vs))\<lparr>qd_case := c\<rparr>"
  from assms c have r: "commit_quote e p ?tx = Inr db'"
    "r = Some \<lparr>rr_variants = sort_key (\<lambda>v. (va_created_at v, va_id v))
           (filter (\<lambda>v. va_id v \<in> va_id ` set vs) (qd_variants db')), rr_source = source, rr_proposal_event_id = event_id\<rparr>"
    by (auto simp: store_recalculation_def replace_project_variants_def Let_def map_sum_eq_Inr)
  from r(1) have k: "keyed va_id (qd_variants ?tx)" by (auto simp: commit_quote_def split: if_splits)
  from r(1) obtain c' where c': "commit_case e p (qd_case ?tx) = Inr c'" "db' = ?tx\<lparr>qd_case := c'\<rparr>"
    by (auto simp: commit_quote_def map_sum_eq_Inr split: if_splits)
  then have "qd_case db' = c" "qd_variants db' = qd_variants (swap_variants db p vs)"
    "map_of (qd_updated_at db') = (map_of (qd_updated_at db))(pr_id p \<mapsto> en_now e)"
    using commit_case_Inr(1) [OF c'(1)] by (simp_all add: touch_project_def swap_variants_def update_conv')
  with c k r(2) c'(2) show thesis by (intro that [of c event_id]) simp_all
qed

lemma recalculate_Inr:
  assumes "recalculate_quote_variants_with_context tf e db i raising = Inr (db', Some r)"
  obtains p t source vs where "get_project db i = Some p" "pr_id p = i"
    "get_default_pricing_profile db (pr_organization_id p) = Some t"
    "three_priced e p t vs" "store_recalculation e db p source vs = Inr (db', Some r)"
proof -
  from assms obtain p where p: "get_project db i = Some p"
    by (auto simp: recalculate_quote_variants_with_context_def handle_unavailable_def split: option.splits if_splits)
  from assms p obtain t where t: "get_default_pricing_profile db (pr_organization_id p) = Some t"
    by (auto simp: recalculate_quote_variants_with_context_def handle_unavailable_def split: option.splits if_splits)
  have i: "pr_id p = i" using p unfolding get_project_def by (auto dest: select_one_Some)
  from assms p t obtain results where "(if results \<noteq> []
      then store_recalculation e db p ''project_work_items'' (catalog_variants e p (get_latest_analysis db i) t results)
      else recalculate_from_analysis tf e db raising p t (get_latest_analysis db i)) = Inr (db', Some r)"
    by (auto simp: recalculate_quote_variants_with_context_def Let_def bind_res_eq_Inr)
  then show thesis
  proof (cases "results = []")
    case False
    with \<open>(if _ then _ else _) = _\<close> show thesis
      using that [OF p i t catalog_variants_priced] by simp
  next
    case True
    with \<open>(if _ then _ else _) = _\<close> obtain a vs where
      "fallback_variants tf e db p a t (the (effective_area_sqm a)) = Inr vs"
      "store_recalculation e db p ''analysis_fallback'' vs = Inr (db', Some r)"
      by (auto simp: recalculate_from_analysis_def handle_unavailable_def bind_res_eq_Inr split: option.splits if_splits)
    with that [OF p i t fallback_variants_priced] show thesis by simp
  qed
qed

lemma swapped_variants:
  assumes "keyed va_id (qd_variants db)" "three_priced e p t vs"
  shows "filter (\<lambda>v. va_project_id v = pr_id p) (qd_variants (swap_variants db p vs)) = vs"
    and "filter (\<lambda>v. va_project_id v \<noteq> pr_id p) (qd_variants (swap_variants db p vs)) =
         filter (\<lambda>v. va_project_id v \<noteq> pr_id p) (qd_variants db)"
proof -
  have mine: "va_project_id v = pr_id p" if "v \<in> set vs" for v
    using assms(2) that by (simp add: three_priced_def list_all_iff priced_by_def)
  have gone: "va_id v \<in> va_id ` set (list_quote_variants db (pr_id p)) \<longleftrightarrow> va_project_id v = pr_id p"
    if "v \<in> set (qd_variants db)" for v
    using that keyed_unique [OF assms(1)] by (auto simp: list_quote_variants_def)
  show "filter (\<lambda>v. va_project_id v = pr_id p) (qd_variants (swap_variants db p vs)) = vs"
    using gone mine by (auto simp: swap_variants_def Let_def filter_empty_conv filter_id_conv)
  have "filter (\<lambda>v. va_project_id v \<noteq> pr_id p) (filter (\<lambda>v. va_id v \<notin> va_id ` set (list_quote_variants db (pr_id p))) (qd_variants db))
      = filter (\<lambda>v. va_project_id v \<noteq> pr_id p) (qd_variants db)"
    unfolding filter_filter using gone by (intro filter_cong) auto
  then show "filter (\<lambda>v. va_project_id v \<noteq> pr_id p) (qd_variants (swap_variants db p vs)) =
         filter (\<lambda>v. va_project_id v \<noteq> pr_id p) (qd_variants db)"
    using mine by (simp add: swap_variants_def Let_def filter_empty_conv)
qed

text \<open>C18: A recalculation that returns variants has replaced the variants of its own case and of no other: after the
  commit the case has exactly an economy, a standard and a premium variant, all created by this call, each taxed at the
  rate of the default price list of the case's organisation with the tax and the total its columns imply; the variants
  returned are these rows; and every variant of another case is still there, unchanged and in its place.\<close>

theorem recalculation_replaces_the_variants:
  assumes "recalculate_quote_variants_with_context tf e db i raising = Inr (db', Some r)"
    and "keyed va_id (qd_variants db)"
  shows "\<exists>p t. get_project db i = Some p \<and> get_default_pricing_profile db (pr_organization_id p) = Some t \<and>
    three_priced e p t (filter (\<lambda>v. va_project_id v = i) (qd_variants db')) \<and>
    set (rr_variants r) = set (list_quote_variants db' i) \<and> length (rr_variants r) = 3 \<and>
    filter (\<lambda>v. va_project_id v \<noteq> i) (qd_variants db') = filter (\<lambda>v. va_project_id v \<noteq> i) (qd_variants db)"
proof -
  from assms(1) obtain p t source vs where p: "get_project db i = Some p" "pr_id p = i"
    "get_default_pricing_profile db (pr_organization_id p) = Some t" and vs: "three_priced e p t vs"
    and store: "store_recalculation e db p source vs = Inr (db', Some r)"
    by (rule recalculate_Inr)
  from store obtain k: "qd_variants db' = qd_variants (swap_variants db p vs)" "keyed va_id (qd_variants db')"
    and r: "rr_variants r = sort_key (\<lambda>v. (va_created_at v, va_id v)) (filter (\<lambda>v. va_id v \<in> va_id ` set vs) (qd_variants db'))"
    by (rule store_recalculation_Inr) auto
  note swap = swapped_variants [OF assms(2) vs, folded k(1), unfolded p(2)]
  have "va_id v \<in> va_id ` set vs \<longleftrightarrow> va_project_id v = i" if "v \<in> set (qd_variants db')" for v
  proof -
    have "set vs = {x \<in> set (qd_variants db'). va_project_id x = i}" using arg_cong [OF swap(1), of set] by auto
    with that keyed_unique [OF k(2)] show ?thesis by auto
  qed
  then have "filter (\<lambda>v. va_id v \<in> va_id ` set vs) (qd_variants db') = vs"
    using swap(1) by (metis (mono_tags, lifting) filter_cong)
  with p vs swap r show ?thesis
    by (auto simp: list_quote_variants_def three_priced_def dest: arg_cong [where f = length])
qed

subsection \<open>The case\<close>

lemma ready_source: "''proposal_ready'' \<in> set (allowed_targets s) \<longleftrightarrow> s = ''analyzing''"
  by (simp add: status_sets)

lemma advance_case_moves:
  assumes "advance_case e n p db = (c, event_id)" "select_one (\<lambda>q. pr_id q = pr_id p) (cd_projects db) = Some p"
  shows "if pr_status p = ''analyzing''
    then map_option pr_status (select_one (\<lambda>q. pr_id q = pr_id p) (cd_projects c)) = Some ''proposal_ready'' \<and>
      (\<exists>ev. cd_outbox c = cd_outbox db @ [ev] \<and> event_id = Some (ob_id ev) \<and> ob_event_type ev = EVENT_PROPOSAL_READY \<and>
         ob_aggregate_id ev = pr_id p \<and> ob_organization_id ev = pr_organization_id p \<and> \<not> ob_published ev) \<and>
      (\<exists>h. cd_history c = cd_history db @ [h] \<and> psh_project_id h = pr_id p \<and> psh_from_status h = Some ''analyzing'' \<and>
         psh_to_status h = ''proposal_ready'' \<and> psh_transitioned_by_user_id h = None)
    else c = db \<and> event_id = None"
proof (cases "apply_transition (en_now e) (en_uuid e n) p ''proposal_ready'' None (Some ''Quote variants generated'')")
  case (Inl err)
  then have "pr_status p \<noteq> ''analyzing''"
    using apply_transition_ok_iff [of _ _ p "''proposal_ready''"] by (metis can_transition_def is_ok.simps(1) ready_source)
  with Inl assms(1) show ?thesis by (simp add: advance_case_def)
next
  case (Inr ph)
  obtain p' h where ph: "ph = (p', h)" by (cases ph)
  note facts = apply_transition_Inr [OF Inr [unfolded ph]]
  have "pr_status p = ''analyzing''"
    using facts(1) by (simp add: ready_source)
  moreover have "map_option pr_status (select_one (\<lambda>q. pr_id q = pr_id p) (cd_projects (write_transition p' h db))) =
      Some ''proposal_ready''"
    using assms(2) facts(2,3) unfolding write_transition_def
    by (simp add: select_one_update_where [where k = pr_id])
  ultimately show ?thesis
    using assms(1) Inr ph facts
    by (auto simp: advance_case_def Let_def write_transition_def proposal_event_def build_outbox_event_def)
qed

text \<open>C19: The case moves with its variants. A recalculation of a case under analysis commits, together with the
  variants, its status \<open>proposal_ready\<close>, one history row for this move without an actor, and one unpublished outbox row
  of the case and its organisation, whose id is returned to be published; in every other status the status of the case,
  its history, the outbox and all jobs are what they were, and no event id is returned. In every status the time of the
  last update of this case, and of no other, becomes the time of the recalculation.\<close>

theorem recalculation_moves_only_analysed_cases:
  assumes "recalculate_quote_variants_with_context tf e db i raising = Inr (db', Some r)"
    and "get_project db i = Some p"
  shows "(pr_status p = ''analyzing'' \<longrightarrow>
      map_option pr_status (get_project db' i) = Some ''proposal_ready'' \<and>
      (\<exists>ev. cd_outbox (qd_case db') = cd_outbox (qd_case db) @ [ev] \<and> rr_proposal_event_id r = Some (ob_id ev) \<and>
         ob_event_type ev = EVENT_PROPOSAL_READY \<and> ob_aggregate_id ev = i \<and>
         ob_organization_id ev = pr_organization_id p \<and> \<not> ob_published ev) \<and>
      (\<exists>h. cd_history (qd_case db') = cd_history (qd_case db) @ [h] \<and> psh_project_id h = i \<and>
         psh_from_status h = Some ''analyzing'' \<and> psh_to_status h = ''proposal_ready'' \<and>
         psh_transitioned_by_user_id h = None)) \<and>
    (pr_status p \<noteq> ''analyzing'' \<longrightarrow> qd_case db' = qd_case db \<and> rr_proposal_event_id r = None) \<and>
    map_of (qd_updated_at db') = (map_of (qd_updated_at db))(i \<mapsto> en_now e)"
proof -
  from assms obtain t source vs where i: "pr_id p = i" and store: "store_recalculation e db p source vs = Inr (db', Some r)"
    by (auto elim: recalculate_Inr)
  from store obtain c event_id where "advance_case e (drawn_uuids vs) p (qd_case db) = (c, event_id)"
    "qd_case db' = c" "rr_proposal_event_id r = event_id" "map_of (qd_updated_at db') = (map_of (qd_updated_at db))(pr_id p \<mapsto> en_now e)"
    by (rule store_recalculation_Inr) auto
  with advance_case_moves [OF this(1)] assms(2) i show ?thesis
    unfolding get_project_def by (simp split: if_splits)
qed

subsection \<open>The check before the request\<close>

lemma map_sum_eq_Inl: "map_sum f g m = Inl d \<longleftrightarrow> (\<exists>x. m = Inl x \<and> d = f x)"
  by (cases m) auto

lemma bind_res_eq_Inl: "bind_res m h = Inl d \<longleftrightarrow> m = Inl d \<or> (\<exists>x. m = Inr x \<and> h x = Inl d)"
  by (cases m) auto

lemmas result_eq_Inl = map_sum_eq_Inl bind_res_eq_Inl

lemma handle_unavailable_raises: "handle_unavailable db True m = Inl (Unavailable m)"
  by (simp add: handle_unavailable_def)

lemma store_available: "store_recalculation e db p source vs \<noteq> Inl (Unavailable m)"
  by (auto simp: store_recalculation_def replace_project_variants_def commit_quote_def Let_def result_eq_Inl split: prod.splits if_splits)

lemma map_res_Inl: "map_res f xs = Inl e \<Longrightarrow> \<exists>x \<in> set xs. f x = Inl e"
  by (induction xs) (auto simp: result_eq_Inl)

lemma fallback_available: "fallback_variants tf e db p a t area \<noteq> Inl (Unavailable m)"
  by (auto simp: fallback_variants_def suggested_materials_def material_line_of_def suggested_price_def result_eq_Inl Let_def
      dest!: map_res_Inl split: option.splits json.splits if_splits)

text \<open>C26: For a case without work items the check the HTTP layer makes before it queues a recalculation is exact: it
  says yes just when a recalculation would not be refused as unavailable, that is when the case, a default price list
  of its organisation and a latest analysis with a non-zero effective area exist.\<close>

theorem recalculation_check_is_exact:
  assumes "\<And>p. get_project db i = Some p \<Longrightarrow> list_project_work_items db i (pr_organization_id p) = []"
  shows "can_recalculate_quote_variants db i \<longleftrightarrow>
    (\<forall>m. recalculate_quote_variants_with_context tf e db i True \<noteq> Inl (Unavailable m))"
  using assms store_available fallback_available
  by (auto simp: can_recalculate_quote_variants_def recalculate_quote_variants_with_context_def handle_unavailable_raises
      recalculate_from_analysis_def result_eq_Inl Let_def split: option.splits)

subsection \<open>A case at work\<close>

text \<open>A case under analysis with an analysis of ten square metres and no materials, and a variant of another case.\<close>

definition sample_analysis :: analysis_row where
  "sample_analysis = \<lparr>an_id = ''an1'', an_project_id = ''p1'', an_created_at = 0, an_estimated_area_sqm = Some 10,
     an_manual_area_sqm = None, an_final_area_source = ''estimated'', an_materials_json = None\<rparr>"

definition other_variant :: variant_row where
  "other_variant = \<lparr>va_id = ''qv_other'', va_project_id = ''p2'', va_analysis_id = None, va_pricing_profile_id = ''price_default'',
     va_type = ''economy'', va_labor_cost = 1, va_material_cost = 0, va_other_cost = 0, va_margin_pct = 0,
     va_total_ex_vat = 1, va_vat_amount = 0, va_total_inc_vat = 1, va_currency = ''CZK'', va_vat_pct = 0, va_items = [],
     va_created_at = 0\<rparr>"

definition sample_quote_db :: "string \<Rightarrow> quote_db" where
  "sample_quote_db status = \<lparr>qd_case = sample_case_db\<lparr>cd_projects := [sample_project\<lparr>pr_status := status\<rparr>]\<rparr>,
     qd_updated_at = [], qd_variants = [other_variant, other_variant\<lparr>va_id := ''qv_old'', va_project_id := ''p1''\<rparr>], qd_work_types = [],
     qd_profiles = [], qd_tenants = [\<lparr>tr_profile = sample_tenant, tr_organization_id = ''o1'', tr_is_default = True\<rparr>],
     qd_items = [], qd_analyses = [sample_analysis], qd_materials = [], qd_supplier_prices = []\<rparr>"

definition sample_texts :: text_functions where
  "sample_texts = \<lparr>str_json = (\<lambda>j. []), str_float = (\<lambda>x. [])\<rparr>"

text \<open>An item nobody has chosen a price profile for, in a case without an analysis.\<close>

definition unpriced_item :: item_row where
  "unpriced_item = \<lparr>ir_item = \<lparr>wi_id = ''w1'', wi_work_type_code = ''painting'', wi_measured_quantity = None,
     wi_measured_unit = None, wi_item_sequence = 1, wi_values = []\<rparr>, ir_project_id = ''p1'', ir_organization_id = ''o1'',
     ir_created_at = 0, ir_catalog_profile_id = None, ir_tenant_profile_id = None\<rparr>"

lemma check_promises_too_much:
  "can_recalculate_quote_variants ((sample_quote_db ''analyzing'')\<lparr>qd_items := [unpriced_item], qd_analyses := []\<rparr>) ''p1'' \<and>
   recalculate_quote_variants_with_context sample_texts (sample_env 1)
     ((sample_quote_db ''analyzing'')\<lparr>qd_items := [unpriced_item], qd_analyses := []\<rparr>) ''p1'' True =
     Inl (Unavailable ''Quote variants cannot be recalculated without an analysis result or confirmed project work items.'')"
  by code_simp

definition sample_recalculation where
  "sample_recalculation status = recalculate_quote_variants_with_context sample_texts (sample_env 1) (sample_quote_db status) ''p1'' True"

lemma sample_reads:
  "get_project (sample_quote_db status) ''p1'' = Some (sample_project\<lparr>pr_status := status\<rparr>)"
  "get_default_pricing_profile (sample_quote_db status) ''o1'' = Some sample_tenant"
  "get_latest_analysis (sample_quote_db status) ''p1'' = Some sample_analysis"
  "list_project_work_items (sample_quote_db status) ''p1'' ''o1'' = []"
  "effective_area_sqm sample_analysis = Some 10"
  "pr_organization_id sample_project = ''o1''"
  by (simp_all add: get_project_def select_one_def sample_quote_db_def sample_project_def get_default_pricing_profile_def
      default_profiles_def get_latest_analysis_def latest_by_def sample_analysis_def list_project_work_items_def
      effective_area_sqm_def)

lemma sample_fallback:
  "\<exists>vs. fallback_variants sample_texts (sample_env 1) (sample_quote_db status) p sample_analysis sample_tenant area = Inr vs \<and>
     map va_id vs = [''qv_10ffffff00'', ''qv_13ffffff00'', ''qv_16ffffff00''] \<and> drawn_uuids vs = 9 \<and>
     map qi_id (concat (map va_items vs)) = [''qi_11ffffff00'', ''qi_12ffffff00'', ''qi_14ffffff00'', ''qi_15ffffff00'',
       ''qi_17ffffff00'', ''qi_18ffffff00'']"
proof -
  have ids: "build_id (sample_env 1) 0 ''qv'' = ''qv_10ffffff00''" "build_id (sample_env 1) 3 ''qv'' = ''qv_13ffffff00''"
    "build_id (sample_env 1) 6 ''qv'' = ''qv_16ffffff00''" "build_id (sample_env 1) 1 ''qi'' = ''qi_11ffffff00''"
    "build_id (sample_env 1) 2 ''qi'' = ''qi_12ffffff00''" "build_id (sample_env 1) 4 ''qi'' = ''qi_14ffffff00''"
    "build_id (sample_env 1) 5 ''qi'' = ''qi_15ffffff00''" "build_id (sample_env 1) 7 ''qi'' = ''qi_17ffffff00''"
    "build_id (sample_env 1) 8 ''qi'' = ''qi_18ffffff00''"
    by code_simp+
  then show ?thesis
    by (simp add: fallback_variants_def suggested_materials_def sample_analysis_def list_materials_by_names_def variants_config_def
        three_zip fallback_variant_def plain_item_def Let_def drawn_uuids_def flip: numeral_2_eq_2)
qed

lemma sample_stored:
  assumes "status = ''analyzing'' \<or> status = ''sent''"
  shows "\<exists>db' r. sample_recalculation status = Inr (db', Some r)"
proof -
  let ?p = "sample_project\<lparr>pr_status := status\<rparr>"
  obtain vs where vs: "fallback_variants sample_texts (sample_env 1) (sample_quote_db status) ?p sample_analysis sample_tenant 10 = Inr vs"
    "map va_id vs = [''qv_10ffffff00'', ''qv_13ffffff00'', ''qv_16ffffff00'']" "drawn_uuids vs = 9"
    "map qi_id (concat (map va_items vs)) = [''qi_11ffffff00'', ''qi_12ffffff00'', ''qi_14ffffff00'', ''qi_15ffffff00'',
       ''qi_17ffffff00'', ''qi_18ffffff00'']"
    using sample_fallback by meson
  have kept: "qd_variants (swap_variants (sample_quote_db status) ?p vs) = other_variant # vs"
    by (simp add: swap_variants_def list_quote_variants_def sample_quote_db_def other_variant_def sample_project_def)
  have keys: "keyed va_id (other_variant # vs)" "distinct (map qi_id (concat (map va_items (other_variant # vs))))"
    using vs(4) by (simp_all add: keyed_def vs(2) other_variant_def)
  have advanced: "\<exists>c ev. advance_case (sample_env 1) 9 ?p (qd_case (sample_quote_db status)) = (c, ev) \<and>
      is_ok (commit_case (sample_env 1) ?p c)"
  proof -
    have "is_ok (commit_case (sample_env 1) (sample_project\<lparr>pr_status := s\<rparr>) (fst (advance_case (sample_env 1) 9
        (sample_project\<lparr>pr_status := s\<rparr>) (sample_case_db\<lparr>cd_projects := [sample_project\<lparr>pr_status := s\<rparr>]\<rparr>))))"
      if "s = ''analyzing'' \<or> s = ''sent''" for s
      using that by (elim disjE) (hypsubst, code_simp)+
    from this [OF assms] show ?thesis by (simp add: sample_quote_db_def) (metis prod.collapse)
  qed
  then obtain c ev c' where c: "advance_case (sample_env 1) 9 ?p (qd_case (sample_quote_db status)) = (c, ev)"
    "commit_case (sample_env 1) ?p c = Inr c'"
    by (auto elim!: is_ok.elims(2))
  have "area_truthy (Some 10)" by (simp add: area_truthy_def)
  then show ?thesis
    using vs(1,3) c kept keys
    by (simp add: sample_recalculation_def recalculate_quote_variants_with_context_def sample_reads Let_def
        recalculate_from_analysis_def store_recalculation_def replace_project_variants_def commit_quote_def touch_project_def)
qed

lemma sample_variants_keyed: "keyed va_id (qd_variants (sample_quote_db status))"
  by (simp add: sample_quote_db_def keyed_def other_variant_def)

lemma recalculation_replaces_the_variants_witness:
  "\<exists>db' r p t. sample_recalculation ''sent'' = Inr (db', Some r) \<and>
     three_priced (sample_env 1) p t (filter (\<lambda>v. va_project_id v = ''p1'') (qd_variants db')) \<and> length (rr_variants r) = 3 \<and>
     filter (\<lambda>v. va_project_id v \<noteq> ''p1'') (qd_variants db') = [other_variant]"
proof -
  obtain db' r where r: "sample_recalculation ''sent'' = Inr (db', Some r)" using sample_stored by blast
  have "filter (\<lambda>v. va_project_id v \<noteq> ''p1'') (qd_variants (sample_quote_db ''sent'')) = [other_variant]"
    by (simp add: sample_quote_db_def other_variant_def)
  with recalculation_replaces_the_variants [OF r [unfolded sample_recalculation_def] sample_variants_keyed] r
  show ?thesis by auto
qed

lemma recalculation_moves_only_analysed_cases_witness:
  "\<exists>db' r ev. sample_recalculation ''analyzing'' = Inr (db', Some r) \<and>
     map_option pr_status (get_project db' ''p1'') = Some ''proposal_ready'' \<and> rr_proposal_event_id r = Some (ob_id ev) \<and>
     cd_outbox (qd_case db') = [ev] \<and> map_of (qd_updated_at db') ''p1'' = Some (en_now (sample_env 1))"
proof -
  obtain db' r where r: "sample_recalculation ''analyzing'' = Inr (db', Some r)" using sample_stored by blast
  have "cd_outbox (qd_case (sample_quote_db ''analyzing'')) = []" by (simp add: sample_quote_db_def sample_case_db_def)
  with recalculation_moves_only_analysed_cases [OF r [unfolded sample_recalculation_def] sample_reads(1)] r
  show ?thesis by auto
qed

lemma recalculation_check_is_exact_witness:
  "can_recalculate_quote_variants (sample_quote_db ''draft'') ''p1'' \<and>
   (\<forall>m. recalculate_quote_variants_with_context sample_texts (sample_env 1) (sample_quote_db ''draft'') ''p1'' True \<noteq> Inl (Unavailable m))"
proof -
  have "can_recalculate_quote_variants (sample_quote_db ''draft'') ''p1''" by code_simp
  with recalculation_check_is_exact [of "sample_quote_db ''draft''" "''p1''" sample_texts "sample_env 1"] show ?thesis
    by (simp add: sample_reads)
qed

text \<open>A new price of a variant taxed at another rate than 21 percent: the tax column no longer follows the rate column.\<close>

lemma manual_change_ignores_the_rate:
  "va_vat_pct (changed_variant \<lparr>vc_labor_cost = Some 100, vc_material_cost = None, vc_other_cost = None, vc_margin_pct = Some 0\<rparr>
       (other_variant\<lparr>va_vat_pct := 12\<rparr>)) = 12 \<and>
   va_vat_amount (changed_variant \<lparr>vc_labor_cost = Some 100, vc_material_cost = None, vc_other_cost = None, vc_margin_pct = Some 0\<rparr>
       (other_variant\<lparr>va_vat_pct := 12\<rparr>)) = 21"
proof -
  have "round_currency (fmul (round_currency (fmul (fadd (fadd 100 0) 0) (fadd 1 (fdiv 0 100)))) (fl (21 / 100))) = 21"
    by code_simp
  then show ?thesis by (simp add: changed_variant_def other_variant_def Let_def)
qed

end
