(* ===== verification/Account_Limiter.thy ===== *)
theory Account_Limiter
  imports Novu_Prelude
begin

section \<open>Login throttling per account\<close>

text \<open>
  Models \<open>app/core/account_limiter.py\<close>. The Redis keys of the limiter are a map from key to counter and
  expiry. A use of a client either works or raises with a message, and the command of a raising use may have been
  carried out all the same. The shared client is tried first where there is one; a message about a closed or
  different event loop leads to one more try with a client of its own. Log lines and closing a client are left out.
\<close>

definition MAX_FAILED_ATTEMPTS :: int where
  [constant_simps]: "MAX_FAILED_ATTEMPTS = 10"

definition WINDOW_SECONDS :: int where
  [constant_simps]: "WINDOW_SECONDS = 900"

datatype throttle_error = AccountThrottleBackendUnavailableError string string

type_synonym counters = "string \<Rightarrow> (int \<times> time) option"

definition account_key :: "string \<Rightarrow> string" where
  "account_key email = ''auth:fail:'' @ py_lower (py_strip email)"

fun last_segment :: "char \<Rightarrow> string \<Rightarrow> string" where
  "last_segment sep s = rev (takeWhile (\<lambda>c. c \<noteq> sep) (rev s))"

definition email_domain :: "string \<Rightarrow> string" where
  "email_domain email = last_segment (CHR ''@'') (py_lower (py_strip email))"

definition contains :: "string \<Rightarrow> string \<Rightarrow> bool" where
  "contains s t = list_ex (\<lambda>n. take (length t) (drop n s) = t) [0..<Suc (length s)]"

definition can_retry_without_shared_client :: "string \<Rightarrow> bool" where
  "can_retry_without_shared_client message =
    (let m = py_lower message in contains m ''different loop'' \<or> contains m ''event loop is closed'')"

subsection \<open>Redis\<close>

definition redis_get :: "time \<Rightarrow> string \<Rightarrow> counters \<Rightarrow> int option" where
  "redis_get now k st = (case st k of None \<Rightarrow> None | Some (n, until) \<Rightarrow> if now < until then Some n else None)"

text \<open>The pipeline \<open>INCR\<close>, \<open>EXPIRE\<close>, run as one transaction.\<close>

definition incr_expire :: "time \<Rightarrow> string \<Rightarrow> counters \<Rightarrow> counters" where
  "incr_expire now k st =
     st(k \<mapsto> ((case redis_get now k st of None \<Rightarrow> 1 | Some n \<Rightarrow> n + 1), now + seconds WINDOW_SECONDS))"

definition redis_delete :: "string \<Rightarrow> counters \<Rightarrow> counters" where
  "redis_delete k st = st(k := None)"

datatype client_use = Works | Raises bool string

record clients =
  shared_client :: "client_use option"
  own_client :: client_use

text \<open>The frame the three operations share: the command, the retry and the error.\<close>

definition unavailable :: "string \<Rightarrow> string \<Rightarrow> throttle_error" where
  "unavailable operation email = AccountThrottleBackendUnavailableError operation (email_domain email)"

definition use_own ::
  "string \<Rightarrow> string \<Rightarrow> (counters \<Rightarrow> 'a \<times> counters) \<Rightarrow> client_use \<Rightarrow> counters \<Rightarrow> (throttle_error + 'a) \<times> counters" where
  "use_own operation email command own st =
    (case own of
       Works \<Rightarrow> (Inr (fst (command st)), snd (command st))
     | Raises applied message \<Rightarrow> (Inl (unavailable operation email), if applied then snd (command st) else st))"

definition use_client ::
  "string \<Rightarrow> string \<Rightarrow> (counters \<Rightarrow> 'a \<times> counters) \<Rightarrow> clients \<Rightarrow> counters \<Rightarrow> (throttle_error + 'a) \<times> counters" where
  "use_client operation email command cl st =
    (case shared_client cl of
       None \<Rightarrow> use_own operation email command (own_client cl) st
     | Some Works \<Rightarrow> (Inr (fst (command st)), snd (command st))
     | Some (Raises applied message) \<Rightarrow>
         let st' = if applied then snd (command st) else st
         in if can_retry_without_shared_client message then use_own operation email command (own_client cl) st'
            else (Inl (unavailable operation email), st'))"

definition over_limit :: "int option \<Rightarrow> bool" where
  "over_limit raw = (case raw of None \<Rightarrow> False | Some n \<Rightarrow> MAX_FAILED_ATTEMPTS \<le> n)"

definition is_account_throttled :: "clients \<Rightarrow> time \<Rightarrow> string \<Rightarrow> counters \<Rightarrow> (throttle_error + bool) \<times> counters" where
  "is_account_throttled cl now email =
     use_client ''check'' email (\<lambda>st. (over_limit (redis_get now (account_key email) st), st)) cl"

definition record_login_failure :: "clients \<Rightarrow> time \<Rightarrow> string \<Rightarrow> counters \<Rightarrow> (throttle_error + unit) \<times> counters" where
  "record_login_failure cl now email =
     use_client ''record'' email (\<lambda>st. ((), incr_expire now (account_key email) st)) cl"

definition reset_login_failures :: "clients \<Rightarrow> string \<Rightarrow> counters \<Rightarrow> (throttle_error + unit) \<times> counters" where
  "reset_login_failures cl email =
     use_client ''reset'' email (\<lambda>st. ((), redis_delete (account_key email) st)) cl"

subsection \<open>The limiter is a streak of failures\<close>

datatype login_event = Failed string time | Succeeded string

definition working :: clients where
  "working = \<lparr>shared_client = Some Works, own_client = Works\<rparr>"

fun login_step :: "login_event \<Rightarrow> counters \<Rightarrow> counters" where
  "login_step (Failed email now) st = snd (record_login_failure working now email st)"
| "login_step (Succeeded email) st = snd (reset_login_failures working email st)"

fun login_email :: "login_event \<Rightarrow> string" where
  "login_email (Failed email now) = email"
| "login_email (Succeeded email) = email"

text \<open>The reference: over the events of one account, the newest first, the number of failures since the last
  success in which each came less than the window after the one before, and whether the newest is still recent.\<close>

fun streak :: "login_event list \<Rightarrow> int" where
  "streak (Failed e t # evs) =
     1 + (case evs of Failed e' s # _ \<Rightarrow> if t < s + seconds WINDOW_SECONDS then streak evs else 0 | _ \<Rightarrow> 0)"
| "streak evs = 0"

definition locked_out :: "time \<Rightarrow> login_event list \<Rightarrow> bool" where
  "locked_out now evs =
    (case evs of Failed e t # _ \<Rightarrow> now < t + seconds WINDOW_SECONDS \<and> MAX_FAILED_ATTEMPTS \<le> streak evs | _ \<Rightarrow> False)"

definition own_events :: "string \<Rightarrow> login_event list \<Rightarrow> login_event list" where
  "own_events k evs = filter (\<lambda>e. account_key (login_email e) = k) evs"

lemma working_steps [simp]:
  "login_step (Failed email now) st = incr_expire now (account_key email) st"
  "login_step (Succeeded email) st = redis_delete (account_key email) st"
  by (simp_all add: record_login_failure_def reset_login_failures_def use_client_def working_def)

declare login_step.simps [simp del]

lemma streak_counter:
  "foldr login_step evs (\<lambda>_. None) k =
    (case own_events k evs of Failed e t # es \<Rightarrow> Some (streak (Failed e t # es), t + seconds WINDOW_SECONDS) | _ \<Rightarrow> None)"
proof (induction evs)
  case (Cons ev evs)
  let ?st = "foldr login_step evs (\<lambda>_. None)"
  have own: "own_events k (ev # evs) = (if account_key (login_email ev) = k then ev # own_events k evs else own_events k evs)"
    by (simp add: own_events_def)
  consider (other) "account_key (login_email ev) \<noteq> k" | (succeeded) e where "ev = Succeeded e" "account_key e = k"
    | (failed) e t where "ev = Failed e t" "account_key e = k"
    by (cases ev) auto
  then show ?case
  proof cases
    case other
    then have "login_step ev ?st k = ?st k" by (cases ev) (auto simp: incr_expire_def redis_delete_def)
    with other Cons show ?thesis by (simp add: own)
  next
    case succeeded
    then show ?thesis unfolding own by (simp add: redis_delete_def)
  next
    case (failed e t)
    have "redis_get t k ?st = (case own_events k evs of Failed e' s # es \<Rightarrow>
        if t < s + seconds WINDOW_SECONDS then Some (streak (Failed e' s # es)) else None | _ \<Rightarrow> None)"
      unfolding redis_get_def Cons by (simp split: list.split login_event.split)
    with failed show ?thesis
      unfolding own by (simp add: incr_expire_def split: list.split login_event.split)
  qed
qed (simp add: own_events_def)

lemma throttled_iff_locked_out:
  "fst (is_account_throttled working now email (foldr login_step evs (\<lambda>_. None))) =
     Inr (locked_out now (own_events (account_key email) evs))"
  by (auto simp: is_account_throttled_def use_client_def working_def redis_get_def streak_counter locked_out_def over_limit_def
      split: list.splits login_event.splits)

text \<open>Failures fourteen minutes apart, and how many failures a sliding window of fifteen minutes would count.\<close>

definition slow_failures :: "login_event list" where
  "slow_failures = map (\<lambda>i. Failed '' User@Example.com '' (minutes (14 * i))) [9, 8, 7, 6, 5, 4, 3, 2, 1, 0]"

definition failures_in_window :: "time \<Rightarrow> login_event list \<Rightarrow> nat" where
  "failures_in_window now evs =
     length (filter (\<lambda>e. case e of Failed email t \<Rightarrow> now - seconds WINDOW_SECONDS < t | Succeeded email \<Rightarrow> False) evs)"

text \<open>C21: The limiter implements a streak of failures, account by account, and not the sliding window its comment
  promises. After any sequence of failed and successful logins of any accounts (the newest first in the list), with a
  client that works, an account is throttled exactly when its own last event is a failure less than 900 seconds ago that
  ends a streak of at least ten failures without a success in between, each less than 900 seconds after the one before;
  spellings of the address that differ in case or outer blanks are one account, and the events of other accounts do not
  count. The comment at account_limiter.py:29 says ten failures within a sliding window of fifteen minutes: ten failures
  fourteen minutes apart, over more than two hours, throttle the account although that window holds one of them.\<close>

theorem throttle_is_failure_streak:
  "fst (is_account_throttled working now email (foldr login_step evs (\<lambda>_. None))) =
     Inr (locked_out now (own_events (account_key email) evs)) \<and>
   fst (is_account_throttled working (minutes 127) ''user@example.com'' (foldr login_step slow_failures (\<lambda>_. None))) = Inr True \<and>
   failures_in_window (minutes 127) slow_failures = 1"
proof (intro conjI)
  show "fst (is_account_throttled working (minutes 127) ''user@example.com'' (foldr login_step slow_failures (\<lambda>_. None))) = Inr True"
    unfolding throttled_iff_locked_out by code_simp
  show "failures_in_window (minutes 127) slow_failures = 1" by code_simp
qed (rule throttled_iff_locked_out)

text \<open>The limiter never fails open. Whatever the clients do, the check raises or answers from the counter
  that Redis holds, so an account over the limit is never let through by a failure of the backend; and recording a failed
  login raises or has counted it at least once, twice at most.\<close>

theorem throttle_never_fails_open:
  "(case fst (is_account_throttled cl now email st) of
      Inl e \<Rightarrow> e = unavailable ''check'' email
    | Inr b \<Rightarrow> b = over_limit (redis_get now (account_key email) st)) \<and>
   snd (is_account_throttled cl now email st) = st \<and>
   (case fst (record_login_failure cl now email st) of
      Inl e \<Rightarrow> e = unavailable ''record'' email
    | Inr u \<Rightarrow> snd (record_login_failure cl now email st) \<in>
        {incr_expire now (account_key email) st, incr_expire now (account_key email) (incr_expire now (account_key email) st)})"
  by (auto simp: is_account_throttled_def record_login_failure_def use_client_def use_own_def Let_def
      split: option.splits client_use.splits)

end
