(* ===== verification/Spec2Isabelle.thy ===== *)
theory Spec2Isabelle
  imports Case_Actions Offer_Service Offer_Reconciler Offer_Provider Analysis_Startup Quote_Recalculation Account_Limiter
begin

text \<open>
  \<^bold>\<open>The backend of Novu Builder.\<close> The program prices facade repairs: a case (a project with photos) is analysed by a vision
  model, its work items are priced from the work catalogue, quote variants are calculated and sent. The Python backend
  is an HTTP API and worker processes over PostgreSQL and Redis. All paths below are under \<open>src/python-backend/app/\<close>.

  \<^bold>\<open>The parts and their theories.\<close>

  \<^item> \<^bold>\<open>Shared.\<close> \<open>Novu_Prelude\<close> has time (microseconds), text, JSON values behind a codec, decimals, results of fallible code
    (a sum, the error on the left) and the SQL statements on tables as lists of rows. \<open>Lifecycle\<close> is the interface of a
    status machine (locale \<open>lifecycle\<close>), \<open>Work_Ledger\<close> that of a component that holds payloads (locale \<open>work_ledger\<close>).
  \<^item> \<^bold>\<open>Redis lanes.\<close> \<open>Lane_Queue\<close> and \<open>Lane_System\<close> are the Lua scripts that \<open>worker/queue.py\<close> and \<open>worker/heavy_queue.py\<close>
    share, one definition per script on the record \<open>lane\<close>, and the two lanes as peers of each other's capacity guard.
    \<open>Job_Payload\<close>, \<open>Analysis_Queue\<close> and \<open>Heavy_Queue\<close> are the queue functions over them, \<open>Backpressure\<close> is
    \<open>core/backpressure.py\<close>.
  \<^item> \<^bold>\<open>Cases.\<close> \<open>Case_Transitions\<close> (\<open>case_workflow/transitions.py\<close>), \<open>Case_Effects\<close> (\<open>effects.py\<close>, \<open>action_effects.py\<close>) and
    \<open>Case_Actions\<close> (\<open>case_actions.py\<close>): the status machine, the effects registered for its transitions and the actions that
    commit a transition, its history row and its effects in one transaction and publish afterwards. \<open>Outbox\<close> has the
    messages of \<open>core/events.py\<close> and the publisher of \<open>offer_processing/outbox.py\<close>.
  \<^item> \<^bold>\<open>Analysis jobs.\<close> \<open>Analysis_Jobs\<close> is the table \<open>analysis_jobs\<close> under \<open>repositories/analysis_repository.py\<close>,
    \<open>Analysis_Service\<close> the service of \<open>services/analysis_service.py\<close> around it, \<open>Analysis_Worker\<close> the analysis part of
    \<open>worker/runner.py\<close>. Here database and Redis meet: a job has a row and a payload in the lane, and every component changes
    one after the other. \<open>Analysis_Startup\<close> shows what the reconciliation at the start of a worker achieves.
  \<^item> \<^bold>\<open>Prices.\<close> \<open>Catalog_Domain\<close> and \<open>Catalog_Profiles\<close> are the rules of \<open>work_catalog/domain.py\<close>, \<open>Binary64\<close> the arithmetic of
    Python floats, \<open>Pricing\<close> the calculation of \<open>services/pricing_profile_service.py\<close> and \<open>Quote_Recalculation\<close> the
    recalculation of \<open>services/quote_variant_service.py\<close> with its repository.
  \<^item> \<^bold>\<open>Offers.\<close> \<open>Offer_Domain\<close>, \<open>Offer_Budget\<close>, \<open>Offer_Queue\<close>, \<open>Offer_Store\<close>, \<open>Offer_Service\<close>, \<open>Offer_Validation\<close>,
    \<open>Offer_Provider\<close>, \<open>Offer_Runner\<close> and \<open>Offer_Reconciler\<close> are the files of \<open>offer_processing/\<close> (each theory names its own),
    \<open>worker/offer_queue.py\<close>, \<open>worker/offer_runner.py\<close> and the offer routes.
  \<^item> \<^bold>\<open>Login throttling.\<close> \<open>Account_Limiter\<close> is \<open>core/account_limiter.py\<close>.

  \<^bold>\<open>How the model corresponds to the code.\<close> A row, an object or a message is a record with the columns the modelled code
  reads or writes; a status is the string of the code. A function of the code is a definition of the same name that gets
  the state and returns it updated, with the exception or the value beside it; a handler that is long is cut into
  definitions at its phases. What comes from outside is an argument: clocks, fresh identifiers, JSON texts, hashes, the
  answer of an AI provider, and for the statements, commits and Redis calls that may fail whether they do. Transactions of
  other processes come in as the state a phase starts with. Log lines, metrics and waiting are left out.

  \<^bold>\<open>What is proved.\<close>

  \<^item> \<^bold>\<open>Queues.\<close> No payload is lost or invented by any interleaving of the scripts, depths stay within the caps, a lease that
    was renewed or reaped is dead for whoever held the older record, dead-lettering and requeueing are inverse. The
    ledger of work is \<open>work_ledger\<close>, interpreted for both lanes and for the offer queue.
  \<^item> \<^bold>\<open>Cases.\<close> The history of a case is a path of the status machine, an action that fails before its commit changes nothing
    and one that fails after it has been carried out completely, the publisher delivers at least once and in order. The three status machines interpret \<open>lifecycle\<close>: \<open>case_machine\<close>,
    \<open>offer_machine\<close> and \<open>job_machine\<close>.
  \<^item> \<^bold>\<open>Analysis jobs.\<close> The table stays well formed and closed jobs stay closed; retries end after the allowed attempts; the
    end of a failed task leaves row and lane in agreement when its lease was not renewed, and loses the retry when it
    was; a worker that lost its row writes nothing; in which of three states the start of a worker leaves each active job,
    and which of them the reaper can still lose; what a run of the reaper does to row and lane; what reprocessing leaves
    when it returns and when it raises; requests stay within their tenant.
  \<^item> \<^bold>\<open>Prices.\<close> The float calculation agrees with an exact one in cents, validated profiles do not fail, coerced values have
    the type and the bounds of their parameter, the recalculation replaces the variants of the case and nothing else.
  \<^item> \<^bold>\<open>Offers.\<close> The token counter is an exact ledger of reservations, use and the repeated reservations and late records of
    its callers, and the hard limit holds; moves are announced in the outbox; a superseded worker writes nothing but its
    agent run and its tokens; a job is run at most once more than it has retries left; expired leases are fenced
    and stuck requests taken up.

  Where the code does not do what it means to, the theorem states what it does; several properties are of that kind, as
  the lost retry of a renewed lease and the routes of the offers, which commit nothing.

  \<^bold>\<open>Bounds.\<close> Loops are recursion over the batch or list they run over, so nothing needs fuel. Floats are exact rationals
  rounded to 53 bits, without overflow; the agreement with cents holds for bills of at most a thousand lines whose
  amounts sum up to at most ten to the tenth cents (\<open>small_bill\<close>), where the rounding error stays below half a cent. Decimals are exact.

  \<^bold>\<open>Not modelled.\<close> The execution of an analysis job (the vision pipeline, the mapping of its answer and the offloading of
  payloads); the heavy part of the runner, its process loop and signals; the seed data of the catalogue; the catalogue
  service and the resolution of tenant work types, which are queries with caches; accounts and tokens, which rest on
  third-party primitives; projects, suppliers, price books, proposals, exports, photos and storage; routes other than
  the offers'; schemas, settings, logging and migrations. Races inside one PostgreSQL statement are not modelled; a row
  locked by another transaction is only seen after its commit.
\<close>

end
